(* ===== verification/Go_Prelude.thy ===== *)
theory Go_Prelude
  imports Main "HOL-Library.Sublist" "HOL-Library.List_Lexorder" "HOL-Library.Char_ord"
begin

text \<open>
  What the Talos sources use of Go itself and of its standard library, shared by every
  component: errors as values with their wrapping (\<open>fmt.Errorf\<close> with \<open>%w\<close>,
  \<open>errors.Is\<close>), the functions of \<open>strings\<close> and \<open>strconv\<close> on byte
  strings, and the lexical functions of \<open>path/filepath\<close>.  A Go string is a list of
  bytes, so it is a \<open>string\<close> here (a \<open>char\<close> is one byte).  White space
  is the ASCII white space; the multi-byte Unicode spaces that \<open>strings.TrimSpace\<close>
  also strips are outside the model.
\<close>

named_theorems go_simps \<open>evaluation of the Go library functions on their main cases\<close>
named_theorems frame \<open>which parts of a state an operation leaves alone\<close>

section \<open>Errors as values\<close>

text \<open>
  The sentinel errors of \<open>internal/domain/errors.go\<close>, the errors of the SQL driver,
  a plain \<open>errors.New\<close> or \<open>fmt.Errorf\<close> text, and a wrapped error
  (\<open>fmt.Errorf("prefix: %w", err)\<close>).
\<close>

datatype sql_error =
    UniqueViolation string
  | ForeignKeyViolation
  | SqlFailure string

datatype go_error =
    ErrNotFound
  | ErrConflict
  | ErrDeployInProgress
  | ErrUnauthorized
  | ErrInvalidInput
  | ErrSql sql_error
  | ErrText string
  | Wrap string go_error

fun sql_error_text :: "sql_error \<Rightarrow> string" where
  "sql_error_text (UniqueViolation col) =
     ''constraint failed: UNIQUE constraint failed: '' @ col @ '' (2067)''"
| "sql_error_text ForeignKeyViolation = ''constraint failed: FOREIGN KEY constraint failed (787)''"
| "sql_error_text (SqlFailure m) = m"

text \<open>The \<open>Error()\<close> text and the chain that \<open>errors.Is\<close> walks.\<close>

fun error_text :: "go_error \<Rightarrow> string" where
  "error_text ErrNotFound = ''not found''"
| "error_text ErrConflict = ''conflict''"
| "error_text ErrDeployInProgress = ''deploy already in progress''"
| "error_text ErrUnauthorized = ''unauthorized''"
| "error_text ErrInvalidInput = ''invalid input''"
| "error_text (ErrSql e) = sql_error_text e"
| "error_text (ErrText m) = m"
| "error_text (Wrap p e) = p @ '': '' @ error_text e"

fun errors_is :: "go_error \<Rightarrow> go_error \<Rightarrow> bool" where
  "errors_is (Wrap p e) target \<longleftrightarrow> Wrap p e = target \<or> errors_is e target"
| "errors_is e target \<longleftrightarrow> e = target"

text \<open>\<open>if err != nil { return fmt.Errorf("p: %w", err) }\<close> on a sum.\<close>

definition wrap_err :: "string \<Rightarrow> go_error + 'a \<Rightarrow> go_error + 'a" where
  "wrap_err p r = (case r of Inl e \<Rightarrow> Inl (Wrap p e) | Inr x \<Rightarrow> Inr x)"

lemma wrap_err_simps [simp]:
  "wrap_err p (Inl e) = Inl (Wrap p e)"
  "wrap_err p (Inr x) = Inr x"
  by (simp_all add: wrap_err_def)

lemma wrap_err_eq_Inr [simp]: "wrap_err p r = Inr x \<longleftrightarrow> r = Inr x"
  by (cases r) auto

definition is_ok :: "'e + 'a \<Rightarrow> bool" where
  "is_ok r = (case r of Inl _ \<Rightarrow> False | Inr _ \<Rightarrow> True)"

lemma is_ok_simps [simp]: "is_ok (Inr x)" "\<not> is_ok (Inl e)"
  by (simp_all add: is_ok_def)

lemma is_ok_iff: "is_ok r \<longleftrightarrow> (\<exists>x. r = Inr x)"
  by (cases r) auto

text \<open>A call that may panic: the value it returns or the panic's message.\<close>

datatype 'a outcome = Returns 'a | Panics string

fun bind_outcome :: "'a outcome \<Rightarrow> ('a \<Rightarrow> 'b outcome) \<Rightarrow> 'b outcome" where
  "bind_outcome (Returns x) f = f x"
| "bind_outcome (Panics m) f = Panics m"

section \<open>Decimal numbers: fmt's %d, strconv.ParseInt and strconv.Atoi\<close>

definition digit_char :: "nat \<Rightarrow> char" where
  "digit_char n = char_of (48 + n)"

fun nat_digits :: "nat \<Rightarrow> string" where
  "nat_digits n = (if n < 10 then [digit_char n] else nat_digits (n div 10) @ [digit_char (n mod 10)])"

declare nat_digits.simps [simp del]

definition itoa :: "int \<Rightarrow> string" where
  "itoa i = (if i < 0 then CHR ''-'' # nat_digits (nat (- i)) else nat_digits (nat i))"

definition is_digit :: "char \<Rightarrow> bool" where
  "is_digit c \<longleftrightarrow> 48 \<le> (of_char c :: nat) \<and> (of_char c :: nat) \<le> 57"

definition digits_val :: "string \<Rightarrow> nat" where
  "digits_val ds = foldl (\<lambda>n c. 10 * n + (of_char c - 48)) 0 ds"

definition max_int64 :: int where "max_int64 = 9223372036854775807"

text \<open>
  \<open>strconv.ParseInt(s, 10, 64)\<close>, and \<open>strconv.Atoi\<close> on a 64-bit platform: an
  optional sign, at least one digit, only digits, and a value that fits; anything else is an
  error (\<open>None\<close>).
\<close>

definition parse_digits :: "string \<Rightarrow> nat option" where
  "parse_digits ds = (if ds \<noteq> [] \<and> list_all is_digit ds then Some (digits_val ds) else None)"

definition parse_int64 :: "string \<Rightarrow> int option" where
  "parse_int64 s =
     (case s of
        [] \<Rightarrow> None
      | c # cs \<Rightarrow>
          (if c = CHR ''-'' then
             (case parse_digits cs of
                None \<Rightarrow> None
              | Some n \<Rightarrow> if int n \<le> max_int64 + 1 then Some (- int n) else None)
           else
             (case parse_digits (if c = CHR ''+'' then cs else s) of
                None \<Rightarrow> None
              | Some n \<Rightarrow> if int n \<le> max_int64 then Some (int n) else None)))"

lemma of_char_digit: "n < 10 \<Longrightarrow> (of_char (digit_char n) :: nat) = 48 + n"
  by (simp add: digit_char_def)

lemma nat_digits_nonempty [simp]: "nat_digits n \<noteq> []"
  by (subst nat_digits.simps) simp

lemma is_digit_digit_char: "n < 10 \<Longrightarrow> is_digit (digit_char n)"
  by (simp add: is_digit_def of_char_digit)

lemma nat_digits_are_digits: "list_all is_digit (nat_digits n)"
proof (induction n rule: nat_digits.induct)
  case (1 n)
  show ?case
  proof (cases "n < 10")
    case True
    then show ?thesis by (subst nat_digits.simps) (simp add: is_digit_digit_char)
  next
    case False
    with 1 show ?thesis
      by (subst nat_digits.simps) (simp add: is_digit_digit_char)
  qed
qed

lemma digits_val_snoc: "digits_val (ds @ [c]) = 10 * digits_val ds + (of_char c - 48)"
  by (simp add: digits_val_def)

lemma digits_val_nat_digits [simp]: "digits_val (nat_digits n) = n"
proof (induction n rule: nat_digits.induct)
  case (1 n)
  show ?case
  proof (cases "n < 10")
    case True
    then show ?thesis
      by (subst nat_digits.simps) (simp add: digits_val_def of_char_digit)
  next
    case False
    with 1 have "digits_val (nat_digits (n div 10)) = n div 10" by simp
    with False show ?thesis
      by (subst nat_digits.simps) (simp add: digits_val_snoc of_char_digit)
  qed
qed

lemma nat_digits_inj: "nat_digits m = nat_digits n \<longleftrightarrow> m = n"
  by (metis digits_val_nat_digits)

lemma parse_digits_nat_digits [simp]: "parse_digits (nat_digits n) = Some n"
  by (simp add: parse_digits_def nat_digits_are_digits)

lemma nat_digits_hd: "is_digit (hd (nat_digits n))"
  using nat_digits_are_digits [of n] by (cases "nat_digits n") auto

lemma nat_digits_no_char: "\<not> is_digit c \<Longrightarrow> c \<notin> set (nat_digits n)"
  using nat_digits_are_digits [of n] by (auto simp: list_all_iff)

lemma not_is_digit [simp]:
  "\<not> is_digit (CHR ''-'')" "\<not> is_digit (CHR ''+'')" "\<not> is_digit (CHR '':'')"
  "\<not> is_digit (CHR ''.'')" "\<not> is_digit (CHR ''/'')"
  by (simp_all add: is_digit_def)

lemma itoa_nonempty [simp]: "itoa i \<noteq> []"
  by (simp add: itoa_def)

lemma itoa_inj: "itoa i = itoa j \<longleftrightarrow> i = j"
proof
  assume eq: "itoa i = itoa j"
  have no: "nat_digits n \<noteq> CHR ''-'' # xs" for n xs
    using nat_digits_hd [of n] by (metis list.sel(1) not_is_digit(1))
  from eq show "i = j"
    using no no [symmetric]
    by (auto simp: itoa_def nat_digits_inj eq_nat_nat_iff split: if_splits)
qed simp

lemma itoa_chars: "c \<in> set (itoa i) \<Longrightarrow> c = CHR ''-'' \<or> is_digit c"
  using nat_digits_are_digits by (auto simp: itoa_def list_all_iff split: if_splits)

lemma itoa_no_colon [simp]: "CHR '':'' \<notin> set (itoa i)"
  using itoa_chars not_is_digit(3) by fastforce

text \<open>Printing and parsing a 64-bit integer is the identity.\<close>

lemma parse_int64_itoa: "- max_int64 - 1 \<le> i \<Longrightarrow> i \<le> max_int64 \<Longrightarrow> parse_int64 (itoa i) = Some i"
proof (cases "i < 0")
  case True
  then show "- max_int64 - 1 \<le> i \<Longrightarrow> parse_int64 (itoa i) = Some i"
    by (simp add: itoa_def parse_int64_def)
next
  case False
  obtain c cs where dec: "nat_digits (nat i) = c # cs"
    by (cases "nat_digits (nat i)") auto
  then have "is_digit c" using nat_digits_hd [of "nat i"] by simp
  then have c: "c \<noteq> CHR ''-''" "c \<noteq> CHR ''+''" using not_is_digit by auto
  have "parse_digits (c # cs) = Some (nat i)" using parse_digits_nat_digits [of "nat i"] dec by simp
  with False dec c show "i \<le> max_int64 \<Longrightarrow> parse_int64 (itoa i) = Some i"
    by (simp add: itoa_def parse_int64_def)
qed

section \<open>The package strings\<close>

definition has_prefix :: "string \<Rightarrow> string \<Rightarrow> bool" where
  "has_prefix s p = prefix p s"

definition has_suffix :: "string \<Rightarrow> string \<Rightarrow> bool" where
  "has_suffix s p = suffix p s"

definition trim_prefix :: "string \<Rightarrow> string \<Rightarrow> string" where
  "trim_prefix s p = (if has_prefix s p then drop (length p) s else s)"

definition trim_suffix :: "string \<Rightarrow> string \<Rightarrow> string" where
  "trim_suffix s p = (if has_suffix s p then take (length s - length p) s else s)"

definition contains :: "string \<Rightarrow> string \<Rightarrow> bool" where
  "contains s sub = sublist sub s"

definition is_space :: "char \<Rightarrow> bool" where
  "is_space c \<longleftrightarrow> c = CHR '' '' \<or> (9 \<le> (of_char c :: nat) \<and> (of_char c :: nat) \<le> 13)"

definition trim_left :: "(char \<Rightarrow> bool) \<Rightarrow> string \<Rightarrow> string" where
  "trim_left P s = dropWhile P s"

definition trim_right :: "(char \<Rightarrow> bool) \<Rightarrow> string \<Rightarrow> string" where
  "trim_right P s = rev (dropWhile P (rev s))"

definition trim_space :: "string \<Rightarrow> string" where
  "trim_space s = trim_right is_space (trim_left is_space s)"

text \<open>\<open>strings.Split\<close>, \<open>SplitN(_, _, 2)\<close> and \<open>Cut\<close> with a one-byte separator.\<close>

fun split_char :: "char \<Rightarrow> string \<Rightarrow> string list" where
  "split_char c [] = [[]]"
| "split_char c (x # xs) =
     (if x = c then [] # split_char c xs
      else (case split_char c xs of [] \<Rightarrow> [[x]] | y # ys \<Rightarrow> (x # y) # ys))"

definition cut_char :: "char \<Rightarrow> string \<Rightarrow> (string \<times> string) option" where
  "cut_char c s =
     (case dropWhile (\<lambda>x. x \<noteq> c) s of
        [] \<Rightarrow> None
      | _ # rest \<Rightarrow> Some (takeWhile (\<lambda>x. x \<noteq> c) s, rest))"

definition splitn2 :: "char \<Rightarrow> string \<Rightarrow> string list" where
  "splitn2 c s = (case cut_char c s of None \<Rightarrow> [s] | Some (a, b) \<Rightarrow> [a, b])"

fun join :: "string \<Rightarrow> string list \<Rightarrow> string" where
  "join sep [] = []"
| "join sep [x] = x"
| "join sep (x # y # ys) = x @ sep @ join sep (y # ys)"

text \<open>\<open>strings.Fields\<close>: the maximal runs of characters that are not white space.\<close>

function str_fields :: "string \<Rightarrow> string list" where
  "str_fields s =
     (let t = dropWhile is_space s in
      if t = [] then []
      else takeWhile (\<lambda>c. \<not> is_space c) t # str_fields (dropWhile (\<lambda>c. \<not> is_space c) t))"
  by pat_completeness auto
termination
proof (relation "measure length", simp, goal_cases)
  case (1 s t)
  then obtain c cs where t: "dropWhile is_space s = c # cs" by (cases "dropWhile is_space s") auto
  then have "\<not> is_space c" by (metis hd_dropWhile list.discI list.sel(1))
  with t have "length (dropWhile (\<lambda>c. \<not> is_space c) (c # cs)) \<le> length cs"
    by (simp add: length_dropWhile_le)
  also have "length cs < length s"
    using t by (metis length_Cons length_dropWhile_le less_Suc_eq_le not_less_eq)
  finally show ?case using t 1(1) by simp
qed

declare str_fields.simps [simp del]

definition to_upper_char :: "char \<Rightarrow> char" where
  "to_upper_char c =
     (if 97 \<le> (of_char c :: nat) \<and> (of_char c :: nat) \<le> 122 then char_of (of_char c - 32 :: nat) else c)"

definition to_upper :: "string \<Rightarrow> string" where
  "to_upper s = map to_upper_char s"

definition equal_fold :: "string \<Rightarrow> string \<Rightarrow> bool" where
  "equal_fold a b \<longleftrightarrow> to_upper a = to_upper b"

text \<open>\<open>strings.Replace(s, old, new, 1)\<close> for a non-empty \<open>old\<close>.\<close>

fun replace_first :: "string \<Rightarrow> string \<Rightarrow> string \<Rightarrow> string" where
  "replace_first [] old new = []"
| "replace_first (c # cs) old new =
     (if has_prefix (c # cs) old then new @ drop (length old) (c # cs)
      else c # replace_first cs old new)"

text \<open>A text in double quotes, which is also what \<open>%q\<close> prints for printable text.\<close>

definition quoted :: "string \<Rightarrow> string" where
  "quoted s = [CHR 0x22] @ s @ [CHR 0x22]"

text \<open>The slice \<open>s[:n]\<close>, which panics (\<open>None\<close>) when \<open>n\<close> is out of range.\<close>

definition slice_to :: "nat \<Rightarrow> string \<Rightarrow> string option" where
  "slice_to n s = (if n \<le> length s then Some (take n s) else None)"

lemma trim_prefix_append [simp]: "trim_prefix (p @ s) p = s"
  by (simp add: trim_prefix_def has_prefix_def)

lemma split_char_nonempty [simp]: "split_char c s \<noteq> []"
  by (cases s) (auto split: list.split)

lemma join_split_char [simp]: "join [c] (split_char c s) = s"
proof (induction c s rule: split_char.induct)
  case (2 c x xs)
  then show ?case
    by (cases "split_char c xs"; cases "tl (split_char c xs)") auto
qed simp

lemma split_char_no_sep: "c \<notin> set s \<Longrightarrow> split_char c s = [s]"
  by (induction s) auto

lemma split_char_append: "c \<notin> set s \<Longrightarrow> split_char c (s @ c # t) = s # split_char c t"
  by (induction s) auto

lemma split_char_append_sep: "split_char c (s @ c # t) = split_char c s @ split_char c t"
proof (induction s)
  case (Cons x xs)
  then show ?case
    using split_char_nonempty [of c xs] by (cases "split_char c xs") auto
qed simp

lemma split_char_join:
  "xs \<noteq> [] \<Longrightarrow> \<forall>x \<in> set xs. c \<notin> set x \<Longrightarrow> split_char c (join [c] xs) = xs"
proof (induction "[c]" xs rule: join.induct)
  case (3 x y ys)
  then show ?case by (simp add: split_char_append)
qed (auto simp: split_char_no_sep)

lemma split_char_elems: "x \<in> set (split_char c s) \<Longrightarrow> c \<notin> set x"
  by (induction c s arbitrary: x rule: split_char.induct) (auto split: if_splits list.splits)

lemma cut_char_append [simp]: "c \<notin> set a \<Longrightarrow> cut_char c (a @ c # b) = Some (a, b)"
proof -
  assume "c \<notin> set a"
  then have "dropWhile (\<lambda>x. x \<noteq> c) (a @ c # b) = c # b" "takeWhile (\<lambda>x. x \<noteq> c) (a @ c # b) = a"
    by (induction a) auto
  then show ?thesis by (simp add: cut_char_def)
qed

lemma cut_char_None: "cut_char c s = None \<longleftrightarrow> c \<notin> set s"
proof
  assume "cut_char c s = None"
  then have "dropWhile (\<lambda>x. x \<noteq> c) s = []" by (auto simp: cut_char_def split: list.splits)
  then show "c \<notin> set s" by (auto simp: dropWhile_eq_Nil_conv)
next
  assume "c \<notin> set s"
  then have "dropWhile (\<lambda>x. x \<noteq> c) s = []" by (auto simp: dropWhile_eq_Nil_conv)
  then show "cut_char c s = None" unfolding cut_char_def by (simp only: list.case)
qed

lemma cut_char_Some: "cut_char c s = Some (a, b) \<longleftrightarrow> s = a @ c # b \<and> c \<notin> set a"
proof
  assume "cut_char c s = Some (a, b)"
  then obtain x where d: "dropWhile (\<lambda>x. x \<noteq> c) s = x # b" and a: "a = takeWhile (\<lambda>x. x \<noteq> c) s"
    by (auto simp: cut_char_def split: list.splits)
  have "x = c" using hd_dropWhile [of "\<lambda>x. x \<noteq> c" s] d by auto
  with d a show "s = a @ c # b \<and> c \<notin> set a"
    using takeWhile_dropWhile_id [of "\<lambda>x. x \<noteq> c" s] set_takeWhileD [of c "\<lambda>x. x \<noteq> c" s] by auto
qed auto

lemma splitn2_pair: "splitn2 c s = [a, b] \<longleftrightarrow> s = a @ c # b \<and> c \<notin> set a"
  using cut_char_Some [of c s a b] by (cases "cut_char c s") (auto simp: splitn2_def)

lemma join_snoc: "xs \<noteq> [] \<Longrightarrow> join sep (xs @ [x]) = join sep xs @ sep @ x"
  by (induction sep xs rule: join.induct) auto

lemma join_append:
  "xs \<noteq> [] \<Longrightarrow> ys \<noteq> [] \<Longrightarrow> join sep (xs @ ys) = join sep xs @ sep @ join sep ys"
proof (induction sep xs rule: join.induct)
  case (2 sep x)
  then show ?case by (cases ys) auto
qed auto

lemma dropWhile_id_hd: "xs = [] \<or> \<not> P (hd xs) \<Longrightarrow> dropWhile P xs = xs"
  by (cases xs) auto

text \<open>A string is trimmed when neither end is white space.\<close>

definition trimmed :: "string \<Rightarrow> bool" where
  "trimmed s \<longleftrightarrow> s = [] \<or> (\<not> is_space (hd s) \<and> \<not> is_space (last s))"

lemma trim_space_trimmed: "trimmed s \<Longrightarrow> trim_space s = s"
  by (auto simp: trimmed_def trim_space_def trim_left_def trim_right_def dropWhile_id_hd hd_rev)

lemma trimmed_trim_space [simp]: "trimmed (trim_space s)"
proof -
  define t where "t = dropWhile is_space s"
  have hd_t: "t \<noteq> [] \<Longrightarrow> \<not> is_space (hd t)" using hd_dropWhile t_def by blast
  define u where "u = dropWhile is_space (rev t)"
  have hd_u: "u \<noteq> [] \<Longrightarrow> \<not> is_space (hd u)" using hd_dropWhile u_def by blast
  have "hd (rev u) = hd t" if "u \<noteq> []"
  proof -
    have "rev t = takeWhile is_space (rev t) @ u" by (simp add: u_def)
    then have "t = rev u @ rev (takeWhile is_space (rev t))" by (metis rev_append rev_rev_ident)
    with that show ?thesis by (metis hd_append2 rev_is_Nil_conv)
  qed
  moreover have "t \<noteq> []" if "u \<noteq> []" using that by (auto simp: u_def)
  ultimately have "rev u = [] \<or> (\<not> is_space (hd (rev u)) \<and> \<not> is_space (last (rev u)))"
    using hd_t hd_u by (auto simp: last_rev)
  then show ?thesis by (simp add: trimmed_def trim_space_def trim_left_def trim_right_def t_def u_def)
qed

lemma trim_space_idem [simp]: "trim_space (trim_space s) = trim_space s"
  by (simp add: trim_space_trimmed)

lemma trim_space_Nil [simp]: "trim_space [] = []"
  by (simp add: trim_space_def trim_left_def trim_right_def)

section \<open>The package path/filepath, lexically\<close>

text \<open>
  \<open>filepath.Clean\<close> on slash-separated paths: the components are kept on a stack
  (reversed), \<open>.\<close> and empty components vanish, \<open>..\<close> pops a component, and is
  dropped at the root of an absolute path.
\<close>

fun clean_comps :: "bool \<Rightarrow> string list \<Rightarrow> string list \<Rightarrow> string list" where
  "clean_comps rooted acc [] = rev acc"
| "clean_comps rooted acc (c # cs) =
     (if c = [] \<or> c = ''.'' then clean_comps rooted acc cs
      else if c = ''..'' then
        (case acc of
           [] \<Rightarrow> clean_comps rooted (if rooted then [] else [''..'']) cs
         | a # as \<Rightarrow> clean_comps rooted (if a = ''..'' then ''..'' # acc else as) cs)
      else clean_comps rooted (c # acc) cs)"

definition path_is_abs :: "string \<Rightarrow> bool" where
  "path_is_abs p = has_prefix p ''/''"

definition path_clean :: "string \<Rightarrow> string" where
  "path_clean p =
     (let cs = clean_comps (path_is_abs p) [] (split_char (CHR ''/'') p) in
      if path_is_abs p then ''/'' @ join ''/'' cs
      else if cs = [] then ''.'' else join ''/'' cs)"

definition path_join :: "string list \<Rightarrow> string" where
  "path_join es =
     (let ne = filter (\<lambda>e. e \<noteq> []) es in if ne = [] then [] else path_clean (join ''/'' ne))"

definition path_dir :: "string \<Rightarrow> string" where
  "path_dir p = path_clean (rev (dropWhile (\<lambda>c. c \<noteq> CHR ''/'') (rev p)))"

definition path_base :: "string \<Rightarrow> string" where
  "path_base p =
     (if p = [] then ''.''
      else (let q = trim_right (\<lambda>c. c = CHR ''/'') p;
                b = last (split_char (CHR ''/'') q)
            in if b = [] then ''/'' else b))"

text \<open>A name that is one ordinary path component.\<close>

definition plain_component :: "string \<Rightarrow> bool" where
  "plain_component n \<longleftrightarrow> n \<noteq> [] \<and> n \<noteq> ''.'' \<and> n \<noteq> ''..'' \<and> CHR ''/'' \<notin> set n"

lemma clean_comps_plain:
  "\<forall>c \<in> set cs. plain_component c \<Longrightarrow> clean_comps r acc cs = rev acc @ cs"
  by (induction cs arbitrary: acc) (auto simp: plain_component_def)

lemma clean_comps_append_plain:
  "plain_component n \<Longrightarrow> clean_comps r acc (cs @ [n]) = clean_comps r acc cs @ [n]"
  by (induction r acc cs rule: clean_comps.induct)
     (auto simp: plain_component_def split: list.split)

lemma path_is_abs_append: "d \<noteq> [] \<Longrightarrow> path_is_abs (d @ s) = path_is_abs d"
  by (cases d) (simp_all add: path_is_abs_def has_prefix_def)

text \<open>Joining a directory with an ordinary component appends it to the cleaned directory.\<close>

definition clean_dir :: "string \<Rightarrow> string list" where
  "clean_dir d = clean_comps (path_is_abs d) [] (split_char (CHR ''/'') d)"

lemma path_join_plain:
  assumes "d \<noteq> []" and "plain_component n"
  shows "path_join [d, n] = (if path_is_abs d then ''/'' else []) @ join ''/'' (clean_dir d @ [n])"
proof -
  have n: "n \<noteq> []" "CHR ''/'' \<notin> set n" using assms(2) by (auto simp: plain_component_def)
  have "join ''/'' [d, n] = d @ CHR ''/'' # n" by simp
  then have "path_join [d, n] = path_clean (d @ CHR ''/'' # n)" using assms(1) n by (simp add: path_join_def)
  moreover have "clean_comps r [] (split_char (CHR ''/'') (d @ CHR ''/'' # n)) =
      clean_comps r [] (split_char (CHR ''/'') d) @ [n]" for r
    using clean_comps_append_plain [OF assms(2)] by (simp add: split_char_append_sep split_char_no_sep n)
  ultimately show ?thesis
    using assms(1) by (simp add: path_clean_def clean_dir_def path_is_abs_append)
qed

lemma join_snoc_inj: "join sep (xs @ [a]) = join sep (xs @ [b]) \<longleftrightarrow> a = b"
  by (cases "xs = []") (auto simp: join_snoc)

lemma path_join_plain_inj:
  "d \<noteq> [] \<Longrightarrow> plain_component m \<Longrightarrow> plain_component n \<Longrightarrow> path_join [d, m] = path_join [d, n] \<longleftrightarrow> m = n"
  by (simp add: path_join_plain join_snoc_inj)

section \<open>Maps\<close>

text \<open>Assignment to a Go map kept as an association list.\<close>

fun put :: "'k \<Rightarrow> 'v \<Rightarrow> ('k \<times> 'v) list \<Rightarrow> ('k \<times> 'v) list" where
  "put k v [] = [(k, v)]"
| "put k v ((k', v') # kvs) = (if k' = k then (k, v) # kvs else (k', v') # put k v kvs)"

definition put_all :: "('k \<times> 'v) list \<Rightarrow> ('k \<times> 'v) list \<Rightarrow> ('k \<times> 'v) list" where
  "put_all new old = fold (\<lambda>(k, v). put k v) new old"

lemma map_of_put [simp]: "map_of (put k v kvs) = (map_of kvs)(k \<mapsto> v)"
  by (induction k v kvs rule: put.induct) auto

end
