(* ===== verification/Domain.thy ===== *)
theory Domain
  imports Go_Prelude
begin

text \<open>
  The data model of \<open>internal/domain\<close>: applications, deploys and their events, managed
  services, environment variables, users and backups.  A Go string type with named constants
  is a datatype with one constructor per constant and a last one for any other text; the
  conversion \<open>domain.X(s)\<close> is \<open>X_of\<close> and \<open>string(x)\<close> is \<open>X_str\<close>.
  A pointer that may be nil is an option, \<open>int64\<close> and \<open>int\<close> are \<open>int\<close>, and
  a time is a number of nanoseconds since the epoch.
\<close>

type_synonym time = int

section \<open>Applications (internal/domain/app.go)\<close>

datatype app_status = AppStatusActive | AppStatusInactive | AppStatusError | AppStatusOther string
datatype access_mode = AccessModeDomain | AccessModePort | AccessModeOther string
datatype app_type = AppTypeManaged | AppTypeAdoptedContainer | AppTypeExternalService | AppTypeOther string
datatype build_mode = BuildModeExternalCI | BuildModeTalosBuild | BuildModeOther string
datatype runtime_owner = RuntimeOwnerTalos | RuntimeOwnerExternal | RuntimeOwnerOther string
datatype edge_provider = EdgeProviderInternalTraefik | EdgeProviderExternalTraefik | EdgeProviderOther string

fun app_status_str :: "app_status \<Rightarrow> string" where
  "app_status_str AppStatusActive = ''active''"
| "app_status_str AppStatusInactive = ''inactive''"
| "app_status_str AppStatusError = ''error''"
| "app_status_str (AppStatusOther s) = s"

fun access_mode_str :: "access_mode \<Rightarrow> string" where
  "access_mode_str AccessModeDomain = ''domain''"
| "access_mode_str AccessModePort = ''port''"
| "access_mode_str (AccessModeOther s) = s"

definition app_type_of :: "string \<Rightarrow> app_type" where
  "app_type_of s =
     (if s = ''managed'' then AppTypeManaged
      else if s = ''adopted_container'' then AppTypeAdoptedContainer
      else if s = ''external_service'' then AppTypeExternalService
      else AppTypeOther s)"

fun app_type_str :: "app_type \<Rightarrow> string" where
  "app_type_str AppTypeManaged = ''managed''"
| "app_type_str AppTypeAdoptedContainer = ''adopted_container''"
| "app_type_str AppTypeExternalService = ''external_service''"
| "app_type_str (AppTypeOther s) = s"

definition build_mode_of :: "string \<Rightarrow> build_mode" where
  "build_mode_of s =
     (if s = ''external_ci'' then BuildModeExternalCI
      else if s = ''talos_build'' then BuildModeTalosBuild
      else BuildModeOther s)"

fun build_mode_str :: "build_mode \<Rightarrow> string" where
  "build_mode_str BuildModeExternalCI = ''external_ci''"
| "build_mode_str BuildModeTalosBuild = ''talos_build''"
| "build_mode_str (BuildModeOther s) = s"

fun runtime_owner_str :: "runtime_owner \<Rightarrow> string" where
  "runtime_owner_str RuntimeOwnerTalos = ''talos''"
| "runtime_owner_str RuntimeOwnerExternal = ''external''"
| "runtime_owner_str (RuntimeOwnerOther s) = s"

fun edge_provider_str :: "edge_provider \<Rightarrow> string" where
  "edge_provider_str EdgeProviderInternalTraefik = ''internal_traefik''"
| "edge_provider_str EdgeProviderExternalTraefik = ''external_traefik''"
| "edge_provider_str (EdgeProviderOther s) = s"

text \<open>The project type is only ever compared with and passed on as a text.\<close>

type_synonym project_type = string

record app =
  app_ID :: int
  app_Name :: string
  app_AppType :: app_type
  app_BuildMode :: build_mode
  app_ProjectType :: project_type
  app_RuntimeOwner :: runtime_owner
  app_EdgeProvider :: edge_provider
  app_Source :: string
  app_RepoURL :: string
  app_Branch :: string
  app_InternalPort :: int
  app_ImageRef :: string
  app_Domain :: string
  app_FallbackPort :: int
  app_AccessMode :: access_mode
  app_AccessURL :: string
  app_Status :: app_status
  app_CurrentDeployID :: "int option"
  app_LiveContainerName :: string
  app_ContainerName :: string
  app_ExternalTarget :: string
  app_DockerNetwork :: string
  app_GitHubInstallationID :: "int option"
  app_GitHubRepoID :: "int option"
  app_RegistryURL :: string
  app_CreatedAt :: time
  app_UpdatedAt :: time

definition EffectiveContainerName :: "app \<Rightarrow> string" where
  "EffectiveContainerName a =
     (if app_ContainerName a \<noteq> [] then app_ContainerName a
      else if app_LiveContainerName a \<noteq> [] then app_LiveContainerName a
      else [])"

text \<open>A Go struct starts with every field at its zero value.\<close>

definition zero_app :: app where
  "zero_app =
     \<lparr>app_ID = 0, app_Name = [], app_AppType = AppTypeOther [], app_BuildMode = BuildModeOther [],
      app_ProjectType = [], app_RuntimeOwner = RuntimeOwnerOther [],
      app_EdgeProvider = EdgeProviderOther [], app_Source = [], app_RepoURL = [], app_Branch = [],
      app_InternalPort = 0, app_ImageRef = [], app_Domain = [], app_FallbackPort = 0,
      app_AccessMode = AccessModeOther [], app_AccessURL = [], app_Status = AppStatusOther [],
      app_CurrentDeployID = None, app_LiveContainerName = [], app_ContainerName = [],
      app_ExternalTarget = [], app_DockerNetwork = [], app_GitHubInstallationID = None,
      app_GitHubRepoID = None, app_RegistryURL = [], app_CreatedAt = 0, app_UpdatedAt = 0\<rparr>"

section \<open>Deploys and their events (internal/domain/deploy.go, deploy_event.go)\<close>

datatype deploy_status =
    DeployStatusPending
  | DeployStatusRunning
  | DeployStatusSuccess
  | DeployStatusFailed
  | DeployStatusRollback
  | DeployStatusAutoRollback

fun deploy_status_str :: "deploy_status \<Rightarrow> string" where
  "deploy_status_str DeployStatusPending = ''pending''"
| "deploy_status_str DeployStatusRunning = ''running''"
| "deploy_status_str DeployStatusSuccess = ''success''"
| "deploy_status_str DeployStatusFailed = ''failed''"
| "deploy_status_str DeployStatusRollback = ''rollback''"
| "deploy_status_str DeployStatusAutoRollback = ''auto_rollback''"

fun IsTerminal :: "deploy_status \<Rightarrow> bool" where
  "IsTerminal DeployStatusSuccess = True"
| "IsTerminal DeployStatusFailed = True"
| "IsTerminal DeployStatusAutoRollback = True"
| "IsTerminal DeployStatusRollback = True"
| "IsTerminal _ = False"

record deploy =
  dep_ID :: int
  dep_AppID :: int
  dep_ImageRef :: string
  dep_CommitSHA :: string
  dep_Branch :: string
  dep_Status :: deploy_status
  dep_ContainerID :: string
  dep_HealthStatus :: string
  dep_Logs :: string
  dep_EnvSnapshot :: string
  dep_StartedAt :: "time option"
  dep_CompletedAt :: "time option"
  dep_TriggeredBy :: string
  dep_RollbackOfID :: "int option"
  dep_CreatedAt :: time

definition zero_deploy :: deploy where
  "zero_deploy =
     \<lparr>dep_ID = 0, dep_AppID = 0, dep_ImageRef = [], dep_CommitSHA = [], dep_Branch = [],
      dep_Status = DeployStatusPending, dep_ContainerID = [], dep_HealthStatus = [], dep_Logs = [],
      dep_EnvSnapshot = [], dep_StartedAt = None, dep_CompletedAt = None, dep_TriggeredBy = [],
      dep_RollbackOfID = None, dep_CreatedAt = 0\<rparr>"

record deploy_event =
  ev_ID :: int
  ev_DeployID :: int
  ev_Timestamp :: time
  ev_Level :: string
  ev_Step :: string
  ev_Message :: string

text \<open>
  The lifecycle order of a deploy: pending comes before running, running before every
  terminal status, and two different terminal statuses are not comparable.
\<close>

fun deploy_rank :: "deploy_status \<Rightarrow> nat" where
  "deploy_rank DeployStatusPending = 0"
| "deploy_rank DeployStatusRunning = 1"
| "deploy_rank _ = 2"

instantiation deploy_status :: order
begin

definition less_eq_deploy_status :: "deploy_status \<Rightarrow> deploy_status \<Rightarrow> bool" where
  "less_eq_deploy_status s t \<longleftrightarrow> s = t \<or> deploy_rank s < deploy_rank t"

definition less_deploy_status :: "deploy_status \<Rightarrow> deploy_status \<Rightarrow> bool" where
  "less_deploy_status s t \<longleftrightarrow> deploy_rank s < deploy_rank t"

instance
  by standard (auto simp: less_eq_deploy_status_def less_deploy_status_def)

end

lemma IsTerminal_rank: "IsTerminal s \<longleftrightarrow> deploy_rank s = 2"
  by (cases s) auto

lemma IsTerminal_maximal: "IsTerminal s \<Longrightarrow> s \<le> t \<Longrightarrow> t = s"
  by (cases s; cases t) (auto simp: less_eq_deploy_status_def)

lemma active_below_terminal: "\<not> IsTerminal s \<Longrightarrow> IsTerminal t \<Longrightarrow> s < t"
  by (cases s; cases t) (auto simp: less_deploy_status_def)

section \<open>Services, links and environment variables (internal/domain/service.go)\<close>

datatype service_type =
    ServicePostgres | ServiceMySQL | ServiceRedis | ServiceGarage | ServiceGarageWebUI
  | ServiceOther string

fun service_type_str :: "service_type \<Rightarrow> string" where
  "service_type_str ServicePostgres = ''postgres''"
| "service_type_str ServiceMySQL = ''mysql''"
| "service_type_str ServiceRedis = ''redis''"
| "service_type_str ServiceGarage = ''garage''"
| "service_type_str ServiceGarageWebUI = ''garage_webui''"
| "service_type_str (ServiceOther s) = s"

datatype service_status =
    ServiceStatusPending | ServiceStatusProvisioning | ServiceStatusActive
  | ServiceStatusError | ServiceStatusStopped

record service =
  svc_ID :: int
  svc_Name :: string
  svc_Type :: service_type
  svc_ImageRef :: string
  svc_Status :: service_status
  svc_ContainerID :: string
  svc_AppID :: "int option"
  svc_VolumePath :: string
  svc_Credentials :: string
  svc_Config :: string
  svc_InternalPort :: int
  svc_CreatedAt :: time
  svc_UpdatedAt :: time

record app_service =
  lnk_AppID :: int
  lnk_ServiceID :: int
  lnk_Alias :: string

record app_env_var =
  env_ID :: int
  env_AppID :: int
  env_Key :: string
  env_Value :: string
  env_IsSecret :: bool
  env_Required :: bool

record app_env_var_history =
  hist_ID :: int
  hist_AppID :: int
  hist_Key :: string
  hist_Value :: string
  hist_IsSecret :: bool
  hist_ChangedAt :: time
  hist_ChangedBy :: string

text \<open>The credential structs, one constructor per struct.\<close>

datatype credentials =
    PostgresCredentials (cr_Host: string) (cr_Port: int) (cr_Database: string) (cr_User: string) (cr_Password: string)
  | MySQLCredentials (cr_Host: string) (cr_Port: int) (cr_Database: string) (cr_User: string) (cr_Password: string)
  | RedisCredentials (cr_Host: string) (cr_Port: int) (cr_Password: string)
  | GarageCredentials (gc_Endpoint: string) (gc_Region: string) (gc_AccessKey: string) (gc_SecretKey: string)
      (gc_Bucket: string) (gc_AdminToken: string) (gc_RPCSecret: string)
  | GarageWebUICredentials (wc_AdminAPIURL: string) (wc_S3Endpoint: string) (wc_AdminKey: string)
      (wc_Username: string) (cr_Password: string)

record service_definition =
  def_Type :: service_type
  def_DefaultImage :: string
  def_Port :: int
  def_VolumePath :: string
  def_HealthCmd :: "string list"

fun ServiceDefinitions :: "service_type \<Rightarrow> service_definition option" where
  "ServiceDefinitions ServicePostgres = Some
     \<lparr>def_Type = ServicePostgres, def_DefaultImage = ''postgres:16'', def_Port = 5432,
      def_VolumePath = ''/var/lib/postgresql/data'',
      def_HealthCmd = [''CMD-SHELL'', ''pg_isready -U $POSTGRES_USER'']\<rparr>"
| "ServiceDefinitions ServiceMySQL = Some
     \<lparr>def_Type = ServiceMySQL, def_DefaultImage = ''mysql:8'', def_Port = 3306,
      def_VolumePath = ''/var/lib/mysql'',
      def_HealthCmd = [''CMD-SHELL'', ''mysqladmin ping -h localhost -u root -p$MYSQL_ROOT_PASSWORD'']\<rparr>"
| "ServiceDefinitions ServiceRedis = Some
     \<lparr>def_Type = ServiceRedis, def_DefaultImage = ''redis:7-alpine'', def_Port = 6379,
      def_VolumePath = ''/data'',
      def_HealthCmd = [''CMD'', ''redis-cli'', ''ping'']\<rparr>"
| "ServiceDefinitions ServiceGarage = Some
     \<lparr>def_Type = ServiceGarage, def_DefaultImage = ''dxflrs/garage:v2.0.0'', def_Port = 3900,
      def_VolumePath = ''/var/lib/garage'',
      def_HealthCmd = [''CMD-SHELL'', ''wget -qO- http://localhost:3900/health || exit 1'']\<rparr>"
| "ServiceDefinitions ServiceGarageWebUI = Some
     \<lparr>def_Type = ServiceGarageWebUI, def_DefaultImage = ''khairul169/garage-webui:latest'', def_Port = 3909,
      def_VolumePath = [],
      def_HealthCmd = [''CMD-SHELL'', ''wget -qO- http://localhost:3909/ || exit 1'']\<rparr>"
| "ServiceDefinitions (ServiceOther s) = None"

section \<open>Users and backups (internal/domain/user.go, backup.go)\<close>

record user =
  usr_ID :: int
  usr_Username :: string
  usr_PasswordHash :: string
  usr_CreatedAt :: time
  usr_UpdatedAt :: time

record backup =
  bak_ID :: int
  bak_Filename :: string
  bak_SizeBytes :: int
  bak_Type :: string
  bak_Status :: string
  bak_CreatedAt :: time

lemma app_type_str_of [simp]: "app_type_str (app_type_of s) = s"
  by (simp add: app_type_of_def)

lemma build_mode_str_of [simp]: "build_mode_str (build_mode_of s) = s"
  by (simp add: build_mode_of_def)

end
