(* ===== verification/Row_Table.thy ===== *)
theory Row_Table
  imports Go_Prelude "HOL-Library.Multiset"
begin

text \<open>
  The SQL statements of \<open>internal/store\<close> work on tables with an
  \<open>INTEGER PRIMARY KEY AUTOINCREMENT\<close> column.  Such a table is its rows in rowid order
  and the largest rowid it ever gave out.  The operations below are the statement shapes the
  store uses (\<open>INSERT\<close>, \<open>SELECT ... WHERE\<close>, \<open>UPDATE ... WHERE\<close>,
  \<open>DELETE ... WHERE\<close>, \<open>ORDER BY created_at DESC\<close>).  What a table promises
  about its ids is proved once, in the locale \<open>row_table\<close>, for any row type with an id
  column, and interpreted for every table of the store.
\<close>

record 'r table =
  tbl_seq :: int
  tbl_rows :: "'r list"

definition empty_table :: "'r table" where
  "empty_table = \<lparr>tbl_seq = 0, tbl_rows = []\<rparr>"

text \<open>\<open>INSERT INTO t (...) VALUES (...)\<close>: the row takes the next rowid, which
  \<open>LastInsertId\<close> returns.\<close>

definition tbl_insert :: "(int \<Rightarrow> 'r \<Rightarrow> 'r) \<Rightarrow> 'r \<Rightarrow> 'r table \<Rightarrow> int \<times> 'r table" where
  "tbl_insert set_id r t =
     (tbl_seq t + 1,
      \<lparr>tbl_seq = tbl_seq t + 1, tbl_rows = tbl_rows t @ [set_id (tbl_seq t + 1) r]\<rparr>)"

text \<open>\<open>SELECT ... WHERE P\<close> read with \<open>QueryRow\<close>: the first matching row, if any.\<close>

definition tbl_first :: "('r \<Rightarrow> bool) \<Rightarrow> 'r table \<Rightarrow> 'r option" where
  "tbl_first P t = List.find P (tbl_rows t)"

definition tbl_select :: "('r \<Rightarrow> bool) \<Rightarrow> 'r table \<Rightarrow> 'r list" where
  "tbl_select P t = filter P (tbl_rows t)"

definition tbl_exists :: "('r \<Rightarrow> bool) \<Rightarrow> 'r table \<Rightarrow> bool" where
  "tbl_exists P t = list_ex P (tbl_rows t)"

definition tbl_update :: "('r \<Rightarrow> bool) \<Rightarrow> ('r \<Rightarrow> 'r) \<Rightarrow> 'r table \<Rightarrow> 'r table" where
  "tbl_update P f t = t\<lparr>tbl_rows := map (\<lambda>r. if P r then f r else r) (tbl_rows t)\<rparr>"

definition tbl_delete :: "('r \<Rightarrow> bool) \<Rightarrow> 'r table \<Rightarrow> 'r table" where
  "tbl_delete P t = t\<lparr>tbl_rows := filter (\<lambda>r. \<not> P r) (tbl_rows t)\<rparr>"

text \<open>
  \<open>ORDER BY created_at DESC\<close>.  SQL leaves the order of rows with the same time open; SQLite
  sorts stably in scan order, which is rowid order here.
\<close>

definition order_desc :: "('r \<Rightarrow> int) \<Rightarrow> 'r list \<Rightarrow> 'r list" where
  "order_desc created rs = sort_key (\<lambda>r. - created r) rs"

definition limit :: "int \<Rightarrow> 'r list \<Rightarrow> 'r list" where
  "limit n rs = (if n < 0 then rs else take (nat n) rs)"

lemma order_desc_set [simp]: "set (order_desc c rs) = set rs"
  by (simp add: order_desc_def)

lemma order_desc_eq_Nil [simp]: "order_desc c rs = [] \<longleftrightarrow> rs = []"
  by (metis order_desc_set set_empty)

lemma order_desc_length [simp]: "length (order_desc c rs) = length rs"
  by (simp add: order_desc_def)

lemma order_desc_sorted: "sorted (map (\<lambda>r. - c r) (order_desc c rs))"
  by (simp add: order_desc_def)

lemma order_desc_distinct [simp]: "distinct (map f (order_desc c rs)) \<longleftrightarrow> distinct (map f rs)"
proof -
  have "mset (map f (order_desc c rs)) = mset (map f rs)" by (simp add: order_desc_def)
  then show ?thesis by (rule mset_eq_imp_distinct_iff)
qed

lemma order_desc_hd_max:
  assumes "order_desc c rs = r # rest" and "x \<in> set rs"
  shows "c x \<le> c r"
proof -
  have "x \<in> set (r # rest)" using assms by (metis order_desc_set)
  moreover have "sorted (map (\<lambda>r. - c r) (r # rest))"
    using order_desc_sorted [of c rs] assms(1) by simp
  ultimately show ?thesis by auto
qed

lemma find_Some: "List.find P xs = Some x \<Longrightarrow> x \<in> set xs \<and> P x"
  by (induction xs) (auto split: if_splits)

lemma find_None: "List.find P xs = None \<longleftrightarrow> (\<forall>x \<in> set xs. \<not> P x)"
  by (induction xs) auto

lemma find_append: "List.find P (xs @ ys) = (case List.find P xs of None \<Rightarrow> List.find P ys | Some x \<Rightarrow> Some x)"
  by (induction xs) auto

lemma find_map_same:
  "(\<And>x. x \<in> set xs \<Longrightarrow> P (f x) = P x) \<Longrightarrow> List.find P (map f xs) = map_option f (List.find P xs)"
  by (induction xs) auto

lemma tbl_first_Some: "tbl_first P t = Some r \<Longrightarrow> r \<in> set (tbl_rows t) \<and> P r"
  by (simp add: tbl_first_def find_Some)

lemma tbl_first_None: "tbl_first P t = None \<longleftrightarrow> (\<forall>r \<in> set (tbl_rows t). \<not> P r)"
  by (simp add: tbl_first_def find_None)

lemma tbl_exists_iff: "tbl_exists P t \<longleftrightarrow> (\<exists>r \<in> set (tbl_rows t). P r)"
  by (simp add: tbl_exists_def list_ex_iff)

lemma tbl_delete_rows [simp]: "tbl_rows (tbl_delete P t) = filter (\<lambda>r. \<not> P r) (tbl_rows t)"
  by (simp add: tbl_delete_def)

lemma tbl_delete_seq [simp]: "tbl_seq (tbl_delete P t) = tbl_seq t"
  by (simp add: tbl_delete_def)

lemma tbl_update_rows [simp]: "tbl_rows (tbl_update P f t) = map (\<lambda>r. if P r then f r else r) (tbl_rows t)"
  by (simp add: tbl_update_def)

lemma tbl_update_seq [simp]: "tbl_seq (tbl_update P f t) = tbl_seq t"
  by (simp add: tbl_update_def)

lemma tbl_insert_simps [simp]:
  "fst (tbl_insert s r t) = tbl_seq t + 1"
  "tbl_seq (snd (tbl_insert s r t)) = tbl_seq t + 1"
  "tbl_rows (snd (tbl_insert s r t)) = tbl_rows t @ [s (tbl_seq t + 1) r]"
  by (simp_all add: tbl_insert_def)

lemma empty_table_simps [simp]: "tbl_rows empty_table = []" "tbl_seq empty_table = 0"
  by (simp_all add: empty_table_def)

section \<open>Unique columns\<close>

text \<open>
  A unique index over the rows that satisfy \<open>Q\<close>: no two rows of the table in it have the
  same key.
\<close>

definition unique_on :: "('r \<Rightarrow> bool) \<Rightarrow> ('r \<Rightarrow> 'k) \<Rightarrow> 'r list \<Rightarrow> bool" where
  "unique_on Q key rs = distinct (map key (filter Q rs))"

lemma unique_on_Nil [simp]: "unique_on Q key []"
  by (simp add: unique_on_def)

lemma unique_on_snoc:
  "unique_on Q key (rs @ [r]) \<longleftrightarrow>
     unique_on Q key rs \<and> (Q r \<longrightarrow> (\<forall>x \<in> set rs. Q x \<longrightarrow> key x \<noteq> key r))"
  unfolding unique_on_def by (simp add: image_iff) (metis (lifting))

lemma unique_on_Cons:
  "unique_on Q key (r # rs) \<longleftrightarrow>
     unique_on Q key rs \<and> (Q r \<longrightarrow> (\<forall>x \<in> set rs. Q x \<longrightarrow> key x \<noteq> key r))"
  unfolding unique_on_def by (simp add: image_iff) (metis (lifting))

lemma unique_on_filter: "unique_on Q key rs \<Longrightarrow> unique_on Q key (filter P rs)"
  by (induction rs) (auto simp: unique_on_def)

lemma unique_on_map_same:
  "(\<And>r. r \<in> set rs \<Longrightarrow> Q (f r) = Q r \<and> key (f r) = key r) \<Longrightarrow> unique_on Q key (map f rs) = unique_on Q key rs"
proof (induction rs)
  case (Cons r rs)
  then show ?case by (simp add: unique_on_Cons)
qed simp

text \<open>Replacing the one row with id \<open>i\<close> keeps a unique index when the new key is not taken
  by another row.\<close>

lemma unique_on_replace:
  assumes "unique_on Q key rs" and "distinct (map rid rs)"
    and "\<And>x. x \<in> set rs \<Longrightarrow> rid x \<noteq> i \<Longrightarrow> Q x \<Longrightarrow> Q r' \<Longrightarrow> key x \<noteq> key r'"
  shows "unique_on Q key (map (\<lambda>x. if rid x = i then r' else x) rs)"
  using assms
proof (induction rs)
  case (Cons x rs)
  let ?f = "\<lambda>x. if rid x = i then r' else x"
  have IH: "unique_on Q key (map ?f rs)"
    using Cons by (simp add: unique_on_Cons)
  have x: "Q x \<Longrightarrow> y \<in> set rs \<Longrightarrow> Q y \<Longrightarrow> key y \<noteq> key x" for y
    using Cons.prems(1) by (simp add: unique_on_Cons)
  have "Q (?f x) \<Longrightarrow> y \<in> set rs \<Longrightarrow> Q (?f y) \<Longrightarrow> key (?f y) \<noteq> key (?f x)" for y
  proof (cases "rid x = i")
    case True
    assume "y \<in> set rs" "Q (?f x)" "Q (?f y)"
    moreover from this True Cons.prems(2) have "rid y \<noteq> i" by (metis distinct.simps(2) image_eqI list.simps(9) list.set_map)
    ultimately show ?thesis using True Cons.prems(3) [of y] by simp
  next
    case False
    assume "y \<in> set rs" "Q (?f x)" "Q (?f y)"
    with False x [of y] Cons.prems(3) [of x] show ?thesis by (simp split: if_splits)
  qed
  with IH show ?case unfolding list.map unique_on_Cons set_map ball_simps by blast
qed simp

section \<open>The interface: a table whose rows carry their id\<close>

text \<open>The ids are distinct, increase along the rows, and were all given out by the table.\<close>

definition ids_ok :: "('r \<Rightarrow> int) \<Rightarrow> 'r table \<Rightarrow> bool" where
  "ids_ok rid t \<longleftrightarrow> 0 \<le> tbl_seq t \<and> sorted_wrt (<) (map rid (tbl_rows t)) \<and>
     (\<forall>r \<in> set (tbl_rows t). 0 < rid r \<and> rid r \<le> tbl_seq t)"

definition by_id :: "('r \<Rightarrow> int) \<Rightarrow> int \<Rightarrow> 'r table \<Rightarrow> 'r option" where
  "by_id rid i t = tbl_first (\<lambda>r. rid r = i) t"

locale row_table =
  fixes rid :: "'r \<Rightarrow> int"
    and set_id :: "int \<Rightarrow> 'r \<Rightarrow> 'r"
  assumes rid_set_id: "rid (set_id i r) = i"
begin

lemma ids_ok_empty [simp]: "ids_ok rid empty_table"
  by (simp add: ids_ok_def)

lemma ids_ok_insert: "ids_ok rid t \<Longrightarrow> ids_ok rid (snd (tbl_insert set_id r t))"
  by (force simp: ids_ok_def sorted_wrt_append rid_set_id)

lemma ids_ok_delete: "ids_ok rid t \<Longrightarrow> ids_ok rid (tbl_delete P t)"
  by (auto simp: ids_ok_def sorted_wrt_filter sorted_wrt_map)

lemma ids_ok_update:
  assumes "ids_ok rid t" and "\<And>r. r \<in> set (tbl_rows t) \<Longrightarrow> P r \<Longrightarrow> rid (f r) = rid r"
  shows "ids_ok rid (tbl_update P f t)"
proof -
  have "map rid (tbl_rows (tbl_update P f t)) = map rid (tbl_rows t)"
    using assms(2) by auto
  then have "sorted_wrt (<) (map rid (tbl_rows (tbl_update P f t)))"
    using assms(1) by (simp only: ids_ok_def)
  moreover have "\<forall>r \<in> set (tbl_rows (tbl_update P f t)). 0 < rid r \<and> rid r \<le> tbl_seq t"
    using assms by (auto simp: ids_ok_def)
  ultimately show ?thesis using assms(1) unfolding ids_ok_def tbl_update_seq by blast
qed

lemma ids_ok_distinct: "ids_ok rid t \<Longrightarrow> distinct (map rid (tbl_rows t))"
  by (simp add: ids_ok_def strict_sorted_iff)

lemma by_id_Some: "by_id rid i t = Some r \<Longrightarrow> r \<in> set (tbl_rows t) \<and> rid r = i"
  by (auto simp: by_id_def dest: tbl_first_Some)

lemma by_id_iff: "ids_ok rid t \<Longrightarrow> by_id rid i t = Some r \<longleftrightarrow> r \<in> set (tbl_rows t) \<and> rid r = i"
proof
  assume inv: "ids_ok rid t" and r: "r \<in> set (tbl_rows t) \<and> rid r = i"
  then obtain r' where r': "by_id rid i t = Some r'"
    by (cases "by_id rid i t") (auto simp: by_id_def tbl_first_None)
  then have "r' \<in> set (tbl_rows t)" "rid r' = i" by (auto dest: by_id_Some)
  with r ids_ok_distinct [OF inv] have "r' = r" by (auto simp: distinct_map dest: inj_onD)
  with r' show "by_id rid i t = Some r" by simp
qed (auto dest: by_id_Some)

text \<open>A fresh row gets an id no row of the table has, and reading it back returns it; every
  other row is still there.\<close>

lemma by_id_insert_new:
  "ids_ok rid t \<Longrightarrow> by_id rid (tbl_seq t + 1) (snd (tbl_insert set_id r t)) = Some (set_id (tbl_seq t + 1) r)"
  by (force simp: by_id_def tbl_first_def find_append find_None ids_ok_def rid_set_id split: option.split dest: find_Some)

lemma by_id_insert_old:
  "i \<noteq> tbl_seq t + 1 \<Longrightarrow> by_id rid i (snd (tbl_insert set_id r t)) = by_id rid i t"
  by (auto simp: by_id_def tbl_first_def find_append rid_set_id split: option.split)

lemma by_id_update:
  "(\<And>r. rid (f r) = rid r) \<Longrightarrow>
     by_id rid i (tbl_update (\<lambda>r. rid r = j) f t) =
       (if i = j then map_option f (by_id rid i t) else by_id rid i t)"
  unfolding by_id_def tbl_first_def tbl_update_rows
  by (subst find_map_same) (auto simp: option.map_comp split: if_splits intro!: option.map_cong0 dest: find_Some
      simp: map_option_case split: option.split)

lemma by_id_delete:
  "by_id rid i (tbl_delete (\<lambda>r. rid r = j) t) = (if i = j then None else by_id rid i t)"
proof -
  have "List.find (\<lambda>r. rid r = i) (filter (\<lambda>r. rid r \<noteq> j) rs) =
      (if i = j then None else List.find (\<lambda>r. rid r = i) rs)" for rs
    by (induction rs) auto
  then show ?thesis by (simp add: by_id_def tbl_first_def)
qed

end

end
