(* ===== verification/Sqlite_Db.thy ===== *)
theory Sqlite_Db
  imports Domain Row_Table
begin

text \<open>
  The database behind \<open>internal/store\<close>: the tables of the final schema of
  \<open>migrations.go\<close> with its constraints, and how one SQL statement runs.  A statement
  first consumes the head of \<open>db_oracle\<close>, which says how much time passes before it
  and whether the driver fails (a closed connection, a full disk, a cancelled context); when the
  list is used up, statements do not fail and no time passes.  A write is applied as a whole or
  not at all: a violated \<open>UNIQUE\<close> index or foreign key leaves the database as it was.
  Foreign keys are on (\<open>sqlite.go\<close>) and are checked when the statement ends.
\<close>

record db =
  db_oracle :: "(string option \<times> nat) list"
  db_now :: time
  db_last_rowid :: int
  db_users :: "user table"
  db_apps :: "app table"
  db_deploys :: "deploy table"
  db_events :: "deploy_event table"
  db_services :: "service table"
  db_links :: "app_service list"
  db_env_vars :: "app_env_var table"
  db_env_history :: "app_env_var_history table"
  db_backups :: "backup table"

definition empty_db :: "time \<Rightarrow> db" where
  "empty_db now =
     \<lparr>db_oracle = [], db_now = now, db_last_rowid = 0, db_users = empty_table, db_apps = empty_table,
      db_deploys = empty_table, db_events = empty_table, db_services = empty_table, db_links = [],
      db_env_vars = empty_table, db_env_history = empty_table, db_backups = empty_table\<rparr>"

text \<open>\<open>CURRENT_TIMESTAMP\<close> has a resolution of one second.\<close>

definition current_timestamp :: "db \<Rightarrow> time" where
  "current_timestamp d = (db_now d div 1000000000) * 1000000000"

section \<open>Constraints of the schema\<close>

fun opt_in :: "'a option \<Rightarrow> 'a list \<Rightarrow> bool" where
  "opt_in None xs = True"
| "opt_in (Some x) xs = (x \<in> set xs)"

definition app_ids :: "db \<Rightarrow> int list" where
  "app_ids d = map app_ID (tbl_rows (db_apps d))"

definition deploy_ids :: "db \<Rightarrow> int list" where
  "deploy_ids d = map dep_ID (tbl_rows (db_deploys d))"

definition service_ids :: "db \<Rightarrow> int list" where
  "service_ids d = map svc_ID (tbl_rows (db_services d))"

text \<open>Every \<open>REFERENCES\<close> clause: the row referred to exists.\<close>

definition fk_ok :: "db \<Rightarrow> bool" where
  "fk_ok d \<longleftrightarrow>
     list_all (\<lambda>a. opt_in (app_CurrentDeployID a) (deploy_ids d)) (tbl_rows (db_apps d)) \<and>
     list_all (\<lambda>x. dep_AppID x \<in> set (app_ids d) \<and> opt_in (dep_RollbackOfID x) (deploy_ids d))
       (tbl_rows (db_deploys d)) \<and>
     list_all (\<lambda>e. ev_DeployID e \<in> set (deploy_ids d)) (tbl_rows (db_events d)) \<and>
     list_all (\<lambda>s. opt_in (svc_AppID s) (app_ids d)) (tbl_rows (db_services d)) \<and>
     list_all (\<lambda>l. lnk_AppID l \<in> set (app_ids d) \<and> lnk_ServiceID l \<in> set (service_ids d)) (db_links d) \<and>
     list_all (\<lambda>v. env_AppID v \<in> set (app_ids d)) (tbl_rows (db_env_vars d)) \<and>
     list_all (\<lambda>h. hist_AppID h \<in> set (app_ids d)) (tbl_rows (db_env_history d))"

text \<open>
  The unique indexes of the table \<open>apps\<close>: the name, the domain when it is not empty and
  the fallback port when it is positive.  The result is the column of the violated index.
\<close>

definition app_conflict :: "app \<Rightarrow> app list \<Rightarrow> string option" where
  "app_conflict a others =
     (if list_ex (\<lambda>x. app_Name x = app_Name a) others then Some ''apps.name''
      else if app_Domain a \<noteq> [] \<and> list_ex (\<lambda>x. app_Domain x = app_Domain a) others then Some ''apps.domain''
      else if app_FallbackPort a > 0 \<and> list_ex (\<lambda>x. app_FallbackPort x = app_FallbackPort a) others
        then Some ''apps.fallback_port''
      else None)"

definition service_conflict :: "service \<Rightarrow> service list \<Rightarrow> string option" where
  "service_conflict s others =
     (if list_ex (\<lambda>x. svc_Name x = svc_Name s) others then Some ''services.name'' else None)"

definition user_conflict :: "user \<Rightarrow> user list \<Rightarrow> string option" where
  "user_conflict u others =
     (if list_ex (\<lambda>x. usr_Username x = usr_Username u) others then Some ''users.username'' else None)"

section \<open>Running a statement\<close>

definition next_stmt :: "db \<Rightarrow> string option \<times> db" where
  "next_stmt d =
     (case db_oracle d of
        [] \<Rightarrow> (None, d)
      | (f, dt) # os \<Rightarrow> (f, d\<lparr>db_oracle := os, db_now := db_now d + int dt\<rparr>))"

text \<open>\<open>ExecContext\<close>: the statement is a function that gives the new state or the unique
  index it violates.\<close>

definition exec :: "(db \<Rightarrow> sql_error + 'a \<times> db) \<Rightarrow> db \<Rightarrow> (go_error + 'a) \<times> db" where
  "exec stmt d =
     (case next_stmt d of
        (Some m, d1) \<Rightarrow> (Inl (ErrSql (SqlFailure m)), d1)
      | (None, d1) \<Rightarrow>
          (case stmt d1 of
             Inl e \<Rightarrow> (Inl (ErrSql e), d1)
           | Inr (x, d2) \<Rightarrow>
               if fk_ok d2 then (Inr x, d2) else (Inl (ErrSql ForeignKeyViolation), d1)))"

text \<open>\<open>QueryContext\<close> with the loop over its rows.\<close>

definition query :: "(db \<Rightarrow> 'a) \<Rightarrow> db \<Rightarrow> (go_error + 'a) \<times> db" where
  "query f d =
     (case next_stmt d of
        (Some m, d1) \<Rightarrow> (Inl (ErrSql (SqlFailure m)), d1)
      | (None, d1) \<Rightarrow> (Inr (f d1), d1))"

text \<open>
  \<open>QueryRowContext(...).Scan(...)\<close> with the error handling every \<open>Get\<close> method has:
  no row is \<open>domain.ErrNotFound\<close>, any other error is wrapped.
\<close>

definition query_row :: "string \<Rightarrow> (db \<Rightarrow> 'a option) \<Rightarrow> db \<Rightarrow> (go_error + 'a) \<times> db" where
  "query_row what f d =
     (case query f d of
        (Inl e, d1) \<Rightarrow> (Inl (Wrap what e), d1)
      | (Inr None, d1) \<Rightarrow> (Inl ErrNotFound, d1)
      | (Inr (Some r), d1) \<Rightarrow> (Inr r, d1))"

definition wrapped :: "string \<Rightarrow> (go_error + 'a) \<times> db \<Rightarrow> (go_error + 'a) \<times> db" where
  "wrapped what rd = (wrap_err what (fst rd), snd rd)"

text \<open>\<open>INSERT\<close> of a row whose id is the next rowid; the statement's result is
  \<open>LastInsertId\<close>.\<close>

definition insert_into ::
  "(db \<Rightarrow> 'r table) \<Rightarrow> (('r table \<Rightarrow> 'r table) \<Rightarrow> db \<Rightarrow> db) \<Rightarrow> (int \<Rightarrow> 'r \<Rightarrow> 'r) \<Rightarrow>
   ('r \<Rightarrow> 'r list \<Rightarrow> string option) \<Rightarrow> 'r \<Rightarrow> db \<Rightarrow> sql_error + int \<times> db" where
  "insert_into get upd set_id conflict r d =
     (case conflict r (tbl_rows (get d)) of
        Some col \<Rightarrow> Inl (UniqueViolation col)
      | None \<Rightarrow>
          (let (i, t) = tbl_insert set_id r (get d) in
           Inr (i, upd (\<lambda>_. t) (d\<lparr>db_last_rowid := i\<rparr>))))"

text \<open>\<open>UPDATE t SET ... WHERE id = ?\<close>: no row with the id is no error.\<close>

definition update_where_id ::
  "(db \<Rightarrow> 'r table) \<Rightarrow> (('r table \<Rightarrow> 'r table) \<Rightarrow> db \<Rightarrow> db) \<Rightarrow> ('r \<Rightarrow> int) \<Rightarrow>
   ('r \<Rightarrow> 'r list \<Rightarrow> string option) \<Rightarrow> int \<Rightarrow> ('r \<Rightarrow> 'r) \<Rightarrow> db \<Rightarrow> sql_error + unit \<times> db" where
  "update_where_id get upd rid conflict i f d =
     (case by_id rid i (get d) of
        None \<Rightarrow> Inr ((), d)
      | Some r \<Rightarrow>
          (case conflict (f r) (filter (\<lambda>x. rid x \<noteq> i) (tbl_rows (get d))) of
             Some col \<Rightarrow> Inl (UniqueViolation col)
           | None \<Rightarrow> Inr ((), upd (\<lambda>_. tbl_update (\<lambda>x. rid x = i) f (get d)) d)))"

definition no_conflict :: "'r \<Rightarrow> 'r list \<Rightarrow> string option" where
  "no_conflict r others = None"

section \<open>Facts about statements\<close>

lemma next_stmt_tables:
  assumes "next_stmt d = (f, d1)"
  shows "db_users d1 = db_users d" "db_apps d1 = db_apps d" "db_deploys d1 = db_deploys d"
    "db_events d1 = db_events d" "db_services d1 = db_services d" "db_links d1 = db_links d"
    "db_env_vars d1 = db_env_vars d" "db_env_history d1 = db_env_history d" "db_backups d1 = db_backups d"
    "db_last_rowid d1 = db_last_rowid d" "db_now d \<le> db_now d1"
  using assms by (auto simp: next_stmt_def split: list.splits)

lemma next_stmt_no_oracle [simp]: "db_oracle d = [] \<Longrightarrow> next_stmt d = (None, d)"
  by (simp add: next_stmt_def)

text \<open>The contents of the database, without the oracle and the clock.\<close>

definition same_tables :: "db \<Rightarrow> db \<Rightarrow> bool" where
  "same_tables d e \<longleftrightarrow>
     db_users d = db_users e \<and> db_apps d = db_apps e \<and> db_deploys d = db_deploys e \<and>
     db_events d = db_events e \<and> db_services d = db_services e \<and> db_links d = db_links e \<and>
     db_env_vars d = db_env_vars e \<and> db_env_history d = db_env_history e \<and> db_backups d = db_backups e"

lemma same_tables_refl [simp]: "same_tables d d"
  by (simp add: same_tables_def)

lemma same_tables_trans: "same_tables a b \<Longrightarrow> same_tables b c \<Longrightarrow> same_tables a c"
  by (simp add: same_tables_def)

lemma same_tables_sym: "same_tables a b \<Longrightarrow> same_tables b a"
  by (simp add: same_tables_def)

lemma next_stmt_same: "next_stmt d = (f, d1) \<Longrightarrow> same_tables d1 d"
  by (simp add: same_tables_def next_stmt_tables)

lemma fk_ok_same: "same_tables d e \<Longrightarrow> fk_ok d = fk_ok e"
  by (simp add: fk_ok_def same_tables_def app_ids_def deploy_ids_def service_ids_def)

text \<open>A failed write changes nothing, and a query never changes anything.\<close>

lemma exec_error_same: "exec stmt d = (Inl e, d') \<Longrightarrow> same_tables d' d"
  by (auto simp: exec_def dest!: next_stmt_same split: prod.splits option.splits sum.splits if_splits)

lemma exec_ok:
  "exec stmt d = (Inr x, d') \<Longrightarrow>
     \<exists>d1. next_stmt d = (None, d1) \<and> stmt d1 = Inr (x, d') \<and> fk_ok d'"
  by (auto simp: exec_def split: prod.splits option.splits sum.splits if_splits)

lemma query_same: "query f d = (r, d') \<Longrightarrow> same_tables d' d"
  by (auto simp: query_def dest!: next_stmt_same split: prod.splits option.splits)

lemma query_row_same: "query_row p f d = (r, d') \<Longrightarrow> same_tables d' d"
  by (auto simp: query_row_def dest!: query_same split: prod.splits option.splits sum.splits)

lemma query_row_cases:
  "query_row p f d = (r, d') \<Longrightarrow>
     (\<exists>x. r = Inr x \<and> f d' = Some x) \<or> (r = Inl ErrNotFound \<and> f d' = None) \<or>
     (\<exists>m. r = Inl (Wrap p (ErrSql (SqlFailure m))))"
  by (auto simp: query_row_def query_def split: prod.splits option.splits sum.splits)

lemma query_row_no_oracle:
  "db_oracle d = [] \<Longrightarrow>
     query_row p f d = ((case f d of None \<Rightarrow> Inl ErrNotFound | Some x \<Rightarrow> Inr x), d)"
  by (simp add: query_row_def query_def split: option.split)

lemma query_no_oracle: "db_oracle d = [] \<Longrightarrow> query f d = (Inr (f d), d)"
  by (simp add: query_def)

lemma exec_no_oracle:
  "db_oracle d = [] \<Longrightarrow>
     exec stmt d =
       (case stmt d of
          Inl e \<Rightarrow> (Inl (ErrSql e), d)
        | Inr (x, d2) \<Rightarrow> if fk_ok d2 then (Inr x, d2) else (Inl (ErrSql ForeignKeyViolation), d))"
  by (simp add: exec_def)

lemma wrapped_simps [simp]:
  "wrapped p (Inl e, d) = (Inl (Wrap p e), d)"
  "wrapped p (Inr x, d) = (Inr x, d)"
  by (simp_all add: wrapped_def)

lemma snd_wrapped [simp]: "snd (wrapped p rd) = snd rd"
  by (simp add: wrapped_def)

lemma wrapped_eq_Inr: "wrapped p rd = (Inr x, d) \<longleftrightarrow> rd = (Inr x, d)"
  by (cases rd; cases "fst rd") auto

lemma wrapped_eq_Inl: "wrapped p rd = (Inl e, d) \<longleftrightarrow> (\<exists>e'. e = Wrap p e' \<and> rd = (Inl e', d))"
  by (cases rd; cases "fst rd") auto

text \<open>What a statement keeps, every run of it keeps.\<close>

lemma exec_invariant:
  assumes "I d" and "\<And>d e. same_tables d e \<Longrightarrow> I d = I e"
    and "\<And>d x d'. I d \<Longrightarrow> stmt d = Inr (x, d') \<Longrightarrow> fk_ok d' \<Longrightarrow> I d'"
  shows "I (snd (exec stmt d))"
proof (cases "exec stmt d")
  case (Pair r d')
  show ?thesis
  proof (cases r)
    case (Inl e)
    with Pair have "same_tables d' d" by (simp add: exec_error_same)
    then have "I d' = I d" by (rule assms(2))
    with assms(1) have "I d'" by simp
    with Pair show ?thesis by simp
  next
    case (Inr x)
    with Pair have "exec stmt d = (Inr x, d')" by simp
    from exec_ok [OF this] obtain d1
      where d1: "next_stmt d = (None, d1)" "stmt d1 = Inr (x, d')" "fk_ok d'" by blast
    from d1(1) have "same_tables d1 d" by (rule next_stmt_same)
    then have "I d1 = I d" by (rule assms(2))
    with assms(1) have "I d1" by simp
    from assms(3) [OF this d1(2,3)] Pair show ?thesis by simp
  qed
qed

end
