(* ===== verification/Sqlite_Store.thy ===== *)
theory Sqlite_Store
  imports Sqlite_Db
begin

text \<open>
  The methods of \<open>SQLiteStore\<close> (\<open>app_repo.go\<close>, \<open>deploy_repo.go\<close>,
  \<open>service_repo.go\<close>, \<open>user_repo.go\<close>, \<open>backup_repo.go\<close>).  A method maps a
  database to its result and the new database; a method that writes through a pointer argument
  (the \<open>ID\<close> of a created row) returns the changed value.
\<close>

section \<open>Applications (app_repo.go)\<close>

text \<open>\<open>INSERT INTO apps\<close> does not list \<open>current_deploy_id\<close>, which is NULL then, and
  the times, which are CURRENT_TIMESTAMP.\<close>

definition new_app_row :: "app \<Rightarrow> db \<Rightarrow> app" where
  "new_app_row a d =
     a\<lparr>app_CurrentDeployID := None, app_CreatedAt := current_timestamp d, app_UpdatedAt := current_timestamp d\<rparr>"

definition set_app_id :: "int \<Rightarrow> app \<Rightarrow> app" where
  "set_app_id i a = a\<lparr>app_ID := i\<rparr>"

definition CreateApp :: "app \<Rightarrow> db \<Rightarrow> (go_error + app) \<times> db" where
  "CreateApp a d =
     (case wrapped ''insert app''
        (exec (\<lambda>d. insert_into db_apps db_apps_update set_app_id app_conflict (new_app_row a d) d) d) of
        (Inl e, d1) \<Rightarrow> (Inl e, d1)
      | (Inr i, d1) \<Rightarrow> (Inr (a\<lparr>app_ID := i\<rparr>), d1))"

definition find_app :: "(app \<Rightarrow> bool) \<Rightarrow> db \<Rightarrow> app option" where
  "find_app P d = tbl_first P (db_apps d)"

definition GetApp :: "int \<Rightarrow> db \<Rightarrow> (go_error + app) \<times> db" where
  "GetApp i = query_row ''get app'' (\<lambda>d. by_id app_ID i (db_apps d))"

definition GetAppByName :: "string \<Rightarrow> db \<Rightarrow> (go_error + app) \<times> db" where
  "GetAppByName name = query_row ''get app by name'' (find_app (\<lambda>a. app_Name a = name))"

definition GetAppByDomain :: "string \<Rightarrow> db \<Rightarrow> (go_error + app) \<times> db" where
  "GetAppByDomain d = query_row ''get app by domain'' (find_app (\<lambda>a. app_Domain a = d))"

definition GetAppByInstallationAndRepo :: "int \<Rightarrow> int \<Rightarrow> db \<Rightarrow> (go_error + app) \<times> db" where
  "GetAppByInstallationAndRepo inst repo =
     query_row ''get app by installation and repo''
       (find_app (\<lambda>a. app_GitHubInstallationID a = Some inst \<and> app_GitHubRepoID a = Some repo))"

definition GetAppByGitHubRepoID :: "int \<Rightarrow> db \<Rightarrow> (go_error + app) \<times> db" where
  "GetAppByGitHubRepoID repo =
     query_row ''get app by github repo id'' (find_app (\<lambda>a. app_GitHubRepoID a = Some repo))"

definition ListApps :: "db \<Rightarrow> (go_error + app list) \<times> db" where
  "ListApps d = wrapped ''list apps'' (query (\<lambda>d. order_desc app_CreatedAt (tbl_rows (db_apps d))) d)"

text \<open>\<open>UPDATE apps SET\<close> writes every column but the id and \<open>created_at\<close>.\<close>

definition updated_app_row :: "app \<Rightarrow> time \<Rightarrow> app \<Rightarrow> app" where
  "updated_app_row a now old =
     a\<lparr>app_ID := app_ID old, app_CreatedAt := app_CreatedAt old, app_UpdatedAt := now\<rparr>"

definition UpdateApp :: "app \<Rightarrow> db \<Rightarrow> (go_error + unit) \<times> db" where
  "UpdateApp a d =
     wrapped ''update app''
       (exec (\<lambda>d. update_where_id db_apps db_apps_update app_ID app_conflict (app_ID a)
                    (updated_app_row a (current_timestamp d)) d) d)"

text \<open>
  \<open>DELETE FROM apps WHERE id = ?\<close> with the actions of the foreign keys: deploys and
  their events, links, variables and their history go with the app (\<open>ON DELETE CASCADE\<close>),
  and its services lose their app (\<open>ON DELETE SET NULL\<close>).
\<close>

definition delete_app_rows :: "int \<Rightarrow> db \<Rightarrow> db" where
  "delete_app_rows i d =
     (let dead = map dep_ID (tbl_select (\<lambda>x. dep_AppID x = i) (db_deploys d)) in
      if i \<in> set (app_ids d) then
        d\<lparr>db_apps := tbl_delete (\<lambda>a. app_ID a = i) (db_apps d),
          db_deploys := tbl_delete (\<lambda>x. dep_AppID x = i) (db_deploys d),
          db_events := tbl_delete (\<lambda>e. ev_DeployID e \<in> set dead) (db_events d),
          db_services := tbl_update (\<lambda>s. svc_AppID s = Some i) (\<lambda>s. s\<lparr>svc_AppID := None\<rparr>) (db_services d),
          db_links := filter (\<lambda>l. lnk_AppID l \<noteq> i) (db_links d),
          db_env_vars := tbl_delete (\<lambda>v. env_AppID v = i) (db_env_vars d),
          db_env_history := tbl_delete (\<lambda>h. hist_AppID h = i) (db_env_history d)\<rparr>
      else d)"

definition DeleteApp :: "int \<Rightarrow> db \<Rightarrow> (go_error + unit) \<times> db" where
  "DeleteApp i d = wrapped ''delete app'' (exec (\<lambda>d. Inr ((), delete_app_rows i d)) d)"

text \<open>\<open>SELECT COALESCE(MAX(fallback_port), 40000) + 1 FROM apps WHERE fallback_port > 0\<close>.\<close>

definition next_fallback_port :: "db \<Rightarrow> int" where
  "next_fallback_port d =
     (case filter (\<lambda>p. p > 0) (map app_FallbackPort (tbl_rows (db_apps d))) of
        [] \<Rightarrow> 40000
      | p # ps \<Rightarrow> fold max ps p) + 1"

definition NextFallbackPort :: "db \<Rightarrow> (go_error + int) \<times> db" where
  "NextFallbackPort d = wrapped ''next fallback port'' (query next_fallback_port d)"

section \<open>Deploys and deploy events (deploy_repo.go)\<close>

definition new_deploy_row :: "deploy \<Rightarrow> db \<Rightarrow> deploy" where
  "new_deploy_row x d =
     x\<lparr>dep_ContainerID := [], dep_HealthStatus := [], dep_Logs := [], dep_StartedAt := None,
       dep_CompletedAt := None, dep_CreatedAt := current_timestamp d\<rparr>"

definition set_dep_id :: "int \<Rightarrow> deploy \<Rightarrow> deploy" where
  "set_dep_id i x = x\<lparr>dep_ID := i\<rparr>"

definition CreateDeploy :: "deploy \<Rightarrow> db \<Rightarrow> (go_error + deploy) \<times> db" where
  "CreateDeploy x d =
     (case wrapped ''insert deploy''
        (exec (\<lambda>d. insert_into db_deploys db_deploys_update set_dep_id no_conflict (new_deploy_row x d) d) d) of
        (Inl e, d1) \<Rightarrow> (Inl e, d1)
      | (Inr i, d1) \<Rightarrow> (Inr (x\<lparr>dep_ID := i\<rparr>), d1))"

definition GetDeploy :: "int \<Rightarrow> db \<Rightarrow> (go_error + deploy) \<times> db" where
  "GetDeploy i = query_row ''get deploy'' (\<lambda>d. by_id dep_ID i (db_deploys d))"

definition deploys_of :: "int \<Rightarrow> db \<Rightarrow> deploy list" where
  "deploys_of appID d = order_desc dep_CreatedAt (tbl_select (\<lambda>x. dep_AppID x = appID) (db_deploys d))"

definition first_row :: "'r list \<Rightarrow> 'r option" where
  "first_row rs = (case rs of [] \<Rightarrow> None | r # _ \<Rightarrow> Some r)"

definition GetLatestDeploy :: "int \<Rightarrow> db \<Rightarrow> (go_error + deploy) \<times> db" where
  "GetLatestDeploy appID = query_row ''get latest deploy'' (\<lambda>d. first_row (deploys_of appID d))"

definition successful_deploys_of :: "int \<Rightarrow> db \<Rightarrow> deploy list" where
  "successful_deploys_of appID d =
     order_desc dep_CreatedAt
       (tbl_select (\<lambda>x. dep_AppID x = appID \<and> dep_Status x = DeployStatusSuccess) (db_deploys d))"

definition GetLatestSuccessfulDeploy :: "int \<Rightarrow> db \<Rightarrow> (go_error + deploy) \<times> db" where
  "GetLatestSuccessfulDeploy appID =
     query_row ''get latest successful deploy'' (\<lambda>d. first_row (successful_deploys_of appID d))"

definition ListDeploys :: "int \<Rightarrow> int \<Rightarrow> db \<Rightarrow> (go_error + deploy list) \<times> db" where
  "ListDeploys appID n d = wrapped ''list deploys'' (query (\<lambda>d. limit n (deploys_of appID d)) d)"

text \<open>\<open>UPDATE deploys SET\<close> lists seven columns; \<open>image_ref\<close>, \<open>commit_sha\<close>,
  \<open>branch\<close>, \<open>triggered_by\<close> and \<open>rollback_of_id\<close> keep their value.\<close>

definition updated_deploy_row :: "deploy \<Rightarrow> deploy \<Rightarrow> deploy" where
  "updated_deploy_row x old =
     old\<lparr>dep_Status := dep_Status x, dep_ContainerID := dep_ContainerID x,
         dep_HealthStatus := dep_HealthStatus x, dep_Logs := dep_Logs x,
         dep_EnvSnapshot := dep_EnvSnapshot x, dep_StartedAt := dep_StartedAt x,
         dep_CompletedAt := dep_CompletedAt x\<rparr>"

definition UpdateDeploy :: "deploy \<Rightarrow> db \<Rightarrow> (go_error + unit) \<times> db" where
  "UpdateDeploy x d =
     wrapped ''update deploy''
       (exec (update_where_id db_deploys db_deploys_update dep_ID no_conflict (dep_ID x)
                (updated_deploy_row x)) d)"

definition set_ev_id :: "int \<Rightarrow> deploy_event \<Rightarrow> deploy_event" where
  "set_ev_id i e = e\<lparr>ev_ID := i\<rparr>"

definition CreateDeployEvent :: "deploy_event \<Rightarrow> db \<Rightarrow> (go_error + deploy_event) \<times> db" where
  "CreateDeployEvent e d =
     (case wrapped ''insert deploy event''
        (exec (\<lambda>d. insert_into db_events db_events_update set_ev_id no_conflict
                     (e\<lparr>ev_Timestamp := current_timestamp d\<rparr>) d) d) of
        (Inl er, d1) \<Rightarrow> (Inl er, d1)
      | (Inr i, d1) \<Rightarrow> (Inr (e\<lparr>ev_ID := i\<rparr>), d1))"

text \<open>\<open>ORDER BY timestamp ASC, id ASC\<close>: two stable sorts, the second key first.\<close>

definition ListDeployEvents :: "int \<Rightarrow> db \<Rightarrow> (go_error + deploy_event list) \<times> db" where
  "ListDeployEvents deployID d =
     wrapped ''list deploy events''
       (query (\<lambda>d. sort_key ev_Timestamp
                     (sort_key ev_ID (tbl_select (\<lambda>e. ev_DeployID e = deployID) (db_events d)))) d)"

section \<open>Services and links (service_repo.go)\<close>

definition new_service_row :: "service \<Rightarrow> db \<Rightarrow> service" where
  "new_service_row s d =
     s\<lparr>svc_ContainerID := [], svc_CreatedAt := current_timestamp d, svc_UpdatedAt := current_timestamp d\<rparr>"

definition set_svc_id :: "int \<Rightarrow> service \<Rightarrow> service" where
  "set_svc_id i s = s\<lparr>svc_ID := i\<rparr>"

definition CreateService :: "service \<Rightarrow> db \<Rightarrow> (go_error + service) \<times> db" where
  "CreateService s d =
     (case wrapped ''insert service''
        (exec (\<lambda>d. insert_into db_services db_services_update set_svc_id service_conflict
                     (new_service_row s d) d) d) of
        (Inl e, d1) \<Rightarrow> (Inl e, d1)
      | (Inr i, d1) \<Rightarrow> (Inr (s\<lparr>svc_ID := i\<rparr>), d1))"

definition GetService :: "int \<Rightarrow> db \<Rightarrow> (go_error + service) \<times> db" where
  "GetService i = query_row ''get service'' (\<lambda>d. by_id svc_ID i (db_services d))"

definition GetServiceByName :: "string \<Rightarrow> db \<Rightarrow> (go_error + service) \<times> db" where
  "GetServiceByName name =
     query_row ''get service by name'' (\<lambda>d. tbl_first (\<lambda>s. svc_Name s = name) (db_services d))"

definition ListServices :: "db \<Rightarrow> (go_error + service list) \<times> db" where
  "ListServices d =
     wrapped ''list services'' (query (\<lambda>d. order_desc svc_CreatedAt (tbl_rows (db_services d))) d)"

definition updated_service_row :: "service \<Rightarrow> time \<Rightarrow> service \<Rightarrow> service" where
  "updated_service_row s now old =
     s\<lparr>svc_ID := svc_ID old, svc_CreatedAt := svc_CreatedAt old, svc_UpdatedAt := now\<rparr>"

definition UpdateService :: "service \<Rightarrow> db \<Rightarrow> (go_error + unit) \<times> db" where
  "UpdateService s d =
     wrapped ''update service''
       (exec (\<lambda>d. update_where_id db_services db_services_update svc_ID service_conflict (svc_ID s)
                    (updated_service_row s (current_timestamp d)) d) d)"

definition DeleteService :: "int \<Rightarrow> db \<Rightarrow> (go_error + unit) \<times> db" where
  "DeleteService i d =
     wrapped ''delete service''
       (exec (\<lambda>d. Inr ((), d\<lparr>db_services := tbl_delete (\<lambda>s. svc_ID s = i) (db_services d),
                              db_links := filter (\<lambda>l. lnk_ServiceID l \<noteq> i) (db_links d)\<rparr>)) d)"

text \<open>\<open>INSERT OR REPLACE\<close>: a row with the same primary key (app and service) is deleted
  first.\<close>

definition replace_link :: "app_service \<Rightarrow> app_service list \<Rightarrow> app_service list" where
  "replace_link l ls =
     filter (\<lambda>x. \<not> (lnk_AppID x = lnk_AppID l \<and> lnk_ServiceID x = lnk_ServiceID l)) ls @ [l]"

definition LinkAppService :: "int \<Rightarrow> int \<Rightarrow> string \<Rightarrow> db \<Rightarrow> (go_error + unit) \<times> db" where
  "LinkAppService appID serviceID alias d =
     wrapped ''link app service''
       (exec (\<lambda>d. Inr ((), d\<lparr>db_links := replace_link
            \<lparr>lnk_AppID = appID, lnk_ServiceID = serviceID, lnk_Alias = alias\<rparr> (db_links d)\<rparr>)) d)"

definition UnlinkAppService :: "int \<Rightarrow> int \<Rightarrow> db \<Rightarrow> (go_error + unit) \<times> db" where
  "UnlinkAppService appID serviceID d =
     wrapped ''unlink app service''
       (exec (\<lambda>d. Inr ((), d\<lparr>db_links := filter (\<lambda>l. \<not> (lnk_AppID l = appID \<and> lnk_ServiceID l = serviceID))
            (db_links d)\<rparr>)) d)"

definition ListAppServices :: "int \<Rightarrow> db \<Rightarrow> (go_error + app_service list) \<times> db" where
  "ListAppServices appID d =
     wrapped ''list app services'' (query (\<lambda>d. filter (\<lambda>l. lnk_AppID l = appID) (db_links d)) d)"

definition GetLinkedApps :: "int \<Rightarrow> db \<Rightarrow> (go_error + app_service list) \<times> db" where
  "GetLinkedApps serviceID d =
     wrapped ''get linked apps'' (query (\<lambda>d. filter (\<lambda>l. lnk_ServiceID l = serviceID) (db_links d)) d)"

section \<open>Environment variables (service_repo.go)\<close>

definition find_env :: "int \<Rightarrow> string \<Rightarrow> db \<Rightarrow> app_env_var option" where
  "find_env appID key d = tbl_first (\<lambda>v. env_AppID v = appID \<and> env_Key v = key) (db_env_vars d)"

definition set_env_id :: "int \<Rightarrow> app_env_var \<Rightarrow> app_env_var" where
  "set_env_id i v = v\<lparr>env_ID := i\<rparr>"

definition set_hist_id :: "int \<Rightarrow> app_env_var_history \<Rightarrow> app_env_var_history" where
  "set_hist_id i h = h\<lparr>hist_ID := i\<rparr>"

text \<open>
  \<open>INSERT ... ON CONFLICT(app_id, key) DO UPDATE\<close>: an existing row keeps its id and takes
  the value and the flags.  \<open>LastInsertId\<close> after the update branch is the rowid of the
  last row the connection inserted.
\<close>

definition upsert_env :: "app_env_var \<Rightarrow> db \<Rightarrow> sql_error + int \<times> db" where
  "upsert_env v d =
     (if tbl_exists (\<lambda>x. env_AppID x = env_AppID v \<and> env_Key x = env_Key v) (db_env_vars d) then
        Inr (db_last_rowid d,
          d\<lparr>db_env_vars := tbl_update (\<lambda>x. env_AppID x = env_AppID v \<and> env_Key x = env_Key v)
              (\<lambda>x. x\<lparr>env_Value := env_Value v, env_IsSecret := env_IsSecret v, env_Required := env_Required v\<rparr>)
              (db_env_vars d)\<rparr>)
      else insert_into db_env_vars db_env_vars_update set_env_id no_conflict v d)"

definition new_history_row :: "app_env_var \<Rightarrow> app_env_var \<Rightarrow> db \<Rightarrow> app_env_var_history" where
  "new_history_row v old d =
     \<lparr>hist_ID = 0, hist_AppID = env_AppID v, hist_Key = env_Key v, hist_Value = env_Value old,
      hist_IsSecret = env_IsSecret old, hist_ChangedAt = current_timestamp d, hist_ChangedBy = ''system''\<rparr>"

definition record_history :: "app_env_var \<Rightarrow> db \<Rightarrow> db" where
  "record_history v d =
     (case query (find_env (env_AppID v) (env_Key v)) d of
        (Inr (Some old), d1) \<Rightarrow>
          snd (exec (\<lambda>d. insert_into db_env_history db_env_history_update set_hist_id no_conflict
                           (new_history_row v old d) d) d1)
      | (_, d1) \<Rightarrow> d1)"

definition SetAppEnvVar :: "app_env_var \<Rightarrow> db \<Rightarrow> (go_error + app_env_var) \<times> db" where
  "SetAppEnvVar v d =
     (case wrapped ''set env var'' (exec (upsert_env v) (record_history v d)) of
        (Inl e, d2) \<Rightarrow> (Inl e, d2)
      | (Inr i, d2) \<Rightarrow> (Inr (if env_ID v = 0 then v\<lparr>env_ID := i\<rparr> else v), d2))"

definition GetAppEnvVars :: "int \<Rightarrow> db \<Rightarrow> (go_error + app_env_var list) \<times> db" where
  "GetAppEnvVars appID d =
     wrapped ''get env vars''
       (query (\<lambda>d. sort_key env_Key (tbl_select (\<lambda>v. env_AppID v = appID) (db_env_vars d))) d)"

definition GetAppEnvVarHistory :: "int \<Rightarrow> string \<Rightarrow> db \<Rightarrow> (go_error + app_env_var_history list) \<times> db" where
  "GetAppEnvVarHistory appID key d =
     wrapped ''get env var history''
       (query (\<lambda>d. order_desc hist_ChangedAt
                     (tbl_select (\<lambda>h. hist_AppID h = appID \<and> hist_Key h = key) (db_env_history d))) d)"

text \<open>The Go map is built by assigning the rows in turn.\<close>

definition GetAppEnvVarsSnapshot :: "int \<Rightarrow> db \<Rightarrow> (go_error + (string \<times> string) list) \<times> db" where
  "GetAppEnvVarsSnapshot appID d =
     wrapped ''get env vars snapshot''
       (query (\<lambda>d. fold (\<lambda>v. put (env_Key v) (env_Value v))
                     (tbl_select (\<lambda>v. env_AppID v = appID) (db_env_vars d)) []) d)"

definition DeleteAppEnvVar :: "int \<Rightarrow> string \<Rightarrow> db \<Rightarrow> (go_error + unit) \<times> db" where
  "DeleteAppEnvVar appID key d =
     wrapped ''delete env var''
       (exec (\<lambda>d. Inr ((), d\<lparr>db_env_vars := tbl_delete (\<lambda>v. env_AppID v = appID \<and> env_Key v = key)
            (db_env_vars d)\<rparr>)) d)"

section \<open>Users (user_repo.go)\<close>

definition set_usr_id :: "int \<Rightarrow> user \<Rightarrow> user" where
  "set_usr_id i u = u\<lparr>usr_ID := i\<rparr>"

definition CreateUser :: "user \<Rightarrow> db \<Rightarrow> (go_error + user) \<times> db" where
  "CreateUser u d =
     (case wrapped ''insert user''
        (exec (\<lambda>d. insert_into db_users db_users_update set_usr_id user_conflict
                     (u\<lparr>usr_CreatedAt := current_timestamp d, usr_UpdatedAt := current_timestamp d\<rparr>) d) d) of
        (Inl e, d1) \<Rightarrow> (Inl e, d1)
      | (Inr i, d1) \<Rightarrow> (Inr (u\<lparr>usr_ID := i\<rparr>), d1))"

definition GetUserByID :: "int \<Rightarrow> db \<Rightarrow> (go_error + user) \<times> db" where
  "GetUserByID i = query_row ''get user by id'' (\<lambda>d. by_id usr_ID i (db_users d))"

definition GetUserByUsername :: "string \<Rightarrow> db \<Rightarrow> (go_error + user) \<times> db" where
  "GetUserByUsername name =
     query_row ''get user'' (\<lambda>d. tbl_first (\<lambda>u. usr_Username u = name) (db_users d))"

definition HasUsers :: "db \<Rightarrow> (go_error + bool) \<times> db" where
  "HasUsers d = wrapped ''count users'' (query (\<lambda>d. tbl_rows (db_users d) \<noteq> []) d)"

section \<open>Backups (backup_repo.go)\<close>

definition set_bak_id :: "int \<Rightarrow> backup \<Rightarrow> backup" where
  "set_bak_id i b = b\<lparr>bak_ID := i\<rparr>"

definition CreateBackup :: "backup \<Rightarrow> db \<Rightarrow> (go_error + backup) \<times> db" where
  "CreateBackup b d =
     (case wrapped ''insert backup''
        (exec (\<lambda>d. insert_into db_backups db_backups_update set_bak_id no_conflict
                     (b\<lparr>bak_CreatedAt := current_timestamp d\<rparr>) d) d) of
        (Inl e, d1) \<Rightarrow> (Inl e, d1)
      | (Inr i, d1) \<Rightarrow> (Inr (b\<lparr>bak_ID := i\<rparr>), d1))"

definition GetBackup :: "int \<Rightarrow> db \<Rightarrow> (go_error + backup) \<times> db" where
  "GetBackup i = query_row ''get backup'' (\<lambda>d. by_id bak_ID i (db_backups d))"

definition ListBackups :: "db \<Rightarrow> (go_error + backup list) \<times> db" where
  "ListBackups d =
     wrapped ''list backups'' (query (\<lambda>d. order_desc bak_CreatedAt (tbl_rows (db_backups d))) d)"

text \<open>\<open>RowsAffected\<close> is the number of deleted rows.\<close>

definition DeleteBackup :: "int \<Rightarrow> db \<Rightarrow> (go_error + unit) \<times> db" where
  "DeleteBackup i d =
     (case wrapped ''delete backup''
        (exec (\<lambda>d. Inr (length (tbl_select (\<lambda>b. bak_ID b = i) (db_backups d)),
                         d\<lparr>db_backups := tbl_delete (\<lambda>b. bak_ID b = i) (db_backups d)\<rparr>)) d) of
        (Inl e, d1) \<Rightarrow> (Inl e, d1)
      | (Inr n, d1) \<Rightarrow> (if n = 0 then Inl ErrNotFound else Inr (), d1))"

end
