(* ===== verification/Store_Facts.thy ===== *)
theory Store_Facts
  imports Sqlite_Store
begin

text \<open>
  What the store promises: the invariant of the database (ids, unique indexes, foreign keys) is
  kept by every method, whatever fails, and the methods that read find what the methods that
  write have stored.
\<close>

section \<open>Interpretations of the table interface\<close>

interpretation apps: row_table app_ID set_app_id
  by unfold_locales (simp add: set_app_id_def)

interpretation deploys: row_table dep_ID set_dep_id
  by unfold_locales (simp add: set_dep_id_def)

interpretation events: row_table ev_ID set_ev_id
  by unfold_locales (simp add: set_ev_id_def)

interpretation services: row_table svc_ID set_svc_id
  by unfold_locales (simp add: set_svc_id_def)

interpretation envs: row_table env_ID set_env_id
  by unfold_locales (simp add: set_env_id_def)

interpretation hists: row_table hist_ID set_hist_id
  by unfold_locales (simp add: set_hist_id_def)

interpretation users: row_table usr_ID set_usr_id
  by unfold_locales (simp add: set_usr_id_def)

interpretation backups: row_table bak_ID set_bak_id
  by unfold_locales (simp add: set_bak_id_def)

section \<open>The invariant, table by table\<close>

definition apps_ok :: "app table \<Rightarrow> bool" where
  "apps_ok t \<longleftrightarrow> ids_ok app_ID t \<and> unique_on (\<lambda>a. True) app_Name (tbl_rows t) \<and>
     unique_on (\<lambda>a. app_Domain a \<noteq> []) app_Domain (tbl_rows t) \<and>
     unique_on (\<lambda>a. app_FallbackPort a > 0) app_FallbackPort (tbl_rows t)"

definition services_ok :: "service table \<Rightarrow> bool" where
  "services_ok t \<longleftrightarrow> ids_ok svc_ID t \<and> unique_on (\<lambda>s. True) svc_Name (tbl_rows t)"

definition users_ok :: "user table \<Rightarrow> bool" where
  "users_ok t \<longleftrightarrow> ids_ok usr_ID t \<and> unique_on (\<lambda>u. True) usr_Username (tbl_rows t)"

definition envs_ok :: "app_env_var table \<Rightarrow> bool" where
  "envs_ok t \<longleftrightarrow> ids_ok env_ID t \<and> unique_on (\<lambda>v. True) (\<lambda>v. (env_AppID v, env_Key v)) (tbl_rows t)"

definition links_ok :: "app_service list \<Rightarrow> bool" where
  "links_ok ls \<longleftrightarrow> unique_on (\<lambda>l. True) (\<lambda>l. (lnk_AppID l, lnk_ServiceID l)) ls"

definition db_inv :: "db \<Rightarrow> bool" where
  "db_inv d \<longleftrightarrow> users_ok (db_users d) \<and> apps_ok (db_apps d) \<and> ids_ok dep_ID (db_deploys d) \<and>
     ids_ok ev_ID (db_events d) \<and> services_ok (db_services d) \<and> links_ok (db_links d) \<and>
     envs_ok (db_env_vars d) \<and> ids_ok hist_ID (db_env_history d) \<and> ids_ok bak_ID (db_backups d) \<and> fk_ok d"

lemma db_inv_same: "same_tables d e \<Longrightarrow> db_inv d = db_inv e"
  using fk_ok_same [of d e] by (simp add: db_inv_def same_tables_def)

lemma db_inv_exec:
  assumes "db_inv d"
    and "\<And>d x d'. db_inv d \<Longrightarrow> stmt d = Inr (x, d') \<Longrightarrow> fk_ok d' \<Longrightarrow> db_inv d'"
  shows "db_inv (snd (exec stmt d))"
  using assms(1) db_inv_same assms(2) by (rule exec_invariant)

lemma insert_into_Inr:
  "insert_into get upd set_id conflict r d = Inr (i, d') \<longleftrightarrow>
     conflict r (tbl_rows (get d)) = None \<and> i = tbl_seq (get d) + 1 \<and>
     d' = upd (\<lambda>_. snd (tbl_insert set_id r (get d))) (d\<lparr>db_last_rowid := i\<rparr>)"
  by (auto simp: insert_into_def split: option.splits prod.splits)
     (metis fst_conv snd_conv tbl_insert_simps(1))+

lemma update_where_id_Inr:
  "update_where_id get upd rid conflict i f d = Inr (x, d') \<longleftrightarrow>
     (case by_id rid i (get d) of
        None \<Rightarrow> d' = d
      | Some r \<Rightarrow> conflict (f r) (filter (\<lambda>x. rid x \<noteq> i) (tbl_rows (get d))) = None \<and>
          d' = upd (\<lambda>_. tbl_update (\<lambda>x. rid x = i) f (get d)) d)"
  by (auto simp: update_where_id_def split: option.splits)

lemma apps_ok_insert:
  "apps_ok t \<Longrightarrow> app_conflict r (tbl_rows t) = None \<Longrightarrow> apps_ok (snd (tbl_insert set_app_id r t))"
  using apps.ids_ok_insert [of t r]
  by (auto simp: apps_ok_def unique_on_snoc app_conflict_def set_app_id_def list_ex_iff split: if_splits)

text \<open>The row with id \<open>i\<close> is replaced: a unique index is kept when the other rows do not
  have the new key.\<close>

lemma unique_on_update_row:
  assumes "unique_on Q key (tbl_rows t)" and "distinct (map rid (tbl_rows t))"
    and "by_id rid i t = Some r"
    and "\<And>x. x \<in> set (tbl_rows t) \<Longrightarrow> rid x \<noteq> i \<Longrightarrow> Q x \<Longrightarrow> Q (f r) \<Longrightarrow> key x \<noteq> key (f r)"
  shows "unique_on Q key (tbl_rows (tbl_update (\<lambda>x. rid x = i) f t))"
proof -
  have r: "r \<in> set (tbl_rows t)" "rid r = i"
    using assms(3) by (auto simp: by_id_def dest: tbl_first_Some)
  have "x = r" if "x \<in> set (tbl_rows t)" "rid x = i" for x
    using that r assms(2) by (auto simp: distinct_map dest: inj_onD)
  then have "tbl_rows (tbl_update (\<lambda>x. rid x = i) f t) = map (\<lambda>x. if rid x = i then f r else x) (tbl_rows t)"
    by auto
  moreover have "unique_on Q key (map (\<lambda>x. if rid x = i then f r else x) (tbl_rows t))"
    by (rule unique_on_replace [OF assms(1,2)]) (rule assms(4))
  ultimately show ?thesis by (simp only:)
qed

lemma apps_ok_update:
  assumes "apps_ok t" and "by_id app_ID i t = Some r" and "app_ID (f r) = i"
    and "app_conflict (f r) (filter (\<lambda>x. app_ID x \<noteq> i) (tbl_rows t)) = None"
  shows "apps_ok (tbl_update (\<lambda>x. app_ID x = i) f t)"
proof -
  have ids: "ids_ok app_ID t" using assms(1) by (simp add: apps_ok_def)
  note dist = apps.ids_ok_distinct [OF ids]
  have "app_ID (f x) = app_ID x" if "x \<in> set (tbl_rows t)" "app_ID x = i" for x
  proof -
    have "by_id app_ID i t = Some x" using that apps.by_id_iff [OF ids, of i x] by blast
    with assms(2,3) that show ?thesis by simp
  qed
  then have "ids_ok app_ID (tbl_update (\<lambda>x. app_ID x = i) f t)"
    by (rule apps.ids_ok_update [OF ids])
  moreover have "unique_on (\<lambda>a. True) app_Name (tbl_rows (tbl_update (\<lambda>x. app_ID x = i) f t))"
    "unique_on (\<lambda>a. app_Domain a \<noteq> []) app_Domain (tbl_rows (tbl_update (\<lambda>x. app_ID x = i) f t))"
    "unique_on (\<lambda>a. app_FallbackPort a > 0) app_FallbackPort (tbl_rows (tbl_update (\<lambda>x. app_ID x = i) f t))"
    using assms(1,4) by (intro unique_on_update_row [OF _ dist assms(2)];
        force simp: apps_ok_def app_conflict_def list_ex_iff split: if_splits)+
  ultimately show ?thesis by (simp only: apps_ok_def)
qed

lemma services_ok_update:
  assumes "services_ok t" and "by_id svc_ID i t = Some r" and "svc_ID (f r) = i"
    and "service_conflict (f r) (filter (\<lambda>x. svc_ID x \<noteq> i) (tbl_rows t)) = None"
  shows "services_ok (tbl_update (\<lambda>x. svc_ID x = i) f t)"
proof -
  have ids: "ids_ok svc_ID t" using assms(1) by (simp add: services_ok_def)
  note dist = services.ids_ok_distinct [OF ids]
  have "svc_ID (f x) = svc_ID x" if "x \<in> set (tbl_rows t)" "svc_ID x = i" for x
  proof -
    have "by_id svc_ID i t = Some x" using that services.by_id_iff [OF ids, of i x] by blast
    with assms(2,3) that show ?thesis by simp
  qed
  then have "ids_ok svc_ID (tbl_update (\<lambda>x. svc_ID x = i) f t)"
    by (rule services.ids_ok_update [OF ids])
  moreover have "unique_on (\<lambda>s. True) svc_Name (tbl_rows (tbl_update (\<lambda>x. svc_ID x = i) f t))"
    using assms(1,4) by (intro unique_on_update_row [OF _ dist assms(2)];
        force simp: services_ok_def service_conflict_def list_ex_iff split: if_splits)
  ultimately show ?thesis by (simp only: services_ok_def)
qed

lemma apps_ok_delete: "apps_ok t \<Longrightarrow> apps_ok (tbl_delete P t)"
  by (simp add: apps_ok_def unique_on_filter apps.ids_ok_delete)

lemma services_ok_insert:
  "services_ok t \<Longrightarrow> service_conflict r (tbl_rows t) = None \<Longrightarrow> services_ok (snd (tbl_insert set_svc_id r t))"
  using services.ids_ok_insert [of t r]
  by (auto simp: services_ok_def unique_on_snoc service_conflict_def set_svc_id_def list_ex_iff split: if_splits)

lemma services_ok_delete: "services_ok t \<Longrightarrow> services_ok (tbl_delete P t)"
  by (simp add: services_ok_def unique_on_filter services.ids_ok_delete)

lemma services_ok_set_null:
  "services_ok t \<Longrightarrow> services_ok (tbl_update P (\<lambda>s. s\<lparr>svc_AppID := None\<rparr>) t)"
  using services.ids_ok_update [of t P "\<lambda>s. s\<lparr>svc_AppID := None\<rparr>"]
  by (auto simp: services_ok_def intro: unique_on_map_same [THEN iffD2])

lemma users_ok_insert:
  "users_ok t \<Longrightarrow> user_conflict r (tbl_rows t) = None \<Longrightarrow> users_ok (snd (tbl_insert set_usr_id r t))"
  using users.ids_ok_insert [of t r]
  by (auto simp: users_ok_def unique_on_snoc user_conflict_def set_usr_id_def list_ex_iff split: if_splits)

lemma envs_ok_insert:
  "envs_ok t \<Longrightarrow> \<not> tbl_exists (\<lambda>x. env_AppID x = env_AppID r \<and> env_Key x = env_Key r) t \<Longrightarrow>
     envs_ok (snd (tbl_insert set_env_id r t))"
  using envs.ids_ok_insert [of t r]
  by (auto simp: envs_ok_def unique_on_snoc tbl_exists_iff set_env_id_def)

lemma envs_ok_update:
  "envs_ok t \<Longrightarrow> (\<And>v. env_ID (f v) = env_ID v \<and> env_AppID (f v) = env_AppID v \<and> env_Key (f v) = env_Key v) \<Longrightarrow>
     envs_ok (tbl_update P f t)"
  using envs.ids_ok_update [of t P f]
  by (auto simp: envs_ok_def intro: unique_on_map_same [THEN iffD2])

lemma envs_ok_delete: "envs_ok t \<Longrightarrow> envs_ok (tbl_delete P t)"
  by (simp add: envs_ok_def unique_on_filter envs.ids_ok_delete)

lemma links_ok_filter: "links_ok ls \<Longrightarrow> links_ok (filter P ls)"
  by (simp add: links_ok_def unique_on_filter)

lemma links_ok_replace: "links_ok ls \<Longrightarrow> links_ok (replace_link l ls)"
  by (simp add: links_ok_def replace_link_def unique_on_snoc unique_on_filter)

lemmas table_ok_intros =
  apps_ok_insert apps_ok_delete services_ok_insert services_ok_delete services_ok_set_null
  users_ok_insert envs_ok_insert envs_ok_delete links_ok_filter links_ok_replace
  deploys.ids_ok_insert deploys.ids_ok_delete events.ids_ok_insert events.ids_ok_delete
  hists.ids_ok_insert hists.ids_ok_delete backups.ids_ok_insert backups.ids_ok_delete

end
