(* ===== verification/Store_Properties.thy ===== *)
theory Store_Properties
  imports Store_Facts
begin

text \<open>
  The store as a whole: a call of any of its state-changing methods keeps the invariant, so every
  database that calls can produce has it, and the contracts of the methods that the rest of the
  program relies on.
\<close>

section \<open>Every method keeps the invariant\<close>

lemma db_inv_insert_app:
  "db_inv d \<Longrightarrow> insert_into db_apps db_apps_update set_app_id app_conflict r d = Inr (i, d') \<Longrightarrow>
     fk_ok d' \<Longrightarrow> db_inv d'"
  by (auto simp: insert_into_Inr db_inv_def intro: table_ok_intros)

lemma CreateApp_inv: "db_inv d \<Longrightarrow> db_inv (snd (CreateApp a d))"
  using db_inv_exec [of d "\<lambda>d. insert_into db_apps db_apps_update set_app_id app_conflict (new_app_row a d) d"]
    db_inv_insert_app
  by (force simp: CreateApp_def wrapped_def split: prod.split sum.split)

lemma UpdateApp_stmt_inv:
  assumes "db_inv d" and "fk_ok d'"
    and "update_where_id db_apps db_apps_update app_ID app_conflict i (updated_app_row a now) d = Inr (x, d')"
  shows "db_inv d'"
proof (cases "by_id app_ID i (db_apps d)")
  case None
  with assms show ?thesis by (simp add: update_where_id_Inr)
next
  case (Some r)
  then have "app_ID (updated_app_row a now r) = i"
    using apps.by_id_Some by (simp add: updated_app_row_def)
  moreover have "apps_ok (db_apps d)" using assms(1) by (simp add: db_inv_def)
  ultimately have "apps_ok (tbl_update (\<lambda>x. app_ID x = i) (updated_app_row a now) (db_apps d))"
    using assms(3) Some apps_ok_update by (simp add: update_where_id_Inr)
  with assms Some show ?thesis by (auto simp: update_where_id_Inr db_inv_def)
qed

lemma UpdateApp_inv: "db_inv d \<Longrightarrow> db_inv (snd (UpdateApp a d))"
  unfolding UpdateApp_def snd_wrapped by (rule db_inv_exec) (auto intro: UpdateApp_stmt_inv)

lemma delete_app_rows_inv: "db_inv d \<Longrightarrow> fk_ok (delete_app_rows i d) \<Longrightarrow> db_inv (delete_app_rows i d)"
  by (auto simp: delete_app_rows_def db_inv_def Let_def intro: table_ok_intros)

lemma DeleteApp_inv: "db_inv d \<Longrightarrow> db_inv (snd (DeleteApp i d))"
  unfolding DeleteApp_def snd_wrapped by (rule db_inv_exec) (auto intro: delete_app_rows_inv)

lemma CreateDeploy_inv: "db_inv d \<Longrightarrow> db_inv (snd (CreateDeploy x d))"
  using db_inv_exec [of d "\<lambda>d. insert_into db_deploys db_deploys_update set_dep_id no_conflict (new_deploy_row x d) d"]
  by (force simp: CreateDeploy_def wrapped_def insert_into_Inr db_inv_def intro: table_ok_intros
      split: prod.split sum.split)

lemma UpdateDeploy_inv: "db_inv d \<Longrightarrow> db_inv (snd (UpdateDeploy x d))"
  unfolding UpdateDeploy_def snd_wrapped
  by (rule db_inv_exec)
     (auto simp: update_where_id_Inr db_inv_def updated_deploy_row_def intro!: deploys.ids_ok_update
       split: option.splits)

lemma CreateDeployEvent_inv: "db_inv d \<Longrightarrow> db_inv (snd (CreateDeployEvent e d))"
  using db_inv_exec [of d "\<lambda>d. insert_into db_events db_events_update set_ev_id no_conflict
      (e\<lparr>ev_Timestamp := current_timestamp d\<rparr>) d"]
  by (force simp: CreateDeployEvent_def wrapped_def insert_into_Inr db_inv_def intro: table_ok_intros
      split: prod.split sum.split)

lemma CreateService_inv: "db_inv d \<Longrightarrow> db_inv (snd (CreateService s d))"
  using db_inv_exec [of d "\<lambda>d. insert_into db_services db_services_update set_svc_id service_conflict
      (new_service_row s d) d"]
  by (force simp: CreateService_def wrapped_def insert_into_Inr db_inv_def intro: table_ok_intros
      split: prod.split sum.split)

lemma UpdateService_stmt_inv:
  assumes "db_inv d" and "fk_ok d'"
    and "update_where_id db_services db_services_update svc_ID service_conflict i (updated_service_row s now) d =
      Inr (x, d')"
  shows "db_inv d'"
proof (cases "by_id svc_ID i (db_services d)")
  case None
  with assms show ?thesis by (simp add: update_where_id_Inr)
next
  case (Some r)
  then have "svc_ID (updated_service_row s now r) = i"
    using services.by_id_Some by (simp add: updated_service_row_def)
  moreover have "services_ok (db_services d)" using assms(1) by (simp add: db_inv_def)
  ultimately have "services_ok (tbl_update (\<lambda>x. svc_ID x = i) (updated_service_row s now) (db_services d))"
    using assms(3) Some services_ok_update by (simp add: update_where_id_Inr)
  with assms Some show ?thesis by (auto simp: update_where_id_Inr db_inv_def)
qed

lemma UpdateService_inv: "db_inv d \<Longrightarrow> db_inv (snd (UpdateService s d))"
  unfolding UpdateService_def snd_wrapped by (rule db_inv_exec) (auto intro: UpdateService_stmt_inv)

lemma DeleteService_inv: "db_inv d \<Longrightarrow> db_inv (snd (DeleteService i d))"
  unfolding DeleteService_def snd_wrapped
  by (rule db_inv_exec) (auto simp: db_inv_def intro: table_ok_intros)

lemma LinkAppService_inv: "db_inv d \<Longrightarrow> db_inv (snd (LinkAppService a s al d))"
  unfolding LinkAppService_def snd_wrapped
  by (rule db_inv_exec) (auto simp: db_inv_def intro: table_ok_intros)

lemma UnlinkAppService_inv: "db_inv d \<Longrightarrow> db_inv (snd (UnlinkAppService a s d))"
  unfolding UnlinkAppService_def snd_wrapped
  by (rule db_inv_exec) (auto simp: db_inv_def intro: links_ok_filter)

lemma upsert_env_inv: "db_inv d \<Longrightarrow> upsert_env v d = Inr (i, d') \<Longrightarrow> fk_ok d' \<Longrightarrow> db_inv d'"
  by (auto simp: upsert_env_def insert_into_Inr db_inv_def intro!: envs_ok_insert envs_ok_update split: if_splits)

lemma record_history_inv: "db_inv d \<Longrightarrow> db_inv (record_history v d)"
proof -
  assume inv: "db_inv d"
  obtain r d1 where q: "query (find_env (env_AppID v) (env_Key v)) d = (r, d1)" by fastforce
  then have inv1: "db_inv d1" using inv db_inv_same query_same by blast
  have "db_inv (snd (exec (\<lambda>d. insert_into db_env_history db_env_history_update set_hist_id no_conflict
      (new_history_row v old d) d) d1))" for old
    by (rule db_inv_exec [OF inv1]) (auto simp: insert_into_Inr db_inv_def intro: table_ok_intros)
  then show ?thesis using q inv1 by (auto simp: record_history_def split: sum.split option.split)
qed

lemma SetAppEnvVar_inv: "db_inv d \<Longrightarrow> db_inv (snd (SetAppEnvVar v d))"
  using db_inv_exec [OF record_history_inv, of d "upsert_env v" v] upsert_env_inv
  by (force simp: SetAppEnvVar_def wrapped_def split: prod.split sum.split)

lemma DeleteAppEnvVar_inv: "db_inv d \<Longrightarrow> db_inv (snd (DeleteAppEnvVar a k d))"
  unfolding DeleteAppEnvVar_def snd_wrapped
  by (rule db_inv_exec) (auto simp: db_inv_def intro: table_ok_intros)

lemma CreateUser_inv: "db_inv d \<Longrightarrow> db_inv (snd (CreateUser u d))"
  using db_inv_exec [of d "\<lambda>d. insert_into db_users db_users_update set_usr_id user_conflict
      (u\<lparr>usr_CreatedAt := current_timestamp d, usr_UpdatedAt := current_timestamp d\<rparr>) d"]
  by (force simp: CreateUser_def wrapped_def insert_into_Inr db_inv_def intro: table_ok_intros
      split: prod.split sum.split)

lemma CreateBackup_inv: "db_inv d \<Longrightarrow> db_inv (snd (CreateBackup b d))"
  using db_inv_exec [of d "\<lambda>d. insert_into db_backups db_backups_update set_bak_id no_conflict
      (b\<lparr>bak_CreatedAt := current_timestamp d\<rparr>) d"]
  by (force simp: CreateBackup_def wrapped_def insert_into_Inr db_inv_def intro: table_ok_intros
      split: prod.split sum.split)

lemma DeleteBackup_inv: "db_inv d \<Longrightarrow> db_inv (snd (DeleteBackup i d))"
  using db_inv_exec [of d "\<lambda>d. Inr (length (tbl_select (\<lambda>b. bak_ID b = i) (db_backups d)),
      d\<lparr>db_backups := tbl_delete (\<lambda>b. bak_ID b = i) (db_backups d)\<rparr>)"]
  by (force simp: DeleteBackup_def wrapped_def db_inv_def intro: table_ok_intros
      split: prod.split sum.split)

lemmas store_invs =
  CreateApp_inv UpdateApp_inv DeleteApp_inv CreateDeploy_inv UpdateDeploy_inv CreateDeployEvent_inv
  CreateService_inv UpdateService_inv DeleteService_inv LinkAppService_inv UnlinkAppService_inv
  SetAppEnvVar_inv DeleteAppEnvVar_inv CreateUser_inv CreateBackup_inv DeleteBackup_inv

section \<open>Reachable databases\<close>

text \<open>One call of a state-changing method, with its arguments.\<close>

datatype store_call =
    CallCreateApp app | CallUpdateApp app | CallDeleteApp int
  | CallCreateDeploy deploy | CallUpdateDeploy deploy | CallCreateDeployEvent deploy_event
  | CallCreateService service | CallUpdateService service | CallDeleteService int
  | CallLinkAppService int int string | CallUnlinkAppService int int
  | CallSetAppEnvVar app_env_var | CallDeleteAppEnvVar int string
  | CallCreateUser user | CallCreateBackup backup | CallDeleteBackup int

fun run_call :: "store_call \<Rightarrow> db \<Rightarrow> db" where
  "run_call (CallCreateApp a) d = snd (CreateApp a d)"
| "run_call (CallUpdateApp a) d = snd (UpdateApp a d)"
| "run_call (CallDeleteApp i) d = snd (DeleteApp i d)"
| "run_call (CallCreateDeploy x) d = snd (CreateDeploy x d)"
| "run_call (CallUpdateDeploy x) d = snd (UpdateDeploy x d)"
| "run_call (CallCreateDeployEvent e) d = snd (CreateDeployEvent e d)"
| "run_call (CallCreateService s) d = snd (CreateService s d)"
| "run_call (CallUpdateService s) d = snd (UpdateService s d)"
| "run_call (CallDeleteService i) d = snd (DeleteService i d)"
| "run_call (CallLinkAppService a s al) d = snd (LinkAppService a s al d)"
| "run_call (CallUnlinkAppService a s) d = snd (UnlinkAppService a s d)"
| "run_call (CallSetAppEnvVar v) d = snd (SetAppEnvVar v d)"
| "run_call (CallDeleteAppEnvVar a k) d = snd (DeleteAppEnvVar a k d)"
| "run_call (CallCreateUser u) d = snd (CreateUser u d)"
| "run_call (CallCreateBackup b) d = snd (CreateBackup b d)"
| "run_call (CallDeleteBackup i) d = snd (DeleteBackup i d)"

definition run_calls :: "store_call list \<Rightarrow> db \<Rightarrow> db" where
  "run_calls cs d = fold run_call cs d"

lemma run_call_inv: "db_inv d \<Longrightarrow> db_inv (run_call c d)"
  by (cases c) (simp_all add: store_invs)

lemma run_calls_inv: "db_inv d \<Longrightarrow> db_inv (run_calls cs d)"
  unfolding run_calls_def by (induction cs arbitrary: d) (simp_all add: run_call_inv)

lemma empty_db_inv: "db_inv ((empty_db now)\<lparr>db_oracle := os\<rparr>)"
  by (simp add: db_inv_def empty_db_def users_ok_def apps_ok_def services_ok_def links_ok_def envs_ok_def
      fk_ok_def app_ids_def deploy_ids_def service_ids_def unique_on_def)

section \<open>Free ports\<close>

lemma fold_max_ge: "(x::int) \<in> set (p # ps) \<Longrightarrow> x \<le> fold max ps p"
proof (induction ps arbitrary: p x)
  case (Cons q ps)
  have "max q p \<le> fold max ps (max q p)" using Cons.IH [of "max q p" "max q p"] by simp
  moreover have "y \<le> fold max ps (max q p)" if "y \<in> set ps" for y using Cons.IH [of y "max q p"] that by simp
  ultimately show ?case using Cons.prems by fastforce
qed simp

lemma hd_filter_positive: "filter (\<lambda>p. p > 0) xs = p # ps \<Longrightarrow> (p::int) > 0"
  by (metis (mono_tags, lifting) filter_eq_ConsD)

lemma next_fallback_port_above:
  "a \<in> set (tbl_rows (db_apps d)) \<Longrightarrow> app_FallbackPort a < next_fallback_port d"
proof -
  let ?ps = "filter (\<lambda>p. p > 0) (map app_FallbackPort (tbl_rows (db_apps d)))"
  assume a: "a \<in> set (tbl_rows (db_apps d))"
  show ?thesis
  proof (cases ?ps)
    case Nil
    then have "\<not> app_FallbackPort a > 0" using a by (auto simp: filter_empty_conv)
    with Nil show ?thesis by (simp add: next_fallback_port_def)
  next
    case (Cons p ps)
    then have pos: "p > 0" using hd_filter_positive by blast
    then have "0 < fold max ps p" using fold_max_ge [of p p ps] by simp
    moreover have "app_FallbackPort a \<le> fold max ps p" if "app_FallbackPort a > 0"
    proof -
      have "app_FallbackPort a \<in> set ?ps" using a that by simp
      then show ?thesis using Cons fold_max_ge [of "app_FallbackPort a" p ps] by (simp only:)
    qed
    ultimately show ?thesis using Cons by (cases "app_FallbackPort a > 0") (auto simp: next_fallback_port_def)
  qed
qed

lemma next_fallback_port_pos: "0 < next_fallback_port d"
proof (cases "filter (\<lambda>p. p > 0) (map app_FallbackPort (tbl_rows (db_apps d)))")
  case (Cons p ps)
  then have "p > 0" using hd_filter_positive by blast
  then show ?thesis using Cons fold_max_ge [of p p ps] by (simp add: next_fallback_port_def)
qed (simp add: next_fallback_port_def)

lemma NextFallbackPort_Inr: "NextFallbackPort d = (Inr p, d') \<Longrightarrow> p = next_fallback_port d' \<and> same_tables d' d"
  by (auto simp: NextFallbackPort_def wrapped_eq_Inr dest: query_same)
     (auto simp: query_def split: prod.splits option.splits)

section \<open>The latest deploy\<close>

text \<open>A stable sort puts first, among the rows with the latest time, the one inserted first.\<close>

lemma order_desc_hd_first:
  assumes "order_desc c rs = r # rest" and "x \<in> set rs" and "c x = c r"
  shows "\<exists>pre post. rs = pre @ r # post \<and> x \<in> set (r # post)"
proof -
  have "filter (\<lambda>y. c y = c r) rs = filter (\<lambda>y. c y = c r) (order_desc c rs)"
    using sort_key_stable [of "\<lambda>y. - c y" "- c r" rs] by (simp add: order_desc_def)
  then have f: "filter (\<lambda>y. c y = c r) rs = r # filter (\<lambda>y. c y = c r) rest" using assms(1) by simp
  then obtain pre post where rs: "rs = pre @ r # post" and "\<forall>y \<in> set pre. c y \<noteq> c r"
    by (metis (mono_tags, lifting) filter_eq_Cons_iff)
  then show ?thesis using assms(2,3) by auto
qed

lemma latest_of:
  assumes "ids_ok dep_ID t" and "first_row (order_desc dep_CreatedAt (tbl_select P t)) = Some x"
  shows "x \<in> set (tbl_rows t) \<and> P x \<and>
    (\<forall>y \<in> set (tbl_rows t). P y \<longrightarrow>
       dep_CreatedAt y < dep_CreatedAt x \<or> (dep_CreatedAt y = dep_CreatedAt x \<and> dep_ID x \<le> dep_ID y))"
proof -
  obtain rest where o: "order_desc dep_CreatedAt (tbl_select P t) = x # rest"
    using assms(2) by (auto simp: first_row_def split: list.splits)
  then have x: "x \<in> set (tbl_rows t)" "P x"
    using order_desc_set [of dep_CreatedAt "tbl_select P t"] by (auto simp: tbl_select_def)
  have "dep_CreatedAt y < dep_CreatedAt x \<or> (dep_CreatedAt y = dep_CreatedAt x \<and> dep_ID x \<le> dep_ID y)"
    if "y \<in> set (tbl_rows t)" "P y" for y
  proof -
    have y: "y \<in> set (tbl_select P t)" using that by (simp add: tbl_select_def)
    have "dep_CreatedAt y \<le> dep_CreatedAt x" using order_desc_hd_max [OF o y] .
    moreover have "dep_ID x \<le> dep_ID y" if tie: "dep_CreatedAt y = dep_CreatedAt x"
    proof -
      obtain pre post where "tbl_select P t = pre @ x # post" "y \<in> set (x # post)"
        using order_desc_hd_first [OF o y tie] by blast
      moreover have "sorted_wrt (<) (map dep_ID (tbl_select P t))"
        using assms(1) by (simp add: ids_ok_def tbl_select_def sorted_wrt_map sorted_wrt_filter)
      ultimately show ?thesis by (auto simp: sorted_wrt_append)
    qed
    ultimately show ?thesis by auto
  qed
  with x show ?thesis by blast
qed

end
