(* ===== verification/Store_Claims.thy ===== *)
theory Store_Claims
  imports Store_Properties
begin

text \<open>
  The contracts of the store methods: the reachable databases, creation and lookup of
  applications, free ports, the update of a deploy, the cascade of a deletion, the latest deploy
  and the environment variables with their history.
\<close>

section \<open>Foreign keys under the statements\<close>

lemma opt_in_mono: "opt_in x xs \<Longrightarrow> set xs \<subseteq> set ys \<Longrightarrow> opt_in x ys"
  by (cases x) auto

lemma fk_ok_insert_app:
  assumes "fk_ok d" and "insert_into db_apps db_apps_update set_app_id c r d = Inr (i, d')"
    and "app_CurrentDeployID r = None"
  shows "fk_ok d'"
proof -
  have "set (app_ids d) \<subseteq> set (app_ids d')" using assms(2) by (auto simp: insert_into_Inr app_ids_def)
  moreover have "deploy_ids d' = deploy_ids d" "service_ids d' = service_ids d"
    using assms(2) by (auto simp: insert_into_Inr deploy_ids_def service_ids_def)
  ultimately show ?thesis
    using assms unfolding fk_ok_def by (auto simp: insert_into_Inr list_all_iff set_app_id_def intro: opt_in_mono)
qed

lemma fk_ok_update_deploy:
  assumes "fk_ok d"
  shows "fk_ok (d\<lparr>db_deploys := tbl_update P (updated_deploy_row x) (db_deploys d)\<rparr>)"
proof -
  let ?d' = "d\<lparr>db_deploys := tbl_update P (updated_deploy_row x) (db_deploys d)\<rparr>"
  have "deploy_ids ?d' = deploy_ids d" "app_ids ?d' = app_ids d" "service_ids ?d' = service_ids d"
    by (auto simp: deploy_ids_def app_ids_def service_ids_def updated_deploy_row_def)
  with assms show ?thesis by (auto simp: fk_ok_def list_all_iff updated_deploy_row_def)
qed

lemma app_conflict_new_row [simp]: "app_conflict (new_app_row a d) rs = app_conflict a rs"
  by (simp add: app_conflict_def new_app_row_def)

section \<open>Reachable databases\<close>


section \<open>Applications\<close>

text \<open>C14.  \<open>CreateApp\<close> either reports the violated unique index and leaves the database as it
  was, or gives the app the next id; then \<open>GetApp\<close> with that id returns the stored row, and
  every other id reads as before.\<close>

theorem CreateApp_spec:
  assumes "db_inv d" and "db_oracle d = []" and "i = tbl_seq (db_apps d) + 1"
  shows "case app_conflict a (tbl_rows (db_apps d)) of
      Some col \<Rightarrow> CreateApp a d = (Inl (Wrap ''insert app'' (ErrSql (UniqueViolation col))), d)
    | None \<Rightarrow> (let d' = snd (CreateApp a d) in
        fst (CreateApp a d) = Inr (a\<lparr>app_ID := i\<rparr>) \<and>
        GetApp i d' = (Inr (set_app_id i (new_app_row a d)), d') \<and>
        (\<forall>j. j \<noteq> i \<longrightarrow> GetApp j d' = (fst (GetApp j d), d')))"
proof (cases "app_conflict a (tbl_rows (db_apps d))")
  case None
  let ?stmt = "\<lambda>d. insert_into db_apps db_apps_update set_app_id app_conflict (new_app_row a d) d"
  let ?d' = "d\<lparr>db_last_rowid := i, db_apps := snd (tbl_insert set_app_id (new_app_row a d) (db_apps d))\<rparr>"
  have stmt: "?stmt d = Inr (i, ?d')" using None assms(3) by (simp add: insert_into_Inr)
  moreover have "fk_ok ?d'"
    using fk_ok_insert_app [OF _ stmt] assms(1) by (simp add: db_inv_def new_app_row_def)
  ultimately have "CreateApp a d = (Inr (a\<lparr>app_ID := i\<rparr>), ?d')"
    using assms(2) by (simp add: CreateApp_def exec_no_oracle)
  moreover have "ids_ok app_ID (db_apps d)" using assms(1) by (simp add: db_inv_def apps_ok_def)
  ultimately show ?thesis
    using None assms apps.by_id_insert_new [of "db_apps d"] apps.by_id_insert_old [of _ "db_apps d"]
    by (auto simp: GetApp_def query_row_no_oracle split: option.split)
next
  case (Some col)
  then show ?thesis using assms by (simp add: CreateApp_def exec_no_oracle insert_into_def)
qed

theorem CreateApp_spec_witness:
  "CreateApp (zero_app\<lparr>app_Name := ''a''\<rparr>) (empty_db 5) =
     (Inr (zero_app\<lparr>app_Name := ''a'', app_ID := 1\<rparr>), snd (CreateApp (zero_app\<lparr>app_Name := ''a''\<rparr>) (empty_db 5)))"
proof -
  have "db_inv (empty_db 5)" using empty_db_inv [where now = 5 and os = "[]"] by (simp add: empty_db_def)
  moreover have "app_conflict (zero_app\<lparr>app_Name := ''a''\<rparr>) (tbl_rows (db_apps (empty_db 5))) = None"
    by (simp add: app_conflict_def empty_db_def zero_app_def)
  ultimately show ?thesis
    using CreateApp_spec [of "empty_db 5" 1 "zero_app\<lparr>app_Name := ''a''\<rparr>"]
    by (simp add: empty_db_def Let_def prod_eq_iff)
qed

text \<open>C15.  The port that \<open>NextFallbackPort\<close> returns is positive and no app of the store has it,
  so an app that takes it is never refused for its port.\<close>

theorem NextFallbackPort_fresh:
  assumes "NextFallbackPort d = (Inr p, d')" and "app_FallbackPort a = p"
  shows "0 < p \<and> (\<forall>b \<in> set (tbl_rows (db_apps d')). app_FallbackPort b < p) \<and>
    app_conflict a (tbl_rows (db_apps d')) \<noteq> Some ''apps.fallback_port''"
proof -
  have p: "p = next_fallback_port d'" using NextFallbackPort_Inr [OF assms(1)] by simp
  then have "\<forall>b \<in> set (tbl_rows (db_apps d')). app_FallbackPort b < p"
    using next_fallback_port_above by simp
  then show ?thesis using assms(2) p next_fallback_port_pos
    by (auto simp: app_conflict_def list_ex_iff)
qed

theorem NextFallbackPort_fresh_witness:
  "fst (NextFallbackPort (empty_db 0)) = Inr 40001 \<and>
     app_conflict (zero_app\<lparr>app_FallbackPort := 40001\<rparr>) (tbl_rows (db_apps (empty_db 0))) \<noteq> Some ''apps.fallback_port''"
proof -
  have n: "NextFallbackPort (empty_db 0) = (Inr 40001, empty_db 0)"
    by (simp add: NextFallbackPort_def query_no_oracle next_fallback_port_def empty_db_def)
  show ?thesis using NextFallbackPort_fresh [OF n, of "zero_app\<lparr>app_FallbackPort := 40001\<rparr>"] by (simp add: n)
qed

section \<open>Deletion of an application\<close>

text \<open>No app or deploy points at a deploy of another app.  The foreign keys do not say this, the
  deploy engine only ever makes such references.\<close>

definition refs_own :: "db \<Rightarrow> bool" where
  "refs_own d \<longleftrightarrow>
     list_all (\<lambda>a. list_all (\<lambda>x. app_CurrentDeployID a = Some (dep_ID x) \<longrightarrow> dep_AppID x = app_ID a)
       (tbl_rows (db_deploys d))) (tbl_rows (db_apps d)) \<and>
     list_all (\<lambda>y. list_all (\<lambda>x. dep_RollbackOfID y = Some (dep_ID x) \<longrightarrow> dep_AppID x = dep_AppID y)
       (tbl_rows (db_deploys d))) (tbl_rows (db_deploys d))"

text \<open>Nothing in the database mentions the app.\<close>

definition app_gone :: "int \<Rightarrow> db \<Rightarrow> bool" where
  "app_gone i d \<longleftrightarrow>
     i \<notin> set (app_ids d) \<and>
     list_all (\<lambda>x. dep_AppID x \<noteq> i) (tbl_rows (db_deploys d)) \<and>
     list_all (\<lambda>s. svc_AppID s \<noteq> Some i) (tbl_rows (db_services d)) \<and>
     list_all (\<lambda>l. lnk_AppID l \<noteq> i) (db_links d) \<and>
     list_all (\<lambda>v. env_AppID v \<noteq> i) (tbl_rows (db_env_vars d)) \<and>
     list_all (\<lambda>h. hist_AppID h \<noteq> i) (tbl_rows (db_env_history d))"

lemma opt_in_Some_iff: "opt_in x xs \<longleftrightarrow> (\<forall>y. x = Some y \<longrightarrow> y \<in> set xs)"
  by (cases x) auto

lemma delete_app_rows_deploys:
  "i \<in> set (app_ids d) \<Longrightarrow>
     set (deploy_ids (delete_app_rows i d)) = dep_ID ` {x \<in> set (tbl_rows (db_deploys d)). dep_AppID x \<noteq> i}"
  by (auto simp: delete_app_rows_def deploy_ids_def)

lemma ref_survives:
  assumes "opt_in r (deploy_ids d)" and "i \<in> set (app_ids d)"
    and "\<And>x. x \<in> set (tbl_rows (db_deploys d)) \<Longrightarrow> r = Some (dep_ID x) \<Longrightarrow> dep_AppID x \<noteq> i"
  shows "opt_in r (deploy_ids (delete_app_rows i d))"
  using assms(1,3) unfolding opt_in_Some_iff delete_app_rows_deploys [OF assms(2)]
  by (auto simp: deploy_ids_def)

lemma delete_app_rows_refs:
  assumes "fk_ok d" and "refs_own d" and "i \<in> set (app_ids d)"
  shows "list_all (\<lambda>a. opt_in (app_CurrentDeployID a) (deploy_ids (delete_app_rows i d)))
           (tbl_rows (db_apps (delete_app_rows i d)))"
    and "list_all (\<lambda>x. opt_in (dep_RollbackOfID x) (deploy_ids (delete_app_rows i d)))
           (tbl_rows (db_deploys (delete_app_rows i d)))"
proof -
  have a: "a \<in> set (tbl_rows (db_apps d)) \<Longrightarrow> app_ID a \<noteq> i \<Longrightarrow>
      opt_in (app_CurrentDeployID a) (deploy_ids (delete_app_rows i d))" for a
    using assms by (intro ref_survives) (auto simp: fk_ok_def refs_own_def list_all_iff)
  have x: "x \<in> set (tbl_rows (db_deploys d)) \<Longrightarrow> dep_AppID x \<noteq> i \<Longrightarrow>
      opt_in (dep_RollbackOfID x) (deploy_ids (delete_app_rows i d))" for x
    using assms by (intro ref_survives) (auto simp: fk_ok_def refs_own_def list_all_iff)
  show "list_all (\<lambda>a. opt_in (app_CurrentDeployID a) (deploy_ids (delete_app_rows i d)))
           (tbl_rows (db_apps (delete_app_rows i d)))"
    using a assms(3) by (auto simp: delete_app_rows_def list_all_iff)
  show "list_all (\<lambda>x. opt_in (dep_RollbackOfID x) (deploy_ids (delete_app_rows i d)))
           (tbl_rows (db_deploys (delete_app_rows i d)))"
    using x assms(3) by (auto simp: delete_app_rows_def list_all_iff)
qed

lemma delete_app_rows_fk:
  assumes "fk_ok d" and "refs_own d" and "i \<in> set (app_ids d)"
  shows "fk_ok (delete_app_rows i d)"
proof -
  let ?d' = "delete_app_rows i d"
  note fk = assms(1) [unfolded fk_ok_def, simplified list_all_iff]
  have apps: "set (app_ids ?d') = set (app_ids d) - {i}"
    using assms(3) by (auto simp: delete_app_rows_def app_ids_def)
  note deps = delete_app_rows_deploys [OF assms(3)]
  have svcs: "service_ids ?d' = service_ids d"
    using assms(3) by (auto simp: delete_app_rows_def service_ids_def)
  have 1: "\<forall>x \<in> set (tbl_rows (db_deploys ?d')). dep_AppID x \<in> set (app_ids ?d')"
    using fk assms(3) unfolding apps by (auto simp: delete_app_rows_def)
  have 2: "\<forall>e \<in> set (tbl_rows (db_events ?d')). ev_DeployID e \<in> set (deploy_ids ?d')"
    using fk assms(3) unfolding deps
    by (auto simp: delete_app_rows_def deploy_ids_def tbl_select_def image_iff) blast
  have 3: "\<forall>s \<in> set (tbl_rows (db_services ?d')). opt_in (svc_AppID s) (app_ids ?d')"
    using fk assms(3) unfolding opt_in_Some_iff apps by (auto simp: delete_app_rows_def)
  have 4: "\<forall>l \<in> set (db_links ?d'). lnk_AppID l \<in> set (app_ids ?d') \<and> lnk_ServiceID l \<in> set (service_ids ?d')"
    using fk assms(3) unfolding apps svcs by (auto simp: delete_app_rows_def)
  have 5: "\<forall>v \<in> set (tbl_rows (db_env_vars ?d')). env_AppID v \<in> set (app_ids ?d')"
    using fk assms(3) unfolding apps by (auto simp: delete_app_rows_def)
  have 6: "\<forall>h \<in> set (tbl_rows (db_env_history ?d')). hist_AppID h \<in> set (app_ids ?d')"
    using fk assms(3) unfolding apps by (auto simp: delete_app_rows_def)
  from delete_app_rows_refs [OF assms] 1 2 3 4 5 6 show ?thesis
    unfolding fk_ok_def list_all_iff by blast
qed

lemma delete_app_rows_gone: "fk_ok d \<Longrightarrow> app_gone i (delete_app_rows i d)"
  by (auto simp: app_gone_def delete_app_rows_def app_ids_def list_all_iff fk_ok_def opt_in_Some_iff)

lemma delete_app_rows_others:
  "tbl_rows (db_apps (delete_app_rows i d)) = filter (\<lambda>a. app_ID a \<noteq> i) (tbl_rows (db_apps d))"
  by (auto simp: delete_app_rows_def app_ids_def intro!: filter_True [symmetric])


definition sample_db :: db where
  "sample_db = run_calls
     [CallCreateApp (zero_app\<lparr>app_Name := ''blog''\<rparr>),
      CallCreateDeploy (zero_deploy\<lparr>dep_AppID := 1, dep_ImageRef := ''img:1'', dep_Status := DeployStatusRunning\<rparr>),
      CallSetAppEnvVar \<lparr>env_ID = 0, env_AppID = 1, env_Key = ''K'', env_Value = ''v'', env_IsSecret = False,
        env_Required = False\<rparr>] (empty_db 5000000000)"

lemma sample_db_inv: "db_inv sample_db"
proof -
  have "empty_db 5000000000 = (empty_db 5000000000)\<lparr>db_oracle := []\<rparr>" by (simp add: empty_db_def)
  then show ?thesis unfolding sample_db_def using run_calls_inv [OF empty_db_inv] by metis
qed

lemma sample_db_facts:
  "db_oracle sample_db = []" "refs_own sample_db" "1 \<in> set (app_ids sample_db)"
  "by_id dep_ID 1 (db_deploys sample_db) =
     Some (zero_deploy\<lparr>dep_ID := 1, dep_AppID := 1, dep_ImageRef := ''img:1'', dep_Status := DeployStatusRunning,
       dep_CreatedAt := 5000000000\<rparr>)"
  by code_simp+

lemma sample_db_rows:
  "tbl_rows (db_deploys sample_db) =
     [zero_deploy\<lparr>dep_ID := 1, dep_AppID := 1, dep_ImageRef := ''img:1'', dep_Status := DeployStatusRunning,
       dep_CreatedAt := 5000000000\<rparr>]"
  by code_simp


section \<open>Deploys\<close>

lemma UpdateDeploy_run:
  assumes "db_inv d" and "db_oracle d = []" and "by_id dep_ID (dep_ID x) (db_deploys d) = Some old"
  shows "UpdateDeploy x d = (Inr (),
    d\<lparr>db_deploys := tbl_update (\<lambda>y. dep_ID y = dep_ID x) (updated_deploy_row x) (db_deploys d)\<rparr>)"
  using assms fk_ok_update_deploy
  by (simp add: UpdateDeploy_def exec_no_oracle update_where_id_def no_conflict_def db_inv_def)

text \<open>\<open>UpdateDeploy\<close> stores the status, container, health, logs, variables and times of
  a deploy, and drops the rest: the row keeps the image reference and the commit it was created
  with, whatever the caller has put there since.\<close>

theorem UpdateDeploy_columns:
  assumes "db_inv d" and "db_oracle d = []" and "by_id dep_ID (dep_ID x) (db_deploys d) = Some old"
  shows "\<exists>d' y. UpdateDeploy x d = (Inr (), d') \<and> GetDeploy (dep_ID x) d' = (Inr y, d') \<and>
    dep_Status y = dep_Status x \<and> dep_ContainerID y = dep_ContainerID x \<and> dep_Logs y = dep_Logs x \<and>
    dep_EnvSnapshot y = dep_EnvSnapshot x \<and> dep_CompletedAt y = dep_CompletedAt x \<and>
    dep_ImageRef y = dep_ImageRef old \<and> dep_CommitSHA y = dep_CommitSHA old"
proof -
  let ?d' = "d\<lparr>db_deploys := tbl_update (\<lambda>y. dep_ID y = dep_ID x) (updated_deploy_row x) (db_deploys d)\<rparr>"
  have "UpdateDeploy x d = (Inr (), ?d')" using assms by (rule UpdateDeploy_run)
  moreover have "by_id dep_ID (dep_ID x) (db_deploys ?d') = Some (updated_deploy_row x old)"
    using assms(3) deploys.by_id_update [of "updated_deploy_row x" "dep_ID x" "dep_ID x" "db_deploys d"]
    by (simp add: updated_deploy_row_def)
  ultimately show ?thesis
    using assms(2) by (simp add: GetDeploy_def query_row_no_oracle updated_deploy_row_def)
qed

theorem UpdateDeploy_columns_witness:
  "\<exists>d' y. UpdateDeploy (zero_deploy\<lparr>dep_ID := 1, dep_ImageRef := ''img:2''\<rparr>) sample_db = (Inr (), d') \<and>
     GetDeploy 1 d' = (Inr y, d') \<and> dep_ImageRef y = ''img:1''"
  using UpdateDeploy_columns [OF sample_db_inv sample_db_facts(1), of "zero_deploy\<lparr>dep_ID := 1, dep_ImageRef := ''img:2''\<rparr>"]
    sample_db_facts(4) by (auto simp: zero_deploy_def)

text \<open>\<open>GetLatestDeploy\<close> returns a deploy of the app that no deploy of the app is younger
  than.  Times have a resolution of a second: among deploys of the same second it returns the one
  with the smallest id, that is, the one created first.\<close>

theorem GetLatestDeploy_latest:
  assumes "db_inv d" and "GetLatestDeploy i d = (Inr x, d')"
  shows "x \<in> set (tbl_rows (db_deploys d)) \<and> dep_AppID x = i \<and>
    (\<forall>y \<in> set (tbl_rows (db_deploys d)). dep_AppID y = i \<longrightarrow>
       dep_CreatedAt y < dep_CreatedAt x \<or> (dep_CreatedAt y = dep_CreatedAt x \<and> dep_ID x \<le> dep_ID y))"
proof -
  have "same_tables d' d" using assms(2) query_row_same by (simp add: GetLatestDeploy_def)
  then have "db_deploys d' = db_deploys d" by (simp add: same_tables_def)
  moreover have "first_row (deploys_of i d') = Some x"
    using query_row_cases [OF assms(2) [unfolded GetLatestDeploy_def]] by auto
  moreover have "ids_ok dep_ID (db_deploys d)" using assms(1) by (simp add: db_inv_def)
  ultimately show ?thesis
    using latest_of [of "db_deploys d" "\<lambda>y. dep_AppID y = i" x] unfolding deploys_of_def by simp
qed

theorem GetLatestDeploy_latest_witness:
  "fst (GetLatestDeploy 1 sample_db) =
     Inr (zero_deploy\<lparr>dep_ID := 1, dep_AppID := 1, dep_ImageRef := ''img:1'', dep_Status := DeployStatusRunning,
       dep_CreatedAt := 5000000000\<rparr>) \<and>
   (\<exists>x. x \<in> set (tbl_rows (db_deploys sample_db)) \<and> dep_AppID x = 1)"
proof -
  have "first_row (deploys_of 1 sample_db) =
     Some (zero_deploy\<lparr>dep_ID := 1, dep_AppID := 1, dep_ImageRef := ''img:1'', dep_Status := DeployStatusRunning,
       dep_CreatedAt := 5000000000\<rparr>)"
    by (simp add: deploys_of_def tbl_select_def sample_db_rows order_desc_def first_row_def)
  then have g: "GetLatestDeploy 1 sample_db =
     (Inr (zero_deploy\<lparr>dep_ID := 1, dep_AppID := 1, dep_ImageRef := ''img:1'', dep_Status := DeployStatusRunning,
       dep_CreatedAt := 5000000000\<rparr>), sample_db)"
    by (simp add: GetLatestDeploy_def query_row_no_oracle sample_db_facts(1))
  note GetLatestDeploy_latest [OF sample_db_inv g, THEN conjunct1]
    GetLatestDeploy_latest [OF sample_db_inv g, THEN conjunct2, THEN conjunct1]
  then show ?thesis unfolding g fst_conv by (intro conjI refl exI)
qed

section \<open>Environment variables\<close>

lemma fold_snapshot:
  "distinct (map env_Key vs) \<Longrightarrow>
     fold (\<lambda>v m. m(env_Key v \<mapsto> env_Value v)) vs m k =
       (case List.find (\<lambda>v. env_Key v = k) vs of None \<Rightarrow> m k | Some v \<Rightarrow> Some (env_Value v))"
proof (induction vs arbitrary: m)
  case (Cons v vs)
  show ?case
  proof (cases "env_Key v = k")
    case True
    then have "List.find (\<lambda>w. env_Key w = k) vs = None" using Cons.prems by (auto simp: find_None) (metis image_eqI)
    with Cons True show ?thesis by simp
  qed (use Cons in simp)
qed simp

lemma find_filter: "List.find P (filter Q xs) = List.find (\<lambda>x. Q x \<and> P x) xs"
  by (induction xs) auto

text \<open>The variables of an app as a map, read off the table.\<close>

definition env_map :: "int \<Rightarrow> db \<Rightarrow> string \<rightharpoonup> string" where
  "env_map i d = (\<lambda>k. map_option env_Value (find_env i k d))"

lemma map_of_fold_put: "map_of (fold (\<lambda>v. put (f v) (g v)) vs kvs) = fold (\<lambda>v m. m(f v \<mapsto> g v)) vs (map_of kvs)"
  by (induction vs arbitrary: kvs) simp_all

lemma GetAppEnvVarsSnapshot_env_map:
  assumes "db_inv d" and "db_oracle d = []"
  shows "\<exists>snap. GetAppEnvVarsSnapshot i d = (Inr snap, d) \<and> map_of snap = env_map i d"
proof -
  let ?rows = "tbl_select (\<lambda>v. env_AppID v = i) (db_env_vars d)"
  have "distinct (map (\<lambda>v. (env_AppID v, env_Key v)) (tbl_rows (db_env_vars d)))"
    using assms(1) by (simp add: db_inv_def envs_ok_def unique_on_def)
  then have "distinct (map env_Key ?rows)"
    by (auto simp: tbl_select_def distinct_map inj_on_def)
  note fold_snapshot [OF this]
  then have "fold (\<lambda>v m. m(env_Key v \<mapsto> env_Value v)) ?rows Map.empty = env_map i d"
    by (intro ext) (simp add: env_map_def find_env_def tbl_first_def tbl_select_def find_filter split: option.split)
  then have "map_of (fold (\<lambda>v. put (env_Key v) (env_Value v)) ?rows []) = env_map i d"
    by (simp add: map_of_fold_put)
  then show ?thesis using assms(2) by (simp add: GetAppEnvVarsSnapshot_def query_no_oracle)
qed

lemma record_history_no_oracle:
  "db_oracle d = [] \<Longrightarrow> db_oracle (record_history v d) = []"
  by (auto simp: record_history_def query_no_oracle exec_no_oracle insert_into_def no_conflict_def tbl_insert_def
      split: option.split)

lemma record_history_vars:
  "db_env_vars (record_history v d) = db_env_vars d" "db_apps (record_history v d) = db_apps d"
proof -
  let ?I = "\<lambda>e. db_env_vars e = db_env_vars d \<and> db_apps e = db_apps d"
  obtain r d1 where q: "query (find_env (env_AppID v) (env_Key v)) d = (r, d1)" by fastforce
  then have "same_tables d1 d" by (rule query_same)
  then have I1: "?I d1" by (simp add: same_tables_def)
  have "?I (snd (exec (\<lambda>d. insert_into db_env_history db_env_history_update set_hist_id no_conflict
      (new_history_row v old d) d) d1))" for old
    using I1 by (rule exec_invariant) (auto simp: same_tables_def insert_into_Inr)
  then have "?I (record_history v d)" using q I1 by (auto simp: record_history_def split: sum.split option.split)
  then show "db_env_vars (record_history v d) = db_env_vars d" "db_apps (record_history v d) = db_apps d"
    by simp_all
qed

lemma fk_ok_upsert:
  assumes "fk_ok d" and "env_AppID v \<in> set (app_ids d)" and "upsert_env v d = Inr (i, d')"
  shows "fk_ok d'"
proof -
  have "app_ids d' = app_ids d" "deploy_ids d' = deploy_ids d" "service_ids d' = service_ids d"
    using assms(3) by (auto simp: upsert_env_def insert_into_Inr app_ids_def deploy_ids_def service_ids_def
        split: if_splits)
  with assms show ?thesis
    by (auto simp: upsert_env_def insert_into_Inr fk_ok_def list_all_iff set_env_id_def split: if_splits)
qed

lemma upsert_env_find:
  assumes "upsert_env v d = Inr (i, d')"
  shows "find_env a k d' =
    (if a = env_AppID v \<and> k = env_Key v
     then Some (case find_env a k d of
        None \<Rightarrow> set_env_id (tbl_seq (db_env_vars d) + 1) v
      | Some old \<Rightarrow> old\<lparr>env_Value := env_Value v, env_IsSecret := env_IsSecret v, env_Required := env_Required v\<rparr>)
     else find_env a k d)"
proof (cases "tbl_exists (\<lambda>x. env_AppID x = env_AppID v \<and> env_Key x = env_Key v) (db_env_vars d)")
  case True
  let ?f = "\<lambda>x. if env_AppID x = env_AppID v \<and> env_Key x = env_Key v
     then x\<lparr>env_Value := env_Value v, env_IsSecret := env_IsSecret v, env_Required := env_Required v\<rparr> else x"
  have new: "find_env a k d' = map_option ?f (find_env a k d)"
    using assms True by (auto simp: upsert_env_def find_env_def tbl_first_def) (rule find_map_same; auto)
  have present: "find_env a k d \<noteq> None" if "a = env_AppID v" "k = env_Key v"
    using True that by (auto simp: find_env_def tbl_first_None tbl_exists_iff)
  have key: "env_AppID x = a \<and> env_Key x = k" if "find_env a k d = Some x" for x
    using that by (auto simp: find_env_def dest!: tbl_first_Some)
  show ?thesis
  proof (cases "find_env a k d")
    case None
    then have "\<not> (a = env_AppID v \<and> k = env_Key v)" using present by blast
    with new None show ?thesis by simp
  next
    case (Some x)
    with new key [OF Some] show ?thesis by auto
  qed
next
  case False
  then have "find_env (env_AppID v) (env_Key v) d = None"
    by (auto simp: find_env_def tbl_first_None tbl_exists_iff)
  with False assms show ?thesis
    by (cases "a = env_AppID v \<and> k = env_Key v")
       (auto simp: upsert_env_def insert_into_Inr find_env_def tbl_first_def find_append set_env_id_def
        split: option.split)
qed

text \<open>After \<open>SetAppEnvVar\<close> the snapshot of the app maps the key to the new value and
  every other key, and every other app, as before.\<close>

theorem SetAppEnvVar_snapshot:
  assumes "db_inv d" and "db_oracle d = []" and "env_AppID v \<in> set (app_ids d)"
  shows "\<exists>v' d'. SetAppEnvVar v d = (Inr v', d') \<and>
    (\<forall>j. \<exists>snap. GetAppEnvVarsSnapshot j d' = (Inr snap, d') \<and>
       map_of snap = (if j = env_AppID v then (env_map j d)(env_Key v \<mapsto> env_Value v) else env_map j d))"
proof -
  let ?h = "record_history v d"
  have h: "db_inv ?h" "db_oracle ?h = []" "env_AppID v \<in> set (app_ids ?h)"
    using assms by (simp_all add: record_history_inv record_history_no_oracle app_ids_def record_history_vars)
  obtain i d' where u: "upsert_env v ?h = Inr (i, d')"
    by (cases "upsert_env v ?h") (auto simp: upsert_env_def insert_into_def no_conflict_def tbl_insert_def split: if_splits)
  have fk: "fk_ok d'" using fk_ok_upsert [OF _ h(3) u] h(1) by (simp add: db_inv_def)
  have inv: "db_inv d'" using upsert_env_inv [OF h(1) u fk] .
  have "db_oracle d' = []" using u h(2) by (auto simp: upsert_env_def insert_into_Inr split: if_splits)
  moreover have "SetAppEnvVar v d = (Inr (if env_ID v = 0 then v\<lparr>env_ID := i\<rparr> else v), d')"
    using u h(2) fk by (simp add: SetAppEnvVar_def exec_no_oracle)
  moreover have "env_map a d' = (if a = env_AppID v then (env_map a d)(env_Key v \<mapsto> env_Value v) else env_map a d)" for a
    using upsert_env_find [OF u, of a]
    by (auto simp: env_map_def find_env_def record_history_vars fun_eq_iff set_env_id_def split: option.split)
  ultimately show ?thesis using GetAppEnvVarsSnapshot_env_map [OF inv] by metis
qed

theorem SetAppEnvVar_snapshot_witness:
  "\<exists>v' d' snap. SetAppEnvVar \<lparr>env_ID = 0, env_AppID = 1, env_Key = ''K'', env_Value = ''w'', env_IsSecret = False,
       env_Required = False\<rparr> sample_db = (Inr v', d') \<and>
     GetAppEnvVarsSnapshot 1 d' = (Inr snap, d') \<and> map_of snap = (env_map 1 sample_db)(''K'' \<mapsto> ''w'')"
  using SetAppEnvVar_snapshot [OF sample_db_inv sample_db_facts(1), of "\<lparr>env_ID = 0, env_AppID = 1, env_Key = ''K'',
     env_Value = ''w'', env_IsSecret = False, env_Required = False\<rparr>"] sample_db_facts(3) by fastforce

end
