(* ===== verification/Event_Broadcaster.thy ===== *)
theory Event_Broadcaster
  imports Domain
begin

text \<open>
  \<open>internal/deploy/event_broadcaster.go\<close>: subscribers of the events of a deploy.  A
  channel is named by the id of the subscription that made it.  \<open>Subscribe\<close>, the
  unsubscribe closure and the two locked parts of \<open>Publish\<close> are atomic (they hold the
  mutex); the sends of \<open>Publish\<close> happen between its two locked parts without the mutex, so
  they are single steps of their own.  A Go map is iterated in no fixed order; here the order is
  that of the list of ids.
\<close>

record channel =
  ch_buf :: "deploy_event list"
  ch_closed :: bool

record broadcaster =
  b_nextID :: int
  b_subscribers :: "int \<rightharpoonup> int list"
  b_chans :: "int \<rightharpoonup> channel"
  b_once :: "int list"

definition deployEventSubscriberBuffer :: nat where
  "deployEventSubscriberBuffer = 256"

definition NewEventBroadcaster :: broadcaster where
  "NewEventBroadcaster =
     \<lparr>b_nextID = 0, b_subscribers = Map.empty, b_chans = Map.empty, b_once = []\<rparr>"

text \<open>The inner map of a deploy; a missing entry reads as the empty map.\<close>

definition deploy_subs :: "int \<Rightarrow> broadcaster \<Rightarrow> int list" where
  "deploy_subs deployID b = (case b_subscribers b deployID of None \<Rightarrow> [] | Some ids \<Rightarrow> ids)"

text \<open>\<open>delete(deploySubs, id)\<close>, and dropping the outer entry when the inner map is empty.\<close>

definition set_subs :: "int \<Rightarrow> int list \<Rightarrow> broadcaster \<Rightarrow> broadcaster" where
  "set_subs deployID ids b =
     b\<lparr>b_subscribers := (b_subscribers b)(deployID := (if ids = [] then None else Some ids))\<rparr>"

definition Subscribe :: "int \<Rightarrow> broadcaster \<Rightarrow> int \<times> broadcaster" where
  "Subscribe deployID b =
     (let subID = b_nextID b + 1 in
      (subID,
       b\<lparr>b_nextID := subID,
         b_chans := (b_chans b)(subID \<mapsto> \<lparr>ch_buf = [], ch_closed = False\<rparr>),
         b_subscribers := (b_subscribers b)(deployID \<mapsto> deploy_subs deployID b @ [subID])\<rparr>))"

definition close_chan :: "int \<Rightarrow> broadcaster \<Rightarrow> broadcaster outcome" where
  "close_chan i b =
     (case b_chans b i of
        None \<Rightarrow> Panics ''close of nil channel''
      | Some ch \<Rightarrow>
          if ch_closed ch then Panics ''close of closed channel''
          else Returns (b\<lparr>b_chans := (b_chans b)(i \<mapsto> ch\<lparr>ch_closed := True\<rparr>)\<rparr>))"

text \<open>Removing a registered subscription and closing its channel, as both locked parts do.\<close>

definition remove_and_close :: "int \<Rightarrow> int \<Rightarrow> broadcaster \<Rightarrow> broadcaster outcome" where
  "remove_and_close k i b = close_chan i (set_subs k (removeAll i (deploy_subs k b)) b)"

text \<open>The closure that \<open>Subscribe\<close> returns; \<open>sync.Once\<close> makes it run once.\<close>

definition unsubscribe :: "int \<Rightarrow> int \<Rightarrow> broadcaster \<Rightarrow> broadcaster outcome" where
  "unsubscribe deployID subID b =
     (if subID \<in> set (b_once b) then Returns b
      else
        (let b1 = b\<lparr>b_once := subID # b_once b\<rparr> in
         if subID \<notin> set (deploy_subs deployID b1) then Returns b1
         else remove_and_close deployID subID b1))"

text \<open>\<open>select { case ch <- &copy: default: slow = append(slow, id) }\<close>: a send on a closed
  channel panics, also in a \<open>select\<close> with a default.\<close>

definition try_send :: "deploy_event \<Rightarrow> int \<Rightarrow> broadcaster \<Rightarrow> (bool \<times> broadcaster) outcome" where
  "try_send e i b =
     (case b_chans b i of
        None \<Rightarrow> Returns (False, b)
      | Some ch \<Rightarrow>
          if ch_closed ch then Panics ''send on closed channel''
          else if length (ch_buf ch) < deployEventSubscriberBuffer
            then Returns (True, b\<lparr>b_chans := (b_chans b)(i \<mapsto> ch\<lparr>ch_buf := ch_buf ch @ [e]\<rparr>)\<rparr>)
          else Returns (False, b))"

fun send_all :: "deploy_event \<Rightarrow> int list \<Rightarrow> int list \<Rightarrow> broadcaster \<Rightarrow> (int list \<times> broadcaster) outcome" where
  "send_all e [] slow b = Returns (slow, b)"
| "send_all e (i # is) slow b =
     bind_outcome (try_send e i b)
       (\<lambda>(sent, b1). send_all e is (if sent then slow else slow @ [i]) b1)"

text \<open>The second locked part: remove and close the slow subscribers that are still there.\<close>

fun drop_slow :: "int \<Rightarrow> int list \<Rightarrow> broadcaster \<Rightarrow> broadcaster outcome" where
  "drop_slow deployID [] b = Returns b"
| "drop_slow deployID (i # is) b =
     (if i \<notin> set (deploy_subs deployID b) then drop_slow deployID is b
      else bind_outcome (remove_and_close deployID i b) (drop_slow deployID is))"

text \<open>\<open>Publish\<close> when nothing else runs between its parts.\<close>

definition Publish :: "deploy_event option \<Rightarrow> broadcaster \<Rightarrow> broadcaster outcome" where
  "Publish event b =
     (case event of
        None \<Rightarrow> Returns b
      | Some e \<Rightarrow>
          if deploy_subs (ev_DeployID e) b = [] then Returns b
          else
            bind_outcome (send_all e (deploy_subs (ev_DeployID e) b) [] b)
              (\<lambda>(slow, b1). if slow = [] then Returns b1 else drop_slow (ev_DeployID e) slow b1))"

definition SubscriberCount :: "int \<Rightarrow> broadcaster \<Rightarrow> nat" where
  "SubscriberCount deployID b = length (deploy_subs deployID b)"

text \<open>The subscriber's side: receiving takes the first buffered event.\<close>

definition receive :: "int \<Rightarrow> broadcaster \<Rightarrow> broadcaster" where
  "receive i b =
     (case b_chans b i of
        None \<Rightarrow> b
      | Some ch \<Rightarrow> b\<lparr>b_chans := (b_chans b)(i \<mapsto> ch\<lparr>ch_buf := tl (ch_buf ch)\<rparr>)\<rparr>)"

section \<open>The invariant\<close>

text \<open>
  Subscription ids are fresh, a subscription belongs to one deploy, the channel of every
  registered subscription is open and no buffer is over its capacity.
\<close>

definition b_inv :: "broadcaster \<Rightarrow> bool" where
  "b_inv b \<longleftrightarrow>
     (\<forall>k. b_subscribers b k \<noteq> Some []) \<and>
     (\<forall>k. distinct (deploy_subs k b)) \<and>
     (\<forall>k i. i \<in> set (deploy_subs k b) \<longrightarrow> (\<exists>ch. b_chans b i = Some ch \<and> \<not> ch_closed ch)) \<and>
     (\<forall>k k' i. i \<in> set (deploy_subs k b) \<longrightarrow> i \<in> set (deploy_subs k' b) \<longrightarrow> k = k') \<and>
     (\<forall>i ch. b_chans b i = Some ch \<longrightarrow> i \<le> b_nextID b \<and> length (ch_buf ch) \<le> deployEventSubscriberBuffer)"

lemma b_invI:
  assumes "\<And>k. b_subscribers b k \<noteq> Some []" and "\<And>k. distinct (deploy_subs k b)"
    and "\<And>k i. i \<in> set (deploy_subs k b) \<Longrightarrow> \<exists>ch. b_chans b i = Some ch \<and> \<not> ch_closed ch"
    and "\<And>k k' i. i \<in> set (deploy_subs k b) \<Longrightarrow> i \<in> set (deploy_subs k' b) \<Longrightarrow> k = k'"
    and "\<And>i ch. b_chans b i = Some ch \<Longrightarrow> i \<le> b_nextID b \<and> length (ch_buf ch) \<le> deployEventSubscriberBuffer"
  shows "b_inv b"
  using assms unfolding b_inv_def by blast

lemma b_invD:
  assumes "b_inv b"
  shows "b_subscribers b k \<noteq> Some []" and "distinct (deploy_subs k b)"
    and "i \<in> set (deploy_subs k b) \<Longrightarrow> \<exists>ch. b_chans b i = Some ch \<and> \<not> ch_closed ch"
    and "i \<in> set (deploy_subs k b) \<Longrightarrow> i \<in> set (deploy_subs k' b) \<Longrightarrow> k = k'"
    and "b_chans b i = Some ch \<Longrightarrow> i \<le> b_nextID b"
    and "b_chans b i = Some ch \<Longrightarrow> length (ch_buf ch) \<le> deployEventSubscriberBuffer"
  using assms unfolding b_inv_def by blast+

lemma deploy_subs_set_subs [simp]:
  "deploy_subs k (set_subs k' ids b) = (if k = k' then ids else deploy_subs k b)"
  by (simp add: deploy_subs_def set_subs_def)

lemma set_subs_fields [simp]:
  "b_chans (set_subs k ids b) = b_chans b" "b_nextID (set_subs k ids b) = b_nextID b"
  "b_subscribers (set_subs k ids b) j = (if j = k then if ids = [] then None else Some ids else b_subscribers b j)"
  by (simp_all add: set_subs_def)

lemma deploy_subs_chans_update [simp]: "deploy_subs k (b\<lparr>b_chans := c\<rparr>) = deploy_subs k b"
  by (simp add: deploy_subs_def)

lemma deploy_subs_once_update [simp]: "deploy_subs k (b\<lparr>b_once := c\<rparr>) = deploy_subs k b"
  by (simp add: deploy_subs_def)

lemma NewEventBroadcaster_inv: "b_inv NewEventBroadcaster"
  by (simp add: b_inv_def NewEventBroadcaster_def deploy_subs_def)

lemma Subscribe_subs:
  "deploy_subs k (snd (Subscribe deployID b)) =
     (if k = deployID then deploy_subs k b @ [b_nextID b + 1] else deploy_subs k b)"
  by (simp add: Subscribe_def Let_def deploy_subs_def)

lemma Subscribe_inv: "b_inv b \<Longrightarrow> b_inv (snd (Subscribe deployID b))"
proof -
  assume inv: "b_inv b"
  have fresh: "b_nextID b + 1 \<notin> set (deploy_subs k b)" for k
    using b_invD(3,5) [OF inv] by fastforce
  show ?thesis
  proof (rule b_invI)
    show "b_subscribers (snd (Subscribe deployID b)) k \<noteq> Some []" for k
      using b_invD(1) [OF inv] by (simp add: Subscribe_def Let_def)
    show "distinct (deploy_subs k (snd (Subscribe deployID b)))" for k
      using b_invD(2) [OF inv] fresh by (simp add: Subscribe_subs)
    show "\<exists>ch. b_chans (snd (Subscribe deployID b)) i = Some ch \<and> \<not> ch_closed ch"
      if "i \<in> set (deploy_subs k (snd (Subscribe deployID b)))" for k i
      using that [unfolded Subscribe_subs] b_invD(3) [OF inv]
      by (auto simp: Subscribe_def Let_def split: if_splits)
    show "k = k'" if "i \<in> set (deploy_subs k (snd (Subscribe deployID b)))"
      "i \<in> set (deploy_subs k' (snd (Subscribe deployID b)))" for k k' i
      using that b_invD(4) [OF inv] fresh by (auto simp: Subscribe_subs split: if_splits)
    show "i \<le> b_nextID (snd (Subscribe deployID b)) \<and> length (ch_buf ch) \<le> deployEventSubscriberBuffer"
      if "b_chans (snd (Subscribe deployID b)) i = Some ch" for i ch
      using that b_invD(5,6) [OF inv]
      by (fastforce simp: Subscribe_def Let_def split: if_splits)
  qed
qed

text \<open>Changing the buffers of open channels, within the capacity, keeps the invariant.\<close>

lemma b_inv_chans:
  assumes "b_inv b"
    and "\<And>i ch. c i = Some ch \<Longrightarrow> length (ch_buf ch) \<le> deployEventSubscriberBuffer \<and>
           (\<exists>ch0. b_chans b i = Some ch0)"
    and "\<And>i ch0. b_chans b i = Some ch0 \<Longrightarrow> \<not> ch_closed ch0 \<Longrightarrow> \<exists>ch. c i = Some ch \<and> \<not> ch_closed ch"
  shows "b_inv (b\<lparr>b_chans := c\<rparr>)"
proof (rule b_invI)
  show "\<exists>ch. b_chans (b\<lparr>b_chans := c\<rparr>) i = Some ch \<and> \<not> ch_closed ch"
    if "i \<in> set (deploy_subs k (b\<lparr>b_chans := c\<rparr>))" for k i
    using that assms(3) b_invD(3) [OF assms(1)] by fastforce
  show "i \<le> b_nextID (b\<lparr>b_chans := c\<rparr>) \<and> length (ch_buf ch) \<le> deployEventSubscriberBuffer"
    if "b_chans (b\<lparr>b_chans := c\<rparr>) i = Some ch" for i ch
    using that assms(2) b_invD(5) [OF assms(1)] by fastforce
qed (use b_invD(1,2,4) [OF assms(1)] in auto)

lemma receive_inv: "b_inv b \<Longrightarrow> b_inv (receive i b)"
  using b_invD(6) by (fastforce simp: receive_def intro!: b_inv_chans split: option.splits if_splits)

lemma try_send_inv: "b_inv b \<Longrightarrow> try_send e i b = Returns (s, b') \<Longrightarrow> b_inv b'"
  using b_invD(6) [of b]
  by (fastforce simp: try_send_def intro!: b_inv_chans split: option.splits if_splits)

lemma remove_and_close_returns:
  assumes "b_inv b" and "i \<in> set (deploy_subs k b)"
  shows "\<exists>ch. b_chans b i = Some ch \<and> \<not> ch_closed ch \<and>
    remove_and_close k i b =
      Returns ((set_subs k (removeAll i (deploy_subs k b)) b)\<lparr>b_chans := (b_chans b)(i \<mapsto> ch\<lparr>ch_closed := True\<rparr>)\<rparr>)"
  using b_invD(3) [OF assms] by (auto simp: remove_and_close_def close_chan_def)

lemma remove_and_close_inv:
  assumes "b_inv b" and "i \<in> set (deploy_subs k b)" and "remove_and_close k i b = Returns b'"
  shows "b_inv b' \<and> deploy_subs k b' = removeAll i (deploy_subs k b) \<and>
    (\<forall>j. j \<noteq> k \<longrightarrow> deploy_subs j b' = deploy_subs j b) \<and> (\<forall>j. j \<noteq> i \<longrightarrow> b_chans b' j = b_chans b j) \<and>
    b_chans b' i = map_option (\<lambda>ch. ch\<lparr>ch_closed := True\<rparr>) (b_chans b i)"
proof -
  obtain ch where ch: "b_chans b i = Some ch" "\<not> ch_closed ch"
    and b': "b' = (set_subs k (removeAll i (deploy_subs k b)) b)\<lparr>b_chans := (b_chans b)(i \<mapsto> ch\<lparr>ch_closed := True\<rparr>)\<rparr>"
    using remove_and_close_returns [OF assms(1,2)] assms(3) by auto
  note D = b_invD [OF assms(1)]
  have "b_inv b'"
  proof (rule b_invI)
    have sub: "j \<in> set (deploy_subs k' b) \<and> j \<noteq> i" if "j \<in> set (deploy_subs k' b')" for k' j
    proof (cases "k' = k")
      case False
      with that have "j \<in> set (deploy_subs k' b)" by (simp add: b')
      with False D(4) [of j k' k] assms(2) show ?thesis by blast
    qed (use that in \<open>simp add: b'\<close>)
    show "\<exists>ch. b_chans b' j = Some ch \<and> \<not> ch_closed ch" if "j \<in> set (deploy_subs k' b')" for k' j
      using sub [OF that] D(3) [of j k'] by (simp add: b')
    show "k1 = k2" if "j \<in> set (deploy_subs k1 b')" "j \<in> set (deploy_subs k2 b')" for k1 k2 j
      using sub [OF that(1)] sub [OF that(2)] D(4) by blast
    show "j \<le> b_nextID b' \<and> length (ch_buf c) \<le> deployEventSubscriberBuffer" if "b_chans b' j = Some c" for j c
      using that D(5,6) ch by (fastforce simp: b' split: if_splits)
  qed (use D(1,2) in \<open>auto simp: b' distinct_removeAll\<close>)
  then show ?thesis by (simp add: b' ch)
qed

end
