(* ===== verification/Broadcaster_Claims.thy ===== *)
theory Broadcaster_Claims
  imports Event_Broadcaster
begin

text \<open>
  What \<open>Publish\<close> does when it runs undisturbed, and the interleavings of publishers,
  subscribers and unsubscribers, where the sends of a publisher are steps of their own.
\<close>

section \<open>An undisturbed Publish\<close>

definition full :: "int \<Rightarrow> broadcaster \<Rightarrow> bool" where
  "full i b = (case b_chans b i of None \<Rightarrow> True | Some ch \<Rightarrow> deployEventSubscriberBuffer \<le> length (ch_buf ch))"

definition delivered :: "deploy_event \<Rightarrow> int list \<Rightarrow> broadcaster \<Rightarrow> broadcaster" where
  "delivered e is b =
     b\<lparr>b_chans := (\<lambda>i. if i \<in> set is \<and> \<not> full i b
        then map_option (\<lambda>ch. ch\<lparr>ch_buf := ch_buf ch @ [e]\<rparr>) (b_chans b i) else b_chans b i)\<rparr>"

lemma delivered_Nil [simp]: "delivered e [] b = b"
  by (simp add: delivered_def)

lemma delivered_chans:
  "b_chans (delivered e is b) i =
     (if i \<in> set is \<and> \<not> full i b then map_option (\<lambda>ch. ch\<lparr>ch_buf := ch_buf ch @ [e]\<rparr>) (b_chans b i)
      else b_chans b i)"
  by (simp add: delivered_def)

lemma full_delivered_other: "i \<notin> set is \<Longrightarrow> full i (delivered e is b) = full i b"
  by (simp add: full_def delivered_def)

lemma delivered_Cons:
  assumes "i \<notin> set is"
  shows "delivered e is (delivered e [i] b) = delivered e (i # is) b"
proof (rule broadcaster.equality)
  have "full j (delivered e [i] b) = full j b" if "j \<in> set is" for j
    using that assms by (intro full_delivered_other) auto
  then show "b_chans (delivered e is (delivered e [i] b)) = b_chans (delivered e (i # is) b)"
    using assms by (auto simp: delivered_chans fun_eq_iff)
qed (simp_all add: delivered_def)

lemma try_send_open:
  assumes "b_chans b i = Some ch" and "\<not> ch_closed ch"
  shows "try_send e i b = Returns (\<not> full i b, delivered e [i] b)"
  using assms by (auto simp: try_send_def full_def delivered_def fun_eq_iff intro!: broadcaster.equality)

lemma send_all_open:
  assumes "distinct is" and "\<And>i. i \<in> set is \<Longrightarrow> \<exists>ch. b_chans b i = Some ch \<and> \<not> ch_closed ch"
  shows "send_all e is slow b = Returns (slow @ filter (\<lambda>i. full i b) is, delivered e is b)"
  using assms
proof (induction "is" arbitrary: slow b)
  case (Cons i "is")
  obtain ch where ch: "b_chans b i = Some ch" "\<not> ch_closed ch" using Cons.prems(2) by auto
  let ?b = "delivered e [i] b"
  have others: "j \<in> set is \<Longrightarrow> b_chans ?b j = b_chans b j" for j
    using Cons.prems(1) by (auto simp: delivered_def)
  have "filter (\<lambda>j. full j ?b) is = filter (\<lambda>j. full j b) is"
    by (rule filter_cong) (auto simp: full_def others)
  moreover have "send_all e is s ?b = Returns (s @ filter (\<lambda>j. full j ?b) is, delivered e is ?b)" for s
    using Cons.prems by (intro Cons.IH) (auto simp: others)
  ultimately show ?case
    using Cons.prems(1) by (simp add: try_send_open [OF ch] delivered_Cons)
qed simp

lemma drop_slow_spec:
  assumes "b_inv b" and "distinct is" and "set is \<subseteq> set (deploy_subs k b)"
  shows "\<exists>b'. drop_slow k is b = Returns b' \<and> b_inv b' \<and>
    deploy_subs k b' = filter (\<lambda>i. i \<notin> set is) (deploy_subs k b) \<and>
    (\<forall>j. j \<noteq> k \<longrightarrow> deploy_subs j b' = deploy_subs j b) \<and>
    (\<forall>i. b_chans b' i = (if i \<in> set is then map_option (\<lambda>ch. ch\<lparr>ch_closed := True\<rparr>) (b_chans b i)
                         else b_chans b i))"
  using assms
proof (induction "is" arbitrary: b)
  case (Cons i "is")
  have mem: "i \<in> set (deploy_subs k b)" using Cons.prems(3) by simp
  obtain b1 where b1: "remove_and_close k i b = Returns b1"
    using remove_and_close_returns [OF Cons.prems(1) mem] by auto
  note R = remove_and_close_inv [OF Cons.prems(1) mem b1]
  have "set is \<subseteq> set (deploy_subs k b1)" using R Cons.prems(2,3) by auto
  moreover have "b_inv b1" "distinct is" using R Cons.prems(2) by auto
  ultimately obtain b' where b': "drop_slow k is b1 = Returns b'" "b_inv b'"
    "deploy_subs k b' = filter (\<lambda>i. i \<notin> set is) (deploy_subs k b1)"
    "\<forall>j. j \<noteq> k \<longrightarrow> deploy_subs j b' = deploy_subs j b1"
    "\<forall>i. b_chans b' i = (if i \<in> set is then map_option (\<lambda>ch. ch\<lparr>ch_closed := True\<rparr>) (b_chans b1 i)
                         else b_chans b1 i)"
    using Cons.IH [of b1] by blast
  have "deploy_subs k b' = filter (\<lambda>j. j \<notin> set (i # is)) (deploy_subs k b)"
    using b'(3) R by (auto simp: removeAll_filter_not_eq intro: filter_cong)
  moreover have "b_chans b' j = (if j \<in> set (i # is) then map_option (\<lambda>ch. ch\<lparr>ch_closed := True\<rparr>) (b_chans b j)
      else b_chans b j)" for j
    using b'(5) R Cons.prems(2) by (cases "j = i") auto
  ultimately show ?case using b' b1 R mem by auto
qed simp

lemma delivered_inv:
  assumes "b_inv b"
  shows "b_inv (delivered e is b)"
  unfolding delivered_def
  using b_invD(6) [OF assms]
  by (intro b_inv_chans [OF assms]) (auto simp: full_def not_le split: if_splits option.splits)

lemma delivered_subs [simp]: "deploy_subs k (delivered e is b) = deploy_subs k b"
  by (simp add: delivered_def)

lemma Publish_effect:
  assumes "b_inv b" and "subs = deploy_subs (ev_DeployID e) b"
  shows "\<exists>b'. Publish (Some e) b = Returns b' \<and> b_inv b' \<and>
    deploy_subs (ev_DeployID e) b' = filter (\<lambda>i. \<not> full i b) subs \<and>
    (\<forall>k. k \<noteq> ev_DeployID e \<longrightarrow> deploy_subs k b' = deploy_subs k b) \<and>
    (\<forall>i. b_chans b' i =
      (if i \<notin> set subs then b_chans b i
       else if full i b then map_option (\<lambda>ch. ch\<lparr>ch_closed := True\<rparr>) (b_chans b i)
       else map_option (\<lambda>ch. ch\<lparr>ch_buf := ch_buf ch @ [e]\<rparr>) (b_chans b i)))"
proof (cases "subs = []")
  case True
  then show ?thesis using assms by (auto simp: Publish_def)
next
  case False
  let ?b1 = "delivered e subs b" and ?slow = "filter (\<lambda>i. full i b) subs"
  have dist: "distinct subs" using assms b_invD(2) by simp
  have send: "send_all e subs [] b = Returns (?slow, ?b1)"
    using send_all_open [OF dist, of b e "[]"] b_invD(3) [OF assms(1)] assms(2) by simp
  obtain b' where b': "drop_slow (ev_DeployID e) ?slow ?b1 = Returns b'" "b_inv b'"
    "deploy_subs (ev_DeployID e) b' = filter (\<lambda>i. i \<notin> set ?slow) subs"
    "\<forall>k. k \<noteq> ev_DeployID e \<longrightarrow> deploy_subs k b' = deploy_subs k b"
    "\<forall>i. b_chans b' i = (if i \<in> set ?slow then map_option (\<lambda>ch. ch\<lparr>ch_closed := True\<rparr>) (b_chans ?b1 i)
                         else b_chans ?b1 i)"
    using drop_slow_spec [OF delivered_inv [OF assms(1)], of ?slow "ev_DeployID e" e subs] dist assms(2) by auto
  have pub: "Publish (Some e) b = Returns b'"
  proof (cases "?slow = []")
    case True
    then have "drop_slow (ev_DeployID e) ?slow ?b1 = Returns ?b1" by simp
    then show ?thesis using send False assms(2) b'(1) True by (simp add: Publish_def)
  next
    case ne: False
    then show ?thesis using send False assms(2) b'(1) by (simp add: Publish_def)
  qed
  have flt: "filter (\<lambda>i. i \<notin> set ?slow) subs = filter (\<lambda>i. \<not> full i b) subs"
    by (rule filter_cong) auto
  have chans: "b_chans b' i =
      (if i \<notin> set subs then b_chans b i
       else if full i b then map_option (\<lambda>ch. ch\<lparr>ch_closed := True\<rparr>) (b_chans b i)
       else map_option (\<lambda>ch. ch\<lparr>ch_buf := ch_buf ch @ [e]\<rparr>) (b_chans b i))" for i
    using b'(5) by (auto simp: delivered_def)
  show ?thesis using pub b'(2) b'(3) [unfolded flt] b'(4) chans by blast
qed

text \<open>C9.  A \<open>Publish\<close> that nothing interrupts returns (it never panics): every subscriber of
  the event's deploy with room in its buffer gets exactly this event, at the end; the subscribers
  whose buffer is full are unsubscribed and their channels closed with what they hold; subscribers of
  other deploys see nothing.\<close>

theorem Publish_spec:
  assumes "b_inv b" and "subs = deploy_subs (ev_DeployID e) b"
  shows "\<exists>b'. Publish (Some e) b = Returns b' \<and> b_inv b' \<and>
    deploy_subs (ev_DeployID e) b' = filter (\<lambda>i. \<not> full i b) subs \<and>
    (\<forall>k. k \<noteq> ev_DeployID e \<longrightarrow> deploy_subs k b' = deploy_subs k b) \<and>
    (\<forall>i. b_chans b' i =
      (if i \<notin> set subs then b_chans b i
       else if full i b then map_option (\<lambda>ch. ch\<lparr>ch_closed := True\<rparr>) (b_chans b i)
       else map_option (\<lambda>ch. ch\<lparr>ch_buf := ch_buf ch @ [e]\<rparr>) (b_chans b i)))"
  using assms by (rule Publish_effect)

theorem Publish_spec_witness:
  "\<exists>b'. Publish (Some \<lparr>ev_ID = 1, ev_DeployID = 7, ev_Timestamp = 0, ev_Level = [], ev_Step = [], ev_Message = []\<rparr>)
     (snd (Subscribe 7 NewEventBroadcaster)) = Returns b' \<and> deploy_subs 7 b' = [1]"
  using Publish_spec [OF Subscribe_inv [OF NewEventBroadcaster_inv, of 7] refl, of
      "\<lparr>ev_ID = 1, ev_DeployID = 7, ev_Timestamp = 0, ev_Level = [], ev_Step = [], ev_Message = []\<rparr>"]
  by (auto simp: Subscribe_def NewEventBroadcaster_def deploy_subs_def full_def deployEventSubscriberBuffer_def)

section \<open>Interleavings\<close>

text \<open>
  A goroutine inside \<open>Publish\<close>: before the first locked part, at a send (with the targets
  still to serve and the slow ones so far), before the second locked part, or done.  A panic in a
  goroutine ends the process.
\<close>

datatype publisher =
    PubStart deploy_event
  | PubSending deploy_event "int list" "int list"
  | PubCleanup deploy_event "int list"
  | PubDone
  | PubPanic string

fun pub_step :: "publisher \<Rightarrow> broadcaster \<Rightarrow> publisher \<times> broadcaster" where
  "pub_step (PubStart e) b =
     (let targets = deploy_subs (ev_DeployID e) b in
      (if targets = [] then PubDone else PubSending e targets [], b))"
| "pub_step (PubSending e [] slow) b = (if slow = [] then PubDone else PubCleanup e slow, b)"
| "pub_step (PubSending e (i # is) slow) b =
     (case try_send e i b of
        Panics m \<Rightarrow> (PubPanic m, b)
      | Returns (sent, b1) \<Rightarrow> (PubSending e is (if sent then slow else slow @ [i]), b1))"
| "pub_step (PubCleanup e slow) b =
     (case drop_slow (ev_DeployID e) slow b of Panics m \<Rightarrow> (PubPanic m, b) | Returns b1 \<Rightarrow> (PubDone, b1))"
| "pub_step p b = (p, b)"

record broadcaster_system =
  sys_b :: broadcaster
  sys_pubs :: "publisher list"

inductive sys_step :: "broadcaster_system \<Rightarrow> broadcaster_system \<Rightarrow> bool" where
  sys_subscribe: "sys_step s (s\<lparr>sys_b := snd (Subscribe k (sys_b s))\<rparr>)"
| sys_unsubscribe: "unsubscribe k i (sys_b s) = Returns b' \<Longrightarrow> sys_step s (s\<lparr>sys_b := b'\<rparr>)"
| sys_receive: "sys_step s (s\<lparr>sys_b := receive i (sys_b s)\<rparr>)"
| sys_publish: "sys_step s (s\<lparr>sys_pubs := sys_pubs s @ [PubStart e]\<rparr>)"
| sys_run: "j < length (sys_pubs s) \<Longrightarrow> pub_step (sys_pubs s ! j) (sys_b s) = (p, b') \<Longrightarrow>
    sys_step s (s\<lparr>sys_b := b', sys_pubs := (sys_pubs s)[j := p]\<rparr>)"

definition sys_init :: broadcaster_system where
  "sys_init = \<lparr>sys_b = NewEventBroadcaster, sys_pubs = []\<rparr>"

definition sys_reachable :: "broadcaster_system \<Rightarrow> bool" where
  "sys_reachable s \<longleftrightarrow> sys_step\<^sup>*\<^sup>* sys_init s"

lemma b_inv_once [simp]: "b_inv (b\<lparr>b_once := o'\<rparr>) = b_inv b"
  by (simp add: b_inv_def)

lemma unsubscribe_returns:
  assumes "b_inv b"
  shows "\<exists>b'. unsubscribe k i b = Returns b' \<and> b_inv b'"
proof (cases "i \<in> set (b_once b) \<or> i \<notin> set (deploy_subs k b)")
  case True
  then show ?thesis using assms by (auto simp: unsubscribe_def Let_def)
next
  case False
  let ?b1 = "b\<lparr>b_once := i # b_once b\<rparr>"
  have "b_inv ?b1" "i \<in> set (deploy_subs k ?b1)" using assms False by auto
  then obtain b' where "remove_and_close k i ?b1 = Returns b'" "b_inv b'"
    using remove_and_close_returns remove_and_close_inv by blast
  then show ?thesis using False by (auto simp: unsubscribe_def Let_def)
qed

lemma drop_slow_returns: "b_inv b \<Longrightarrow> \<exists>b'. drop_slow k is b = Returns b' \<and> b_inv b'"
proof (induction "is" arbitrary: b)
  case (Cons i "is")
  show ?case
  proof (cases "i \<in> set (deploy_subs k b)")
    case True
    then obtain b1 where "remove_and_close k i b = Returns b1" "b_inv b1"
      using remove_and_close_returns remove_and_close_inv Cons.prems by blast
    then show ?thesis using Cons.IH [of b1] True by simp
  qed (use Cons in simp)
qed simp

text \<open>No publisher has panicked, except on a send to a closed channel.\<close>

definition pub_ok :: "publisher \<Rightarrow> bool" where
  "pub_ok p \<longleftrightarrow> (case p of PubPanic m \<Rightarrow> m = ''send on closed channel'' | _ \<Rightarrow> True)"

lemma pub_step_ok:
  assumes "b_inv b" and "pub_ok p" and "pub_step p b = (p', b')"
  shows "b_inv b' \<and> pub_ok p'"
proof (cases p)
  case (PubSending e targets slow)
  show ?thesis
  proof (cases targets)
    case (Cons i "is")
    show ?thesis
    proof (cases "try_send e i b")
      case (Returns r)
      then show ?thesis using assms PubSending Cons try_send_inv [OF assms(1)]
        by (auto simp: pub_ok_def split: prod.splits)
    next
      case (Panics m)
      then have "m = ''send on closed channel''" by (auto simp: try_send_def split: option.splits if_splits)
      then show ?thesis using assms PubSending Cons Panics by (auto simp: pub_ok_def)
    qed
  qed (use assms PubSending in \<open>auto simp: pub_ok_def\<close>)
next
  case (PubCleanup e slow)
  then show ?thesis using assms drop_slow_returns [OF assms(1), of "ev_DeployID e" slow]
    by (auto simp: pub_ok_def)
qed (use assms in \<open>auto simp: pub_ok_def Let_def\<close>)

lemma sys_step_ok:
  "sys_step s s' \<Longrightarrow> b_inv (sys_b s) \<and> list_all pub_ok (sys_pubs s) \<Longrightarrow>
     b_inv (sys_b s') \<and> list_all pub_ok (sys_pubs s')"
proof (induction rule: sys_step.induct)
  case (sys_unsubscribe k i s b')
  then show ?case using unsubscribe_returns [of "sys_b s" k i] by auto
next
  case (sys_run j s p b')
  have "pub_ok (sys_pubs s ! j)" using sys_run by (simp add: list_all_length)
  then have "b_inv b' \<and> pub_ok p" using sys_run pub_step_ok by blast
  then show ?case using sys_run by (auto simp: list_all_length nth_list_update)
qed (auto simp: Subscribe_inv receive_inv pub_ok_def)

lemma sys_reachable_ok: "sys_reachable s \<Longrightarrow> b_inv (sys_b s) \<and> list_all pub_ok (sys_pubs s)"
  unfolding sys_reachable_def
proof (induction rule: rtranclp_induct)
  case base
  then show ?case by (simp add: sys_init_def NewEventBroadcaster_inv)
next
  case (step s s')
  then show ?case using sys_step_ok by blast
qed

text \<open>C8.  In every state that any interleaving of subscribers, unsubscribers, receivers and
  publishers can reach, the broadcaster's invariant holds, no unsubscribe panics, and the only
  panic a publisher can meet is a send on a closed channel: the two locked parts never panic.\<close>

theorem broadcaster_safe:
  assumes "sys_reachable s"
  shows "b_inv (sys_b s) \<and> (\<exists>b'. unsubscribe k i (sys_b s) = Returns b') \<and>
    (\<forall>p \<in> set (sys_pubs s). \<forall>m. p = PubPanic m \<longrightarrow> m = ''send on closed channel'')"
  using sys_reachable_ok [OF assms] unsubscribe_returns
  by (force simp: list_all_iff pub_ok_def)

theorem broadcaster_safe_witness:
  "b_inv (sys_b sys_init) \<and> (\<exists>b'. unsubscribe 1 1 (sys_b sys_init) = Returns b')"
  using broadcaster_safe [of sys_init 1 1] by (simp add: sys_reachable_def)

text \<open>C10.  That panic can happen: \<open>Publish\<close> has copied the subscribers and released the
  mutex, the one subscriber unsubscribes (its event stream ends) and its channel is closed, and the
  send that follows panics and takes the server down.\<close>

theorem publish_unsubscribe_race:
  "\<exists>s. sys_reachable s \<and> PubPanic ''send on closed channel'' \<in> set (sys_pubs s)"
proof -
  let ?e = "\<lparr>ev_ID = 1, ev_DeployID = 7, ev_Timestamp = 0, ev_Level = [], ev_Step = [], ev_Message = []\<rparr>"
  let ?b0 = NewEventBroadcaster
  let ?b1 = "snd (Subscribe 7 ?b0)"
  obtain b2 where b2: "unsubscribe 7 1 ?b1 = Returns b2" and closed: "try_send ?e 1 b2 = Panics ''send on closed channel''"
    by (simp add: unsubscribe_def Subscribe_def NewEventBroadcaster_def Let_def deploy_subs_def remove_and_close_def
        set_subs_def close_chan_def try_send_def)
  have subs: "deploy_subs 7 ?b1 = [1]" by (simp add: Subscribe_def NewEventBroadcaster_def deploy_subs_def Let_def)
  have "sys_step sys_init \<lparr>sys_b = ?b1, sys_pubs = []\<rparr>"
    using sys_subscribe [of sys_init 7] by (simp add: sys_init_def)
  moreover have "sys_step \<lparr>sys_b = ?b1, sys_pubs = []\<rparr> \<lparr>sys_b = ?b1, sys_pubs = [PubStart ?e]\<rparr>"
    using sys_publish [of "\<lparr>sys_b = ?b1, sys_pubs = []\<rparr>" ?e] by simp
  moreover have "sys_step \<lparr>sys_b = ?b1, sys_pubs = [PubStart ?e]\<rparr> \<lparr>sys_b = ?b1, sys_pubs = [PubSending ?e [1] []]\<rparr>"
    using sys_run [of 0 "\<lparr>sys_b = ?b1, sys_pubs = [PubStart ?e]\<rparr>" "PubSending ?e [1] []" ?b1]
    by (simp add: subs)
  moreover have "sys_step \<lparr>sys_b = ?b1, sys_pubs = [PubSending ?e [1] []]\<rparr> \<lparr>sys_b = b2, sys_pubs = [PubSending ?e [1] []]\<rparr>"
    using sys_unsubscribe [of 7 1 "\<lparr>sys_b = ?b1, sys_pubs = [PubSending ?e [1] []]\<rparr>" b2] b2 by simp
  moreover have "sys_step \<lparr>sys_b = b2, sys_pubs = [PubSending ?e [1] []]\<rparr>
      \<lparr>sys_b = b2, sys_pubs = [PubPanic ''send on closed channel'']\<rparr>"
    using sys_run [of 0 "\<lparr>sys_b = b2, sys_pubs = [PubSending ?e [1] []]\<rparr>" "PubPanic ''send on closed channel''" b2]
      closed by simp
  ultimately have "sys_step\<^sup>*\<^sup>* sys_init \<lparr>sys_b = b2, sys_pubs = [PubPanic ''send on closed channel'']\<rparr>"
    by (meson converse_rtranclp_into_rtranclp rtranclp.rtrancl_refl)
  then show ?thesis unfolding sys_reachable_def
    by (intro exI [of _ "\<lparr>sys_b = b2, sys_pubs = [PubPanic ''send on closed channel'']\<rparr>"]) simp
qed

end
