(* ===== verification/Json.thy ===== *)
theory Json
  imports Go_Prelude
begin

text \<open>
  What the program uses of \<open>encoding/json\<close>: parsing a text into a value, printing values as
  \<open>json.Marshal\<close> does, and looking up the fields of a struct.  A number is kept as its text.
  Bytes from 0x80 on are taken as they are, so the model is about valid UTF-8; the nesting limit of
  the decoder is not modelled.
\<close>

datatype json =
    JNull
  | JBool bool
  | JNum string
  | JStr string
  | JArr "json list"
  | JObj "(string \<times> json) list"

definition json_space :: "char \<Rightarrow> bool" where
  "json_space c \<longleftrightarrow> c = CHR '' '' \<or> c = CHR 0x09 \<or> c = CHR 0x0A \<or> c = CHR 0x0D"

definition skip :: "string \<Rightarrow> string" where
  "skip s = dropWhile json_space s"

section \<open>Strings\<close>

definition hex_digit :: "nat \<Rightarrow> char" where
  "hex_digit n = (if n < 10 then char_of (48 + n) else char_of (87 + n))"

definition hex_val :: "char \<Rightarrow> nat option" where
  "hex_val c =
     (let n = of_char c in
      if 48 \<le> n \<and> n \<le> 57 then Some (n - 48)
      else if 97 \<le> n \<and> n \<le> 102 then Some (n - 87)
      else if 65 \<le> n \<and> n \<le> 70 then Some (n - 55)
      else None)"

fun hex4 :: "string \<Rightarrow> (nat \<times> string) option" where
  "hex4 (a # b # c # d # rest) =
     (case (hex_val a, hex_val b, hex_val c, hex_val d) of
        (Some w, Some x, Some y, Some z) \<Rightarrow> Some (((w * 16 + x) * 16 + y) * 16 + z, rest)
      | _ \<Rightarrow> None)"
| "hex4 _ = None"

text \<open>The UTF-8 bytes of a code point.\<close>

definition utf8 :: "nat \<Rightarrow> string" where
  "utf8 n =
     (if n < 128 then [char_of n]
      else if n < 2048 then [char_of (192 + n div 64), char_of (128 + n mod 64)]
      else if n < 65536 then [char_of (224 + n div 4096), char_of (128 + n div 64 mod 64), char_of (128 + n mod 64)]
      else [char_of (240 + n div 262144), char_of (128 + n div 4096 mod 64), char_of (128 + n div 64 mod 64),
            char_of (128 + n mod 64)])"

text \<open>
  The code point of \<open>\u\<close> followed by four digits: a high surrogate takes a following low one
  with it, any other surrogate is the replacement character.
\<close>

definition unicode_escape :: "nat \<Rightarrow> string \<Rightarrow> string \<times> string" where
  "unicode_escape n rest =
     (if 55296 \<le> n \<and> n \<le> 57343 then
        (case rest of
           CHR 0x5C # CHR ''u'' # rest1 \<Rightarrow>
             (case hex4 rest1 of
                Some (m, rest2) \<Rightarrow>
                  if n \<le> 56319 \<and> 56320 \<le> m \<and> m \<le> 57343
                  then (utf8 (65536 + (n - 55296) * 1024 + (m - 56320)), rest2)
                  else (utf8 65533, rest)
              | None \<Rightarrow> (utf8 65533, rest))
         | _ \<Rightarrow> (utf8 65533, rest))
      else (utf8 n, rest))"

definition simple_escape :: "char \<Rightarrow> char option" where
  "simple_escape c =
     (if c = CHR 0x22 \<or> c = CHR 0x5C \<or> c = CHR ''/'' then Some c
      else if c = CHR ''b'' then Some (CHR 0x08)
      else if c = CHR ''f'' then Some (CHR 0x0C)
      else if c = CHR ''n'' then Some (CHR 0x0A)
      else if c = CHR ''r'' then Some (CHR 0x0D)
      else if c = CHR ''t'' then Some (CHR 0x09)
      else None)"

lemma hex4_length: "hex4 s = Some (n, rest) \<Longrightarrow> length rest < length s"
  by (induction s rule: hex4.induct) (auto split: option.splits)

lemma unicode_escape_length: "unicode_escape n s = (t, rest) \<Longrightarrow> length rest \<le> length s"
  by (auto simp: unicode_escape_def dest!: hex4_length split: if_splits list.splits char.splits bool.splits option.splits)

text \<open>The rest of a string after the opening quote; the result is the string and what follows the
  closing quote.\<close>

function parse_chars :: "string \<Rightarrow> (string \<times> string) option" where
  "parse_chars [] = None"
| "parse_chars (c # cs) =
     (if c = CHR 0x22 then Some ([], cs)
      else if c = CHR 0x5C then
        (case cs of
           [] \<Rightarrow> None
         | e # rest \<Rightarrow>
             if e = CHR ''u'' then
               (case hex4 rest of
                  None \<Rightarrow> None
                | Some (n, rest1) \<Rightarrow>
                    map_option (\<lambda>(s, r). (fst (unicode_escape n rest1) @ s, r)) (parse_chars (snd (unicode_escape n rest1))))
             else
               (case simple_escape e of
                  None \<Rightarrow> None
                | Some x \<Rightarrow> map_option (\<lambda>(s, r). (x # s, r)) (parse_chars rest)))
      else if (of_char c :: nat) < 32 then None
      else map_option (\<lambda>(s, r). (c # s, r)) (parse_chars cs))"
  by pat_completeness auto
termination
  using hex4_length unicode_escape_length
  by (relation "measure length") (auto, metis le_less_trans less_SucI less_Suc_eq less_trans prod.collapse)

declare parse_chars.simps [simp del]

section \<open>Numbers\<close>

definition digits_of :: "string \<Rightarrow> string \<times> string" where
  "digits_of s = (takeWhile is_digit s, dropWhile is_digit s)"

definition scan_int :: "string \<Rightarrow> (string \<times> string) option" where
  "scan_int s =
     (case s of
        [] \<Rightarrow> None
      | c # cs \<Rightarrow>
          if c = CHR ''0'' then Some (''0'', cs)
          else if is_digit c then Some (digits_of s)
          else None)"

definition scan_frac :: "string \<Rightarrow> (string \<times> string) option" where
  "scan_frac s =
     (case s of
        [] \<Rightarrow> Some ([], s)
      | c # cs \<Rightarrow>
          if c = CHR ''.'' then
            (let (ds, rest) = digits_of cs in if ds = [] then None else Some (c # ds, rest))
          else Some ([], s))"

definition scan_exp :: "string \<Rightarrow> (string \<times> string) option" where
  "scan_exp s =
     (case s of
        [] \<Rightarrow> Some ([], s)
      | c # cs \<Rightarrow>
          if c = CHR ''e'' \<or> c = CHR ''E'' then
            (let sign = (if cs \<noteq> [] \<and> (hd cs = CHR ''+'' \<or> hd cs = CHR ''-'') then [hd cs] else []);
                 (ds, rest) = digits_of (drop (length sign) cs)
             in if ds = [] then None else Some (c # sign @ ds, rest))
          else Some ([], s))"

definition scan_number :: "string \<Rightarrow> (string \<times> string) option" where
  "scan_number s =
     (let sign = (if s \<noteq> [] \<and> hd s = CHR ''-'' then ''-'' else []) in
      (case scan_int (drop (length sign) s) of
         None \<Rightarrow> None
       | Some (ip, r1) \<Rightarrow>
           (case scan_frac r1 of
              None \<Rightarrow> None
            | Some (fp, r2) \<Rightarrow>
                (case scan_exp r2 of None \<Rightarrow> None | Some (ep, r3) \<Rightarrow> Some (sign @ ip @ fp @ ep, r3)))))"

section \<open>Values\<close>

text \<open>
  Recursive descent.  The first argument bounds the number of nested calls; twice the length of
  the text is enough, since every two calls consume a character (\<open>Unmarshal\<close>).
\<close>

fun parse_value :: "nat \<Rightarrow> string \<Rightarrow> (json \<times> string) option"
  and parse_elems :: "nat \<Rightarrow> string \<Rightarrow> (json list \<times> string) option"
  and parse_members :: "nat \<Rightarrow> string \<Rightarrow> ((string \<times> json) list \<times> string) option" where
  "parse_value 0 s = None"
| "parse_value (Suc n) s =
     (case skip s of
        [] \<Rightarrow> None
      | c # cs \<Rightarrow>
          if c = CHR 0x22 then map_option (\<lambda>(t, r). (JStr t, r)) (parse_chars cs)
          else if c = CHR ''{'' then
            (if skip cs \<noteq> [] \<and> hd (skip cs) = CHR ''}'' then Some (JObj [], tl (skip cs))
             else map_option (\<lambda>(ms, r). (JObj ms, r)) (parse_members n cs))
          else if c = CHR ''['' then
            (if skip cs \<noteq> [] \<and> hd (skip cs) = CHR '']'' then Some (JArr [], tl (skip cs))
             else map_option (\<lambda>(vs, r). (JArr vs, r)) (parse_elems n cs))
          else if has_prefix (c # cs) ''true'' then Some (JBool True, drop 4 (c # cs))
          else if has_prefix (c # cs) ''false'' then Some (JBool False, drop 5 (c # cs))
          else if has_prefix (c # cs) ''null'' then Some (JNull, drop 4 (c # cs))
          else map_option (\<lambda>(t, r). (JNum t, r)) (scan_number (c # cs)))"
| "parse_elems 0 s = None"
| "parse_elems (Suc n) s =
     (case parse_value n s of
        None \<Rightarrow> None
      | Some (v, r) \<Rightarrow>
          (case skip r of
             [] \<Rightarrow> None
           | c # cs \<Rightarrow>
               if c = CHR '','' then map_option (\<lambda>(vs, r). (v # vs, r)) (parse_elems n cs)
               else if c = CHR '']'' then Some ([v], cs)
               else None))"
| "parse_members 0 s = None"
| "parse_members (Suc n) s =
     (case skip s of
        [] \<Rightarrow> None
      | q # ks \<Rightarrow>
          if q \<noteq> CHR 0x22 then None
          else
            (case parse_chars ks of
               None \<Rightarrow> None
             | Some (k, r) \<Rightarrow>
                 (case skip r of
                    [] \<Rightarrow> None
                  | c # r1 \<Rightarrow>
                      if c \<noteq> CHR '':'' then None
                      else
                        (case parse_value n r1 of
                           None \<Rightarrow> None
                         | Some (v, r2) \<Rightarrow>
                             (case skip r2 of
                                [] \<Rightarrow> None
                              | d # r3 \<Rightarrow>
                                  if d = CHR '','' then map_option (\<lambda>(ms, r). ((k, v) # ms, r)) (parse_members n r3)
                                  else if d = CHR ''}'' then Some ([(k, v)], r3)
                                  else None)))))"

declare parse_value.simps [simp del]

text \<open>\<open>json.Unmarshal\<close> wants the whole text to be one value; a \<open>Decoder\<close> reads the
  first value and leaves the rest.\<close>

definition Unmarshal :: "string \<Rightarrow> json option" where
  "Unmarshal s =
     (case parse_value (2 * length s + 2) s of
        None \<Rightarrow> None
      | Some (v, r) \<Rightarrow> if skip r = [] then Some v else None)"

definition Decode :: "string \<Rightarrow> json option" where
  "Decode s = map_option fst (parse_value (2 * length s + 2) s)"

section \<open>Printing\<close>

definition json_escape :: "char \<Rightarrow> string" where
  "json_escape c =
     (if c = CHR 0x22 then [CHR 0x5C, CHR 0x22]
      else if c = CHR 0x5C then [CHR 0x5C, CHR 0x5C]
      else if c = CHR 0x08 then [CHR 0x5C, CHR ''b'']
      else if c = CHR 0x0C then [CHR 0x5C, CHR ''f'']
      else if c = CHR 0x0A then [CHR 0x5C, CHR ''n'']
      else if c = CHR 0x0D then [CHR 0x5C, CHR ''r'']
      else if c = CHR 0x09 then [CHR 0x5C, CHR ''t'']
      else if (of_char c :: nat) < 32 \<or> c = CHR ''<'' \<or> c = CHR ''>'' \<or> c = CHR ''&'' then
        [CHR 0x5C, CHR ''u'', CHR ''0'', CHR ''0'', hex_digit (of_char c div 16), hex_digit (of_char c mod 16)]
      else [c])"

definition json_string :: "string \<Rightarrow> string" where
  "json_string s = [CHR 0x22] @ concat (map json_escape s) @ [CHR 0x22]"

fun json_print :: "json \<Rightarrow> string" where
  "json_print JNull = ''null''"
| "json_print (JBool b) = (if b then ''true'' else ''false'')"
| "json_print (JNum t) = t"
| "json_print (JStr s) = json_string s"
| "json_print (JArr vs) = ''['' @ join '','' (map json_print vs) @ '']''"
| "json_print (JObj ms) = ''{'' @ join '','' (map (\<lambda>(k, v). json_string k @ '':'' @ json_print v) ms) @ ''}''"

section \<open>Fields of a struct\<close>

text \<open>
  The decoder gives a struct field the value of every key that equals its name up to case, in
  turn.  A \<open>null\<close> leaves a field that is not a pointer, slice or map as it is; a value of
  another kind than the field's is an error.
\<close>

definition field_values :: "string \<Rightarrow> (string \<times> json) list \<Rightarrow> json list" where
  "field_values name ms = map snd (filter (\<lambda>(k, v). equal_fold k name) ms)"

fun decode_into :: "('a \<Rightarrow> json \<Rightarrow> 'a option) \<Rightarrow> 'a \<Rightarrow> json list \<Rightarrow> 'a option" where
  "decode_into f x [] = Some x"
| "decode_into f x (v # vs) = (case f x v of None \<Rightarrow> None | Some y \<Rightarrow> decode_into f y vs)"

fun into_string :: "string \<Rightarrow> json \<Rightarrow> string option" where
  "into_string x (JStr s) = Some s"
| "into_string x JNull = Some x"
| "into_string x _ = None"

fun into_int :: "int \<Rightarrow> json \<Rightarrow> int option" where
  "into_int x (JNum t) = parse_int64 t"
| "into_int x JNull = Some x"
| "into_int x _ = None"

fun into_bool :: "bool \<Rightarrow> json \<Rightarrow> bool option" where
  "into_bool x (JBool b) = Some b"
| "into_bool x JNull = Some x"
| "into_bool x _ = None"

fun into_opt_string :: "string option \<Rightarrow> json \<Rightarrow> string option option" where
  "into_opt_string x (JStr s) = Some (Some s)"
| "into_opt_string x JNull = Some None"
| "into_opt_string x _ = None"

fun into_opt_int :: "int option \<Rightarrow> json \<Rightarrow> int option option" where
  "into_opt_int x (JNum t) = map_option Some (parse_int64 t)"
| "into_opt_int x JNull = Some None"
| "into_opt_int x _ = None"

text \<open>A nested struct, whose fields of all occurrences are decoded in turn; the elements of a slice,
  which the last occurrence replaces.\<close>

fun into_object :: "(string \<times> json) list \<Rightarrow> json \<Rightarrow> (string \<times> json) list option" where
  "into_object x (JObj ms) = Some (x @ ms)"
| "into_object x JNull = Some x"
| "into_object x _ = None"

fun into_list :: "json list \<Rightarrow> json \<Rightarrow> json list option" where
  "into_list x (JArr vs) = Some vs"
| "into_list x JNull = Some []"
| "into_list x _ = None"

definition string_field :: "string \<Rightarrow> (string \<times> json) list \<Rightarrow> string option" where
  "string_field name ms = decode_into into_string [] (field_values name ms)"

definition int_field :: "string \<Rightarrow> (string \<times> json) list \<Rightarrow> int option" where
  "int_field name ms = decode_into into_int 0 (field_values name ms)"

definition bool_field :: "string \<Rightarrow> (string \<times> json) list \<Rightarrow> bool option" where
  "bool_field name ms = decode_into into_bool False (field_values name ms)"

definition opt_string_field :: "string \<Rightarrow> (string \<times> json) list \<Rightarrow> string option option" where
  "opt_string_field name ms = decode_into into_opt_string None (field_values name ms)"

definition opt_int_field :: "string \<Rightarrow> (string \<times> json) list \<Rightarrow> int option option" where
  "opt_int_field name ms = decode_into into_opt_int None (field_values name ms)"

definition object_field :: "string \<Rightarrow> (string \<times> json) list \<Rightarrow> (string \<times> json) list option" where
  "object_field name ms = decode_into into_object [] (field_values name ms)"

definition list_field :: "string \<Rightarrow> (string \<times> json) list \<Rightarrow> json list option" where
  "list_field name ms = decode_into into_list [] (field_values name ms)"

text \<open>A \<open>map[string]string\<close>: later entries of a key replace earlier ones, a \<open>null\<close>
  value is the empty string, and a \<open>null\<close> map is the empty one.\<close>

fun string_elems :: "(string \<times> json) list \<Rightarrow> (string \<times> string) list option" where
  "string_elems [] = Some []"
| "string_elems ((k, JStr s) # ms) = map_option (\<lambda>r. (k, s) # r) (string_elems ms)"
| "string_elems ((k, JNull) # ms) = map_option (\<lambda>r. (k, []) # r) (string_elems ms)"
| "string_elems (_ # ms) = None"

fun into_string_map :: "(string \<times> string) list \<Rightarrow> json \<Rightarrow> (string \<times> string) list option" where
  "into_string_map x (JObj ms) = map_option (\<lambda>es. put_all es x) (string_elems ms)"
| "into_string_map x JNull = Some []"
| "into_string_map x _ = None"

definition string_map_field :: "string \<Rightarrow> (string \<times> json) list \<Rightarrow> (string \<times> string) list option" where
  "string_map_field name ms = decode_into into_string_map [] (field_values name ms)"

definition json_object :: "json \<Rightarrow> (string \<times> json) list option" where
  "json_object j = (case j of JObj ms \<Rightarrow> Some ms | JNull \<Rightarrow> Some [] | _ \<Rightarrow> None)"

end
