(* ===== verification/Project_Detection.thy ===== *)
theory Project_Detection
  imports Json
begin

text \<open>
  \<open>internal/builder/detect\<close>: which kind of project a cloned repository is, and how to build
  and start it.  A source tree is the list of its files, each with its path below the root as a
  list of names, and its contents.
\<close>

type_synonym source_tree = "(string list \<times> string) list"

record build_plan =
  bp_Provider :: string
  bp_Runtime :: string
  bp_Install :: "string list"
  bp_Build :: "string list"
  bp_StartCommand :: string
  bp_Port :: int
  bp_OutputDir :: string
  bp_BinaryName :: string
  bp_StaticDir :: string
  bp_BuildTarget :: string

definition empty_plan :: build_plan where
  "empty_plan =
     \<lparr>bp_Provider = [], bp_Runtime = [], bp_Install = [], bp_Build = [], bp_StartCommand = [], bp_Port = 0,
      bp_OutputDir = [], bp_BinaryName = [], bp_StaticDir = [], bp_BuildTarget = []\<rparr>"

text \<open>\<open>os.Stat\<close> of a name below the root succeeds for a file and for a directory.\<close>

definition fileExists :: "source_tree \<Rightarrow> string \<Rightarrow> bool" where
  "fileExists tree name = list_ex (\<lambda>(path, _). path \<noteq> [] \<and> hd path = name) tree"

definition read_file :: "source_tree \<Rightarrow> string \<Rightarrow> string option" where
  "read_file tree name = map_of tree [name]"

text \<open>
  The lines a \<open>bufio.Scanner\<close> delivers: without the line feed and one carriage return before
  it, no empty last line, and none from the first line on that does not fit its 64 KiB buffer.
\<close>

definition drop_cr :: "string \<Rightarrow> string" where
  "drop_cr l = (if l \<noteq> [] \<and> last l = CHR 0x0D then butlast l else l)"

definition scan_lines :: "string \<Rightarrow> string list" where
  "scan_lines s =
     (let ls = split_char (CHR 0x0A) s;
          ls1 = (if last ls = [] then butlast ls else ls)
      in map drop_cr (takeWhile (\<lambda>l. length l < 65536) ls1))"

section \<open>Regular expressions of the package\<close>

text \<open>\<open>\s\<close> of a regular expression; the digits of \<open>\d+\<close> are matched greedily.\<close>

definition re_space :: "char \<Rightarrow> bool" where
  "re_space c \<longleftrightarrow> c = CHR '' '' \<or> c \<in> set [CHR 0x09, CHR 0x0A, CHR 0x0C, CHR 0x0D]"

definition re_digits :: "string \<Rightarrow> string option" where
  "re_digits s = (case takeWhile is_digit s of [] \<Rightarrow> None | d # ds \<Rightarrow> Some (d # ds))"

definition strip_prefix :: "string \<Rightarrow> string \<Rightarrow> string option" where
  "strip_prefix p s = (if has_prefix s p then Some (drop (length p) s) else None)"

text \<open>The leftmost match of a pattern: the first suffix at which it matches.\<close>

fun leftmost :: "(string \<Rightarrow> 'a option) \<Rightarrow> string \<Rightarrow> 'a option" where
  "leftmost m [] = m []"
| "leftmost m (c # cs) = (case m (c # cs) of Some x \<Rightarrow> Some x | None \<Rightarrow> leftmost m cs)"

text \<open>\<open>(?:-p|--port)\s+(\d+)\<close>\<close>

definition flag_value :: "string \<Rightarrow> string \<Rightarrow> string option" where
  "flag_value flag s =
     (case strip_prefix flag s of
        None \<Rightarrow> None
      | Some r \<Rightarrow> if r \<noteq> [] \<and> re_space (hd r) then re_digits (dropWhile re_space r) else None)"

definition portFlagRe :: "string \<Rightarrow> string option" where
  "portFlagRe s =
     leftmost (\<lambda>t. case flag_value ''-p'' t of Some d \<Rightarrow> Some d | None \<Rightarrow> flag_value ''--port'' t) s"

text \<open>An XML element with a number in it: an opening tag, \<open>(\d+)\<close>, a closing tag.\<close>

definition element_number :: "string \<Rightarrow> string \<Rightarrow> string option" where
  "element_number tag s =
     leftmost (\<lambda>t.
       case strip_prefix (''<'' @ tag @ ''>'') t of
         None \<Rightarrow> None
       | Some r \<Rightarrow>
           (case re_digits r of
              None \<Rightarrow> None
            | Some ds \<Rightarrow> if has_prefix (drop (length ds) r) (''</'' @ tag @ ''>'') then Some ds else None)) s"

text \<open>A Gradle setting: the name, \<open>\s*=\s*\<close>, an optional quote, \<open>(\d+)\<close>.\<close>

definition gradle_setting :: "string \<Rightarrow> string \<Rightarrow> string option" where
  "gradle_setting name s =
     leftmost (\<lambda>t.
       case strip_prefix name t of
         None \<Rightarrow> None
       | Some r \<Rightarrow>
           (case dropWhile re_space r of
              [] \<Rightarrow> None
            | c # cs \<Rightarrow>
                if c \<noteq> CHR ''='' then None
                else
                  (let v = dropWhile re_space cs;
                       v1 = (if v \<noteq> [] \<and> (hd v = CHR 0x22 \<or> hd v = CHR 0x27) then tl v else v)
                   in re_digits v1))) s"

section \<open>Static sites (static.go)\<close>

definition static_Detect :: "source_tree \<Rightarrow> bool" where
  "static_Detect tree \<longleftrightarrow>
     fileExists tree ''index.html'' \<and>
     \<not> list_ex (fileExists tree) [''package.json'', ''go.mod'', ''pom.xml'', ''build.gradle'', ''build.gradle.kts'']"

definition static_Plan :: "source_tree \<Rightarrow> go_error + build_plan" where
  "static_Plan tree =
     Inr (empty_plan\<lparr>bp_Provider := ''static'', bp_Runtime := ''nginx:alpine'', bp_Port := 80, bp_StaticDir := ''.''\<rparr>)"

section \<open>Node and Bun (node.go)\<close>

record package_json =
  pkg_Main :: string
  pkg_Scripts :: "(string \<times> string) list"
  pkg_Dependencies :: "(string \<times> string) list"
  pkg_DevDependencies :: "(string \<times> string) list"

definition decode_package :: "string \<Rightarrow> package_json option" where
  "decode_package text =
     Option.bind (Unmarshal text) (\<lambda>j.
     Option.bind (json_object j) (\<lambda>ms.
     Option.bind (string_field ''main'' ms) (\<lambda>main.
     Option.bind (string_map_field ''scripts'' ms) (\<lambda>scripts.
     Option.bind (string_map_field ''dependencies'' ms) (\<lambda>deps.
     Option.bind (string_map_field ''devDependencies'' ms) (\<lambda>dev.
     Option.bind (string_map_field ''engines'' ms) (\<lambda>_.
     Some \<lparr>pkg_Main = main, pkg_Scripts = scripts, pkg_Dependencies = deps, pkg_DevDependencies = dev\<rparr>)))))))"

definition parsePackageJSON :: "source_tree \<Rightarrow> go_error + package_json" where
  "parsePackageJSON tree =
     (case read_file tree ''package.json'' of
        None \<Rightarrow> Inl (ErrText ''open package.json: no such file or directory'')
      | Some text \<Rightarrow>
          (case decode_package text of None \<Rightarrow> Inl (ErrText ''invalid package.json'') | Some pkg \<Rightarrow> Inr pkg))"

text \<open>A key that occurs twice in a JSON object counts with its last value.\<close>

definition lookup_last :: "string \<Rightarrow> (string \<times> string) list \<Rightarrow> string option" where
  "lookup_last k kvs = map_of (rev kvs) k"

definition has_key :: "string \<Rightarrow> (string \<times> string) list \<Rightarrow> bool" where
  "has_key k kvs \<longleftrightarrow> lookup_last k kvs \<noteq> None"

definition nodePackageManager :: "source_tree \<Rightarrow> bool \<Rightarrow> string" where
  "nodePackageManager tree isBun =
     (if isBun then ''bun''
      else if fileExists tree ''pnpm-lock.yaml'' then ''pnpm''
      else if fileExists tree ''yarn.lock'' then ''yarn''
      else ''npm'')"

definition nodeInstallCmd :: "source_tree \<Rightarrow> bool \<Rightarrow> string" where
  "nodeInstallCmd tree isBun =
     (if isBun then ''bun install --frozen-lockfile''
      else if fileExists tree ''pnpm-lock.yaml'' then ''corepack enable && pnpm install --frozen-lockfile''
      else if fileExists tree ''yarn.lock'' then ''corepack enable && yarn install --frozen-lockfile''
      else if fileExists tree ''package-lock.json'' then ''npm ci''
      else ''npm install'')"

text \<open>\<open>strconv.Atoi\<close> with its error dropped: a number out of range is the largest one.\<close>

definition parsePortFromCmd :: "string \<Rightarrow> int" where
  "parsePortFromCmd command =
     (case portFlagRe command of None \<Rightarrow> 0 | Some ds \<Rightarrow> min (int (digits_val ds)) max_int64)"

text \<open>Only the keys of the merged dependencies are used.\<close>

definition mergeDeps :: "package_json \<Rightarrow> (string \<times> string) list" where
  "mergeDeps pkg = pkg_Dependencies pkg @ pkg_DevDependencies pkg"

definition nodeStartMain :: "package_json \<Rightarrow> string" where
  "nodeStartMain pkg = (if pkg_Main pkg \<noteq> [] then ''node '' @ pkg_Main pkg else ''node index.js'')"

definition hasServerDep :: "(string \<times> string) list \<Rightarrow> bool" where
  "hasServerDep deps = list_ex (\<lambda>k. has_key k deps) [''express'', ''fastify'', ''hono'', ''koa'', ''@hono/node-server'']"

definition detectStartCommand :: "string \<Rightarrow> package_json \<Rightarrow> string \<times> int" where
  "detectStartCommand pm pkg =
     (case lookup_last ''start'' (pkg_Scripts pkg) of
        Some startCmd \<Rightarrow>
          (let port = parsePortFromCmd startCmd in if port > 0 then (startCmd, port) else (startCmd, 3000))
      | None \<Rightarrow>
          (let allDeps = mergeDeps pkg in
           if has_key ''next'' allDeps then (pm @ '' next start'', 3000)
           else if has_key ''nuxt'' allDeps then (''node .output/server/index.mjs'', 3000)
           else if has_key ''@angular/core'' allDeps then (pm @ '' ng serve --host 0.0.0.0'', 4200)
           else if has_key ''vite'' allDeps \<and> \<not> hasServerDep allDeps then ([], 80)
           else if hasServerDep allDeps then (nodeStartMain pkg, 3000)
           else if pkg_Main pkg \<noteq> [] then (''node '' @ pkg_Main pkg, 3000)
           else (''node index.js'', 3000)))"

definition node_Detect :: "source_tree \<Rightarrow> bool" where
  "node_Detect tree = fileExists tree ''package.json''"

definition node_Plan :: "source_tree \<Rightarrow> go_error + build_plan" where
  "node_Plan tree =
     (case parsePackageJSON tree of
        Inl e \<Rightarrow> Inl (Wrap ''parse package.json'' e)
      | Inr pkg \<Rightarrow>
          (let isBun = (fileExists tree ''bun.lockb'' \<or> fileExists tree ''bunfig.toml'');
               pm = nodePackageManager tree isBun;
               (startCmd, port) = detectStartCommand pm pkg
           in Inr (empty_plan
                \<lparr>bp_Provider := ''node'',
                 bp_Runtime := (if isBun then ''oven/bun:1-alpine'' else ''node:22-alpine''),
                 bp_Install := [nodeInstallCmd tree isBun],
                 bp_Build := (if has_key ''build'' (pkg_Scripts pkg) then [pm @ '' run build''] else []),
                 bp_StartCommand := startCmd,
                 bp_Port := port\<rparr>)))"

section \<open>Java (java.go)\<close>

fun first_some :: "('a \<Rightarrow> 'b option) \<Rightarrow> 'a list \<Rightarrow> 'b option" where
  "first_some f [] = None"
| "first_some f (x # xs) = (case f x of Some y \<Rightarrow> Some y | None \<Rightarrow> first_some f xs)"

definition java_version_in_line :: "string \<Rightarrow> string \<Rightarrow> string option" where
  "java_version_in_line filename line =
     (if has_suffix filename ''.xml'' then
        (case element_number ''java.version'' line of
           Some v \<Rightarrow> Some v
         | None \<Rightarrow> element_number ''maven.compiler.source'' line)
      else
        (case gradle_setting ''sourceCompatibility'' line of
           Some v \<Rightarrow> Some v
         | None \<Rightarrow> gradle_setting ''languageVersion'' line))"

definition detectJavaVersion :: "source_tree \<Rightarrow> string \<Rightarrow> string" where
  "detectJavaVersion tree filename =
     (case read_file tree filename of
        None \<Rightarrow> ''21''
      | Some text \<Rightarrow>
          (case first_some (java_version_in_line filename) (scan_lines text) of Some v \<Rightarrow> v | None \<Rightarrow> ''21''))"

definition java_Detect :: "source_tree \<Rightarrow> bool" where
  "java_Detect tree \<longleftrightarrow>
     fileExists tree ''pom.xml'' \<or> fileExists tree ''build.gradle'' \<or> fileExists tree ''build.gradle.kts''"

definition java_Plan :: "source_tree \<Rightarrow> go_error + build_plan" where
  "java_Plan tree =
     (let plan = empty_plan\<lparr>bp_Provider := ''java'', bp_Port := 8080, bp_StartCommand := ''java -jar app.jar''\<rparr> in
      if fileExists tree ''pom.xml'' then
        Inr (plan
          \<lparr>bp_Runtime := ''eclipse-temurin:'' @ detectJavaVersion tree ''pom.xml'' @ ''-jdk-alpine'',
           bp_Install := [''mvn dependency:go-offline -B''],
           bp_Build := [''mvn package -DskipTests -B''],
           bp_OutputDir := ''target/*.jar''\<rparr>)
      else
        (let gradleFile = (if fileExists tree ''build.gradle.kts'' then ''build.gradle.kts'' else ''build.gradle'') in
         Inr (plan
           \<lparr>bp_Runtime := ''eclipse-temurin:'' @ detectJavaVersion tree gradleFile @ ''-jdk-alpine'',
            bp_Install := [''gradle dependencies || true''],
            bp_Build := [''gradle build -x test''],
            bp_OutputDir := ''build/libs/*.jar''\<rparr>)))"

section \<open>Go (go.go)\<close>

definition module_line :: "string \<Rightarrow> string option" where
  "module_line l =
     (let line = trim_space l in
      if has_prefix line ''module '' then Some (trim_space (trim_prefix line ''module'')) else None)"

definition parseModuleName :: "source_tree \<Rightarrow> string" where
  "parseModuleName tree =
     (case read_file tree ''go.mod'' of
        None \<Rightarrow> []
      | Some text \<Rightarrow> (case first_some module_line (scan_lines text) of Some m \<Rightarrow> m | None \<Rightarrow> []))"

definition moduleName :: "string \<Rightarrow> string" where
  "moduleName path = (if path = [] then [] else last (split_char (CHR ''/'') path))"

text \<open>The loop of \<open>hasPackageMain\<close> over at most 50 lines.\<close>

fun package_main_lines :: "nat \<Rightarrow> string list \<Rightarrow> bool" where
  "package_main_lines 0 ls = False"
| "package_main_lines (Suc n) [] = False"
| "package_main_lines (Suc n) (l # ls) =
     (let line = trim_space l in
      if line = ''package main'' then True
      else if line \<noteq> [] \<and> \<not> has_prefix line ''//'' \<and> \<not> has_prefix line ''/*'' \<and> \<not> has_prefix line ''*''
        \<and> has_prefix line ''package '' then False
      else package_main_lines n ls)"

definition hasPackageMain :: "string \<Rightarrow> bool" where
  "hasPackageMain contents = package_main_lines 50 (scan_lines contents)"

text \<open>
  \<open>filepath.Walk\<close> visits the files in the order of their lists of names.  A directory called
  \<open>vendor\<close> or with a leading dot is not entered; a path with more than three separators is
  not looked at.
\<close>

definition skipped_dir :: "string \<Rightarrow> bool" where
  "skipped_dir n \<longleftrightarrow> n = ''vendor'' \<or> (n \<noteq> [] \<and> hd n = CHR ''.'')"

definition walked :: "string list \<Rightarrow> bool" where
  "walked path \<longleftrightarrow> path \<noteq> [] \<and> length path \<le> 4 \<and> \<not> list_ex skipped_dir (butlast path)"

definition go_source :: "string \<Rightarrow> bool" where
  "go_source name \<longleftrightarrow> has_suffix name ''.go'' \<and> \<not> has_suffix name ''_test.go''"

text \<open>The directories (relative to the root, as lists of names) in the order of their first main
  file.\<close>

definition findMainPackages :: "source_tree \<Rightarrow> string list list" where
  "findMainPackages tree =
     rev (remdups (rev (map (\<lambda>(path, _). butlast path)
       (filter (\<lambda>(path, contents). walked path \<and> go_source (last path) \<and> hasPackageMain contents)
         (sort_key fst tree)))))"

text \<open>\<open>filepath.Rel(root, d)\<close>.\<close>

definition rel_path :: "string list \<Rightarrow> string" where
  "rel_path d = (if d = [] then ''.'' else join ''/'' d)"

definition detectGoMainTarget :: "source_tree \<Rightarrow> string" where
  "detectGoMainTarget tree =
     (let lastSeg = moduleName (parseModuleName tree);
          mainDirs = findMainPackages tree;
          cmdDirs = sort (filter (\<lambda>rel. has_prefix rel ''cmd'') (map rel_path mainDirs))
      in
      (case mainDirs of
         [] \<Rightarrow> ''./...''
       | d0 # _ \<Rightarrow>
           (case cmdDirs of
              c0 # _ \<Rightarrow>
                (case (if lastSeg \<noteq> [] then List.find (\<lambda>d. path_base d = lastSeg) cmdDirs else None) of
                   Some d \<Rightarrow> ''./'' @ d
                 | None \<Rightarrow> ''./'' @ c0)
            | [] \<Rightarrow> if [] \<in> set mainDirs then ''.'' else ''./'' @ rel_path d0)))"

definition go_Detect :: "source_tree \<Rightarrow> bool" where
  "go_Detect tree = fileExists tree ''go.mod''"

definition go_Plan :: "source_tree \<Rightarrow> go_error + build_plan" where
  "go_Plan tree =
     (let binaryName = moduleName (parseModuleName tree) in
      Inr (empty_plan
        \<lparr>bp_Provider := ''go'', bp_Runtime := ''golang:1.25-alpine'',
         bp_BinaryName := (if binaryName = [] then ''server'' else binaryName),
         bp_Port := 8080, bp_BuildTarget := detectGoMainTarget tree\<rparr>))"

section \<open>The providers and their order (detect.go, provider.go)\<close>

datatype provider = StaticProvider | NodeProvider | GoProvider | JavaProvider

fun provider_Name :: "provider \<Rightarrow> string" where
  "provider_Name StaticProvider = ''static''"
| "provider_Name NodeProvider = ''node''"
| "provider_Name GoProvider = ''go''"
| "provider_Name JavaProvider = ''java''"

fun provider_Detect :: "provider \<Rightarrow> source_tree \<Rightarrow> bool" where
  "provider_Detect StaticProvider = static_Detect"
| "provider_Detect NodeProvider = node_Detect"
| "provider_Detect GoProvider = go_Detect"
| "provider_Detect JavaProvider = java_Detect"

fun provider_Plan :: "provider \<Rightarrow> source_tree \<Rightarrow> go_error + build_plan" where
  "provider_Plan StaticProvider = static_Plan"
| "provider_Plan NodeProvider = node_Plan"
| "provider_Plan GoProvider = go_Plan"
| "provider_Plan JavaProvider = java_Plan"

definition providers :: "provider list" where
  "providers = [StaticProvider, NodeProvider, GoProvider, JavaProvider]"

definition Detect :: "source_tree \<Rightarrow> go_error + build_plan" where
  "Detect tree =
     (case List.find (\<lambda>p. provider_Detect p tree) providers of
        Some p \<Rightarrow> wrap_err (''provider '' @ provider_Name p) (provider_Plan p tree)
      | None \<Rightarrow> Inl (ErrText
          ''unsupported project type: no package.json, go.mod, pom.xml, build.gradle, or index.html found''))"

definition providerMap :: "(string \<times> provider) list" where
  "providerMap =
     [(''static'', StaticProvider), (''node'', NodeProvider), (''go'', GoProvider), (''java'', JavaProvider)]"

definition DetectAs :: "source_tree \<Rightarrow> string \<Rightarrow> go_error + build_plan" where
  "DetectAs tree forceProvider =
     (if forceProvider = [] then Detect tree
      else
        (case map_of providerMap forceProvider of
           None \<Rightarrow> Inl (ErrText (''unknown project type '' @ [CHR 0x22] @ forceProvider @ [CHR 0x22]))
         | Some p \<Rightarrow> provider_Plan p tree))"

end
