(* ===== verification/Dockerfile_Gen.thy ===== *)
theory Dockerfile_Gen
  imports Project_Detection
begin

text \<open>
  \<open>internal/builder/detect/dockerfile.go\<close>: the Dockerfile for a build plan.  A template
  action \<open>{{index .Install 0}}\<close> on an empty list stops the execution of the template, whose
  output so far is kept (the error is dropped), so a template is a list of chunks, the last of
  which may be such a stop.
\<close>

definition quote_arg :: "string \<Rightarrow> string" where
  "quote_arg a = [CHR 0x22] @ a @ [CHR 0x22]"

definition cmdToJSON :: "string \<Rightarrow> string" where
  "cmdToJSON command =
     (if command = [] then ''['' @ quote_arg ''sh'' @ '']''
      else ''['' @ join '', '' (map quote_arg (str_fields command)) @ '']'')"

text \<open>The output of a template: its text, or the text up to the action that failed.\<close>

datatype template_out = Complete string | Stopped string

fun then_text :: "template_out \<Rightarrow> string \<Rightarrow> template_out" where
  "then_text (Complete s) t = Complete (s @ t)"
| "then_text (Stopped s) t = Stopped s"

fun then_index0 :: "template_out \<Rightarrow> string list \<Rightarrow> template_out" where
  "then_index0 (Complete s) (x # xs) = Complete (s @ x)"
| "then_index0 (Complete s) [] = Stopped s"
| "then_index0 (Stopped s) xs = Stopped s"

fun output_text :: "template_out \<Rightarrow> string" where
  "output_text (Complete s) = s"
| "output_text (Stopped s) = s"

definition lines :: "string list \<Rightarrow> string" where
  "lines ls = concat (map (\<lambda>l. l @ [CHR 0x0A]) ls)"

definition expose_and_cmd :: "build_plan \<Rightarrow> string list" where
  "expose_and_cmd plan =
     [''EXPOSE '' @ itoa (bp_Port plan), ''CMD '' @ cmdToJSON (bp_StartCommand plan)]"

definition staticDockerfileTmpl :: "build_plan \<Rightarrow> template_out" where
  "staticDockerfileTmpl plan = Complete (lines
     [''FROM nginx:alpine'', ''COPY . /usr/share/nginx/html'', ''EXPOSE '' @ itoa (bp_Port plan)])"

definition nodeDockerfileTmpl :: "build_plan \<Rightarrow> template_out" where
  "nodeDockerfileTmpl plan =
     then_text
       (then_index0
         (Complete (lines [''FROM '' @ bp_Runtime plan, ''WORKDIR /app'', ''COPY package*.json ./''] @ ''RUN ''))
         (bp_Install plan))
       (lines ([[], ''COPY . .''] @ expose_and_cmd plan))"

definition nodeBuildDockerfileTmpl :: "build_plan \<Rightarrow> template_out" where
  "nodeBuildDockerfileTmpl plan =
     then_text
       (then_index0
         (then_text
           (then_index0
             (Complete (lines [''FROM '' @ bp_Runtime plan @ '' AS builder'', ''WORKDIR /app'', ''COPY package*.json ./'']
               @ ''RUN ''))
             (bp_Install plan))
           (lines [[], ''COPY . .''] @ ''RUN ''))
         (bp_Build plan))
       (lines
         ([[], [], ''FROM '' @ bp_Runtime plan, ''WORKDIR /app'', ''COPY package*.json ./''] @
          (if bp_Runtime plan = ''node:22-alpine'' then [''RUN npm ci --omit=dev''] else []) @
          [''COPY --from=builder /app/dist ./dist'', ''COPY --from=builder /app/.next ./.next'',
           ''COPY --from=builder /app/.output ./.output'', ''COPY --from=builder /app/build ./build''] @
          expose_and_cmd plan))"

definition bunDockerfileTmpl :: "build_plan \<Rightarrow> template_out" where
  "bunDockerfileTmpl plan = Complete (lines
     ([''FROM oven/bun:1-alpine AS builder'', ''WORKDIR /app'', ''COPY bun.lockb package.json ./'',
       ''RUN bun install --frozen-lockfile'', ''COPY . .''] @
      (case bp_Build plan of [] \<Rightarrow> [] | b # _ \<Rightarrow> [''RUN '' @ b]) @
      [[], ''FROM oven/bun:1-alpine'', ''WORKDIR /app'', ''COPY --from=builder /app .''] @ expose_and_cmd plan))"

definition goDockerfileTmpl :: "build_plan \<Rightarrow> template_out" where
  "goDockerfileTmpl plan = Complete (lines
     [''FROM golang:1.25-alpine AS builder'', ''WORKDIR /app'', ''COPY go.mod go.sum ./'', ''RUN go mod download'',
      ''COPY . .'',
      ''RUN CGO_ENABLED=0 go build -p=1 -ldflags='' @ quote_arg ''-s -w'' @ '' -o /'' @ bp_BinaryName plan @ '' '' @
        bp_BuildTarget plan,
      [],
      ''FROM alpine:3.23'', ''RUN apk --no-cache add ca-certificates'', ''WORKDIR /app'',
      ''COPY --from=builder /'' @ bp_BinaryName plan @ '' .'',
      ''EXPOSE '' @ itoa (bp_Port plan),
      ''CMD ['' @ quote_arg (''./'' @ bp_BinaryName plan) @ '']''])"

definition mavenDockerfileTmpl :: "build_plan \<Rightarrow> template_out" where
  "mavenDockerfileTmpl plan = Complete (lines
     [''FROM '' @ bp_Runtime plan @ '' AS builder'', ''WORKDIR /app'', ''COPY pom.xml .'',
      ''RUN mvn dependency:go-offline -B'', ''COPY src ./src'', ''RUN mvn package -DskipTests -B'',
      [],
      ''FROM eclipse-temurin:21-jre-alpine'', ''WORKDIR /app'', ''COPY --from=builder /app/target/*.jar app.jar'',
      ''EXPOSE '' @ itoa (bp_Port plan),
      ''CMD ['' @ join '', '' (map quote_arg [''java'', ''-jar'', ''app.jar'']) @ '']''])"

definition gradleDockerfileTmpl :: "build_plan \<Rightarrow> template_out" where
  "gradleDockerfileTmpl plan = Complete (lines
     [''FROM '' @ bp_Runtime plan @ '' AS builder'', ''WORKDIR /app'', ''COPY build.gradle* gradle* ./'',
      ''COPY gradle ./gradle'', ''RUN gradle dependencies || true'', ''COPY src ./src'',
      ''RUN gradle build -x test'',
      [],
      ''FROM eclipse-temurin:21-jre-alpine'', ''WORKDIR /app'', ''COPY --from=builder /app/build/libs/*.jar app.jar'',
      ''EXPOSE '' @ itoa (bp_Port plan),
      ''CMD ['' @ join '', '' (map quote_arg [''java'', ''-jar'', ''app.jar'']) @ '']''])"

definition dockerfile_template :: "build_plan \<Rightarrow> template_out option" where
  "dockerfile_template plan =
     (if bp_Provider plan = ''static'' then Some (staticDockerfileTmpl plan)
      else if bp_Provider plan = ''node'' then
        (if bp_Runtime plan = ''oven/bun:1-alpine'' then Some (bunDockerfileTmpl plan)
         else if bp_Build plan \<noteq> [] then Some (nodeBuildDockerfileTmpl plan)
         else Some (nodeDockerfileTmpl plan))
      else if bp_Provider plan = ''go'' then Some (goDockerfileTmpl plan)
      else if bp_Provider plan = ''java'' then
        (if bp_Install plan \<noteq> [] \<and> hd (bp_Install plan) = ''mvn dependency:go-offline -B''
         then Some (mavenDockerfileTmpl plan)
         else Some (gradleDockerfileTmpl plan))
      else None)"

definition GenerateDockerfile :: "build_plan \<Rightarrow> string" where
  "GenerateDockerfile plan = (case dockerfile_template plan of None \<Rightarrow> [] | Some t \<Rightarrow> output_text t)"

end
