(* ===== verification/Json_Roundtrip.thy ===== *)
theory Json_Roundtrip
  imports Json
begin

text \<open>Parsing what the encoder printed gives the value back.\<close>

section \<open>Strings\<close>

lemma hex_val_hex_digit: "n < 16 \<Longrightarrow> hex_val (hex_digit n) = Some n"
  by (auto simp: hex_val_def hex_digit_def Let_def)

lemma hex4_escape: "n < 256 \<Longrightarrow>
    hex4 (CHR ''0'' # CHR ''0'' # hex_digit (n div 16) # hex_digit (n mod 16) # rest) = Some (n, rest)"
proof -
  assume "n < 256"
  then have "hex_val (hex_digit (n div 16)) = Some (n div 16)" "hex_val (hex_digit (n mod 16)) = Some (n mod 16)"
    by (auto intro!: hex_val_hex_digit)
  moreover have "hex_val (CHR ''0'') = Some 0" by (simp add: hex_val_def)
  ultimately show ?thesis by simp
qed

lemma unicode_escape_ascii: "n < 128 \<Longrightarrow> unicode_escape n rest = ([char_of n], rest)"
  by (simp add: unicode_escape_def utf8_def)

lemma simple_escape_facts:
  "simple_escape (CHR 0x22) = Some (CHR 0x22)" "simple_escape (CHR 0x5C) = Some (CHR 0x5C)"
  "simple_escape (CHR ''b'') = Some (CHR 0x08)" "simple_escape (CHR ''f'') = Some (CHR 0x0C)"
  "simple_escape (CHR ''n'') = Some (CHR 0x0A)" "simple_escape (CHR ''r'') = Some (CHR 0x0D)"
  "simple_escape (CHR ''t'') = Some (CHR 0x09)"
  by (simp_all add: simple_escape_def)

lemma parse_chars_simple:
  "simple_escape e = Some x \<Longrightarrow> e \<noteq> CHR ''u'' \<Longrightarrow>
     parse_chars (CHR 0x5C # e # t) = map_option (\<lambda>(s, r). (x # s, r)) (parse_chars t)"
  by (subst parse_chars.simps) simp

lemma parse_chars_unicode:
  "n < 128 \<Longrightarrow>
     parse_chars (CHR 0x5C # CHR ''u'' # CHR ''0'' # CHR ''0'' # hex_digit (n div 16) # hex_digit (n mod 16) # t) =
       map_option (\<lambda>(s, r). (char_of n # s, r)) (parse_chars t)"
  by (subst parse_chars.simps) (simp add: hex4_escape unicode_escape_ascii del: hex4.simps)

lemma parse_chars_plain:
  "c \<noteq> CHR 0x22 \<Longrightarrow> c \<noteq> CHR 0x5C \<Longrightarrow> \<not> (of_char c :: nat) < 32 \<Longrightarrow>
     parse_chars (c # t) = map_option (\<lambda>(s, r). (c # s, r)) (parse_chars t)"
  by (subst parse_chars.simps) simp

lemma parse_chars_escape:
  "parse_chars (json_escape c @ t) = map_option (\<lambda>(s, r). (c # s, r)) (parse_chars t)"
proof -
  have small: "(of_char c :: nat) < 128" if "(of_char c :: nat) < 32 \<or> c = CHR ''<'' \<or> c = CHR ''>'' \<or> c = CHR ''&''"
    using that by auto
  show ?thesis
    using parse_chars_unicode [OF small, of t]
    by (auto simp: json_escape_def parse_chars_simple simple_escape_facts parse_chars_plain)
qed

lemma parse_chars_string:
  "parse_chars (concat (map json_escape s) @ CHR 0x22 # rest) = Some (s, rest)"
proof (induction s)
  case Nil
  show ?case by (simp add: parse_chars.simps)
next
  case (Cons c s)
  then show ?case by (simp add: parse_chars_escape)
qed

section \<open>Numbers\<close>

text \<open>What may follow a number: nothing, or a character that cannot continue it.\<close>

definition ends_number :: "string \<Rightarrow> bool" where
  "ends_number s \<longleftrightarrow> s = [] \<or> (\<not> is_digit (hd s) \<and> hd s \<noteq> CHR ''.'' \<and> hd s \<noteq> CHR ''e'' \<and> hd s \<noteq> CHR ''E'')"

lemma digits_of_append:
  "list_all is_digit ds \<Longrightarrow> rest = [] \<or> \<not> is_digit (hd rest) \<Longrightarrow> digits_of (ds @ rest) = (ds, rest)"
  by (induction ds) (auto simp: digits_of_def dropWhile_id_hd intro: takeWhile_eq_Nil_iff [THEN iffD2])

lemma nat_digits_zero: "nat_digits 0 = ''0''"
  by code_simp

lemma digit_char_nonzero: "0 < n \<Longrightarrow> n < 10 \<Longrightarrow> digit_char n \<noteq> CHR ''0''"
proof
  assume "0 < n" "n < 10" "digit_char n = CHR ''0''"
  then have "(of_char (digit_char n) :: nat) = 48" by simp
  with \<open>0 < n\<close> \<open>n < 10\<close> show False by (simp add: of_char_digit)
qed

lemma nat_digits_hd_nonzero: "0 < n \<Longrightarrow> hd (nat_digits n) \<noteq> CHR ''0''"
proof (induction n rule: nat_digits.induct)
  case (1 n)
  show ?case
  proof (cases "n < 10")
    case True
    then show ?thesis using 1 digit_char_nonzero by (subst nat_digits.simps) simp
  next
    case False
    then have "hd (nat_digits (n div 10)) \<noteq> CHR ''0''" using 1 by simp
    then show ?thesis using False by (subst nat_digits.simps) simp
  qed
qed

lemma scan_int_nat_digits:
  assumes "ends_number rest"
  shows "scan_int (nat_digits n @ rest) = Some (nat_digits n, rest)"
proof (cases "n = 0")
  case True
  then show ?thesis by (simp add: nat_digits_zero scan_int_def)
next
  case False
  obtain c cs where d: "nat_digits n = c # cs" by (cases "nat_digits n") auto
  have c: "is_digit c" "c \<noteq> CHR ''0''"
    using nat_digits_hd [of n] nat_digits_hd_nonzero [of n] False d by auto
  have "digits_of (nat_digits n @ rest) = (nat_digits n, rest)"
    using nat_digits_are_digits assms by (intro digits_of_append) (auto simp: ends_number_def)
  with c d show ?thesis by (simp add: scan_int_def)
qed

lemma scan_frac_none: "ends_number rest \<Longrightarrow> scan_frac rest = Some ([], rest)"
  by (cases rest) (auto simp: ends_number_def scan_frac_def)

lemma scan_exp_none: "ends_number rest \<Longrightarrow> scan_exp rest = Some ([], rest)"
  by (cases rest) (auto simp: ends_number_def scan_exp_def)

lemma scan_number_itoa:
  assumes "ends_number rest"
  shows "scan_number (itoa i @ rest) = Some (itoa i, rest)"
proof -
  have "hd (nat_digits n) \<noteq> CHR ''-''" for n using nat_digits_hd [of n] not_is_digit(1) by metis
  then show ?thesis
    using assms by (auto simp: scan_number_def itoa_def scan_int_nat_digits scan_frac_none scan_exp_none)
qed

section \<open>Values\<close>

text \<open>The values the program prints: the numbers in them are integers.\<close>

fun json_wf :: "json \<Rightarrow> bool" where
  "json_wf (JNum t) = (\<exists>i. t = itoa i)"
| "json_wf (JArr vs) = (\<forall>v \<in> set vs. json_wf v)"
| "json_wf (JObj ms) = (\<forall>m \<in> set ms. json_wf (snd m))"
| "json_wf _ = True"

fun json_size :: "json \<Rightarrow> nat" where
  "json_size (JArr vs) = 1 + sum_list (map (\<lambda>v. json_size v + 2) vs)"
| "json_size (JObj ms) = 1 + sum_list (map (\<lambda>m. json_size (snd m) + 2) ms)"
| "json_size _ = 0"

lemma skip_Cons: "\<not> json_space c \<Longrightarrow> skip (c # s) = c # s"
  by (simp add: skip_def)

lemma itoa_first: "\<exists>c cs. itoa i = c # cs \<and> (c = CHR ''-'' \<or> is_digit c)"
proof -
  obtain c cs where "itoa i = c # cs" by (cases "itoa i") auto
  then show ?thesis using itoa_chars [of c i] by simp
qed

lemma not_space [simp]:
  "\<not> json_space (CHR 0x22)" "\<not> json_space (CHR ''{'')" "\<not> json_space (CHR ''['')" "\<not> json_space (CHR ''t'')"
  "\<not> json_space (CHR ''f'')" "\<not> json_space (CHR ''n'')" "\<not> json_space (CHR '','')" "\<not> json_space (CHR '':'')"
  "\<not> json_space (CHR ''}'')" "\<not> json_space (CHR '']'')" "\<not> json_space (CHR ''-'')"
  by (simp_all add: json_space_def)

lemma digit_first:
  assumes "c = CHR ''-'' \<or> is_digit c"
  shows "\<not> json_space c" "c \<noteq> CHR 0x22" "c \<noteq> CHR ''{''" "c \<noteq> CHR ''[''" "c \<noteq> CHR ''t''" "c \<noteq> CHR ''f''"
    "c \<noteq> CHR ''n''" "c \<noteq> CHR '']''" "c \<noteq> CHR ''}''"
  using assms by (auto simp: json_space_def is_digit_def)

lemma parse_value_number:
  assumes "\<not> json_space c" "c \<noteq> CHR 0x22" "c \<noteq> CHR ''{''" "c \<noteq> CHR ''[''"
    "\<not> has_prefix (c # cs) ''true''" "\<not> has_prefix (c # cs) ''false''" "\<not> has_prefix (c # cs) ''null''"
  shows "parse_value (Suc n) (c # cs) = map_option (\<lambda>(t, r). (JNum t, r)) (scan_number (c # cs))"
proof -
  have "parse_value (Suc n) (c # cs) =
      (if has_prefix (c # cs) ''true'' then Some (JBool True, drop 4 (c # cs))
       else if has_prefix (c # cs) ''false'' then Some (JBool False, drop 5 (c # cs))
       else if has_prefix (c # cs) ''null'' then Some (JNull, drop 4 (c # cs))
       else map_option (\<lambda>(t, r). (JNum t, r)) (scan_number (c # cs)))"
    by (subst parse_value.simps, subst skip_Cons [OF assms(1)], subst list.case, subst if_not_P [OF assms(2)],
        subst if_not_P [OF assms(3)], subst if_not_P [OF assms(4)]) (rule refl)
  with assms(5-7) show ?thesis by presburger
qed

lemma parse_value_JNum:
  assumes "ends_number rest"
  shows "parse_value (Suc n) (itoa i @ rest) = Some (JNum (itoa i), rest)"
proof -
  obtain c cs where c: "itoa i = c # cs" "c = CHR ''-'' \<or> is_digit c" using itoa_first by blast
  note d = digit_first [OF c(2)]
  have np: "\<not> has_prefix (c # cs @ rest) ''true''" "\<not> has_prefix (c # cs @ rest) ''false''"
    "\<not> has_prefix (c # cs @ rest) ''null''"
    using d by (simp_all add: has_prefix_def)
  have "scan_number (c # cs @ rest) = Some (c # cs, rest)"
    using scan_number_itoa [OF assms, of i] unfolding c(1) by simp
  then show ?thesis
    using parse_value_number [OF d(1-4) np, of n] unfolding c(1) by simp
qed

lemma parse_value_quote:
  "parse_value (Suc n) (CHR 0x22 # cs) = map_option (\<lambda>(t, r). (JStr t, r)) (parse_chars cs)"
  by (subst parse_value.simps, subst skip_Cons [OF not_space(1)], subst list.case, subst if_P [OF refl], rule refl)

lemma parse_value_brace:
  "parse_value (Suc n) (CHR ''{'' # cs) =
     (if skip cs \<noteq> [] \<and> hd (skip cs) = CHR ''}'' then Some (JObj [], tl (skip cs))
      else map_option (\<lambda>(ms, r). (JObj ms, r)) (parse_members n cs))"
  by (subst parse_value.simps, subst skip_Cons [OF not_space(2)], subst list.case, subst if_not_P, simp,
      subst if_P [OF refl], rule refl)

lemma parse_value_bracket:
  "parse_value (Suc n) (CHR ''['' # cs) =
     (if skip cs \<noteq> [] \<and> hd (skip cs) = CHR '']'' then Some (JArr [], tl (skip cs))
      else map_option (\<lambda>(vs, r). (JArr vs, r)) (parse_elems n cs))"
  by (subst parse_value.simps, subst skip_Cons [OF not_space(3)], subst list.case, subst if_not_P, simp,
      subst if_not_P, simp, subst if_P [OF refl], rule refl)

lemma parse_value_literals:
  "parse_value (Suc n) (''true'' @ rest) = Some (JBool True, rest)"
  "parse_value (Suc n) (''false'' @ rest) = Some (JBool False, rest)"
  "parse_value (Suc n) (''null'' @ rest) = Some (JNull, rest)"
proof -
  have lit: "parse_value (Suc n) (c # cs) =
      (if has_prefix (c # cs) ''true'' then Some (JBool True, drop 4 (c # cs))
       else if has_prefix (c # cs) ''false'' then Some (JBool False, drop 5 (c # cs))
       else if has_prefix (c # cs) ''null'' then Some (JNull, drop 4 (c # cs))
       else map_option (\<lambda>(t, r). (JNum t, r)) (scan_number (c # cs)))"
    if "\<not> json_space c" "c \<noteq> CHR 0x22" "c \<noteq> CHR ''{''" "c \<noteq> CHR ''[''" for c cs
    by (subst parse_value.simps, subst skip_Cons [OF that(1)], subst list.case, subst if_not_P [OF that(2)],
        subst if_not_P [OF that(3)], subst if_not_P [OF that(4)]) (rule refl)
  show "parse_value (Suc n) (''true'' @ rest) = Some (JBool True, rest)"
    using lit [of "CHR ''t''" "''rue'' @ rest"] by (simp add: has_prefix_def)
  show "parse_value (Suc n) (''false'' @ rest) = Some (JBool False, rest)"
    using lit [of "CHR ''f''" "''alse'' @ rest"] by (simp add: has_prefix_def)
  show "parse_value (Suc n) (''null'' @ rest) = Some (JNull, rest)"
    using lit [of "CHR ''n''" "''ull'' @ rest"] by (simp add: has_prefix_def)
qed

lemma parse_value_JStr: "parse_value (Suc n) (json_string t @ rest) = Some (JStr t, rest)"
  by (simp add: json_string_def parse_value_quote parse_chars_string)

text \<open>No printed value starts with white space or a closing bracket, or is empty.\<close>

lemma json_print_first:
  "json_wf v \<Longrightarrow> \<exists>c cs. json_print v = c # cs \<and> \<not> json_space c \<and> c \<noteq> CHR '']'' \<and> c \<noteq> CHR ''}''"
proof (cases v)
  case (JNum t)
  assume "json_wf v"
  then obtain i where "t = itoa i" using JNum by auto
  moreover obtain c cs where c: "itoa i = c # cs" "c = CHR ''-'' \<or> is_digit c" using itoa_first by blast
  ultimately have "json_print v = c # cs" using JNum by simp
  with digit_first [OF c(2)] show ?thesis by blast
qed (auto simp: json_string_def)

lemma elems_roundtrip:
  assumes "\<And>v n rest. v \<in> set vs \<Longrightarrow> json_size v < n \<Longrightarrow> ends_number rest \<Longrightarrow>
      parse_value n (json_print v @ rest) = Some (v, rest)"
    and "vs \<noteq> []" and "sum_list (map (\<lambda>v. json_size v + 2) vs) \<le> n"
  shows "parse_elems n (join '','' (map json_print vs) @ CHR '']'' # rest) = Some (vs, rest)"
  using assms
proof (induction vs arbitrary: n)
  case (Cons v vs)
  obtain m where m: "n = Suc m" "json_size v < m" "sum_list (map (\<lambda>v. json_size v + 2) vs) \<le> m"
    using Cons.prems(3) by (cases n) auto
  show ?case
  proof (cases vs)
    case Nil
    have "parse_value m (json_print v @ CHR '']'' # rest) = Some (v, CHR '']'' # rest)"
      by (rule Cons.prems(1)) (use m in \<open>auto simp: ends_number_def is_digit_def\<close>)
    then show ?thesis using Nil m by (simp add: skip_Cons)
  next
    case (Cons u us)
    let ?tail = "join '','' (map json_print vs) @ CHR '']'' # rest"
    have "parse_value m (json_print v @ CHR '','' # ?tail) = Some (v, CHR '','' # ?tail)"
      by (rule Cons.prems(1)) (use m in \<open>auto simp: ends_number_def is_digit_def\<close>)
    moreover have "parse_elems m ?tail = Some (vs, rest)"
      by (rule Cons.IH) (use Cons.prems(1) Cons m in auto)
    ultimately show ?thesis using Cons m by (simp add: skip_Cons)
  qed
qed simp

definition print_member :: "string \<times> json \<Rightarrow> string" where
  "print_member m = json_string (fst m) @ '':'' @ json_print (snd m)"

lemma print_member_pair: "print_member (k, v) = CHR 0x22 # concat (map json_escape k) @ CHR 0x22 # CHR '':'' # json_print v"
  by (simp add: print_member_def json_string_def)

lemma members_roundtrip:
  assumes "\<And>v n rest. v \<in> snd ` set ms \<Longrightarrow> json_size v < n \<Longrightarrow> ends_number rest \<Longrightarrow>
      parse_value n (json_print v @ rest) = Some (v, rest)"
    and "ms \<noteq> []" and "sum_list (map (\<lambda>m. json_size (snd m) + 2) ms) \<le> n"
  shows "parse_members n (join '','' (map print_member ms) @ CHR ''}'' # rest) = Some (ms, rest)"
  using assms
proof (induction ms arbitrary: n)
  case (Cons kv ms)
  obtain k v where kv: "kv = (k, v)" by (cases kv)
  obtain m where m: "n = Suc m" "json_size v < m" "sum_list (map (\<lambda>m. json_size (snd m) + 2) ms) \<le> m"
    using Cons.prems(3) kv by (cases n) auto
  show ?case
  proof (cases ms)
    case Nil
    have "parse_value m (json_print v @ CHR ''}'' # rest) = Some (v, CHR ''}'' # rest)"
      by (rule Cons.prems(1)) (use m kv in \<open>auto simp: ends_number_def is_digit_def\<close>)
    then show ?thesis using Nil m kv
      by (simp add: skip_Cons print_member_pair parse_chars_string)
  next
    case (Cons u us)
    let ?tail = "join '','' (map print_member ms) @ CHR ''}'' # rest"
    have "parse_value m (json_print v @ CHR '','' # ?tail) = Some (v, CHR '','' # ?tail)"
      by (rule Cons.prems(1)) (use m kv in \<open>auto simp: ends_number_def is_digit_def\<close>)
    moreover have "parse_members m ?tail = Some (ms, rest)"
      by (rule Cons.IH) (use Cons.prems(1) Cons m in auto)
    ultimately show ?thesis using Cons m kv
      by (simp add: skip_Cons print_member_pair parse_chars_string)
  qed
qed simp

section \<open>The round trip\<close>

lemma print_obj: "json_print (JObj ms) = CHR ''{'' # join '','' (map print_member ms) @ ''}''"
proof -
  have "(\<lambda>(k, v). json_string k @ '':'' @ json_print v) = print_member"
    by (rule ext) (simp add: print_member_def split: prod.split)
  then show ?thesis by simp
qed

lemma join_first:
  "xs \<noteq> [] \<Longrightarrow> hd xs = c # cs \<Longrightarrow> \<exists>t. join sep xs = c # t"
  by (induction sep xs rule: join.induct) auto

lemma parse_value_print:
  "json_wf v \<Longrightarrow> json_size v < n \<Longrightarrow> ends_number rest \<Longrightarrow> parse_value n (json_print v @ rest) = Some (v, rest)"
proof (induction v arbitrary: n rest)
  case (JNum t)
  then obtain i m where "t = itoa i" "n = Suc m" by (cases n) auto
  then show ?case using parse_value_JNum [OF JNum.prems(3)] by simp
next
  case (JArr vs)
  then obtain m where m: "n = Suc m" "sum_list (map (\<lambda>v. json_size v + 2) vs) \<le> m" by (cases n) auto
  show ?case
  proof (cases "vs = []")
    case False
    let ?t = "join '','' (map json_print vs) @ CHR '']'' # rest"
    have "parse_elems m ?t = Some (vs, rest)"
      by (rule elems_roundtrip [OF _ False m(2)]) (use JArr in auto)
    moreover obtain c cs where "json_print (hd vs) = c # cs" "\<not> json_space c" "c \<noteq> CHR '']''"
      using json_print_first [of "hd vs"] JArr.prems(1) False by auto
    then have "skip ?t = ?t" "?t \<noteq> []" "hd ?t \<noteq> CHR '']''"
      using join_first [of "map json_print vs" c cs "'',''"] False by (auto simp: hd_map skip_Cons)
    ultimately show ?thesis using m by (simp add: parse_value_bracket)
  qed (simp add: m parse_value_bracket skip_Cons)
next
  case (JObj ms)
  then obtain m where m: "n = Suc m" "sum_list (map (\<lambda>m. json_size (snd m) + 2) ms) \<le> m" by (cases n) auto
  show ?case
  proof (cases "ms = []")
    case False
    let ?t = "join '','' (map print_member ms) @ CHR ''}'' # rest"
    have "parse_members m ?t = Some (ms, rest)"
      by (rule members_roundtrip [OF _ False m(2)]) (use JObj in fastforce)
    moreover obtain cs where "print_member (hd ms) = CHR 0x22 # cs"
      using print_member_pair [of "fst (hd ms)" "snd (hd ms)"] by simp
    then have "skip ?t = ?t" "?t \<noteq> []" "hd ?t \<noteq> CHR ''}''"
      using join_first [of "map print_member ms" "CHR 0x22" cs "'',''"] False by (auto simp: hd_map skip_Cons)
    ultimately show ?thesis using m by (simp add: parse_value_brace print_obj del: json_print.simps)
  qed (simp add: m parse_value_brace skip_Cons)
qed (auto simp: parse_value_JStr parse_value_literals [simplified] gr0_conv_Suc dest!: less_imp_Suc_add)

lemma join_length:
  "xs \<noteq> [] \<Longrightarrow> length (join [c] xs) + 1 = sum_list (map (\<lambda>x. length x + 1) xs)"
proof (induction "[c]" xs rule: join.induct)
  case (3 x y ys)
  then show ?case by simp
qed auto

lemma sum_list_bound:
  fixes f g :: "'a \<Rightarrow> nat"
  shows "(\<And>x. x \<in> set xs \<Longrightarrow> f x \<le> 2 * g x) \<Longrightarrow>
     sum_list (map (\<lambda>x. f x + 2) xs) \<le> 2 * sum_list (map (\<lambda>x. g x + 1) xs)"
proof (induction xs)
  case (Cons x xs)
  have "f x \<le> 2 * g x" using Cons.prems by simp
  moreover have "sum_list (map (\<lambda>x. f x + 2) xs) \<le> 2 * sum_list (map (\<lambda>x. g x + 1) xs)"
    using Cons by simp
  moreover have "a + 2 + s \<le> 2 * (b + 1 + t)" if "a \<le> 2 * b" "s \<le> 2 * t" for a b s t :: nat using that by simp
  ultimately show ?case unfolding list.map sum_list.Cons by blast
qed simp

lemma json_size_bound: "json_size v \<le> 2 * length (json_print v)"
proof (induction v)
  case (JArr vs)
  show ?case
  proof (cases "vs = []")
    case False
    have "sum_list (map (\<lambda>v. json_size v + 2) vs) \<le> 2 * sum_list (map (\<lambda>v. length (json_print v) + 1) vs)"
      by (rule sum_list_bound) (use JArr in auto)
    moreover have "length (join '','' (map json_print vs)) + 1 = sum_list (map (\<lambda>v. length (json_print v) + 1) vs)"
      using join_length [of "map json_print vs" "CHR '',''"] False by (simp add: comp_def)
    moreover have "length (json_print (JArr vs)) = length (join '','' (map json_print vs)) + 2" by simp
    ultimately show ?thesis unfolding json_size.simps by linarith
  qed simp
next
  case (JObj ms)
  show ?case
  proof (cases "ms = []")
    case False
    have "json_size (snd m) \<le> 2 * length (print_member m)" if "m \<in> set ms" for m
      using JObj [of m "snd m"] that by (cases m) (simp add: print_member_def)
    then have "sum_list (map (\<lambda>m. json_size (snd m) + 2) ms) \<le> 2 * sum_list (map (\<lambda>m. length (print_member m) + 1) ms)"
      by (rule sum_list_bound)
    moreover have "length (join '','' (map print_member ms)) + 1 = sum_list (map (\<lambda>m. length (print_member m) + 1) ms)"
      using join_length [of "map print_member ms" "CHR '',''"] False by (simp add: comp_def)
    moreover have "length (json_print (JObj ms)) = length (join '','' (map print_member ms)) + 2"
      unfolding print_obj by simp
    ultimately show ?thesis unfolding json_size.simps by linarith
  qed simp
qed simp_all

lemma Decode_print: "json_wf v \<Longrightarrow> ends_number rest \<Longrightarrow> Decode (json_print v @ rest) = Some v"
  using json_size_bound [of v] by (simp add: Decode_def parse_value_print)

text \<open>Unmarshalling what \<open>Marshal\<close> printed gives the value back, for every value built
  from texts (with any bytes), integers, booleans, null, arrays and objects.\<close>

lemma Unmarshal_print: "json_wf v \<Longrightarrow> Unmarshal (json_print v) = Some v"
  using json_size_bound [of v] parse_value_print [of v "2 * length (json_print v) + 2" "[]"]
  by (simp add: Unmarshal_def ends_number_def skip_def)

end
