(* ===== verification/Detection_Claims.thy ===== *)
theory Detection_Claims
  imports Dockerfile_Gen Json_Roundtrip
begin

text \<open>
  The contract of a provider and what follows for the detection and for the Dockerfiles: the
  first provider that matches decides, its plan carries its name and a usable port, and the
  Dockerfile of such a plan is a complete one.
\<close>

section \<open>The provider interface (provider.go)\<close>

locale plan_provider =
  fixes name :: string
    and detects :: "source_tree \<Rightarrow> bool"
    and plan :: "source_tree \<Rightarrow> go_error + build_plan"
  assumes plan_name: "plan t = Inr p \<Longrightarrow> bp_Provider p = name"
    and plan_port: "plan t = Inr p \<Longrightarrow> 0 < bp_Port p \<and> bp_Port p \<le> max_int64"
    and plan_template: "plan t = Inr p \<Longrightarrow> \<exists>s. dockerfile_template p = Some (Complete s)"
begin

lemma plan_usable:
  "plan t = Inr p \<Longrightarrow>
     bp_Provider p = name \<and> 0 < bp_Port p \<and> bp_Port p \<le> max_int64 \<and>
     (\<exists>s. dockerfile_template p = Some (Complete s) \<and> GenerateDockerfile p = s)"
  using plan_name plan_port plan_template [of t p] by (auto simp: GenerateDockerfile_def)

end

lemma parsePortFromCmd_range: "0 \<le> parsePortFromCmd c \<and> parsePortFromCmd c \<le> max_int64"
  by (auto simp: parsePortFromCmd_def max_int64_def split: option.split)

lemma detectStartCommand_port:
  "0 < snd (detectStartCommand pm pkg) \<and> snd (detectStartCommand pm pkg) \<le> max_int64"
  using parsePortFromCmd_range
  by (auto simp: detectStartCommand_def Let_def max_int64_def split: option.split)

interpretation static: plan_provider "provider_Name StaticProvider" "provider_Detect StaticProvider"
  "provider_Plan StaticProvider"
  by unfold_locales
     (auto simp: static_Plan_def empty_plan_def dockerfile_template_def staticDockerfileTmpl_def max_int64_def)

lemma node_plan_fields:
  assumes "node_Plan t = Inr p"
  shows "bp_Provider p = ''node''" and "bp_Install p \<noteq> []" and "\<exists>pm pkg. bp_Port p = snd (detectStartCommand pm pkg)"
  using assms by (auto simp: node_Plan_def Let_def empty_plan_def split: sum.splits prod.splits) (metis snd_conv)

interpretation node: plan_provider "provider_Name NodeProvider" "provider_Detect NodeProvider"
  "provider_Plan NodeProvider"
proof
  fix t p
  assume "provider_Plan NodeProvider t = Inr p"
  then have p: "node_Plan t = Inr p" by simp
  note f = node_plan_fields [OF p]
  show "bp_Provider p = provider_Name NodeProvider" using f(1) by simp
  show "0 < bp_Port p \<and> bp_Port p \<le> max_int64" using f(3) detectStartCommand_port by metis
  obtain i "is" where "bp_Install p = i # is" using f(2) by (cases "bp_Install p") auto
  then show "\<exists>s. dockerfile_template p = Some (Complete s)"
    using f(1) by (auto simp: dockerfile_template_def bunDockerfileTmpl_def nodeBuildDockerfileTmpl_def
        nodeDockerfileTmpl_def neq_Nil_conv)
qed

interpretation go: plan_provider "provider_Name GoProvider" "provider_Detect GoProvider" "provider_Plan GoProvider"
  by unfold_locales
     (auto simp: go_Plan_def Let_def empty_plan_def dockerfile_template_def goDockerfileTmpl_def max_int64_def)

interpretation java: plan_provider "provider_Name JavaProvider" "provider_Detect JavaProvider"
  "provider_Plan JavaProvider"
  by unfold_locales
     (auto simp: java_Plan_def Let_def empty_plan_def dockerfile_template_def mavenDockerfileTmpl_def
        gradleDockerfileTmpl_def max_int64_def split: if_splits)

lemma every_plan_usable:
  "provider_Plan q t = Inr p \<Longrightarrow>
     bp_Provider p = provider_Name q \<and> 0 < bp_Port p \<and> bp_Port p \<le> max_int64 \<and>
     (\<exists>s. dockerfile_template p = Some (Complete s) \<and> GenerateDockerfile p = s)"
  by (cases q) (use static.plan_usable node.plan_usable go.plan_usable java.plan_usable in metis)+

section \<open>Detection\<close>

lemma Detect_Inr:
  "Detect t = Inr p \<longleftrightarrow>
     (\<exists>q. List.find (\<lambda>q. provider_Detect q t) providers = Some q \<and> provider_Plan q t = Inr p)"
  by (auto simp: Detect_def split: option.splits)


text \<open>A configured project type overrides detection: its provider plans the build even when
  another provider would match, and an unknown type is an error.\<close>

theorem DetectAs_forced:
  "DetectAs t (provider_Name q) = provider_Plan q t \<and>
   (name \<notin> provider_Name ` set providers \<and> name \<noteq> [] \<longrightarrow> \<not> is_ok (DetectAs t name))"
  by (cases q) (auto simp: DetectAs_def providerMap_def providers_def)

theorem DetectAs_forced_witness:
  "DetectAs [] (provider_Name StaticProvider) = provider_Plan StaticProvider [] \<and> \<not> is_ok (DetectAs [] ''ruby'')"
  using DetectAs_forced [of "[]" StaticProvider "''ruby''"] by (simp add: providers_def)

definition static_tree :: source_tree where
  "static_tree = [([''index.html''], ''hi'')]"


section \<open>The CMD instruction\<close>

text \<open>An argument that needs no escape in JSON.\<close>

definition plain_arg :: "string \<Rightarrow> bool" where
  "plain_arg a \<longleftrightarrow> (\<forall>c \<in> set a. c \<noteq> CHR 0x22 \<and> c \<noteq> CHR 0x5C \<and> 32 \<le> (of_char c :: nat))"

lemma parse_chars_plain_arg: "plain_arg a \<Longrightarrow> parse_chars (a @ CHR 0x22 # rest) = Some (a, rest)"
proof (induction a)
  case Nil
  show ?case by (simp add: parse_chars.simps)
next
  case (Cons c a)
  then show ?case by (simp add: plain_arg_def parse_chars_plain not_less)
qed

lemma parse_value_quote_arg:
  "plain_arg a \<Longrightarrow> parse_value (Suc n) (quote_arg a @ rest) = Some (JStr a, rest)"
  by (simp add: quote_arg_def parse_value_quote parse_chars_plain_arg)

lemma parse_value_skip: "json_space c \<Longrightarrow> parse_value n (c # s) = parse_value n s"
  by (cases n) (simp_all add: parse_value.simps skip_def)

lemma parse_elems_skip: "json_space c \<Longrightarrow> parse_elems n (c # s) = parse_elems n s"
  by (cases n) (simp_all add: parse_value_skip)

lemma parse_elems_quoted:
  "as \<noteq> [] \<Longrightarrow> \<forall>a \<in> set as. plain_arg a \<Longrightarrow> length as < n \<Longrightarrow>
     parse_elems n (join '', '' (map quote_arg as) @ CHR '']'' # rest) = Some (map JStr as, rest)"
proof (induction as arbitrary: n)
  case (Cons a as)
  obtain m where m: "n = Suc (Suc m)" using Cons.prems(3) by (cases n; cases "n - 1") auto
  show ?case
  proof (cases as)
    case Nil
    then show ?thesis using Cons.prems m by (simp add: parse_value_quote_arg skip_Cons)
  next
    case (Cons b bs)
    let ?tail = "join '', '' (map quote_arg as) @ CHR '']'' # rest"
    have "parse_elems (Suc m) ?tail = Some (map JStr as, rest)"
      using Cons.IH [of "Suc m"] Cons Cons.prems m by simp
    moreover have "json_space (CHR '' '')" by (simp add: json_space_def)
    ultimately show ?thesis
      using Cons Cons.prems m by (simp add: parse_value_quote_arg skip_Cons parse_elems_skip
          parse_elems.simps(2) [of "Suc m"] del: parse_elems.simps(2))
  qed
qed simp

lemma quote_args_length: "length as \<le> length (join '', '' (map quote_arg as))"
proof (induction as)
  case (Cons a as)
  then show ?case by (cases as) (auto simp: quote_arg_def)
qed simp

lemma join_quoted_first:
  "as \<noteq> [] \<Longrightarrow> \<exists>t. join '', '' (map quote_arg as) = CHR 0x22 # t"
  using join_first [of "map quote_arg as" "CHR 0x22" "hd as @ [CHR 0x22]"]
  by (cases as) (auto simp: quote_arg_def)

text \<open>When no argument of a start command contains a quote, a backslash or a control
  character, the CMD instruction is a JSON array of exactly the command's arguments, so Docker runs
  them without a shell.\<close>

theorem cmdToJSON_exec_form:
  assumes "str_fields c \<noteq> []" and "\<forall>a \<in> set (str_fields c). plain_arg a"
  shows "Unmarshal (cmdToJSON c) = Some (JArr (map JStr (str_fields c)))"
proof -
  let ?as = "str_fields c" and ?t = "join '', '' (map quote_arg (str_fields c)) @ '']''"
  have "c \<noteq> []" using assms(1) by (auto simp: str_fields.simps)
  then have out: "cmdToJSON c = CHR ''['' # ?t" by (simp add: cmdToJSON_def)
  define n where "n = 2 * length ?t + 3"
  have "length ?as \<le> length ?t" using quote_args_length [of ?as] by simp
  then have "parse_elems n ?t = Some (map JStr ?as, [])"
    using parse_elems_quoted [OF assms, of n "[]"] by (simp add: n_def)
  moreover obtain u where "?t = CHR 0x22 # u" using join_quoted_first [OF assms(1)] by auto
  ultimately have "parse_value (Suc n) (CHR ''['' # ?t) = Some (JArr (map JStr ?as), [])"
    by (simp add: parse_value_bracket skip_Cons)
  moreover have "2 * length (CHR ''['' # ?t) + 2 = Suc n" by (simp add: n_def)
  ultimately show ?thesis unfolding Unmarshal_def out by (simp only: option.case prod.case) (simp add: skip_def)
qed

theorem cmdToJSON_exec_form_witness:
  "Unmarshal (cmdToJSON ''npm start'') = Some (JArr [JStr ''npm'', JStr ''start''])"
proof -
  have f: "str_fields ''npm start'' = [''npm'', ''start'']" by (simp add: str_fields.simps is_space_def)
  show ?thesis using cmdToJSON_exec_form [of "''npm start''"] by (simp add: f plain_arg_def)
qed

text \<open>With a quote in the command the instruction is not JSON.\<close>

lemma cmdToJSON_quote_breaks:
  "Unmarshal (cmdToJSON (''node -e '' @ [CHR 0x22, CHR ''1'', CHR 0x22])) = None"
  by code_simp

section \<open>Node projects with a build script\<close>

text \<open>The Dockerfile of a Node project (not Bun) with a build script copies four directories
  of the build stage, whichever of them the build made.  COPY fails for a source that is not there.\<close>

theorem node_build_copies_all:
  assumes "node_Plan t = Inr p" and "bp_Build p \<noteq> []" and "bp_Runtime p = ''node:22-alpine''" and "dir \<in> set [''dist'', ''.next'', ''.output'', ''build'']"
  shows "contains (GenerateDockerfile p) (''COPY --from=builder /app/'' @ dir @ '' ./'' @ dir)"
proof -
  have f: "bp_Provider p = ''node''" "bp_Install p \<noteq> []" using node_plan_fields [OF assms(1)] by auto
  obtain i "is" b bs where ib: "bp_Install p = i # is" "bp_Build p = b # bs"
    using f(2) assms(2) by (cases "bp_Install p"; cases "bp_Build p") auto
  obtain pre post where "GenerateDockerfile p = pre @ (''COPY --from=builder /app/'' @ dir @ '' ./'' @ dir) @ post"
  proof -
    define head1 where "head1 = lines [''FROM '' @ bp_Runtime p @ '' AS builder'', ''WORKDIR /app'', ''COPY package*.json ./'']
      @ ''RUN '' @ i @ lines [[], ''COPY . .''] @ ''RUN '' @ b @
      lines [[], [], ''FROM '' @ bp_Runtime p, ''WORKDIR /app'', ''COPY package*.json ./'', ''RUN npm ci --omit=dev'']"
    have g: "GenerateDockerfile p = head1 @ lines
        ([''COPY --from=builder /app/dist ./dist'', ''COPY --from=builder /app/.next ./.next'',
          ''COPY --from=builder /app/.output ./.output'', ''COPY --from=builder /app/build ./build''] @ expose_and_cmd p)"
      using f assms(3) ib
      by (simp add: GenerateDockerfile_def dockerfile_template_def nodeBuildDockerfileTmpl_def head1_def lines_def)
    show thesis
    proof (rule that)
      show "GenerateDockerfile p =
        (head1 @ lines (takeWhile (\<lambda>l. l \<noteq> ''COPY --from=builder /app/'' @ dir @ '' ./'' @ dir)
          [''COPY --from=builder /app/dist ./dist'', ''COPY --from=builder /app/.next ./.next'',
           ''COPY --from=builder /app/.output ./.output'', ''COPY --from=builder /app/build ./build''])) @
        (''COPY --from=builder /app/'' @ dir @ '' ./'' @ dir) @
        [CHR 0x0A] @ lines (tl (dropWhile (\<lambda>l. l \<noteq> ''COPY --from=builder /app/'' @ dir @ '' ./'' @ dir)
          ([''COPY --from=builder /app/dist ./dist'', ''COPY --from=builder /app/.next ./.next'',
           ''COPY --from=builder /app/.output ./.output'', ''COPY --from=builder /app/build ./build''] @ expose_and_cmd p)))"
        unfolding g using assms(4) by (auto simp: lines_def)
    qed
  qed
  then show ?thesis by (auto simp: contains_def sublist_def)
qed

definition node_tree :: source_tree where
  "node_tree = [([''package.json''], json_print (JObj [(''scripts'', JObj [(''build'', JStr ''tsc'')])]))]"

theorem node_build_copies_all_witness:
  "\<exists>p. node_Plan node_tree = Inr p \<and>
     contains (GenerateDockerfile p) ''COPY --from=builder /app/.next ./.next''"
proof -
  let ?p = "empty_plan\<lparr>bp_Provider := ''node'', bp_Runtime := ''node:22-alpine'', bp_Install := [''npm install''],
     bp_Build := [''npm run build''], bp_StartCommand := ''node index.js'', bp_Port := 3000\<rparr>"
  have p: "node_Plan node_tree = Inr ?p" by code_simp
  show ?thesis using node_build_copies_all [OF p, of "''.next''"] p by auto
qed

end
