(* ===== verification/World.thy ===== *)
theory World
  imports Sqlite_Store Event_Broadcaster Project_Detection
begin

text \<open>
  What a request handler or the deploy engine can touch: the database, the files, the event
  broadcaster, and a history of the calls made to the programs outside the repository (the Docker
  daemon behind the moby client, the \<open>git\<close> and \<open>docker\<close> commands, the GitHub API,
  the file system).  How those programs answer is the parameter \<open>outside\<close>: one function per
  call, of the whole history so far and of the arguments, so that an answer may depend on anything
  that happened before.  Every call is recorded in the history with its success.
\<close>

record container_spec =
  spec_Name :: string
  spec_Image :: string
  spec_ExposedPorts :: "string list"
  spec_Env :: "string list"
  spec_Labels :: "(string \<times> string) list"
  spec_NetworkMode :: string
  spec_Binds :: "string list"
  spec_PortBindings :: "(string \<times> (string \<times> string) list) list"
  spec_ExtraHosts :: "string list"
  spec_HealthCmd :: "string list option"
  spec_RestartPolicy :: string

text \<open>What the code reads of \<open>container.InspectResponse\<close>; the networks are in the order in
  which the loops over the map meet them, each with the text of its address.\<close>

record container_state =
  st_Running :: bool
  st_Health :: "string option"
  st_ID :: string
  st_Name :: string
  st_Status :: string
  st_Image :: "string option"
  st_Networks :: "(string \<times> string) list"

text \<open>What the code reads of an entry of the container list; a port is its host address, its public
  and private number and its protocol.\<close>

record listed_container =
  lc_ID :: string
  lc_Names :: "string list"
  lc_Image :: string
  lc_State :: string
  lc_Status :: string
  lc_Ports :: "(string option \<times> nat \<times> nat \<times> string) list"
  lc_Networks :: "string list"

text \<open>What the program reads of the answers of the GitHub API.\<close>

record gh_installation =
  in_ID :: int
  in_Account :: "(string \<times> string) option"

record gh_repo =
  rp_ID :: int
  rp_FullName :: string
  rp_DefaultBranch :: string
  rp_HTMLURL :: string

text \<open>Calls of the GitHub API; a file is created without and updated with the hash of its old
  contents.\<close>

datatype github_call =
    GetInstallationCall int
  | InstallationsPage nat
  | ReposPage int nat
  | ContentsCall string string string
  | PutFile string string string string string "string option"

datatype effect =
    ImagePull string
  | ContainerStop string
  | ContainerRemove string
  | ContainerRestart string
  | ContainerCreate container_spec
  | ContainerStart string
  | ContainerInspect string
  | ContainerLogs string string
  | NetworkList
  | NetworkCreate string "(string \<times> string) list"
  | NetworkConnect string string
  | FileCreate string
  | FileWrite string string
  | FileRemove string
  | MkdirAll string
  | RemoveAll string
  | GitClone string string string
  | GitCheckout string string
  | DockerBuild string string
  | CreateInstallationToken int
  | GetRef string string string
  | RandomBytes nat
  | RandomInt nat
  | ContainerList bool
  | ContainerExec string "string list"
  | FileRead string
  | Dial string
  | HttpCall string string string string
  | VacuumInto string
  | MkdirTemp string
  | DirWalk string
  | GitHubCall github_call

type_synonym history = "(effect \<times> bool) list"

record outside =
  o_pull :: "history \<Rightarrow> string \<Rightarrow> go_error + unit"
  o_stop :: "history \<Rightarrow> string \<Rightarrow> go_error + unit"
  o_remove :: "history \<Rightarrow> string \<Rightarrow> go_error + unit"
  o_restart :: "history \<Rightarrow> string \<Rightarrow> go_error + unit"
  o_create :: "history \<Rightarrow> container_spec \<Rightarrow> go_error + string"
  o_start :: "history \<Rightarrow> string \<Rightarrow> go_error + unit"
  o_inspect :: "history \<Rightarrow> string \<Rightarrow> go_error + container_state"
  o_logs :: "history \<Rightarrow> string \<Rightarrow> string \<Rightarrow> go_error + string"
  o_networks :: "history \<Rightarrow> go_error + string list"
  o_network_create :: "history \<Rightarrow> string \<Rightarrow> go_error + unit"
  o_network_connect :: "history \<Rightarrow> string \<Rightarrow> string \<Rightarrow> go_error + unit"
  o_health_ticks :: "history \<Rightarrow> nat"
  o_parse_port :: "string \<Rightarrow> go_error + string"
  o_parse_specs :: "string list \<Rightarrow> go_error + (string list \<times> (string \<times> (string \<times> string) list) list)"
  o_parse_addr :: "string \<Rightarrow> go_error + string"
  o_file :: "history \<Rightarrow> effect \<Rightarrow> go_error + unit"
  o_written :: "history \<Rightarrow> string \<Rightarrow> nat"
  o_command :: "history \<Rightarrow> effect \<Rightarrow> (string \<times> go_error) + string"
  o_clone_files :: "history \<Rightarrow> string \<Rightarrow> source_tree"
  o_sign_jwt :: "string \<Rightarrow> time \<Rightarrow> time \<Rightarrow> go_error + string"
  o_create_token :: "history \<Rightarrow> string \<Rightarrow> int \<Rightarrow> go_error + string \<times> time"
  o_get_ref :: "history \<Rightarrow> string \<Rightarrow> string \<Rightarrow> string \<Rightarrow> string \<Rightarrow> go_error + string"
  o_rand :: "history \<Rightarrow> nat \<Rightarrow> go_error + string"
  o_seal :: "string \<Rightarrow> string \<Rightarrow> string \<Rightarrow> string"
  o_open :: "string \<Rightarrow> string \<Rightarrow> string \<Rightarrow> go_error + string"
  o_hmac :: "string \<Rightarrow> string \<Rightarrow> string"
  o_bcrypt_hash :: "history \<Rightarrow> string \<Rightarrow> go_error + string"
  o_bcrypt_ok :: "string \<Rightarrow> string \<Rightarrow> bool"
  o_is_dir :: "history \<Rightarrow> string \<Rightarrow> bool"
  o_cwd :: "go_error + string"
  o_list :: "history \<Rightarrow> bool \<Rightarrow> go_error + listed_container list"
  o_exec :: "history \<Rightarrow> string \<Rightarrow> string list \<Rightarrow> go_error + string \<times> int"
  o_read :: "history \<Rightarrow> string \<Rightarrow> go_error + unit"
  o_rand_int :: "history \<Rightarrow> nat \<Rightarrow> nat"
  o_dial :: "history \<Rightarrow> string \<Rightarrow> go_error + unit"
  o_http :: "history \<Rightarrow> effect \<Rightarrow> go_error + int \<times> (go_error + string)"
  o_ctx_done :: "history \<Rightarrow> bool"
  o_map_order :: "history \<Rightarrow> nat"
  o_vacuum :: "history \<Rightarrow> string \<Rightarrow> go_error + unit"
  o_snapshot :: "db \<Rightarrow> string"
  o_mkdir_temp :: "history \<Rightarrow> go_error + string"
  o_walk :: "history \<Rightarrow> string \<Rightarrow> go_error + (string \<times> bool) list"
  o_targz :: "(string \<times> bool \<times> string) list \<Rightarrow> string"
  o_untargz :: "string \<Rightarrow> (string \<times> bool \<times> string) list \<times> go_error option"
  o_parse_key :: "string \<Rightarrow> go_error + unit"
  o_installation :: "history \<Rightarrow> int \<Rightarrow> go_error + gh_installation"
  o_installations :: "history \<Rightarrow> nat \<Rightarrow> go_error + gh_installation list \<times> nat"
  o_repos :: "history \<Rightarrow> int \<Rightarrow> nat \<Rightarrow> go_error + gh_repo list \<times> nat"
  o_contents :: "history \<Rightarrow> github_call \<Rightarrow> go_error + string option"
  o_put_file :: "history \<Rightarrow> github_call \<Rightarrow> go_error + unit"

text \<open>
  The state of the server process: \<open>w_gh\<close> is the engine's current GitHub client and
  \<open>w_builder\<close> the client its builder was made with (\<open>None\<close>: no builder yet).  The
  installation tokens a client has cached (\<open>AppClient.installations\<close>) are \<open>w_tokens\<close>,
  by the client and the installation.
\<close>

record gh_client =
  gh_instance :: nat
  gh_appID :: int
  gh_appSlug :: string

record world =
  w_db :: db
  w_files :: "string \<rightharpoonup> string"
  w_broadcaster :: broadcaster
  w_history :: history
  w_panic :: "string option"
  w_tokens :: "nat \<times> int \<rightharpoonup> string \<times> time"
  w_gh :: "gh_client option"
  w_builder :: "gh_client option"
  w_handler_gh :: "gh_client option"
  w_handler_attempt :: "time option"
  w_page_gh :: "gh_client option"

section \<open>Steps of the world\<close>

text \<open>A call of the outside, recorded with its success.\<close>

definition perform :: "effect \<Rightarrow> (history \<Rightarrow> 'e + 'a) \<Rightarrow> world \<Rightarrow> ('e + 'a) \<times> world" where
  "perform e answer w =
     (let r = answer (w_history w) in (r, w\<lparr>w_history := w_history w @ [(e, is_ok r)]\<rparr>))"

text \<open>A method of the store.\<close>

definition on_db :: "(db \<Rightarrow> 'a \<times> db) \<Rightarrow> world \<Rightarrow> 'a \<times> world" where
  "on_db f w = (let (r, d) = f (w_db w) in (r, w\<lparr>w_db := d\<rparr>))"

text \<open>\<open>time.Now()\<close>.\<close>

definition time_now :: "world \<Rightarrow> time" where
  "time_now w = db_now (w_db w)"

text \<open>The error for which \<open>os.IsNotExist\<close> holds.\<close>

definition ErrNoEnt :: go_error where
  "ErrNoEnt = ErrText ''no such file or directory''"

definition is_not_exist :: "go_error \<Rightarrow> bool" where
  "is_not_exist e = errors_is e ErrNoEnt"

text \<open>\<open>os.ReadFile\<close>, and whether \<open>os.Stat\<close> finds a file or a directory.\<close>

definition read_file :: "outside \<Rightarrow> string \<Rightarrow> world \<Rightarrow> (go_error + string) \<times> world" where
  "read_file out path w =
     (case w_files w path of
        None \<Rightarrow> (Inl (Wrap (''open '' @ path) ErrNoEnt), w)
      | Some contents \<Rightarrow>
          (case perform (FileRead path) (\<lambda>h. o_read out h path) w of
             (Inl e, w1) \<Rightarrow> (Inl e, w1)
           | (Inr _, w1) \<Rightarrow> (Inr contents, w1)))"

definition stat_ok :: "outside \<Rightarrow> string \<Rightarrow> world \<Rightarrow> bool" where
  "stat_ok out path w \<longleftrightarrow> w_files w path \<noteq> None \<or> o_is_dir out (w_history w) path"

text \<open>
  \<open>os.Create\<close> truncates the file.  A write that fails has written the first
  \<open>o_written\<close> bytes.
\<close>

definition create_file :: "outside \<Rightarrow> string \<Rightarrow> world \<Rightarrow> (go_error + unit) \<times> world" where
  "create_file out path w =
     (case perform (FileCreate path) (\<lambda>h. o_file out h (FileCreate path)) w of
        (Inl e, w1) \<Rightarrow> (Inl e, w1)
      | (Inr _, w1) \<Rightarrow> (Inr (), w1\<lparr>w_files := (w_files w1)(path \<mapsto> [])\<rparr>))"

definition write_contents :: "outside \<Rightarrow> string \<Rightarrow> string \<Rightarrow> world \<Rightarrow> (go_error + unit) \<times> world" where
  "write_contents out path contents w =
     (case perform (FileWrite path contents) (\<lambda>h. o_file out h (FileWrite path contents)) w of
        (Inl e, w1) \<Rightarrow>
          (Inl e, w1\<lparr>w_files := (w_files w1)(path \<mapsto> take (o_written out (w_history w) path) contents)\<rparr>)
      | (Inr _, w1) \<Rightarrow> (Inr (), w1\<lparr>w_files := (w_files w1)(path \<mapsto> contents)\<rparr>))"

text \<open>\<open>os.WriteFile\<close>.\<close>

definition write_file :: "outside \<Rightarrow> string \<Rightarrow> string \<Rightarrow> world \<Rightarrow> (go_error + unit) \<times> world" where
  "write_file out path contents w =
     (case create_file out path w of
        (Inl e, w1) \<Rightarrow> (Inl e, w1)
      | (Inr _, w1) \<Rightarrow> write_contents out path contents w1)"

text \<open>\<open>os.Remove\<close>.\<close>

definition remove_file :: "outside \<Rightarrow> string \<Rightarrow> world \<Rightarrow> (go_error + unit) \<times> world" where
  "remove_file out path w =
     (if w_files w path = None then (Inl (Wrap (''remove '' @ path) ErrNoEnt), w)
      else
        (case perform (FileRemove path) (\<lambda>h. o_file out h (FileRemove path)) w of
           (Inl e, w1) \<Rightarrow>
             (Inl e, if is_not_exist e then w1\<lparr>w_files := (w_files w1)(path := None)\<rparr> else w1)
         | (Inr _, w1) \<Rightarrow> (Inr (), w1\<lparr>w_files := (w_files w1)(path := None)\<rparr>)))"

section \<open>Frame facts\<close>

lemma perform_frame [frame]:
  "w_db (snd (perform e f w)) = w_db w" "w_files (snd (perform e f w)) = w_files w"
  "w_broadcaster (snd (perform e f w)) = w_broadcaster w" "w_panic (snd (perform e f w)) = w_panic w"
  by (simp_all add: perform_def Let_def)

lemma perform_history: "w_history (snd (perform e f w)) = w_history w @ [(e, is_ok (fst (perform e f w)))]"
  by (simp add: perform_def Let_def)

lemma on_db_frame [frame]:
  "w_files (snd (on_db f w)) = w_files w" "w_broadcaster (snd (on_db f w)) = w_broadcaster w"
  "w_history (snd (on_db f w)) = w_history w" "w_panic (snd (on_db f w)) = w_panic w"
  by (simp_all add: on_db_def split: prod.split)

lemma on_db_db: "w_db (snd (on_db f w)) = snd (f (w_db w))"
  by (simp add: on_db_def split: prod.split)

lemma fst_on_db: "fst (on_db f w) = fst (f (w_db w))"
  by (simp add: on_db_def split: prod.split)

lemma on_db_pair: "on_db f w = (fst (f (w_db w)), w\<lparr>w_db := snd (f (w_db w))\<rparr>)"
  by (simp add: on_db_def split: prod.split)

lemma create_file_frame [frame]:
  "w_db (snd (create_file out p w)) = w_db w"
  "w_broadcaster (snd (create_file out p w)) = w_broadcaster w" "w_panic (snd (create_file out p w)) = w_panic w"
  by (simp_all add: create_file_def perform_def Let_def split: sum.split)

lemma write_contents_frame [frame]:
  "w_db (snd (write_contents out p c w)) = w_db w"
  "w_broadcaster (snd (write_contents out p c w)) = w_broadcaster w" "w_panic (snd (write_contents out p c w)) = w_panic w"
  by (simp_all add: write_contents_def perform_def Let_def split: sum.split)

lemma write_file_frame [frame]:
  "w_db (snd (write_file out p c w)) = w_db w"
  "w_broadcaster (snd (write_file out p c w)) = w_broadcaster w" "w_panic (snd (write_file out p c w)) = w_panic w"
  by (simp_all add: write_file_def create_file_def write_contents_def perform_def Let_def split: sum.split)

text \<open>A write touches its own file only, and a successful one leaves exactly the contents.\<close>

lemma create_file_files:
  "create_file out p w = (r, w1) \<Longrightarrow> w_files w1 = (if is_ok r then (w_files w)(p \<mapsto> []) else w_files w)"
  by (cases r) (auto simp: create_file_def perform_def Let_def split: sum.splits)

lemma write_contents_files:
  "write_contents out p c w = (r, w1) \<Longrightarrow>
     \<exists>n. w_files w1 = (w_files w)(p \<mapsto> (if is_ok r then c else take n c))"
  by (cases r) (auto simp: write_contents_def perform_def Let_def split: sum.splits)

lemma write_file_files:
  "write_file out p c w = (r, w1) \<Longrightarrow>
     (if is_ok r then w_files w1 = (w_files w)(p \<mapsto> c)
      else \<forall>q. q \<noteq> p \<longrightarrow> w_files w1 q = w_files w q)"
  by (auto simp: write_file_def dest!: create_file_files write_contents_files split: prod.splits sum.splits)

lemma read_file_frame [frame]:
  "w_db (snd (read_file out p w)) = w_db w" "w_files (snd (read_file out p w)) = w_files w"
  "w_broadcaster (snd (read_file out p w)) = w_broadcaster w" "w_panic (snd (read_file out p w)) = w_panic w"
  by (simp_all add: read_file_def perform_def Let_def split: option.split sum.split)

section \<open>The calls that were made\<close>

text \<open>\<open>calls L w w1\<close>: between the two worlds only calls of the kind \<open>L\<close> were made,
  nothing was stored and no event was published.\<close>

definition made :: "(effect \<Rightarrow> bool) \<Rightarrow> world \<Rightarrow> world \<Rightarrow> bool" where
  "made L w w1 \<longleftrightarrow> (\<exists>ext. w_history w1 = w_history w @ ext \<and> list_all (\<lambda>x. L (fst x)) ext)"

definition calls :: "(effect \<Rightarrow> bool) \<Rightarrow> world \<Rightarrow> world \<Rightarrow> bool" where
  "calls L w w1 \<longleftrightarrow> made L w w1 \<and>
     w_db w1 = w_db w \<and> w_broadcaster w1 = w_broadcaster w \<and> w_panic w1 = w_panic w \<and> w_gh w1 = w_gh w"

definition spares :: "string \<Rightarrow> effect \<Rightarrow> bool" where
  "spares name e \<longleftrightarrow> e \<noteq> ContainerStop name \<and> e \<noteq> ContainerRemove name"

lemma made_refl [simp]: "made L w w"
  by (simp add: made_def)

lemma made_trans: "made L a b \<Longrightarrow> made L b c \<Longrightarrow> made L a c"
  by (auto simp: made_def)

lemma made_mono: "made L a b \<Longrightarrow> (\<And>e. L e \<Longrightarrow> L' e) \<Longrightarrow> made L' a b"
  by (auto simp: made_def list_all_iff)

lemma calls_refl [simp]: "calls L w w"
  by (simp add: calls_def)

lemma calls_trans: "calls L a b \<Longrightarrow> calls L b c \<Longrightarrow> calls L a c"
  by (auto simp: calls_def intro: made_trans)

lemma calls_mono: "calls L a b \<Longrightarrow> (\<And>e. L e \<Longrightarrow> L' e) \<Longrightarrow> calls L' a b"
  by (auto simp: calls_def intro: made_mono)

lemma calls_made: "calls L a b \<Longrightarrow> made L a b"
  by (simp add: calls_def)

lemma calls_perform: "perform e f w = (r, w1) \<Longrightarrow> L e \<longrightarrow> calls L w w1"
  by (auto simp: calls_def made_def perform_def Let_def)

lemma calls_update [simp]:
  "calls L w (w1\<lparr>w_files := fs\<rparr>) = calls L w w1" "calls L w (w1\<lparr>w_tokens := tk\<rparr>) = calls L w w1"
  "calls L w (w1\<lparr>w_builder := bd\<rparr>) = calls L w w1"
  by (simp_all add: calls_def made_def)

lemma create_file_calls: "create_file out p w = (r, w1) \<Longrightarrow> L (FileCreate p) \<longrightarrow> calls L w w1"
  by (auto simp: create_file_def dest!: calls_perform [where L = L] split: prod.splits sum.splits)

lemma write_contents_calls: "write_contents out p c w = (r, w1) \<Longrightarrow> L (FileWrite p c) \<longrightarrow> calls L w w1"
  by (auto simp: write_contents_def dest!: calls_perform [where L = L] split: prod.splits sum.splits)

lemma write_file_calls:
  "write_file out p c w = (r, w1) \<Longrightarrow> L (FileCreate p) \<and> L (FileWrite p c) \<longrightarrow> calls L w w1"
  by (auto simp: write_file_def dest!: create_file_calls [where L = L] write_contents_calls [where L = L]
      intro: calls_trans split: prod.splits sum.splits)

text \<open>The calls that create and start a container and connect its networks.\<close>

fun starts :: "effect \<Rightarrow> bool" where
  "starts NetworkList = True"
| "starts (NetworkCreate n ls) = True"
| "starts (NetworkConnect n c) = True"
| "starts (ContainerCreate s) = True"
| "starts (ContainerStart c) = True"
| "starts e = False"

lemma starts_spares: "starts e \<Longrightarrow> spares n e"
  by (cases e) (auto simp: spares_def)

lemma spares_simps [simp]:
  "spares n (ContainerStop m) \<longleftrightarrow> m \<noteq> n" "spares n (ContainerRemove m) \<longleftrightarrow> m \<noteq> n"
  "spares n (ImagePull s)" "spares n (ContainerCreate sp)" "spares n (ContainerStart s)" "spares n (ContainerInspect s)"
  "spares n NetworkList" "spares n (NetworkCreate s ls)" "spares n (NetworkConnect s t)" "spares n (FileCreate s)"
  "spares n (FileWrite s t)" "spares n (FileRemove s)" "spares n (MkdirAll s)" "spares n (RemoveAll s)"
  "spares n (GitClone s t u)" "spares n (GitCheckout s t)" "spares n (DockerBuild s t)" "spares n (ContainerLogs s t)" "spares n (ContainerRestart s)"
  "spares n (CreateInstallationToken i)" "spares n (GetRef s t u)" "spares n (RandomBytes k)"
  "spares n (RandomInt k)" "spares n (ContainerList b)" "spares n (ContainerExec s ss)" "spares n (FileRead s)" "spares n (Dial s)"
  "spares n (HttpCall s t u v)"
  by (auto simp: spares_def)

section \<open>A calm outside\<close>

text \<open>An outside in which every call succeeds, and an empty world; concrete arguments for the
  statements about all outsides.\<close>

definition calm_outside :: outside where
  "calm_outside =
     \<lparr>o_pull = \<lambda>h r. Inr (), o_stop = \<lambda>h n. Inr (), o_remove = \<lambda>h n. Inr (), o_restart = \<lambda>h n. Inr (),
      o_create = \<lambda>h s. Inr (''id-'' @ spec_Name s), o_start = \<lambda>h i. Inr (),
      o_inspect = \<lambda>h i. Inr \<lparr>st_Running = True, st_Health = None, st_ID = i, st_Name = ''/'' @ i, st_Status = ''running'',
                                st_Image = None, st_Networks = []\<rparr>, o_logs = \<lambda>h i t. Inr [],
      o_networks = \<lambda>h. Inr [''talos''], o_network_create = \<lambda>h n. Inr (), o_network_connect = \<lambda>h n c. Inr (),
      o_health_ticks = \<lambda>h. 5, o_parse_port = \<lambda>p. Inr p, o_parse_specs = \<lambda>ps. Inr (ps, []),
      o_parse_addr = \<lambda>a. Inr a, o_file = \<lambda>h e. Inr (), o_written = \<lambda>h p. 0, o_command = \<lambda>h e. Inr [],
      o_clone_files = \<lambda>h d. [([''index.html''], [])], o_sign_jwt = \<lambda>i a b. Inr ''jwt'',
      o_create_token = \<lambda>h j i. Inr (''t'', 3600000000000), o_get_ref = \<lambda>h t ow r b. Inr ''0123456789abcdef'',
      o_rand = \<lambda>h n. Inr (replicate n (CHR ''r'')), o_seal = \<lambda>k n p. p @ replicate 16 (CHR ''#''),
      o_open = \<lambda>k n c. if drop (length c - 16) c = replicate 16 (CHR ''#'') then Inr (take (length c - 16) c)
                        else Inl (ErrText ''cipher: message authentication failed''),
      o_hmac = \<lambda>k m. k @ ''/'' @ m, o_bcrypt_hash = \<lambda>h p. Inr (''hash of '' @ p), o_bcrypt_ok = \<lambda>hash p. hash = ''hash of '' @ p,
      o_is_dir = \<lambda>h p. False, o_cwd = Inr ''/srv/talos'', o_list = \<lambda>h b. Inr [], o_exec = \<lambda>h c cmd. Inr ([], 0),
      o_read = \<lambda>h p. Inr (), o_rand_int = \<lambda>h n. length h, o_dial = \<lambda>h a. Inr (), o_http = \<lambda>h e. Inr (200, Inr ''{}''),
      o_ctx_done = \<lambda>h. False, o_map_order = \<lambda>h. 0, o_vacuum = \<lambda>h p. Inr (), o_snapshot = \<lambda>d. ''SQLite format 3'',
      o_mkdir_temp = \<lambda>h. Inr ''/tmp/talos'', o_walk = \<lambda>h d. Inr [(''.'', True)], o_targz = \<lambda>es. [], o_untargz = \<lambda>s. ([], None),
      o_parse_key = \<lambda>k. Inr (), o_installation = \<lambda>h i. Inr \<lparr>in_ID = i, in_Account = None\<rparr>, o_installations = \<lambda>h p. Inr ([], 0),
      o_repos = \<lambda>h i p. Inr ([], 0), o_contents = \<lambda>h c. Inr (Some ''sha''), o_put_file = \<lambda>h c. Inr ()\<rparr>"

definition sample_world :: world where
  "sample_world =
     \<lparr>w_db = empty_db 0, w_files = Map.empty, w_broadcaster = NewEventBroadcaster, w_history = [], w_panic = None,
      w_tokens = Map.empty, w_gh = Some \<lparr>gh_instance = 0, gh_appID = 7, gh_appSlug = ''talos''\<rparr>, w_builder = None, w_handler_gh = None,
      w_handler_attempt = None, w_page_gh = None\<rparr>"

end
