(* ===== verification/Docker_Client.thy ===== *)
theory Docker_Client
  imports World
begin

text \<open>
  \<open>internal/runtime/docker/client.go\<close>: the wrapper around the moby client, whose calls are
  answered by the \<open>outside\<close>.  \<open>dc_network\<close> is the client's configured network.
  Labels are association lists; logging is left out.
\<close>

record docker_client =
  dc_network :: string

record container_config =
  cfg_Name :: string
  cfg_ImageRef :: string
  cfg_InternalPort :: int
  cfg_Env :: "string list"
  cfg_Volumes :: "string list"
  cfg_Ports :: "string list"
  cfg_Networks :: "string list"
  cfg_ExtraHosts :: "string list"
  cfg_HealthCheck :: "string list option"
  cfg_Labels :: "(string \<times> string) list"

definition empty_config :: container_config where
  "empty_config =
     \<lparr>cfg_Name = [], cfg_ImageRef = [], cfg_InternalPort = 0, cfg_Env = [], cfg_Volumes = [], cfg_Ports = [],
      cfg_Networks = [], cfg_ExtraHosts = [], cfg_HealthCheck = None, cfg_Labels = []\<rparr>"

definition PullImage :: "outside \<Rightarrow> string \<Rightarrow> world \<Rightarrow> (go_error + unit) \<times> world" where
  "PullImage out ref w =
     (case perform (ImagePull ref) (\<lambda>h. o_pull out h ref) w of
        (Inl e, w1) \<Rightarrow> (Inl (Wrap (''pull image '' @ ref) e), w1)
      | (Inr _, w1) \<Rightarrow> (Inr (), w1))"

text \<open>A failed stop is only logged, then the container is removed with force.\<close>

definition StopAndRemove :: "outside \<Rightarrow> string \<Rightarrow> world \<Rightarrow> (go_error + unit) \<times> world" where
  "StopAndRemove out name w =
     (let w1 = snd (perform (ContainerStop name) (\<lambda>h. o_stop out h name) w) in
      perform (ContainerRemove name) (\<lambda>h. o_remove out h name) w1)"

definition Restart :: "outside \<Rightarrow> string \<Rightarrow> world \<Rightarrow> (go_error + unit) \<times> world" where
  "Restart out name w =
     (case perform (ContainerRestart name) (\<lambda>h. o_restart out h name) w of
        (Inl e, w1) \<Rightarrow> (Inl (Wrap ''restart container'' e), w1)
      | (Inr _, w1) \<Rightarrow> (Inr (), w1))"

definition Inspect :: "outside \<Rightarrow> string \<Rightarrow> world \<Rightarrow> (go_error + container_state) \<times> world" where
  "Inspect out name w = perform (ContainerInspect name) (\<lambda>h. o_inspect out h name) w"

text \<open>\<open>ListContainers\<close>: a port is shown with its host address and public number when it has
  one.\<close>

record container_info =
  ci_ID :: string
  ci_Name :: string
  ci_Image :: string
  ci_State :: string
  ci_Status :: string
  ci_Networks :: "string list"
  ci_Ports :: "string list"

fun port_text :: "string option \<times> nat \<times> nat \<times> string \<Rightarrow> string" where
  "port_text (ip, public, private, ty) =
     (let privatePort = nat_digits private @ ''/'' @ ty in
      if public > 0 then
        (case ip of
           Some hostIP \<Rightarrow> hostIP @ '':'' @ nat_digits public @ ''->'' @ privatePort
         | None \<Rightarrow> nat_digits public @ ''->'' @ privatePort)
      else privatePort)"

definition container_info_of :: "listed_container \<Rightarrow> container_info" where
  "container_info_of c =
     \<lparr>ci_ID = lc_ID c, ci_Name = (case lc_Names c of [] \<Rightarrow> [] | n # _ \<Rightarrow> trim_prefix n ''/''), ci_Image = lc_Image c,
      ci_State = lc_State c, ci_Status = lc_Status c, ci_Networks = lc_Networks c, ci_Ports = map port_text (lc_Ports c)\<rparr>"

definition ListContainers :: "outside \<Rightarrow> bool \<Rightarrow> world \<Rightarrow> (go_error + container_info list) \<times> world" where
  "ListContainers out everything w =
     (case perform (ContainerList everything) (\<lambda>h. o_list out h everything) w of
        (Inl e, w1) \<Rightarrow> (Inl (Wrap ''list containers'' e), w1)
      | (Inr items, w1) \<Rightarrow> (Inr (map container_info_of items), w1))"

definition EnsureNetwork :: "outside \<Rightarrow> docker_client \<Rightarrow> world \<Rightarrow> (go_error + unit) \<times> world" where
  "EnsureNetwork out dc w =
     (case perform NetworkList (o_networks out) w of
        (Inl e, w1) \<Rightarrow> (Inl (Wrap ''list networks'' e), w1)
      | (Inr names, w1) \<Rightarrow>
          if dc_network dc \<in> set names then (Inr (), w1)
          else
            (case perform (NetworkCreate (dc_network dc) [(''managed-by'', ''talos'')])
                    (\<lambda>h. o_network_create out h (dc_network dc)) w1 of
               (Inl e, w2) \<Rightarrow> (Inl (Wrap ''create network'' e), w2)
             | (Inr _, w2) \<Rightarrow> (Inr (), w2)))"

definition ConnectContainerToNetwork ::
  "outside \<Rightarrow> string \<Rightarrow> string \<Rightarrow> world \<Rightarrow> (go_error + unit) \<times> world" where
  "ConnectContainerToNetwork out containerID networkName w =
     (let connect = (\<lambda>w.
            (case perform (NetworkConnect networkName containerID)
                    (\<lambda>h. o_network_connect out h networkName containerID) w of
               (Inl e, w1) \<Rightarrow>
                 if contains (error_text e) ''already exists'' then (Inr (), w1)
                 else (Inl (Wrap (''network connect '' @ networkName) e), w1)
             | (Inr _, w1) \<Rightarrow> (Inr (), w1)))
      in
      (case perform NetworkList (o_networks out) w of
         (Inl e, w1) \<Rightarrow> (Inl (Wrap ''list networks'' e), w1)
       | (Inr names, w1) \<Rightarrow>
           if networkName \<in> set names then connect w1
           else
             (case perform (NetworkCreate networkName []) (\<lambda>h. o_network_create out h networkName) w1 of
                (Inl e, w2) \<Rightarrow> (Inl (Wrap (''create network '' @ networkName) e), w2)
              | (Inr _, w2) \<Rightarrow> connect w2)))"

fun connect_all ::
  "outside \<Rightarrow> docker_client \<Rightarrow> string \<Rightarrow> string list \<Rightarrow> world \<Rightarrow> (go_error + unit) \<times> world" where
  "connect_all out dc i [] w = (Inr (), w)"
| "connect_all out dc i (n # ns) w =
     (if n = [] \<or> n = dc_network dc then connect_all out dc i ns w
      else
        (case ConnectContainerToNetwork out i n w of
           (Inl e, w1) \<Rightarrow> (Inl (Wrap (''connect container to network '' @ n) e), w1)
         | (Inr _, w1) \<Rightarrow> connect_all out dc i ns w1))"

section \<open>Building the request of ContainerCreate\<close>

fun parse_all_ports :: "outside \<Rightarrow> (string \<Rightarrow> string) \<Rightarrow> string list \<Rightarrow> go_error + string list" where
  "parse_all_ports out what [] = Inr []"
| "parse_all_ports out what (p # ps) =
     (case o_parse_port out p of
        Inl e \<Rightarrow> Inl (Wrap (what p) e)
      | Inr port \<Rightarrow> (case parse_all_ports out what ps of Inl e \<Rightarrow> Inl e | Inr ports \<Rightarrow> Inr (port # ports)))"

definition parseHostIP :: "outside \<Rightarrow> string \<Rightarrow> go_error + string" where
  "parseHostIP out value = (if value = [] then Inr [] else o_parse_addr out value)"

fun convert_bindings :: "outside \<Rightarrow> (string \<times> string) list \<Rightarrow> go_error + (string \<times> string) list" where
  "convert_bindings out [] = Inr []"
| "convert_bindings out ((ip, port) # bs) =
     (case parseHostIP out ip of
        Inl e \<Rightarrow> Inl (Wrap (''parse host IP '' @ [CHR 0x22] @ ip @ [CHR 0x22]) e)
      | Inr addr \<Rightarrow>
          (case convert_bindings out bs of Inl e \<Rightarrow> Inl e | Inr rest \<Rightarrow> Inr ((addr, port) # rest)))"

fun convert_port_map ::
  "outside \<Rightarrow> (string \<times> (string \<times> string) list) list \<Rightarrow> go_error + (string \<times> (string \<times> string) list) list" where
  "convert_port_map out [] = Inr []"
| "convert_port_map out ((p, bs) # rest) =
     (case o_parse_port out p of
        Inl e \<Rightarrow> Inl (Wrap (''parse bound port '' @ p) e)
      | Inr port \<Rightarrow>
          (case convert_bindings out bs of
             Inl e \<Rightarrow> Inl e
           | Inr converted \<Rightarrow>
               (case convert_port_map out rest of Inl e \<Rightarrow> Inl e | Inr ms \<Rightarrow> Inr ((port, converted) # ms))))"

definition exposed_internal :: "outside \<Rightarrow> int \<Rightarrow> go_error + string list" where
  "exposed_internal out internalPort =
     (if internalPort > 0 then parse_all_ports out (\<lambda>_. ''parse internal port'') [itoa internalPort @ ''/tcp'']
      else Inr [])"

definition port_specs ::
  "outside \<Rightarrow> string list \<Rightarrow> go_error + (string list \<times> (string \<times> (string \<times> string) list) list)" where
  "port_specs out ports =
     (if ports = [] then Inr ([], [])
      else
        (case o_parse_specs out ports of
           Inl e \<Rightarrow> Inl (Wrap ''parse port specs'' e)
         | Inr (eps, bindings) \<Rightarrow>
             (case parse_all_ports out (\<lambda>p. ''parse exposed port '' @ p) eps of
                Inl e \<Rightarrow> Inl e
              | Inr exposed \<Rightarrow>
                  (case convert_port_map out bindings of Inl e \<Rightarrow> Inl e | Inr m \<Rightarrow> Inr (exposed, m)))))"

definition container_spec_of ::
  "outside \<Rightarrow> docker_client \<Rightarrow> container_config \<Rightarrow> go_error + container_spec" where
  "container_spec_of out dc cfg =
     (case exposed_internal out (cfg_InternalPort cfg) of
        Inl e \<Rightarrow> Inl e
      | Inr own \<Rightarrow>
          (case port_specs out (cfg_Ports cfg) of
             Inl e \<Rightarrow> Inl e
           | Inr (exposed, bindings) \<Rightarrow>
               Inr \<lparr>spec_Name = cfg_Name cfg, spec_Image = cfg_ImageRef cfg,
                    spec_ExposedPorts = remdups (own @ exposed), spec_Env = cfg_Env cfg,
                    spec_Labels = put_all (cfg_Labels cfg) [(''managed-by'', ''talos'')],
                    spec_NetworkMode = dc_network dc, spec_Binds = cfg_Volumes cfg,
                    spec_PortBindings = bindings, spec_ExtraHosts = cfg_ExtraHosts cfg,
                    spec_HealthCmd = cfg_HealthCheck cfg, spec_RestartPolicy = ''unless-stopped''\<rparr>))"

text \<open>Create and start, the common end of both start methods.\<close>

definition create_and_start :: "outside \<Rightarrow> container_spec \<Rightarrow> world \<Rightarrow> (go_error + string) \<times> world" where
  "create_and_start out spec w =
     (case perform (ContainerCreate spec) (\<lambda>h. o_create out h spec) w of
        (Inl e, w1) \<Rightarrow> (Inl (Wrap ''create container'' e), w1)
      | (Inr i, w1) \<Rightarrow>
          (case perform (ContainerStart i) (\<lambda>h. o_start out h i) w1 of
             (Inl e, w2) \<Rightarrow> (Inl (Wrap ''start container'' e), w2)
           | (Inr _, w2) \<Rightarrow> (Inr i, w2)))"

definition StartContainerWithConfig ::
  "outside \<Rightarrow> docker_client \<Rightarrow> container_config \<Rightarrow> world \<Rightarrow> (go_error + string) \<times> world" where
  "StartContainerWithConfig out dc cfg w =
     (case EnsureNetwork out dc w of
        (Inl e, w1) \<Rightarrow> (Inl e, w1)
      | (Inr _, w1) \<Rightarrow>
          (case container_spec_of out dc cfg of
             Inl e \<Rightarrow> (Inl e, w1)
           | Inr spec \<Rightarrow>
               (case create_and_start out spec w1 of
                  (Inl e, w2) \<Rightarrow> (Inl e, w2)
                | (Inr i, w2) \<Rightarrow>
                    (case connect_all out dc i (cfg_Networks cfg) w2 of
                       (Inl e, w3) \<Rightarrow> (Inl e, w3)
                     | (Inr _, w3) \<Rightarrow> (Inr i, w3)))))"

definition StartContainer ::
  "outside \<Rightarrow> docker_client \<Rightarrow> string \<Rightarrow> string \<Rightarrow> int \<Rightarrow> world \<Rightarrow> (go_error + string) \<times> world" where
  "StartContainer out dc name imageRef internalPort w =
     (case EnsureNetwork out dc w of
        (Inl e, w1) \<Rightarrow> (Inl e, w1)
      | (Inr _, w1) \<Rightarrow>
          (case o_parse_port out (itoa internalPort @ ''/tcp'') of
             Inl e \<Rightarrow> (Inl (Wrap ''parse internal port'' e), w1)
           | Inr port \<Rightarrow>
               create_and_start out
                 \<lparr>spec_Name = name, spec_Image = imageRef, spec_ExposedPorts = [port], spec_Env = [],
                  spec_Labels = [(''managed-by'', ''talos'')], spec_NetworkMode = dc_network dc, spec_Binds = [],
                  spec_PortBindings = [], spec_ExtraHosts = [], spec_HealthCmd = None,
                  spec_RestartPolicy = ''unless-stopped''\<rparr> w1))"

section \<open>Waiting for a healthy container\<close>

text \<open>\<open>time.Duration.String\<close> of a whole number of seconds.\<close>

definition seconds_str :: "nat \<Rightarrow> string" where
  "seconds_str n =
     (if n < 60 then nat_digits n @ ''s''
      else if n < 3600 then nat_digits (n div 60) @ ''m'' @ nat_digits (n mod 60) @ ''s''
      else nat_digits (n div 3600) @ ''h'' @ nat_digits (n mod 3600 div 60) @ ''m'' @ nat_digits (n mod 60) @ ''s'')"

text \<open>
  The loop of \<open>WaitForHealth\<close>: the select sees some number of ticks of the one-second
  ticker before the deadline.  How many is up to the scheduler (\<open>o_health_ticks\<close>), but never
  more than the timeout has seconds, so the loop ends.
\<close>

fun poll_health :: "outside \<Rightarrow> string \<Rightarrow> nat \<Rightarrow> nat \<Rightarrow> world \<Rightarrow> (go_error + unit) \<times> world" where
  "poll_health out i timeout 0 w = (Inl (ErrText (''health check timeout after '' @ seconds_str timeout)), w)"
| "poll_health out i timeout (Suc ticks) w =
     (case perform (ContainerInspect i) (\<lambda>h. o_inspect out h i) w of
        (Inl e, w1) \<Rightarrow> (Inl (Wrap ''inspect container'' e), w1)
      | (Inr st, w1) \<Rightarrow>
          if \<not> st_Running st then (Inl (ErrText ''container is not running''), w1)
          else
            (case st_Health st of
               None \<Rightarrow> (Inr (), w1)
             | Some status \<Rightarrow>
                 if status = ''healthy'' then (Inr (), w1)
                 else if status = ''unhealthy'' then (Inl (ErrText ''container is unhealthy''), w1)
                 else poll_health out i timeout ticks w1))"

definition WaitForHealth :: "outside \<Rightarrow> string \<Rightarrow> nat \<Rightarrow> world \<Rightarrow> (go_error + unit) \<times> world" where
  "WaitForHealth out i timeout w =
     poll_health out i timeout (min timeout (o_health_ticks out (w_history w))) w"

definition GetLogs :: "outside \<Rightarrow> string \<Rightarrow> string \<Rightarrow> world \<Rightarrow> (go_error + string) \<times> world" where
  "GetLogs out i tail w =
     (case perform (ContainerLogs i tail) (\<lambda>h. o_logs out h i tail) w of
        (Inl e, w1) \<Rightarrow> (Inl (Wrap ''get logs'' e), w1)
      | (Inr text, w1) \<Rightarrow> (Inr text, w1))"

section \<open>What the client leaves alone\<close>

text \<open>The calls of the client add to the history and change nothing else.\<close>

definition history_grows :: "world \<Rightarrow> world \<Rightarrow> bool" where
  "history_grows w w1 \<longleftrightarrow>
     w_db w1 = w_db w \<and> w_files w1 = w_files w \<and> w_broadcaster w1 = w_broadcaster w \<and> w_panic w1 = w_panic w \<and>
     (\<exists>ext. w_history w1 = w_history w @ ext)"

lemma history_grows_refl [simp]: "history_grows w w"
  by (simp add: history_grows_def)

lemma history_grows_trans: "history_grows a b \<Longrightarrow> history_grows b c \<Longrightarrow> history_grows a c"
  by (auto simp: history_grows_def)

lemma perform_grows: "perform e f w = (r, w1) \<Longrightarrow> history_grows w w1"
  by (auto simp: history_grows_def perform_def Let_def)

lemma PullImage_grows: "PullImage out ref w = (r, w1) \<Longrightarrow> history_grows w w1"
  by (auto simp: PullImage_def dest!: perform_grows split: prod.splits sum.splits)

lemma StopAndRemove_grows: "StopAndRemove out name w = (r, w1) \<Longrightarrow> history_grows w w1"
  unfolding StopAndRemove_def Let_def
  using history_grows_trans perform_grows surjective_pairing by metis

lemma EnsureNetwork_grows: "EnsureNetwork out dc w = (r, w1) \<Longrightarrow> history_grows w w1"
  by (auto simp: EnsureNetwork_def dest!: perform_grows intro: history_grows_trans
      split: prod.splits sum.splits if_splits)

lemma create_and_start_grows: "create_and_start out spec w = (r, w1) \<Longrightarrow> history_grows w w1"
  by (auto simp: create_and_start_def dest!: perform_grows intro: history_grows_trans
      split: prod.splits sum.splits)

lemma ConnectContainerToNetwork_grows: "ConnectContainerToNetwork out i n w = (r, w1) \<Longrightarrow> history_grows w w1"
  by (auto simp: ConnectContainerToNetwork_def Let_def dest!: perform_grows
      intro: history_grows_trans split: prod.splits sum.splits if_splits)

lemma connect_all_grows: "connect_all out dc i ns w = (r, w1) \<Longrightarrow> history_grows w w1"
proof (induction out dc i ns w arbitrary: r w1 rule: connect_all.induct)
  case (2 out dc i n ns w)
  then show ?case
    by (auto dest!: ConnectContainerToNetwork_grows intro: history_grows_trans
        split: prod.splits sum.splits if_splits)
qed simp

lemma StartContainerWithConfig_grows: "StartContainerWithConfig out dc cfg w = (r, w1) \<Longrightarrow> history_grows w w1"
  by (auto simp: StartContainerWithConfig_def dest!: EnsureNetwork_grows create_and_start_grows connect_all_grows
      intro: history_grows_trans split: prod.splits sum.splits)

lemma poll_health_grows: "poll_health out i t n w = (r, w1) \<Longrightarrow> history_grows w w1"
proof (induction n arbitrary: w)
  case (Suc n)
  then show ?case
    by (auto dest!: perform_grows intro: history_grows_trans split: prod.splits sum.splits if_splits option.splits)
qed simp

lemma WaitForHealth_grows: "WaitForHealth out i t w = (r, w1) \<Longrightarrow> history_grows w w1"
  by (simp add: WaitForHealth_def poll_health_grows)

lemmas client_grows =
  PullImage_grows StopAndRemove_grows EnsureNetwork_grows StartContainerWithConfig_grows WaitForHealth_grows

text \<open>Which containers the calls stop or remove.\<close>

lemma PullImage_calls: "PullImage out ref w = (r, w1) \<Longrightarrow> L (ImagePull ref) \<longrightarrow> calls L w w1"
  by (auto simp: PullImage_def dest!: calls_perform [where L = L] split: prod.splits sum.splits)

lemma StopAndRemove_calls:
  "StopAndRemove out name w = (r, w1) \<Longrightarrow> L (ContainerStop name) \<and> L (ContainerRemove name) \<longrightarrow> calls L w w1"
  unfolding StopAndRemove_def Let_def
  using calls_perform calls_trans prod.collapse by metis

lemma EnsureNetwork_calls: "EnsureNetwork out dc w = (r, w1) \<Longrightarrow> calls starts w w1"
  by (auto simp: EnsureNetwork_def dest!: calls_perform [where L = starts]
      intro: calls_trans split: prod.splits sum.splits if_splits)

lemma create_and_start_calls: "create_and_start out spec w = (r, w1) \<Longrightarrow> calls starts w w1"
  by (auto simp: create_and_start_def dest!: calls_perform [where L = starts]
      intro: calls_trans split: prod.splits sum.splits)

lemma ConnectContainerToNetwork_calls:
  "ConnectContainerToNetwork out i nw w = (r, w1) \<Longrightarrow> calls starts w w1"
  by (auto simp: ConnectContainerToNetwork_def Let_def dest!: calls_perform [where L = starts]
      intro: calls_trans split: prod.splits sum.splits if_splits)

lemma connect_all_calls: "connect_all out dc i ns w = (r, w1) \<Longrightarrow> calls starts w w1"
proof (induction out dc i ns w arbitrary: r w1 rule: connect_all.induct)
  case (2 out dc i nw ns w)
  then show ?case
    by (auto dest!: ConnectContainerToNetwork_calls intro: calls_trans
        split: prod.splits sum.splits if_splits)
qed simp

lemma StartContainerWithConfig_calls:
  "StartContainerWithConfig out dc cfg w = (r, w1) \<Longrightarrow> calls starts w w1"
  by (auto simp: StartContainerWithConfig_def dest!: EnsureNetwork_calls
      create_and_start_calls connect_all_calls
      intro: calls_trans split: prod.splits sum.splits)

lemma poll_health_calls: "poll_health out i t k w = (r, w1) \<Longrightarrow> calls (\<lambda>e. e = ContainerInspect i) w w1"
proof (induction k arbitrary: w)
  case (Suc k)
  then show ?case
    by (auto dest!: calls_perform [where L = "\<lambda>e. e = ContainerInspect i"] intro: calls_trans
        split: prod.splits sum.splits if_splits option.splits)
qed simp

lemma WaitForHealth_calls: "WaitForHealth out i t w = (r, w1) \<Longrightarrow> calls (\<lambda>e. e = ContainerInspect i) w w1"
  unfolding WaitForHealth_def by (rule poll_health_calls)

lemma poll_health_bounded:
  "poll_health out i t n w = (r, w1) \<Longrightarrow>
     \<exists>ext. w_history w1 = w_history w @ ext \<and> length ext \<le> n \<and>
       (\<forall>x \<in> set ext. fst x = ContainerInspect i) \<and>
       (r = Inr () \<longrightarrow> (\<exists>h st. w_history w1 = h @ [(ContainerInspect i, True)] \<and>
          o_inspect out h i = Inr st \<and> st_Running st \<and> st_Health st \<in> {None, Some ''healthy''}))"
proof (induction n arbitrary: w)
  case (Suc n)
  obtain a w2 where p: "perform (ContainerInspect i) (\<lambda>h. o_inspect out h i) w = (a, w2)" by fastforce
  then have h: "w_history w2 = w_history w @ [(ContainerInspect i, is_ok a)]" and a: "a = o_inspect out (w_history w) i"
    by (auto simp: perform_def Let_def)
  show ?case
  proof (cases a)
    case (Inl e)
    then show ?thesis using Suc.prems p h by auto
  next
    case (Inr st)
    show ?thesis
    proof (cases "st_Running st \<and> (\<exists>s. st_Health st = Some s \<and> s \<noteq> ''healthy'' \<and> s \<noteq> ''unhealthy'')")
      case True
      then have "poll_health out i t n w2 = (r, w1)" using Suc.prems p Inr by auto
      from Suc.IH [OF this] obtain ext
        where ext: "w_history w1 = w_history w2 @ ext" "length ext \<le> n" "\<forall>x \<in> set ext. fst x = ContainerInspect i"
          and ok: "r = Inr () \<longrightarrow> (\<exists>h st. w_history w1 = h @ [(ContainerInspect i, True)] \<and>
          o_inspect out h i = Inr st \<and> st_Running st \<and> st_Health st \<in> {None, Some ''healthy''})" by blast
      show ?thesis using h ext by (intro exI [of _ "(ContainerInspect i, is_ok a) # ext"] conjI ok) simp_all
    next
      case False
      then show ?thesis using Suc.prems p h Inr a [symmetric]
        by (auto split: if_splits option.splits)
    qed
  qed
qed auto



end
