(* ===== verification/Config.thy ===== *)
theory Config
  imports Go_Prelude
begin

text \<open>
  \<open>internal/config/config.go\<close>: the configuration read from the environment, which is a
  function from variable names to values (the empty string for an unset variable).
\<close>

datatype proxy_mode = ProxyModeInternal | ProxyModeExternal
datatype config_edge_provider = EdgeProviderTraefik

record server_config =
  sc_Host :: string
  sc_Port :: int
  sc_Domain :: string
  sc_ACMEEmail :: string
  sc_ProxyMode :: proxy_mode
  sc_EdgeProvider :: config_edge_provider
  sc_EdgeNetwork :: string
  sc_EdgeCertResolver :: string
  sc_EdgeEntrypoint :: string

record auth_config =
  ac_SessionSecret :: string
  ac_SessionMaxAge :: int

record docker_config =
  kc_Host :: string
  kc_Network :: string
  kc_HostDataRoot :: string

record traefik_config =
  tc_Image :: string
  tc_DashboardOn :: bool
  tc_ConfigDir :: string
  tc_DataDir :: string
  tc_HostDataRoot :: string

record github_config =
  hc_WebhookSecret :: string
  hc_AppID :: int
  hc_AppSlug :: string
  hc_PrivateKey :: string
  hc_ClientID :: string
  hc_ClientSecret :: string

record backup_config =
  bc_Dir :: string
  bc_IntervalMinutes :: int
  bc_RetainCount :: int

record config =
  conf_Server :: server_config
  conf_DatabasePath :: string
  conf_Auth :: auth_config
  conf_Docker :: docker_config
  conf_Traefik :: traefik_config
  conf_GitHub :: github_config
  conf_Backup :: backup_config
  conf_EncryptionKey :: string

type_synonym environment = "string \<Rightarrow> string"

definition envOrDefault :: "environment \<Rightarrow> string \<Rightarrow> string \<Rightarrow> string" where
  "envOrDefault env key fallback = (if env key \<noteq> [] then env key else fallback)"

definition mustEnv :: "environment \<Rightarrow> string \<Rightarrow> string outcome" where
  "mustEnv env key =
     (if env key = [] then Panics (''required environment variable '' @ key @ '' is not set'')
      else Returns (env key))"

definition intDefault :: "environment \<Rightarrow> string \<Rightarrow> int \<Rightarrow> int" where
  "intDefault env key fallback =
     (if env key \<noteq> [] then (case parse_int64 (env key) of Some n \<Rightarrow> n | None \<Rightarrow> fallback) else fallback)"

text \<open>\<open>int64Default\<close> differs from \<open>intDefault\<close> in the Go type only: both are 64 bits.\<close>

definition int64Default :: "environment \<Rightarrow> string \<Rightarrow> int \<Rightarrow> int" where
  "int64Default env key fallback =
     (if env key \<noteq> [] then (case parse_int64 (env key) of Some n \<Rightarrow> n | None \<Rightarrow> fallback) else fallback)"

text \<open>\<open>strconv.ParseBool\<close>.\<close>

definition parse_bool :: "string \<Rightarrow> bool option" where
  "parse_bool s =
     (if s \<in> set [''1'', ''t'', ''T'', ''TRUE'', ''true'', ''True''] then Some True
      else if s \<in> set [''0'', ''f'', ''F'', ''FALSE'', ''false'', ''False''] then Some False
      else None)"

definition boolDefault :: "environment \<Rightarrow> string \<Rightarrow> bool \<Rightarrow> bool" where
  "boolDefault env key fallback =
     (if env key \<noteq> [] then (case parse_bool (env key) of Some b \<Rightarrow> b | None \<Rightarrow> fallback) else fallback)"

definition hostDefault :: "environment \<Rightarrow> string \<Rightarrow> string" where
  "hostDefault env fallback = envOrDefault env ''TALOS_HOST'' fallback"

definition portDefault :: "environment \<Rightarrow> int \<Rightarrow> int" where
  "portDefault env fallback = intDefault env ''TALOS_PORT'' fallback"

fun proxy_mode_str :: "proxy_mode \<Rightarrow> string" where
  "proxy_mode_str ProxyModeInternal = ''internal''"
| "proxy_mode_str ProxyModeExternal = ''external''"

definition proxyModeDefault :: "environment \<Rightarrow> string \<Rightarrow> proxy_mode \<Rightarrow> proxy_mode" where
  "proxyModeDefault env key fallback =
     (let v = envOrDefault env key (proxy_mode_str fallback) in
      if v = ''internal'' then ProxyModeInternal
      else if v = ''external'' then ProxyModeExternal
      else fallback)"

definition edgeProviderDefault :: "environment \<Rightarrow> string \<Rightarrow> config_edge_provider \<Rightarrow> config_edge_provider" where
  "edgeProviderDefault env key fallback =
     (let v = envOrDefault env key ''traefik'' in if v = ''traefik'' then EdgeProviderTraefik else fallback)"

definition Load :: "environment \<Rightarrow> config outcome" where
  "Load env =
     bind_outcome (mustEnv env ''TALOS_SESSION_SECRET'') (\<lambda>secret. Returns
       \<lparr>conf_Server =
          \<lparr>sc_Host = hostDefault env ''0.0.0.0'', sc_Port = portDefault env 3000,
           sc_Domain = envOrDefault env ''TALOS_DOMAIN'' [],
           sc_ACMEEmail = envOrDefault env ''TALOS_ACME_EMAIL'' [],
           sc_ProxyMode = proxyModeDefault env ''TALOS_PROXY_MODE'' ProxyModeInternal,
           sc_EdgeProvider = edgeProviderDefault env ''TALOS_EDGE_PROVIDER'' EdgeProviderTraefik,
           sc_EdgeNetwork = envOrDefault env ''TALOS_EDGE_NETWORK'' ''traefik-public'',
           sc_EdgeCertResolver = envOrDefault env ''TALOS_EDGE_CERT_RESOLVER'' ''letsencrypt'',
           sc_EdgeEntrypoint = envOrDefault env ''TALOS_EDGE_ENTRYPOINT'' ''websecure''\<rparr>,
        conf_DatabasePath = envOrDefault env ''TALOS_DB_PATH'' ''data/talos.db'',
        conf_Auth =
          \<lparr>ac_SessionSecret = secret, ac_SessionMaxAge = intDefault env ''TALOS_SESSION_MAX_AGE'' (86400 * 7)\<rparr>,
        conf_Docker =
          \<lparr>kc_Host = envOrDefault env ''TALOS_DOCKER_HOST'' ''unix:///var/run/docker.sock'',
           kc_Network = envOrDefault env ''TALOS_DOCKER_NETWORK'' ''talos'',
           kc_HostDataRoot = envOrDefault env ''TALOS_HOST_DATA_ROOT'' []\<rparr>,
        conf_Traefik =
          \<lparr>tc_Image = envOrDefault env ''TALOS_TRAEFIK_IMAGE'' ''traefik:v3.0'',
           tc_DashboardOn = boolDefault env ''TALOS_TRAEFIK_DASHBOARD'' False,
           tc_ConfigDir = envOrDefault env ''TALOS_TRAEFIK_CONFIG_DIR'' ''data/traefik/config'',
           tc_DataDir = envOrDefault env ''TALOS_TRAEFIK_DATA_DIR'' ''data/traefik/data'',
           tc_HostDataRoot = envOrDefault env ''TALOS_HOST_DATA_ROOT'' []\<rparr>,
        conf_GitHub =
          \<lparr>hc_WebhookSecret = envOrDefault env ''TALOS_GITHUB_WEBHOOK_SECRET'' [],
           hc_AppID = int64Default env ''TALOS_GITHUB_APP_ID'' 0,
           hc_AppSlug = envOrDefault env ''TALOS_GITHUB_APP_SLUG'' [],
           hc_PrivateKey = envOrDefault env ''TALOS_GITHUB_APP_PRIVATE_KEY'' [],
           hc_ClientID = envOrDefault env ''TALOS_GITHUB_APP_CLIENT_ID'' [],
           hc_ClientSecret = envOrDefault env ''TALOS_GITHUB_APP_CLIENT_SECRET'' []\<rparr>,
        conf_Backup =
          \<lparr>bc_Dir = envOrDefault env ''TALOS_BACKUP_DIR'' ''data/backups'',
           bc_IntervalMinutes = intDefault env ''TALOS_BACKUP_INTERVAL_MINUTES'' 0,
           bc_RetainCount = intDefault env ''TALOS_BACKUP_RETAIN_COUNT'' 10\<rparr>,
        conf_EncryptionKey = envOrDefault env ''TALOS_ENCRYPTION_KEY'' []\<rparr>)"

text \<open>Loading panics exactly when the session secret is not set; otherwise the secret is the
  variable's value, a number that is missing or does not parse takes its default, and the proxy mode
  is external exactly when the variable says so.\<close>

theorem Load_spec:
  "case Load env of
     Panics m \<Rightarrow> env ''TALOS_SESSION_SECRET'' = []
   | Returns c \<Rightarrow>
       ac_SessionSecret (conf_Auth c) = env ''TALOS_SESSION_SECRET'' \<and> ac_SessionSecret (conf_Auth c) \<noteq> [] \<and>
       sc_Port (conf_Server c) = (case parse_int64 (env ''TALOS_PORT'') of None \<Rightarrow> 3000 | Some n \<Rightarrow> n) \<and>
       bc_RetainCount (conf_Backup c) =
         (case parse_int64 (env ''TALOS_BACKUP_RETAIN_COUNT'') of None \<Rightarrow> 10 | Some n \<Rightarrow> n) \<and>
       (sc_ProxyMode (conf_Server c) = ProxyModeExternal) = (env ''TALOS_PROXY_MODE'' = ''external'')"
  by (auto simp: Load_def mustEnv_def portDefault_def intDefault_def proxyModeDefault_def envOrDefault_def
      parse_int64_def Let_def split: option.split)

end
