(* ===== verification/Traefik_Proxy.thy ===== *)
theory Traefik_Proxy
  imports Docker_Client Config
begin

text \<open>
  \<open>internal/proxy/traefik/manager.go\<close>: the route files and container labels that make
  Traefik send a domain to an app.  The templates do not escape what they interpolate.
\<close>

record traefik_manager =
  tm_configDir :: string
  tm_dataDir :: string
  tm_hostDataRoot :: string
  tm_network :: string
  tm_edgeNetwork :: string
  tm_domain :: string
  tm_acmeEmail :: string
  tm_edgeCertResolver :: string
  tm_edgeEntrypoint :: string
  tm_proxyMode :: proxy_mode
  tm_serverPort :: int

definition traefikContainerName :: string where
  "traefikContainerName = ''talos-traefik''"

definition unlines :: "string list \<Rightarrow> string" where
  "unlines ls = concat (map (\<lambda>l. l @ [CHR 0x0A]) ls)"

record route_data =
  rd_Name :: string
  rd_Rule :: string
  rd_ContainerName :: string
  rd_InternalPort :: int
  rd_EntryPoints :: "string list"
  rd_TLS :: bool

record static_route_data =
  sd_Name :: string
  sd_Rule :: string
  sd_TargetURL :: string

definition appRouteTemplate :: "route_data \<Rightarrow> string" where
  "appRouteTemplate d = unlines
     ([''http:'',
       ''  routers:'',
       ''    '' @ rd_Name d @ '':'',
       ''      rule: '' @ quoted (rd_Rule d),
       ''      service: '' @ quoted (rd_Name d),
       ''      entryPoints:''] @
      map (\<lambda>e. ''        - '' @ e) (rd_EntryPoints d) @
      (if rd_TLS d then [''      tls:'', ''        certResolver: letsencrypt''] else []) @
      [''  services:'',
       ''    '' @ rd_Name d @ '':'',
       ''      loadBalancer:'',
       ''        servers:'',
       ''          - url: '' @ quoted (''http://'' @ rd_ContainerName d @ '':'' @ itoa (rd_InternalPort d))])"

definition staticRouteTemplate :: "static_route_data \<Rightarrow> string" where
  "staticRouteTemplate d = unlines
     [''http:'',
      ''  routers:'',
      ''    '' @ sd_Name d @ '':'',
      ''      rule: '' @ quoted (sd_Rule d),
      ''      service: '' @ quoted (sd_Name d),
      ''      entryPoints:'',
      ''        - websecure'',
      ''      tls:'',
      ''        certResolver: letsencrypt'',
      ''  services:'',
      ''    '' @ sd_Name d @ '':'',
      ''      loadBalancer:'',
      ''        servers:'',
      ''          - url: '' @ quoted (sd_TargetURL d)]"

definition host_rule :: "string \<Rightarrow> string" where
  "host_rule dnm = ''Host('' @ [CHR 0x60] @ dnm @ [CHR 0x60] @ '')''"

definition route_path :: "traefik_manager \<Rightarrow> string \<Rightarrow> string" where
  "route_path m appName = path_join [tm_configDir m, appName @ ''.yml'']"

definition Init :: "outside \<Rightarrow> traefik_manager \<Rightarrow> world \<Rightarrow> (go_error + unit) \<times> world" where
  "Init out m w =
     (case perform (MkdirAll (tm_configDir m)) (\<lambda>h. o_file out h (MkdirAll (tm_configDir m))) w of
        (Inl e, w1) \<Rightarrow> (Inl (Wrap ''create config dir'' e), w1)
      | (Inr _, w1) \<Rightarrow>
          (case perform (MkdirAll (tm_dataDir m)) (\<lambda>h. o_file out h (MkdirAll (tm_dataDir m))) w1 of
             (Inl e, w2) \<Rightarrow> (Inl (Wrap ''create data dir'' e), w2)
           | (Inr _, w2) \<Rightarrow> (Inr (), w2)))"

definition app_route :: "traefik_manager \<Rightarrow> app \<Rightarrow> string \<Rightarrow> route_data" where
  "app_route m a containerName =
     \<lparr>rd_Name = app_Name a, rd_Rule = host_rule (app_Domain a), rd_ContainerName = containerName,
      rd_InternalPort = app_InternalPort a,
      rd_EntryPoints = (if tm_domain m \<noteq> [] then [''websecure''] else [''web'']),
      rd_TLS = (tm_domain m \<noteq> [])\<rparr>"

text \<open>\<open>os.Create\<close> and the execution of a template into the file, each with its error.\<close>

definition write_route :: "outside \<Rightarrow> string \<Rightarrow> string \<Rightarrow> string \<Rightarrow> string \<Rightarrow> world \<Rightarrow> (go_error + unit) \<times> world" where
  "write_route out createErr writeErr path contents w =
     (case create_file out path w of
        (Inl e, w1) \<Rightarrow> (Inl (Wrap createErr e), w1)
      | (Inr _, w1) \<Rightarrow>
          (case write_contents out path contents w1 of
             (Inl e, w2) \<Rightarrow> (Inl (Wrap writeErr e), w2)
           | (Inr _, w2) \<Rightarrow> (Inr (), w2)))"

definition UpdateRoute :: "outside \<Rightarrow> traefik_manager \<Rightarrow> app \<Rightarrow> string \<Rightarrow> world \<Rightarrow> (go_error + unit) \<times> world" where
  "UpdateRoute out m a containerName w =
     (if app_AccessMode a = AccessModePort then (Inr (), w)
      else if tm_proxyMode m = ProxyModeExternal then (Inr (), w)
      else if app_AppType a = AppTypeExternalService \<and> app_ExternalTarget a \<noteq> [] then
        write_route out ''create route file'' ''write static route'' (route_path m (app_Name a))
          (staticRouteTemplate \<lparr>sd_Name = app_Name a, sd_Rule = host_rule (app_Domain a),
             sd_TargetURL = app_ExternalTarget a\<rparr>) w
      else
        write_route out ''create route file'' ''write route'' (route_path m (app_Name a))
          (appRouteTemplate (app_route m a containerName)) w)"

definition EnsureTalosRoute :: "outside \<Rightarrow> traefik_manager \<Rightarrow> string \<Rightarrow> world \<Rightarrow> (go_error + unit) \<times> world" where
  "EnsureTalosRoute out m installMode w =
     (if tm_domain m = [] then (Inr (), w)
      else
        (let targetURL = (if installMode \<noteq> ''docker'' then ''http://host.docker.internal:'' else ''http://talos:'')
               @ itoa (tm_serverPort m)
         in
         write_route out ''create talos route file'' ''write talos route''
           (path_join [tm_configDir m, ''talos-ui.yml''])
           (staticRouteTemplate \<lparr>sd_Name = ''talos-ui'', sd_Rule = host_rule (tm_domain m),
              sd_TargetURL = targetURL\<rparr>) w))"

definition RemoveRoute :: "outside \<Rightarrow> traefik_manager \<Rightarrow> string \<Rightarrow> world \<Rightarrow> (go_error + unit) \<times> world" where
  "RemoveRoute out m appName w =
     (case remove_file out (route_path m appName) w of
        (Inl e, w1) \<Rightarrow> (if is_not_exist e then Inr () else Inl (Wrap ''remove route'' e), w1)
      | (Inr _, w1) \<Rightarrow> (Inr (), w1))"

definition DomainMode :: "traefik_manager \<Rightarrow> bool" where
  "DomainMode m \<longleftrightarrow> tm_domain m \<noteq> []"

definition SupportsAppDomains :: "traefik_manager \<Rightarrow> bool" where
  "SupportsAppDomains m = True"

definition RequiresExclusiveSwitch :: "traefik_manager \<Rightarrow> app \<Rightarrow> bool" where
  "RequiresExclusiveSwitch m a \<longleftrightarrow> tm_proxyMode m = ProxyModeExternal \<and> app_AccessMode a = AccessModeDomain"

definition ExternalNetworks :: "traefik_manager \<Rightarrow> app \<Rightarrow> string list" where
  "ExternalNetworks m a =
     (if tm_proxyMode m \<noteq> ProxyModeExternal \<or> app_AccessMode a \<noteq> AccessModeDomain \<or> tm_edgeNetwork m = [] then []
      else if tm_edgeNetwork m = tm_network m then []
      else [tm_edgeNetwork m])"

definition edgeNetworkOrDefault :: "traefik_manager \<Rightarrow> string" where
  "edgeNetworkOrDefault m = (if tm_edgeNetwork m = [] then ''traefik-public'' else tm_edgeNetwork m)"

definition edgeCertResolverOrDefault :: "traefik_manager \<Rightarrow> string" where
  "edgeCertResolverOrDefault m = (if tm_edgeCertResolver m = [] then ''letsencrypt'' else tm_edgeCertResolver m)"

definition edgeEntrypointOrDefault :: "traefik_manager \<Rightarrow> string" where
  "edgeEntrypointOrDefault m = (if tm_edgeEntrypoint m = [] then ''websecure'' else tm_edgeEntrypoint m)"

definition ExternalLabels :: "traefik_manager \<Rightarrow> app \<Rightarrow> (string \<times> string) list" where
  "ExternalLabels m a =
     (if tm_proxyMode m \<noteq> ProxyModeExternal \<or> app_AccessMode a \<noteq> AccessModeDomain \<or> app_Domain a = [] then []
      else
        [(''traefik.enable'', ''true''),
         (''traefik.docker.network'', edgeNetworkOrDefault m),
         (''traefik.http.routers.'' @ app_Name a @ ''.rule'', host_rule (app_Domain a)),
         (''traefik.http.routers.'' @ app_Name a @ ''.entrypoints'', edgeEntrypointOrDefault m),
         (''traefik.http.routers.'' @ app_Name a @ ''.tls'', ''true''),
         (''traefik.http.routers.'' @ app_Name a @ ''.tls.certresolver'', edgeCertResolverOrDefault m),
         (''traefik.http.services.'' @ app_Name a @ ''.loadbalancer.server.port'', itoa (app_InternalPort a))])"

text \<open>\<open>hostPath\<close>: the \<open>/data\<close> prefix of a path in the container is the host's data
  root.\<close>

definition hostPath :: "traefik_manager \<Rightarrow> string \<Rightarrow> string" where
  "hostPath m containerPath =
     (if tm_hostDataRoot m = [] then containerPath
      else if has_prefix containerPath ''/data/'' then replace_first containerPath ''/data'' (tm_hostDataRoot m)
      else if containerPath = ''/data'' then tm_hostDataRoot m
      else containerPath)"

definition static_config :: "traefik_manager \<Rightarrow> string" where
  "static_config m = unlines
     [''api:'', ''  dashboard: false'', ''  insecure: false'', [],
      ''entryPoints:'', ''  web:'', ''    address: '' @ quoted '':80'', ''    http:'', ''      redirections:'',
      ''        entryPoint:'', ''          to: websecure'', ''          scheme: https'',
      ''  websecure:'', ''    address: '' @ quoted '':443'', [],
      ''certificatesResolvers:'', ''  letsencrypt:'', ''    acme:'', ''      email: '' @ tm_acmeEmail m,
      ''      storage: /data/acme.json'', ''      httpChallenge:'', ''        entryPoint: web'', [],
      ''providers:'', ''  file:'', ''    directory: /etc/traefik/config'', ''    watch: true'', [],
      ''log:'', ''  level: WARN'']"

definition writeStaticConfig :: "outside \<Rightarrow> traefik_manager \<Rightarrow> world \<Rightarrow> (go_error + unit) \<times> world" where
  "writeStaticConfig out m w = write_file out (path_join [tm_dataDir m, ''traefik.yml'']) (static_config m) w"

text \<open>
  \<open>EnsureTraefik\<close>.  Whether \<open>traefik.yml\<close> is a directory (Docker makes one for a
  missing mount source) is the argument \<open>isDir\<close>; then it is removed and written again.
\<close>

definition rewrite_static_config :: "outside \<Rightarrow> traefik_manager \<Rightarrow> bool \<Rightarrow> world \<Rightarrow> (go_error + unit) \<times> world" where
  "rewrite_static_config out m isDir w =
     (if isDir then
        (let p = path_join [tm_dataDir m, ''traefik.yml''];
             w1 = snd (perform (RemoveAll p) (\<lambda>h. o_file out h (RemoveAll p)) w)
         in
         (case writeStaticConfig out m w1 of
            (Inl e, w2) \<Rightarrow> (Inl (Wrap ''rewrite static config'' e), w2)
          | (Inr _, w2) \<Rightarrow> (Inr (), w2)))
      else (Inr (), w))"

definition traefik_container :: "traefik_manager \<Rightarrow> string \<Rightarrow> container_config" where
  "traefik_container m img =
     empty_config\<lparr>cfg_Name := traefikContainerName, cfg_ImageRef := img,
       cfg_Volumes :=
         [hostPath m (path_join [tm_dataDir m, ''traefik.yml'']) @ '':/etc/traefik/traefik.yml:ro'',
          hostPath m (tm_configDir m) @ '':/etc/traefik/config:ro'',
          hostPath m (tm_dataDir m) @ '':/data'',
          ''/var/run/docker.sock:/var/run/docker.sock:ro''],
       cfg_Labels := [(''managed-by'', ''talos'')],
       cfg_Ports := [''80:80'', ''443:443''],
       cfg_ExtraHosts := [''host.docker.internal:host-gateway'']\<rparr>"

definition start_traefik ::
  "outside \<Rightarrow> docker_client \<Rightarrow> traefik_manager \<Rightarrow> string \<Rightarrow> bool \<Rightarrow> world \<Rightarrow> (go_error + unit) \<times> world" where
  "start_traefik out dc m img isDir w =
     (let w1 = snd (StopAndRemove out traefikContainerName w) in
      (case writeStaticConfig out m w1 of
         (Inl e, w2) \<Rightarrow> (Inl (Wrap ''write static config'' e), w2)
       | (Inr _, w2) \<Rightarrow>
           (case rewrite_static_config out m isDir w2 of
              (Inl e, w3) \<Rightarrow> (Inl e, w3)
            | (Inr _, w3) \<Rightarrow>
                (case PullImage out img w3 of
                   (Inl e, w4) \<Rightarrow> (Inl (Wrap ''pull traefik image'' e), w4)
                 | (Inr _, w4) \<Rightarrow>
                     (case StartContainerWithConfig out dc (traefik_container m img) w4 of
                        (Inl e, w5) \<Rightarrow> (Inl (Wrap ''start traefik'' e), w5)
                      | (Inr _, w5) \<Rightarrow> (Inr (), w5))))))"

definition EnsureTraefik ::
  "outside \<Rightarrow> docker_client \<Rightarrow> traefik_manager \<Rightarrow> string \<Rightarrow> bool \<Rightarrow> world \<Rightarrow> (go_error + unit) \<times> world" where
  "EnsureTraefik out dc m img isDir w =
     (if tm_proxyMode m = ProxyModeExternal then (Inr (), w)
      else if tm_domain m = [] then (Inr (), w)
      else
        (let (talos, w1) = Inspect out ''talos'' w;
             installMode = (if is_ok talos then ''docker'' else ''bare'')
         in
         (case EnsureTalosRoute out m installMode w1 of
            (Inl e, w2) \<Rightarrow> (Inl (Wrap ''write talos ui route'' e), w2)
          | (Inr _, w2) \<Rightarrow>
              (case Inspect out traefikContainerName w2 of
                 (Inr st, w3) \<Rightarrow> if st_Running st then (Inr (), w3) else start_traefik out dc m img isDir w3
               | (Inl _, w3) \<Rightarrow> start_traefik out dc m img isDir w3))))"

section \<open>What a route write changes\<close>

lemma write_route_frame:
  "write_route out ce we p c w = (r, w1) \<Longrightarrow>
     w_db w1 = w_db w \<and> w_broadcaster w1 = w_broadcaster w \<and> w_panic w1 = w_panic w \<and>
     (\<exists>ext. w_history w1 = w_history w @ ext \<and> set (map fst ext) \<subseteq> {FileCreate p, FileWrite p c})"
  by (auto simp: write_route_def create_file_def write_contents_def perform_def Let_def split: sum.splits prod.splits)

lemma write_route_files:
  "write_route out ce we p c w = (r, w1) \<Longrightarrow>
     (if is_ok r then w_files w1 = (w_files w)(p \<mapsto> c)
      else \<forall>q. q \<noteq> p \<longrightarrow> w_files w1 q = w_files w q)"
  by (auto simp: write_route_def dest!: create_file_files write_contents_files split: prod.splits sum.splits)

lemma UpdateRoute_frame:
  "UpdateRoute out m a c w = (r, w1) \<Longrightarrow>
     w_db w1 = w_db w \<and> w_broadcaster w1 = w_broadcaster w \<and> w_panic w1 = w_panic w \<and>
     (\<exists>ext. w_history w1 = w_history w @ ext \<and>
        set (map fst ext) \<subseteq> {FileCreate p | p. True} \<union> {FileWrite p c | p c. True})"
  by (fastforce simp: UpdateRoute_def dest!: write_route_frame split: if_splits)

end
