(* ===== verification/Proxy_Claims.thy ===== *)
theory Proxy_Claims
  imports Traefik_Proxy
begin

text \<open>
  What the proxy manager promises: which file a route goes to, what it contains, and that an app
  without a slash in its name can only touch its own file in the configuration directory.
\<close>

lemma yml_plain: "CHR ''/'' \<notin> set n \<Longrightarrow> plain_component (n @ ''.yml'')"
  by (cases n) (auto simp: plain_component_def)

lemma route_path_plain:
  "tm_configDir m \<noteq> [] \<Longrightarrow> CHR ''/'' \<notin> set n \<Longrightarrow>
     route_path m n = (if path_is_abs (tm_configDir m) then ''/'' else []) @
       join ''/'' (clean_dir (tm_configDir m) @ [n @ ''.yml''])"
  by (simp add: route_path_def path_join_plain yml_plain)

text \<open>For names without a slash the route file is the file \<open>name.yml\<close> directly in the
  configuration directory, and different apps have different route files.\<close>

theorem route_path_inj:
  assumes "tm_configDir m \<noteq> []" and "CHR ''/'' \<notin> set n" and "CHR ''/'' \<notin> set n'"
  shows "route_path m n = (if path_is_abs (tm_configDir m) then ''/'' else []) @
      join ''/'' (clean_dir (tm_configDir m) @ [n @ ''.yml'']) \<and>
    (route_path m n = route_path m n' \<longleftrightarrow> n = n')"
  using assms path_join_plain_inj [OF assms(1) yml_plain yml_plain] route_path_plain
  by (auto simp: route_path_def)

definition sample_manager :: traefik_manager where
  "sample_manager =
     \<lparr>tm_configDir = ''data/traefik/config'', tm_dataDir = ''data/traefik/data'', tm_hostDataRoot = [],
      tm_network = ''talos'', tm_edgeNetwork = ''traefik-public'', tm_domain = ''t.example'', tm_acmeEmail = [],
      tm_edgeCertResolver = [], tm_edgeEntrypoint = [], tm_proxyMode = ProxyModeInternal, tm_serverPort = 3000\<rparr>"

theorem route_path_inj_witness:
  "route_path sample_manager ''blog'' \<noteq> route_path sample_manager ''shop''"
proof -
  have "tm_configDir sample_manager \<noteq> []" by (simp add: sample_manager_def)
  then have "route_path sample_manager ''blog'' = route_path sample_manager ''shop'' \<longleftrightarrow> ''blog'' = ''shop''"
    by (rule route_path_inj [THEN conjunct2]) simp_all
  then show ?thesis by simp
qed

text \<open>Nothing in the handlers rejects a slash in a name, and such a name leaves the directory.\<close>

lemma route_path_traversal: "route_path sample_manager ''../../../x'' = ''x.yml''"
  by code_simp


lemma UpdateRoute_db: "w_db (snd (UpdateRoute out m a c w)) = w_db w"
  using UpdateRoute_frame [of out m a c w "fst (UpdateRoute out m a c w)" "snd (UpdateRoute out m a c w)"] by (simp split: prod.splits)

text \<open>\<open>RemoveRoute\<close> never fails because there is no route, and after it has succeeded
  the app has no route file; no other file changes.\<close>

theorem RemoveRoute_spec:
  "case RemoveRoute out m n w of (r, w1) \<Rightarrow>
     (w_files w (route_path m n) = None \<longrightarrow> r = Inr () \<and> w1 = w) \<and>
     (r = Inr () \<longrightarrow> w_files w1 (route_path m n) = None) \<and>
     (\<forall>p. p \<noteq> route_path m n \<longrightarrow> w_files w1 p = w_files w p)"
  by (auto simp: RemoveRoute_def remove_file_def perform_def Let_def is_not_exist_def ErrNoEnt_def split: sum.split)

theorem RemoveRoute_spec_witness:
  "case RemoveRoute calm_outside sample_manager ''blog'' sample_world of (r, w1) \<Rightarrow> r = Inr ()"
  using RemoveRoute_spec [where w = sample_world and out = calm_outside and m = sample_manager and n = "''blog''"]
  by (simp add: sample_world_def split: prod.splits)

end
