(* ===== verification/Crypto.thy ===== *)
theory Crypto
  imports World Base64
begin

text \<open>
  \<open>internal/crypto/crypto.go\<close>.  AES-256-GCM itself (\<open>crypto/aes\<close>, \<open>crypto/cipher\<close>)
  is the pair \<open>o_seal\<close>, \<open>o_open\<close> of the outside: the sealed bytes for a key, a nonce and a
  plaintext, and the plaintext for a key, a nonce and sealed bytes, or the authentication error.
  For a key of 32 bytes neither \<open>aes.NewCipher\<close> nor \<open>cipher.NewGCM\<close> fails.
\<close>

definition nonce_size :: nat where
  "nonce_size = 12"

definition key_length_error :: "string \<Rightarrow> string \<Rightarrow> go_error" where
  "key_length_error what key = ErrText (what @ '' must be 32 bytes, got '' @ nat_digits (length key))"

definition random_bytes :: "outside \<Rightarrow> nat \<Rightarrow> world \<Rightarrow> (go_error + string) \<times> world" where
  "random_bytes out n w = perform (RandomBytes n) (\<lambda>h. o_rand out h n) w"

definition Encrypt :: "outside \<Rightarrow> string \<Rightarrow> string \<Rightarrow> world \<Rightarrow> (go_error + string) \<times> world" where
  "Encrypt out plaintext key w =
     (if length key \<noteq> 32 then (Inl (key_length_error ''encryption key'' key), w)
      else
        (case random_bytes out nonce_size w of
           (Inl e, w1) \<Rightarrow> (Inl (Wrap ''generate nonce'' e), w1)
         | (Inr nonce, w1) \<Rightarrow> (Inr (b64_encode (nonce @ o_seal out key nonce plaintext)), w1)))"

definition Decrypt :: "outside \<Rightarrow> string \<Rightarrow> string \<Rightarrow> go_error + string" where
  "Decrypt out encoded key =
     (if length key \<noteq> 32 then Inl (key_length_error ''encryption key'' key)
      else
        (case b64_decode encoded of
           None \<Rightarrow> Inl (Wrap ''decode base64'' (ErrText ''illegal base64 data''))
         | Some data \<Rightarrow>
             if length data < nonce_size then Inl (ErrText ''ciphertext too short'')
             else wrap_err ''decrypt'' (o_open out key (take nonce_size data) (drop nonce_size data))))"

definition EncodeKey :: "string \<Rightarrow> string" where
  "EncodeKey key = b64_encode key"

definition DecodeKey :: "string \<Rightarrow> go_error + string" where
  "DecodeKey encoded =
     (case b64_decode encoded of
        None \<Rightarrow> Inl (Wrap ''decode key'' (ErrText ''illegal base64 data''))
      | Some key \<Rightarrow> if length key \<noteq> 32 then Inl (key_length_error ''key'' key) else Inr key)"

section \<open>What is stored can be read back\<close>

text \<open>The documented law of an authenticated cipher, and of the random source: it fills the whole
  buffer.\<close>

definition opens_sealed :: "outside \<Rightarrow> bool" where
  "opens_sealed out \<longleftrightarrow> (\<forall>key nonce p. length nonce = nonce_size \<longrightarrow> o_open out key nonce (o_seal out key nonce p) = Inr p)"

definition fills_buffers :: "outside \<Rightarrow> bool" where
  "fills_buffers out \<longleftrightarrow> (\<forall>h n bs. o_rand out h n = Inr bs \<longrightarrow> length bs = n)"

lemma Encrypt_result:
  assumes "Encrypt out p key w = (Inr c, w1)" and "fills_buffers out"
  shows "length key = 32 \<and> (\<exists>nonce. length nonce = nonce_size \<and> c = b64_encode (nonce @ o_seal out key nonce p))"
  using assms
  by (auto simp: Encrypt_def random_bytes_def perform_def Let_def fills_buffers_def split: if_splits sum.splits)

lemma decrypt_encrypted:
  assumes "opens_sealed out" and "fills_buffers out" and "Encrypt out p key w = (Inr c, w1)"
  shows "Decrypt out c key = Inr p \<and> length key = 32"
  using Encrypt_result [OF assms(3,2)] assms(1)
  by (auto simp: Decrypt_def opens_sealed_def)

lemma Encrypt_frame:
  "Encrypt out p key w = (r, w1) \<Longrightarrow>
     w_db w1 = w_db w \<and> w_files w1 = w_files w \<and> w_broadcaster w1 = w_broadcaster w \<and> w_panic w1 = w_panic w"
  by (auto simp: Encrypt_def random_bytes_def perform_def Let_def split: if_splits sum.splits)

text \<open>For every key, \<open>Decrypt\<close> gives back what \<open>Encrypt\<close> encrypted with it, whatever
  nonce was drawn, as long as the cipher opens what it sealed; and a wrong key length is refused
  by both.\<close>

theorem Decrypt_Encrypt:
  assumes "opens_sealed out" and "fills_buffers out" and "Encrypt out p key w = (Inr c, w1)"
  shows "Decrypt out c key = Inr p \<and> length key = 32"
  using assms by (rule decrypt_encrypted)

lemma calm_outside_crypto: "opens_sealed calm_outside" "fills_buffers calm_outside"
  by (auto simp: opens_sealed_def fills_buffers_def calm_outside_def)

theorem Decrypt_Encrypt_witness:
  "\<exists>c w1. Encrypt calm_outside ''secret'' (replicate 32 (CHR ''k'')) sample_world = (Inr c, w1) \<and>
     Decrypt calm_outside c (replicate 32 (CHR ''k'')) = Inr ''secret''"
proof -
  obtain c w1 where e: "Encrypt calm_outside ''secret'' (replicate 32 (CHR ''k'')) sample_world = (Inr c, w1)"
    by (simp add: Encrypt_def random_bytes_def perform_def Let_def calm_outside_def)
  show ?thesis using e Decrypt_Encrypt [OF calm_outside_crypto e] by blast
qed

text \<open>An encryption key read back from the env file is the key that was stored; a stored text
  that is not base64 of 32 bytes is refused.\<close>

theorem DecodeKey_EncodeKey:
  "DecodeKey (EncodeKey key) = (if length key = 32 then Inr key else Inl (key_length_error ''key'' key))"
  by (simp add: DecodeKey_def EncodeKey_def)

end
