(* ===== verification/Url_Lib.thy ===== *)
theory Url_Lib
  imports Json
begin

text \<open>
  The part of \<open>net/url\<close> that the program uses: percent escapes, the text of a URL with user
  information, and \<open>url.Parse\<close> as far as host and path go.  The texts of the parser's errors
  are shortened, and a host in square brackets (an IPv6 literal) is taken as it is.
\<close>

datatype url_part = UrlHost | UrlPath | UrlUserPassword | UrlFragment

definition is_alnum :: "char \<Rightarrow> bool" where
  "is_alnum c \<longleftrightarrow>
     (let n = (of_char c :: nat) in (97 \<le> n \<and> n \<le> 122) \<or> (65 \<le> n \<and> n \<le> 90) \<or> (48 \<le> n \<and> n \<le> 57))"

text \<open>\<open>shouldEscape\<close>.\<close>

definition should_escape :: "url_part \<Rightarrow> char \<Rightarrow> bool" where
  "should_escape m c =
     (if is_alnum c then False
      else if m = UrlHost \<and> (c \<in> set ''!$&()*+,;=:[]<>'' \<or> c = CHR 0x22 \<or> c = CHR 0x27) then False
      else if c \<in> set ''-_.~'' then False
      else if c \<in> set ''$&+,/:;=?@'' then
        (case m of
           UrlPath \<Rightarrow> c = CHR ''?''
         | UrlUserPassword \<Rightarrow> c \<in> set ''@/?:''
         | UrlFragment \<Rightarrow> False
         | UrlHost \<Rightarrow> True)
      else if m = UrlFragment \<and> c \<in> set ''!()*'' then False
      else True)"

definition upper_hex :: "nat \<Rightarrow> char" where
  "upper_hex n = (if n < 10 then char_of (48 + n) else char_of (55 + n))"

definition escape_char :: "url_part \<Rightarrow> char \<Rightarrow> string" where
  "escape_char m c =
     (if should_escape m c then [CHR ''%'', upper_hex (of_char c div 16), upper_hex (of_char c mod 16)] else [c])"

definition url_escape :: "url_part \<Rightarrow> string \<Rightarrow> string" where
  "url_escape m s = concat (map (escape_char m) s)"

text \<open>\<open>unescape\<close>: in a host only \<open>%25\<close> and bytes above 127 may be escaped, and no
  other character that would need an escape may occur.\<close>

fun url_unescape :: "url_part \<Rightarrow> string \<Rightarrow> string option" where
  "url_unescape m [] = Some []"
| "url_unescape m (c # cs) =
     (if c = CHR ''%'' then
        (case cs of
           a # b # rest \<Rightarrow>
             (case (hex_val a, hex_val b) of
                (Some x, Some y) \<Rightarrow>
                  if m = UrlHost \<and> x < 8 \<and> (x, y) \<noteq> (2, 5) then None
                  else map_option (\<lambda>r. char_of (x * 16 + y) # r) (url_unescape m rest)
              | _ \<Rightarrow> None)
         | _ \<Rightarrow> None)
      else if m = UrlHost \<and> (of_char c :: nat) < 128 \<and> should_escape UrlHost c then None
      else map_option (\<lambda>r. c # r) (url_unescape m cs))"

section \<open>The text of a URL\<close>

text \<open>\<open>(&url.URL{Scheme, User: url.UserPassword(user, password), Host, Path}).String()\<close>.\<close>

definition url_string :: "string \<Rightarrow> string \<Rightarrow> string \<Rightarrow> string \<Rightarrow> string \<Rightarrow> string" where
  "url_string scheme user password host path =
     scheme @ ''://'' @ url_escape UrlUserPassword user @ '':'' @ url_escape UrlUserPassword password @ ''@'' @
     url_escape UrlHost host @
     (if path \<noteq> [] \<and> hd path \<noteq> CHR ''/'' \<and> host \<noteq> [] then ''/'' else []) @ url_escape UrlPath path"

section \<open>Parsing\<close>

text \<open>\<open>getScheme\<close>: the scheme (in lower case where it matters, which is nowhere here) and the
  rest; \<open>None\<close> is a colon with no scheme before it.\<close>

definition is_letter :: "char \<Rightarrow> bool" where
  "is_letter c \<longleftrightarrow> is_alnum c \<and> \<not> is_digit c"

definition get_scheme :: "string \<Rightarrow> (string \<times> string) option" where
  "get_scheme s =
     (let run = takeWhile (\<lambda>c. is_alnum c \<or> c \<in> set ''+-.'') s;
          rest = drop (length run) s
      in
      if rest = [] \<or> hd rest \<noteq> CHR '':'' then Some ([], s)
      else if run = [] then None
      else if \<not> is_letter (hd run) then Some ([], s)
      else Some (run, tl rest))"

definition last_cut :: "char \<Rightarrow> string \<Rightarrow> (string \<times> string) option" where
  "last_cut c s = (case cut_char c (rev s) of None \<Rightarrow> None | Some (b, a) \<Rightarrow> Some (rev a, rev b))"

definition parse_host :: "string \<Rightarrow> string option" where
  "parse_host h =
     (if has_prefix h ''['' then Some h
      else
        (case last_cut (CHR '':'') h of
           Some (_, port) \<Rightarrow> if list_all is_digit port then url_unescape UrlHost h else None
         | None \<Rightarrow> url_unescape UrlHost h))"

definition valid_userinfo :: "string \<Rightarrow> bool" where
  "valid_userinfo s \<longleftrightarrow> list_all (\<lambda>c. is_alnum c \<or> c \<in> set ''-._:~!$&()*+,;=%@'' \<or> c = CHR 0x27) s"

text \<open>\<open>parseAuthority\<close>; of the user information only whether it is well formed matters.\<close>

definition parse_authority :: "string \<Rightarrow> string option" where
  "parse_authority a =
     (case last_cut (CHR ''@'') a of
        None \<Rightarrow> parse_host a
      | Some (user, h) \<Rightarrow>
          (case parse_host h of
             None \<Rightarrow> None
           | Some host \<Rightarrow>
               if valid_userinfo user \<and> list_all (\<lambda>p. url_unescape UrlUserPassword p \<noteq> None) (splitn2 (CHR '':'') user)
               then Some host else None))"

text \<open>Host and path of the URL behind the scheme, without query and fragment.\<close>

definition parse_rest :: "string \<Rightarrow> string \<Rightarrow> (string \<times> string) option" where
  "parse_rest scheme r =
     (if \<not> has_prefix r ''/'' \<and> scheme \<noteq> [] then Some ([], [])
      else if \<not> has_prefix r ''/'' \<and> CHR '':'' \<in> set (takeWhile (\<lambda>c. c \<noteq> CHR ''/'') r) then None
      else
        (let authority = has_prefix r ''//'' \<and> (scheme \<noteq> [] \<or> \<not> has_prefix r ''///'');
             a = takeWhile (\<lambda>c. c \<noteq> CHR ''/'') (drop 2 r);
             p = (if authority then drop (length a) (drop 2 r) else r)
         in
         (case (if authority then parse_authority a else Some []) of
            None \<Rightarrow> None
          | Some host \<Rightarrow> map_option (\<lambda>path. (host, path)) (url_unescape UrlPath p))))"

text \<open>\<open>url.Parse\<close>: the host and the path, or an error.\<close>

definition parse_url :: "string \<Rightarrow> (string \<times> string) option" where
  "parse_url raw =
     (let u = takeWhile (\<lambda>c. c \<noteq> CHR ''#'') raw;
          frag = drop (Suc (length u)) raw
      in
      if \<not> list_all (\<lambda>c. 32 \<le> (of_char c :: nat) \<and> of_char c \<noteq> (127 :: nat)) raw then None
      else if url_unescape UrlFragment frag = None then None
      else if u = ''*'' then Some ([], ''*'')
      else
        (case get_scheme u of
           None \<Rightarrow> None
         | Some (scheme, rest) \<Rightarrow> parse_rest scheme (takeWhile (\<lambda>c. c \<noteq> CHR ''?'') rest)))"

section \<open>Escapes can be read back\<close>

lemma upper_hex_val: "n < 16 \<Longrightarrow> hex_val (upper_hex n) = Some n"
  by (auto simp: hex_val_def upper_hex_def Let_def)

lemma percent_escaped: "m \<noteq> UrlHost \<Longrightarrow> should_escape m (CHR ''%'')"
  by (simp add: should_escape_def is_alnum_def)

lemma url_unescape_escape_char:
  assumes "m \<noteq> UrlHost"
  shows "url_unescape m (escape_char m c @ s) = map_option (Cons c) (url_unescape m s)"
proof (cases "should_escape m c")
  case True
  have d: "(of_char c :: nat) div 16 < 16" "(of_char c :: nat) mod 16 < 16"
    using nat_of_char_less_256 [of c] by (auto intro!: less_mult_imp_div_less)
  have j: "char_of ((of_char c :: nat) div 16 * 16 + of_char c mod 16) = c" by (simp only: div_mult_mod_eq) simp
  show ?thesis using True assms by (simp add: escape_char_def upper_hex_val d j)
next
  case False
  then have "c \<noteq> CHR ''%''" using percent_escaped [OF assms] by auto
  with False assms show ?thesis by (simp add: escape_char_def)
qed

lemma url_unescape_escape: "m \<noteq> UrlHost \<Longrightarrow> url_unescape m (url_escape m s) = Some s"
  by (induction s) (simp_all add: url_escape_def url_unescape_escape_char)

lemma upper_hex_plain: "n < 16 \<Longrightarrow> upper_hex n \<notin> set ''@/?:%''"
proof -
  assume n: "n < 16"
  have "list_all (\<lambda>n. upper_hex n \<notin> set ''@/?:%'') [0..<16]" by code_simp
  with n show ?thesis by (simp add: list_all_iff)
qed

text \<open>Escaped user information contains none of the characters that end it.\<close>

lemma escaped_userinfo: "c \<in> set (url_escape UrlUserPassword s) \<Longrightarrow> c \<notin> set ''@/?:''"
proof -
  have "x \<in> set (escape_char UrlUserPassword d) \<Longrightarrow> x \<notin> set ''@/?:''" for x d
  proof -
    have d: "(of_char d :: nat) div 16 < 16" "(of_char d :: nat) mod 16 < 16"
      using nat_of_char_less_256 [of d] by (auto intro!: less_mult_imp_div_less)
    assume "x \<in> set (escape_char UrlUserPassword d)"
    then show ?thesis
      using upper_hex_plain [OF d(1)] upper_hex_plain [OF d(2)]
      by (auto simp: escape_char_def should_escape_def is_alnum_def split: if_splits)
  qed
  then show "c \<in> set (url_escape UrlUserPassword s) \<Longrightarrow> c \<notin> set ''@/?:''"
    unfolding url_escape_def by (simp only: set_concat set_map) blast
qed

end
