(* ===== verification/Github_Client.thy ===== *)
theory Github_Client
  imports World Url_Lib
begin

text \<open>
  \<open>internal/github/client.go\<close> and \<open>auth.go\<close>, as far as the deploy engine and the
  builder use them: the cache of installation tokens, the head of a branch, and the owner and name
  in a repository URL.  The RS256 signature is \<open>o_sign_jwt\<close> and the REST calls of go-github
  are \<open>o_create_token\<close> and \<open>o_get_ref\<close>.
\<close>

definition minute :: int where
  "minute = 60 * 1000000000"

text \<open>\<open>GenerateJWT\<close>: issued now, valid for ten minutes; the dates are whole seconds.\<close>

definition numeric_date :: "time \<Rightarrow> time" where
  "numeric_date t = t div 1000000000"

definition GenerateJWT :: "outside \<Rightarrow> gh_client \<Rightarrow> world \<Rightarrow> go_error + string" where
  "GenerateJWT out c w =
     o_sign_jwt out (itoa (gh_appID c)) (numeric_date (time_now w)) (numeric_date (time_now w + 10 * minute))"

definition IsConfigured :: "gh_client option \<Rightarrow> bool" where
  "IsConfigured c = (case c of None \<Rightarrow> False | Some c \<Rightarrow> gh_appID c \<noteq> 0)"

definition cached_token :: "gh_client \<Rightarrow> int \<Rightarrow> world \<Rightarrow> string option" where
  "cached_token c i w =
     (case w_tokens w (gh_instance c, i) of
        None \<Rightarrow> None
      | Some (tok, expiresAt) \<Rightarrow> if time_now w < expiresAt - 5 * minute then Some tok else None)"

definition getInstallationToken :: "outside \<Rightarrow> gh_client \<Rightarrow> int \<Rightarrow> world \<Rightarrow> (go_error + string) \<times> world" where
  "getInstallationToken out c i w =
     (case cached_token c i w of
        Some tok \<Rightarrow> (Inr tok, w)
      | None \<Rightarrow>
          (case GenerateJWT out c w of
             Inl e \<Rightarrow> (Inl (Wrap ''generate JWT'' e), w)
           | Inr jwt \<Rightarrow>
               (case perform (CreateInstallationToken i) (\<lambda>h. o_create_token out h jwt i) w of
                  (Inl e, w1) \<Rightarrow> (Inl (Wrap ''create installation token'' e), w1)
                | (Inr (tok, expires), w1) \<Rightarrow>
                    (Inr tok, w1\<lparr>w_tokens := (w_tokens w1)((gh_instance c, i) \<mapsto> (tok, expires))\<rparr>))))"

definition GetInstallationToken :: "outside \<Rightarrow> gh_client \<Rightarrow> int \<Rightarrow> world \<Rightarrow> (go_error + string) \<times> world" where
  "GetInstallationToken = getInstallationToken"

definition ResolveBranchHeadSHA ::
  "outside \<Rightarrow> gh_client \<Rightarrow> int \<Rightarrow> string \<Rightarrow> string \<Rightarrow> string \<Rightarrow> world \<Rightarrow> (go_error + string) \<times> world" where
  "ResolveBranchHeadSHA out c i owner repo branch w =
     (case getInstallationToken out c i w of
        (Inl e, w1) \<Rightarrow> (Inl e, w1)
      | (Inr token, w1) \<Rightarrow>
          (case perform (GetRef owner repo (''refs/heads/'' @ branch))
                  (\<lambda>h. o_get_ref out h token owner repo (''refs/heads/'' @ branch)) w1 of
             (Inl e, w2) \<Rightarrow> (Inl (Wrap ''get branch ref'' e), w2)
           | (Inr sha, w2) \<Rightarrow>
               if sha = [] then (Inl (ErrText (''branch '' @ quoted branch @ '' has no HEAD SHA'')), w2)
               else (Inr sha, w2)))"

definition trim_slashes :: "string \<Rightarrow> string" where
  "trim_slashes s = trim_right (\<lambda>c. c = CHR ''/'') (trim_left (\<lambda>c. c = CHR ''/'') s)"

definition ParseRepoFullName :: "string \<Rightarrow> go_error + string \<times> string" where
  "ParseRepoFullName repoURL =
     (case parse_url (trim_space repoURL) of
        None \<Rightarrow> Inl (Wrap ''parse repo URL'' (ErrText (''parse '' @ quoted (trim_space repoURL))))
      | Some (host, path) \<Rightarrow>
          if \<not> equal_fold host ''github.com'' then Inl (ErrText (''unsupported repository host: '' @ host))
          else
            (case split_char (CHR ''/'') (trim_slashes (path_clean path)) of
               owner # part # _ \<Rightarrow>
                 (let repo = trim_suffix part ''.git'' in
                  if owner = [] \<or> repo = [] then Inl (ErrText (''invalid GitHub repository path: '' @ path))
                  else Inr (owner, repo))
             | _ \<Rightarrow> Inl (ErrText (''invalid GitHub repository path: '' @ path))))"

section \<open>What the client promises\<close>

lemma getInstallationToken_calls: "getInstallationToken out c i w = (r, w1) \<Longrightarrow> calls (spares n) w w1"
  by (auto simp: getInstallationToken_def dest!: calls_perform [where L = "spares n"]
      split: option.splits sum.splits prod.splits)

lemma ResolveBranchHeadSHA_calls:
  "ResolveBranchHeadSHA out c i ow rp br w = (r, w1) \<Longrightarrow> calls (spares n) w w1"
  by (auto simp: ResolveBranchHeadSHA_def dest!: getInstallationToken_calls [where n = n]
      calls_perform [where L = "spares n"] intro: calls_trans split: sum.splits prod.splits if_splits)

text \<open>A token is asked for at most once while it is good: the second of two requests for the
  same installation makes no call and returns the same token, if the token is then still good for
  more than five minutes; a token for another installation or of another client does not disturb
  the cache.\<close>

theorem installation_token_cached:
  assumes "getInstallationToken out c i w = (Inr tok, w1)"
    and "w_tokens w2 (gh_instance c, i) = w_tokens w1 (gh_instance c, i)"
    and "w_tokens w1 (gh_instance c, i) = Some (tok', ex)" and "time_now w2 < ex - 5 * minute"
  shows "tok' = tok \<and> getInstallationToken out c i w2 = (Inr tok, w2) \<and>
    (\<forall>k. k \<noteq> (gh_instance c, i) \<longrightarrow> w_tokens w1 k = w_tokens w k)"
  using assms
  by (auto simp: getInstallationToken_def cached_token_def perform_def Let_def
      split: option.splits sum.splits prod.splits if_splits)

theorem installation_token_cached_witness:
  "\<exists>w1. getInstallationToken calm_outside \<lparr>gh_instance = 0, gh_appID = 7, gh_appSlug = ''talos''\<rparr> 5 sample_world = (Inr ''t'', w1) \<and>
     getInstallationToken calm_outside \<lparr>gh_instance = 0, gh_appID = 7, gh_appSlug = ''talos''\<rparr> 5 w1 = (Inr ''t'', w1)"
proof -
  let ?c = "\<lparr>gh_instance = 0, gh_appID = 7, gh_appSlug = ''talos''\<rparr>"
  let ?w = "sample_world\<lparr>w_history := [(CreateInstallationToken 5, True)], w_tokens := [(0, 5) \<mapsto> (''t'', 3600000000000)]\<rparr>"
  have g: "getInstallationToken calm_outside ?c 5 sample_world = (Inr ''t'', ?w)"
    by (simp add: getInstallationToken_def cached_token_def GenerateJWT_def perform_def Let_def calm_outside_def
        sample_world_def)
  have tok: "w_tokens ?w (gh_instance ?c, 5) = Some (''t'', 3600000000000)" by simp
  have now: "time_now ?w < 3600000000000 - 5 * minute"
    by (simp add: time_now_def sample_world_def empty_db_def minute_def)
  have "getInstallationToken calm_outside ?c 5 ?w = (Inr ''t'', ?w)"
    using installation_token_cached [OF g refl tok now] by simp
  with g show ?thesis by blast
qed

section \<open>Repository URLs\<close>

definition word_char :: "char \<Rightarrow> bool" where
  "word_char c \<longleftrightarrow> is_alnum c \<or> c \<in> set ''-_''"

definition repo_word :: "string \<Rightarrow> bool" where
  "repo_word s \<longleftrightarrow> s \<noteq> [] \<and> list_all word_char s"

lemma word_char_plain:
  "word_char c \<Longrightarrow> c \<notin> set ''#?%/:@. '' \<and> \<not> is_space c \<and> 32 \<le> (of_char c :: nat) \<and> (of_char c :: nat) \<noteq> 127"
  by (auto simp: word_char_def is_alnum_def is_space_def Let_def)

lemma url_unescape_plain: "CHR ''%'' \<notin> set s \<Longrightarrow> url_unescape UrlPath s = Some s"
  by (induction s) auto

lemma takeWhile_none: "c \<notin> set s \<Longrightarrow> takeWhile (\<lambda>x. x \<noteq> c) s = s"
  by (induction s) auto

lemma parse_github_url:
  assumes "\<forall>c \<in> set p. word_char c \<or> c \<in> set ''/.''" and "p \<noteq> []" and "hd p = CHR ''/''"
  shows "parse_url (''https://github.com'' @ p) = Some (''github.com'', p)"
proof -
  have no: "CHR ''#'' \<notin> set p" "CHR ''?'' \<notin> set p" "CHR ''%'' \<notin> set p"
    using assms(1) word_char_plain by fastforce+
  have ctl: "list_all (\<lambda>c. 32 \<le> (of_char c :: nat) \<and> of_char c \<noteq> (127 :: nat)) p"
    using assms(1) word_char_plain by (fastforce simp: list_all_iff)
  obtain q where p: "p = CHR ''/'' # q" using assms(2,3) by (cases p) auto
  have host: "parse_authority ''github.com'' = Some ''github.com''" by code_simp
  have sch: "get_scheme (''https://github.com'' @ p) = Some (''https'', ''//github.com'' @ p)"
    by (simp add: get_scheme_def is_letter_def is_alnum_def is_digit_def)
  have r: "parse_rest ''https'' (''//github.com'' @ p) = Some (''github.com'', p)"
    using host p url_unescape_plain [OF no(3)] by (simp add: parse_rest_def has_prefix_def)
  show ?thesis
    using no ctl sch r by (simp add: parse_url_def takeWhile_none)
qed

lemma trim_slashes_one:
  assumes "x \<noteq> []" and "hd x \<noteq> CHR ''/''" and "last x \<noteq> CHR ''/''"
  shows "trim_slashes (''/'' @ x) = x"
  using assms by (simp add: trim_slashes_def trim_left_def trim_right_def dropWhile_id_hd hd_rev)

lemma repo_word_plain:
  assumes "repo_word s"
  shows "s \<noteq> []" "CHR ''/'' \<notin> set s" "CHR ''.'' \<notin> set s" "\<forall>c \<in> set s. word_char c"
proof -
  show w: "\<forall>c \<in> set s. word_char c" and "s \<noteq> []" using assms by (simp_all add: repo_word_def list_all_iff)
  have "\<not> word_char (CHR ''/'')" "\<not> word_char (CHR ''.'')" by (simp_all add: word_char_def is_alnum_def)
  with w show "CHR ''/'' \<notin> set s" "CHR ''.'' \<notin> set s" by metis+
qed

text \<open>The two components of a repository path.\<close>

lemma repo_path:
  assumes "plain_component a" and "plain_component b"
  shows "path_clean (''/'' @ a @ ''/'' @ b) = ''/'' @ a @ ''/'' @ b"
    "split_char (CHR ''/'') (trim_slashes (''/'' @ a @ ''/'' @ b)) = [a, b]"
proof -
  have w: "a \<noteq> []" "b \<noteq> []" "CHR ''/'' \<notin> set a" "CHR ''/'' \<notin> set b" using assms by (auto simp: plain_component_def)
  have sp: "split_char (CHR ''/'') (''/'' @ a @ ''/'' @ b) = [[], a, b]"
    using w by (simp add: split_char_append split_char_no_sep)
  have "clean_comps True [] [[], a, b] = [a, b]"
    using clean_comps_plain [of "[a, b]" True "[]"] assms by (simp add: clean_comps.simps(2) [of _ _ "[]"])
  moreover have "path_is_abs (''/'' @ a @ ''/'' @ b)" by (simp add: path_is_abs_def has_prefix_def)
  ultimately show "path_clean (''/'' @ a @ ''/'' @ b) = ''/'' @ a @ ''/'' @ b" unfolding path_clean_def sp by simp
  have "last b \<in> set b" "hd a \<in> set a" using w by simp_all
  then have "last b \<noteq> CHR ''/''" "hd a \<noteq> CHR ''/''" using w by metis+
  then have "trim_slashes (''/'' @ a @ ''/'' @ b) = a @ ''/'' @ b" using w by (intro trim_slashes_one) simp_all
  then show "split_char (CHR ''/'') (trim_slashes (''/'' @ a @ ''/'' @ b)) = [a, b]"
    using w by (simp add: split_char_append split_char_no_sep)
qed

lemma trim_space_github:
  assumes "p \<noteq> []" and "\<not> is_space (last p)"
  shows "trim_space (''https://github.com'' @ p) = ''https://github.com'' @ p"
proof (rule trim_space_trimmed)
  have "hd (''https://github.com'' @ p) = CHR ''h''" "\<not> is_space (CHR ''h'')" by (simp_all add: is_space_def)
  moreover have "last (''https://github.com'' @ p) = last p" using assms(1) by (metis last_appendR)
  ultimately show "trimmed (''https://github.com'' @ p)" using assms(2) by (metis trimmed_def)
qed

text \<open>The owner and the name in a plain GitHub URL, with or without \<open>.git\<close> at its end,
  are the words that stand in it.\<close>

theorem ParseRepoFullName_plain:
  assumes "repo_word owner" and "repo_word repo" and "suf \<in> {[], ''.git''}"
  shows "ParseRepoFullName (''https://github.com/'' @ owner @ ''/'' @ repo @ suf) = Inr (owner, repo)"
proof -
  let ?p = "''/'' @ owner @ ''/'' @ repo @ suf"
  note o = repo_word_plain [OF assms(1)] and r = repo_word_plain [OF assms(2)]
  have ch: "\<forall>c \<in> set ?p. word_char c \<or> c \<in> set ''/.''"
  proof -
    have "set ?p = {CHR ''/''} \<union> set owner \<union> set repo \<union> set suf" by auto
    moreover have "set suf \<subseteq> set ''.git''" using assms(3) by auto
    moreover have "list_all (\<lambda>c. word_char c \<or> c \<in> set ''/.'') ''.git''" by (simp add: word_char_def is_alnum_def)
    ultimately show ?thesis using o(4) r(4) by (auto simp: list_all_iff)
  qed
  have u: "parse_url (''https://github.com'' @ ?p) = Some (''github.com'', ?p)"
    by (rule parse_github_url [OF ch]) simp_all
  have plain: "plain_component owner" "plain_component (repo @ suf)"
    using o r assms(3) by (auto simp: plain_component_def append_eq_Cons_conv)
  have "last ?p \<in> set ?p" by (rule last_in_set) simp
  then have "word_char (last ?p) \<or> last ?p \<in> set ''/.''" using ch by blast
  moreover have "\<forall>c. word_char c \<or> c \<in> set ''/.'' \<longrightarrow> \<not> is_space c"
    using word_char_plain by (auto simp: is_space_def)
  ultimately have "\<not> is_space (last ?p)" by blast
  then have tr: "trim_space (''https://github.com'' @ ?p) = ''https://github.com'' @ ?p"
    by (intro trim_space_github) simp_all
  have suf: "trim_suffix (repo @ suf) ''.git'' = repo"
    using assms(3) r(3) by (auto simp: trim_suffix_def has_suffix_def suffix_def)
  have "ParseRepoFullName (''https://github.com'' @ ?p) = Inr (owner, repo)"
    unfolding ParseRepoFullName_def tr u option.case prod.case repo_path [OF plain] list.case
    using o(1) r(1) suf by (simp add: equal_fold_def)
  then show ?thesis by simp
qed

theorem ParseRepoFullName_plain_witness:
  "ParseRepoFullName ''https://github.com/acme/shop.git'' = Inr (''acme'', ''shop'')"
  using ParseRepoFullName_plain [of "''acme''" "''shop''" "''.git''"]
  by (simp add: repo_word_def word_char_def is_alnum_def)

end
