(* ===== verification/Credentials.thy ===== *)
theory Credentials
  imports Crypto Json_Roundtrip Url_Lib
begin

text \<open>
  The credentials of services as \<open>internal/services/provisioner.go\<close> keeps them: the JSON text
  of the credential structs of \<open>internal/domain/service.go\<close>, encrypted in the column
  \<open>credentials\<close>, and the environment variables an app linked to the service gets.
\<close>

record provisioner =
  prov_dataDir :: string
  prov_hostDataRoot :: string
  prov_encKey :: string

section \<open>JSON of the credential structs\<close>

fun credentials_json :: "credentials \<Rightarrow> json" where
  "credentials_json (PostgresCredentials host port database user password) =
     JObj [(''host'', JStr host), (''port'', JNum (itoa port)), (''database'', JStr database),
       (''user'', JStr user), (''password'', JStr password)]"
| "credentials_json (MySQLCredentials host port database user password) =
     JObj [(''host'', JStr host), (''port'', JNum (itoa port)), (''database'', JStr database),
       (''user'', JStr user), (''password'', JStr password)]"
| "credentials_json (RedisCredentials host port password) =
     JObj [(''host'', JStr host), (''port'', JNum (itoa port)), (''password'', JStr password)]"
| "credentials_json (GarageCredentials endpoint region access secret bucket admin rpc) =
     JObj [(''endpoint'', JStr endpoint), (''region'', JStr region), (''access_key'', JStr access),
       (''secret_key'', JStr secret), (''bucket'', JStr bucket), (''admin_token'', JStr admin), (''rpc_secret'', JStr rpc)]"
| "credentials_json (GarageWebUICredentials admin_url s3 admin_key username password) =
     JObj [(''admin_api_url'', JStr admin_url), (''s3_endpoint'', JStr s3), (''admin_key'', JStr admin_key),
       (''username'', JStr username), (''password'', JStr password)]"

text \<open>Decoding into the struct of a service type: the Go code passes a pointer to it.\<close>

definition sql_fields ::
  "(string \<Rightarrow> int \<Rightarrow> string \<Rightarrow> string \<Rightarrow> string \<Rightarrow> credentials) \<Rightarrow> (string \<times> json) list \<Rightarrow> credentials option" where
  "sql_fields mk ms =
     (case (string_field ''host'' ms, int_field ''port'' ms, string_field ''database'' ms, string_field ''user'' ms,
            string_field ''password'' ms) of
        (Some h, Some p, Some d, Some u, Some pw) \<Rightarrow> Some (mk h p d u pw)
      | _ \<Rightarrow> None)"

definition redis_fields :: "(string \<times> json) list \<Rightarrow> credentials option" where
  "redis_fields ms =
     (case (string_field ''host'' ms, int_field ''port'' ms, string_field ''password'' ms) of
        (Some h, Some p, Some pw) \<Rightarrow> Some (RedisCredentials h p pw)
      | _ \<Rightarrow> None)"

definition garage_fields :: "(string \<times> json) list \<Rightarrow> credentials option" where
  "garage_fields ms =
     (case (string_field ''endpoint'' ms, string_field ''region'' ms, string_field ''access_key'' ms,
            string_field ''secret_key'' ms, string_field ''bucket'' ms, string_field ''admin_token'' ms,
            string_field ''rpc_secret'' ms) of
        (Some e, Some r, Some a, Some s, Some b, Some t, Some rpc) \<Rightarrow> Some (GarageCredentials e r a s b t rpc)
      | _ \<Rightarrow> None)"

definition webui_fields :: "(string \<times> json) list \<Rightarrow> credentials option" where
  "webui_fields ms =
     (case (string_field ''admin_api_url'' ms, string_field ''s3_endpoint'' ms, string_field ''admin_key'' ms,
            string_field ''username'' ms, string_field ''password'' ms) of
        (Some a, Some s, Some k, Some u, Some pw) \<Rightarrow> Some (GarageWebUICredentials a s k u pw)
      | _ \<Rightarrow> None)"

fun credentials_fields :: "service_type \<Rightarrow> (string \<times> json) list \<Rightarrow> credentials option" where
  "credentials_fields ServicePostgres ms = sql_fields PostgresCredentials ms"
| "credentials_fields ServiceMySQL ms = sql_fields MySQLCredentials ms"
| "credentials_fields ServiceRedis ms = redis_fields ms"
| "credentials_fields ServiceGarage ms = garage_fields ms"
| "credentials_fields ServiceGarageWebUI ms = webui_fields ms"
| "credentials_fields (ServiceOther s) ms = None"

fun credentials_type :: "credentials \<Rightarrow> service_type" where
  "credentials_type (PostgresCredentials _ _ _ _ _) = ServicePostgres"
| "credentials_type (MySQLCredentials _ _ _ _ _) = ServiceMySQL"
| "credentials_type (RedisCredentials _ _ _) = ServiceRedis"
| "credentials_type (GarageCredentials _ _ _ _ _ _ _) = ServiceGarage"
| "credentials_type (GarageWebUICredentials _ _ _ _ _) = ServiceGarageWebUI"

definition ErrJson :: go_error where
  "ErrJson = ErrText ''invalid JSON''"

definition unmarshal_credentials :: "service_type \<Rightarrow> string \<Rightarrow> go_error + credentials" where
  "unmarshal_credentials ty text =
     (case Option.bind (Option.bind (Unmarshal text) json_object) (credentials_fields ty) of
        None \<Rightarrow> Inl ErrJson
      | Some c \<Rightarrow> Inr c)"

section \<open>Encrypting and decrypting\<close>

text \<open>\<open>DecryptCredentials\<close> with a target of the struct of type \<open>ty\<close>.\<close>

definition DecryptCredentials :: "outside \<Rightarrow> provisioner \<Rightarrow> service \<Rightarrow> service_type \<Rightarrow> go_error + credentials" where
  "DecryptCredentials out p s ty =
     (case Decrypt out (svc_Credentials s) (prov_encKey p) of
        Inl e \<Rightarrow> Inl (Wrap ''decrypt'' e)
      | Inr credJSON \<Rightarrow> unmarshal_credentials ty credJSON)"

definition EncryptCredentials ::
  "outside \<Rightarrow> provisioner \<Rightarrow> service \<Rightarrow> credentials \<Rightarrow> world \<Rightarrow> (go_error + service) \<times> world" where
  "EncryptCredentials out p s c w =
     (case Encrypt out (json_print (credentials_json c)) (prov_encKey p) w of
        (Inl e, w1) \<Rightarrow> (Inl (Wrap ''encrypt'' e), w1)
      | (Inr encrypted, w1) \<Rightarrow> (Inr (s\<lparr>svc_Credentials := encrypted\<rparr>), w1))"

section \<open>Environment variables of a linked app\<close>

definition env_line :: "string \<Rightarrow> string \<Rightarrow> string \<Rightarrow> string" where
  "env_line prefix' name v = prefix' @ ''_'' @ name @ ''='' @ v"

definition sql_env :: "string \<Rightarrow> string \<Rightarrow> credentials \<Rightarrow> string list" where
  "sql_env pre scheme c =
     [env_line pre ''URL'' (url_string scheme (cr_User c) (cr_Password c) (cr_Host c @ '':'' @ itoa (cr_Port c))
        (''/'' @ cr_Database c)),
      env_line pre ''HOST'' (cr_Host c), env_line pre ''PORT'' (itoa (cr_Port c)), env_line pre ''USER'' (cr_User c),
      env_line pre ''PASSWORD'' (cr_Password c), env_line pre ''NAME'' (cr_Database c)]"

text \<open>\<open>FormatEnvVars\<close>; a struct that does not belong to the service type fails the type
  assertion, which panics.\<close>

definition FormatEnvVars :: "service \<Rightarrow> credentials \<Rightarrow> string \<Rightarrow> string list outcome" where
  "FormatEnvVars s c alias =
     (let pre = to_upper alias in
      case (svc_Type s, c) of
        (ServicePostgres, PostgresCredentials _ _ _ _ _) \<Rightarrow> Returns (sql_env pre ''postgres'' c)
      | (ServiceMySQL, MySQLCredentials _ _ _ _ _) \<Rightarrow> Returns (sql_env pre ''mysql'' c)
      | (ServiceRedis, RedisCredentials host port password) \<Rightarrow>
          Returns
            [env_line pre ''URL'' (url_string ''redis'' [] password (host @ '':'' @ itoa port) []),
             env_line pre ''HOST'' host, env_line pre ''PORT'' (itoa port), env_line pre ''PASSWORD'' password]
      | (ServiceGarage, GarageCredentials endpoint region access secret bucket admin rpc) \<Rightarrow>
          Returns
            [env_line pre ''ENDPOINT'' endpoint, env_line pre ''REGION'' region, env_line pre ''ACCESS_KEY'' access,
             env_line pre ''SECRET_KEY'' secret, env_line pre ''BUCKET'' bucket, env_line pre ''ADMIN_TOKEN'' admin]
      | (ServiceGarageWebUI, GarageWebUICredentials admin_url s3 admin_key username password) \<Rightarrow>
          Returns
            [env_line pre ''ADMIN_API_URL'' admin_url, env_line pre ''S3_ENDPOINT'' s3,
             env_line pre ''USERNAME'' username, env_line pre ''PASSWORD'' password]
      | (ServiceOther _, _) \<Rightarrow> Returns []
      | _ \<Rightarrow> Panics ''interface conversion'')"

section \<open>What was stored comes back\<close>

lemma credentials_json_wf: "json_wf (credentials_json c)"
  by (cases c) auto

definition port_fits :: "credentials \<Rightarrow> bool" where
  "port_fits c =
     (case c of
        PostgresCredentials _ p _ _ _ \<Rightarrow> - max_int64 - 1 \<le> p \<and> p \<le> max_int64
      | MySQLCredentials _ p _ _ _ \<Rightarrow> - max_int64 - 1 \<le> p \<and> p \<le> max_int64
      | RedisCredentials _ p _ \<Rightarrow> - max_int64 - 1 \<le> p \<and> p \<le> max_int64
      | _ \<Rightarrow> True)"

lemma fields_credentials:
  assumes "port_fits c"
  shows "Option.bind (json_object (credentials_json c)) (credentials_fields (credentials_type c)) = Some c"
  using assms
  by (cases c)
     (simp_all add: json_object_def sql_fields_def redis_fields_def garage_fields_def webui_fields_def string_field_def
       int_field_def field_values_def equal_fold_def to_upper_def to_upper_char_def port_fits_def parse_int64_itoa)

lemma unmarshal_marshal_credentials:
  "port_fits c \<Longrightarrow> unmarshal_credentials (credentials_type c) (json_print (credentials_json c)) = Inr c"
  using fields_credentials [of c]
  by (simp add: unmarshal_credentials_def Unmarshal_print credentials_json_wf)

text \<open>C13.  Credentials that were encrypted for a service are read back exactly, for every type of
  service, whatever characters its passwords contain.\<close>

theorem credentials_roundtrip:
  assumes "opens_sealed out" and "fills_buffers out" and "port_fits c"
    and "EncryptCredentials out p s c w = (Inr s', w1)"
  shows "DecryptCredentials out p s' (credentials_type c) = Inr c \<and> s' = s\<lparr>svc_Credentials := svc_Credentials s'\<rparr>"
proof -
  obtain enc where e: "Encrypt out (json_print (credentials_json c)) (prov_encKey p) w = (Inr enc, w1)"
    and s': "s' = s\<lparr>svc_Credentials := enc\<rparr>"
    using assms(4) by (auto simp: EncryptCredentials_def split: prod.splits sum.splits)
  have "Decrypt out enc (prov_encKey p) = Inr (json_print (credentials_json c))"
    using decrypt_encrypted [OF assms(1,2) e] by simp
  then show ?thesis using unmarshal_marshal_credentials [OF assms(3)] by (simp add: DecryptCredentials_def s')
qed

definition sample_service :: service where
  "sample_service =
     \<lparr>svc_ID = 1, svc_Name = ''cache'', svc_Type = ServiceRedis, svc_ImageRef = ''redis:7-alpine'',
      svc_Status = ServiceStatusActive, svc_ContainerID = [], svc_AppID = None, svc_VolumePath = [],
      svc_Credentials = [], svc_Config = [], svc_InternalPort = 6379, svc_CreatedAt = 0, svc_UpdatedAt = 0\<rparr>"

definition sample_provisioner :: provisioner where
  "sample_provisioner =
     \<lparr>prov_dataDir = ''data'', prov_hostDataRoot = [], prov_encKey = replicate 32 (CHR ''k'')\<rparr>"

theorem credentials_roundtrip_witness:
  "\<exists>s w. EncryptCredentials calm_outside sample_provisioner sample_service (RedisCredentials ''h'' 6379 ''p@ss:word'') sample_world =
       (Inr s, w) \<and>
     DecryptCredentials calm_outside sample_provisioner s ServiceRedis = Inr (RedisCredentials ''h'' 6379 ''p@ss:word'')"
proof -
  let ?c = "RedisCredentials ''h'' 6379 ''p@ss:word''"
  obtain s w where e: "EncryptCredentials calm_outside sample_provisioner sample_service ?c sample_world = (Inr s, w)"
    by (simp add: EncryptCredentials_def sample_provisioner_def Encrypt_def random_bytes_def perform_def Let_def
        calm_outside_def)
  have "port_fits ?c" by (simp add: port_fits_def max_int64_def)
  from credentials_roundtrip [OF calm_outside_crypto this e] show ?thesis using e by auto
qed

text \<open>The connection URL in the variables of a Postgres or MySQL service keeps user and
  password apart from the rest whatever characters they contain: behind the scheme, the text up to
  the first at sign splits at its first colon into the escaped user and the escaped password, and
  unescaping gives them back.\<close>

theorem connection_url_userinfo:
  "\<exists>rest userinfo u pw.
     sql_env pre scheme c ! 0 = env_line pre ''URL'' (scheme @ ''://'' @ rest) \<and>
     cut_char (CHR ''@'') rest = Some (userinfo, url_escape UrlHost (cr_Host c @ '':'' @ itoa (cr_Port c)) @
       url_escape UrlPath (''/'' @ cr_Database c)) \<and>
     cut_char (CHR '':'') userinfo = Some (u, pw) \<and>
     url_unescape UrlUserPassword u = Some (cr_User c) \<and> url_unescape UrlUserPassword pw = Some (cr_Password c)"
proof (intro exI conjI)
  let ?u = "url_escape UrlUserPassword (cr_User c)" and ?p = "url_escape UrlUserPassword (cr_Password c)"
  let ?tail = "url_escape UrlHost (cr_Host c @ '':'' @ itoa (cr_Port c)) @ url_escape UrlPath (''/'' @ cr_Database c)"
  show "sql_env pre scheme c ! 0 = env_line pre ''URL'' (scheme @ ''://'' @ (?u @ '':'' @ ?p) @ ''@'' @ ?tail)"
    by (simp add: sql_env_def url_string_def)
  have "CHR ''@'' \<notin> set (?u @ '':'' @ ?p)" using escaped_userinfo by fastforce
  then show "cut_char (CHR ''@'') ((?u @ '':'' @ ?p) @ ''@'' @ ?tail) = Some (?u @ '':'' @ ?p, ?tail)"
    using cut_char_append [of "CHR ''@''" "?u @ '':'' @ ?p" ?tail] by simp
  have "CHR '':'' \<notin> set ?u" using escaped_userinfo by fastforce
  then show "cut_char (CHR '':'') (?u @ '':'' @ ?p) = Some (?u, ?p)" by simp
qed (rule url_unescape_escape; simp)+

end
