(* ===== verification/Builder.thy ===== *)
theory Builder
  imports Github_Client Dockerfile_Gen
begin

text \<open>
  \<open>internal/builder/builder.go\<close>: clone a repository and build an image from it.  The
  \<open>git\<close> and \<open>docker\<close> commands are calls of the outside; the files of a clone are what
  \<open>o_clone_files\<close> says is in the directory.  The progress callback is a function on the world
  (the engine's callback stores and publishes a deploy event); logging is left out.
\<close>

record builder =
  bld_ghClient :: gh_client
  bld_dataDir :: string

type_synonym progress = "string \<Rightarrow> string \<Rightarrow> string \<Rightarrow> world \<Rightarrow> world"

record build_result =
  br_ImageRef :: string
  br_Port :: int
  br_Provider :: string

definition shortCommitSHA :: "string \<Rightarrow> string" where
  "shortCommitSHA sha = (if length sha \<ge> 7 then take 7 sha else if sha \<noteq> [] then sha else ''manual'')"

definition effectivePlanPort :: "int \<Rightarrow> int \<Rightarrow> int" where
  "effectivePlanPort detectedPort configuredPort = (if configuredPort > 0 then configuredPort else detectedPort)"

definition buildAuthURL :: "string \<Rightarrow> string \<Rightarrow> string" where
  "buildAuthURL repoURL token =
     (if has_prefix repoURL ''https://'' then replace_first repoURL ''https://'' (''https://x-access-token:'' @ token @ ''@'')
      else repoURL)"

definition buildImageRef :: "app \<Rightarrow> string \<Rightarrow> string" where
  "buildImageRef a commitSHA =
     (let registry = (if app_RegistryURL a = [] then ''ghcr.io'' else app_RegistryURL a) in
      case split_char (CHR ''/'') (trim_prefix (app_RepoURL a) ''https://github.com/'') of
        owner # repo # _ \<Rightarrow>
          registry @ ''/'' @ owner @ ''/'' @ trim_suffix repo ''.git'' @ '':'' @ shortCommitSHA commitSHA
      | _ \<Rightarrow> registry @ ''/'' @ app_Name a @ '':'' @ shortCommitSHA commitSHA)"

text \<open>A command whose failure carries its output.\<close>

definition run_command :: "outside \<Rightarrow> string \<Rightarrow> effect \<Rightarrow> world \<Rightarrow> (go_error + unit) \<times> world" where
  "run_command out what e w =
     (case perform e (\<lambda>h. o_command out h e) w of
        (Inl (output, err), w1) \<Rightarrow> (Inl (Wrap (what @ '' failed: '' @ output) err), w1)
      | (Inr _, w1) \<Rightarrow> (Inr (), w1))"

definition cloneRepo ::
  "outside \<Rightarrow> string \<Rightarrow> string \<Rightarrow> string \<Rightarrow> string \<Rightarrow> progress \<Rightarrow> world \<Rightarrow> (go_error + unit) \<times> world" where
  "cloneRepo out repoURL branch commitSHA destDir progress w =
     (let w1 = progress ''info'' ''clone'' (''cloning repository branch '' @ branch) w in
      (case run_command out ''git clone'' (GitClone repoURL branch destDir) w1 of
         (Inl e, w2) \<Rightarrow> (Inl e, w2)
       | (Inr _, w2) \<Rightarrow>
           (let w3 = progress ''info'' ''clone'' ''repository cloned successfully'' w2 in
            if commitSHA = [] then (Inr (), w3)
            else
              (let w4 = progress ''info'' ''clone'' (''checking out commit '' @ shortCommitSHA commitSHA) w3 in
               (case run_command out ''git checkout'' (GitCheckout commitSHA destDir) w4 of
                  (Inl e, w5) \<Rightarrow> (Inl e, w5)
                | (Inr _, w5) \<Rightarrow>
                    (Inr (), progress ''info'' ''clone'' (''checked out commit '' @ shortCommitSHA commitSHA) w5))))))"

text \<open>The first half of \<open>buildImage\<close>: the Dockerfile of the repository, or a generated one.\<close>

definition prepare_dockerfile ::
  "outside \<Rightarrow> string \<Rightarrow> string \<Rightarrow> string \<Rightarrow> int \<Rightarrow> progress \<Rightarrow> world \<Rightarrow> (go_error + build_result) \<times> world" where
  "prepare_dockerfile out buildDir imageRef projectType configuredPort progress w =
     (let tree = o_clone_files out (w_history w) buildDir;
          dockerfilePath = path_join [buildDir, ''Dockerfile'']
      in
      if fileExists tree ''Dockerfile'' then
        (Inr \<lparr>br_ImageRef = imageRef, br_Port = 0, br_Provider = []\<rparr>,
         progress ''info'' ''build_detect'' ''using repository Dockerfile'' w)
      else
        (let w1 = progress ''info'' ''build_detect'' ''detecting project type and generating Dockerfile'' w in
         (case DetectAs tree projectType of
            Inl e \<Rightarrow> (Inl (Wrap ''no Dockerfile and auto-detection failed'' e), w1)
          | Inr plan0 \<Rightarrow>
              (let plan = plan0\<lparr>bp_Port := effectivePlanPort (bp_Port plan0) configuredPort\<rparr> in
               (case write_file out dockerfilePath (GenerateDockerfile plan) w1 of
                  (Inl e, w2) \<Rightarrow> (Inl (Wrap ''write generated Dockerfile'' e), w2)
                | (Inr _, w2) \<Rightarrow>
                    (Inr \<lparr>br_ImageRef = imageRef, br_Port = bp_Port plan, br_Provider = bp_Provider plan\<rparr>,
                     progress ''info'' ''build_detect''
                       (''generated '' @ bp_Provider plan @ '' Dockerfile on port '' @ itoa (bp_Port plan)) w2))))))"

definition buildImage ::
  "outside \<Rightarrow> string \<Rightarrow> string \<Rightarrow> string \<Rightarrow> int \<Rightarrow> progress \<Rightarrow> world \<Rightarrow> (go_error + build_result) \<times> world" where
  "buildImage out buildDir imageRef projectType configuredPort progress w =
     (case prepare_dockerfile out buildDir imageRef projectType configuredPort progress w of
        (Inl e, w1) \<Rightarrow> (Inl e, w1)
      | (Inr result, w1) \<Rightarrow>
          (let w2 = progress ''info'' ''build_image'' (''building Docker image '' @ imageRef) w1 in
           (case run_command out ''docker build'' (DockerBuild buildDir imageRef) w2 of
              (Inl e, w3) \<Rightarrow> (Inl e, w3)
            | (Inr _, w3) \<Rightarrow>
                (Inr result, progress ''info'' ''build_image'' ''Docker image built successfully'' w3))))"

definition clone_dir :: "builder \<Rightarrow> app \<Rightarrow> string \<Rightarrow> string" where
  "clone_dir b a commitSHA =
     path_join [bld_dataDir b, ''builds'', itoa (app_ID a) @ ''-'' @ shortCommitSHA commitSHA]"

text \<open>What happens between the creation of the directory and its deferred removal.\<close>

definition build_in ::
  "outside \<Rightarrow> app \<Rightarrow> string \<Rightarrow> string \<Rightarrow> string \<Rightarrow> progress \<Rightarrow> world \<Rightarrow> (go_error + build_result) \<times> world" where
  "build_in out a commitSHA token cloneDir progress w =
     (case cloneRepo out (buildAuthURL (app_RepoURL a) token) (app_Branch a) commitSHA cloneDir progress w of
        (Inl e, w1) \<Rightarrow> (Inl (Wrap ''clone repo'' e), w1)
      | (Inr _, w1) \<Rightarrow>
          (case buildImage out cloneDir (buildImageRef a commitSHA) (app_ProjectType a) (app_InternalPort a) progress w1 of
             (Inl e, w2) \<Rightarrow> (Inl (Wrap ''build image'' e), w2)
           | (Inr result, w2) \<Rightarrow> (Inr result, w2)))"

text \<open>\<open>os.RemoveAll\<close> with its error ignored: when it succeeds, nothing is left at or below the
  path.\<close>

definition below :: "string \<Rightarrow> string \<Rightarrow> bool" where
  "below dir path \<longleftrightarrow> path = dir \<or> has_prefix path (dir @ ''/'')"

definition remove_all :: "outside \<Rightarrow> string \<Rightarrow> world \<Rightarrow> world" where
  "remove_all out dir w =
     (case perform (RemoveAll dir) (\<lambda>h. o_file out h (RemoveAll dir)) w of
        (Inl e, w1) \<Rightarrow> w1
      | (Inr _, w1) \<Rightarrow> w1\<lparr>w_files := (\<lambda>p. if below dir p then None else w_files w1 p)\<rparr>)"

lemma remove_all_history [simp]:
  "w_history (remove_all out dir w) = w_history w @ [(RemoveAll dir, is_ok (o_file out (w_history w) (RemoveAll dir)))]"
  by (simp add: remove_all_def perform_def Let_def split: sum.split)

lemma remove_all_calls: "L (RemoveAll dir) \<Longrightarrow> calls L w (remove_all out dir w)"
proof -
  assume L: "L (RemoveAll dir)"
  obtain r w1 where p: "perform (RemoveAll dir) (\<lambda>h. o_file out h (RemoveAll dir)) w = (r, w1)" by fastforce
  have "calls L w w1" using calls_perform [OF p, of L] L by blast
  then show ?thesis using p by (cases r) (simp_all add: remove_all_def)
qed

lemma remove_all_frame [frame]:
  "w_db (remove_all out dir w) = w_db w" "w_broadcaster (remove_all out dir w) = w_broadcaster w"
  "w_panic (remove_all out dir w) = w_panic w" "w_tokens (remove_all out dir w) = w_tokens w"
  "w_gh (remove_all out dir w) = w_gh w" "w_builder (remove_all out dir w) = w_builder w"
  by (simp_all add: remove_all_def perform_def Let_def split: sum.split)

definition CloneAndBuildWithProgress ::
  "outside \<Rightarrow> builder \<Rightarrow> app \<Rightarrow> string \<Rightarrow> progress \<Rightarrow> world \<Rightarrow> (go_error + build_result) \<times> world" where
  "CloneAndBuildWithProgress out b a commitSHA progress w =
     (case app_GitHubInstallationID a of
        None \<Rightarrow> (Inl (ErrText (''app '' @ itoa (app_ID a) @ '' has no GitHub installation'')), w)
      | Some inst \<Rightarrow>
          if commitSHA = [] then (Inl (ErrText ''commit SHA is required for talos_build''), w)
          else
            (let w1 = progress ''info'' ''build_auth'' ''requesting GitHub installation token'' w in
             (case GetInstallationToken out (bld_ghClient b) inst w1 of
                (Inl e, w2) \<Rightarrow> (Inl (Wrap ''get installation token'' e), w2)
              | (Inr token, w2) \<Rightarrow>
                  (let w3 = progress ''info'' ''build_auth'' ''GitHub installation token ready'' w2;
                       cloneDir = clone_dir b a commitSHA
                   in
                   (case perform (MkdirAll cloneDir) (\<lambda>h. o_file out h (MkdirAll cloneDir)) w3 of
                      (Inl e, w4) \<Rightarrow> (Inl (Wrap ''create clone dir'' e), w4)
                    | (Inr _, w4) \<Rightarrow>
                        (let (r, w5) = build_in out a commitSHA token cloneDir progress w4 in
                         (r, remove_all out cloneDir w5)))))))"

definition CloneAndBuild :: "outside \<Rightarrow> builder \<Rightarrow> app \<Rightarrow> string \<Rightarrow> world \<Rightarrow> (go_error + build_result) \<times> world" where
  "CloneAndBuild out b a commitSHA w = CloneAndBuildWithProgress out b a commitSHA (\<lambda>level step message w. w) w"

end
