(* ===== verification/Builder_Claims.thy ===== *)
theory Builder_Claims
  imports Builder
begin

text \<open>
  What a build promises for every progress callback that makes no calls of the outside itself
  (the engine's callback only stores and publishes events).
\<close>

definition no_calls :: "progress \<Rightarrow> bool" where
  "no_calls progress \<longleftrightarrow> (\<forall>l s m w. w_history (progress l s m w) = w_history w)"

lemma no_calls_history [simp]: "no_calls progress \<Longrightarrow> w_history (progress l s m w) = w_history w"
  by (simp add: no_calls_def)

lemma run_command_history:
  "run_command out what e w = (r, w1) \<Longrightarrow> w_history w1 = w_history w @ [(e, is_ok r)]"
  by (cases r) (auto simp: run_command_def perform_def Let_def split: sum.splits prod.splits)

lemma cloneRepo_history:
  assumes "no_calls progress" and "cloneRepo out u br sha d progress w = (r, w1)" and "sha \<noteq> []"
  shows "\<exists>ok. w_history w1 = w_history w @ (GitClone u br d, ok) # (if ok then [(GitCheckout sha d, is_ok r)] else []) \<and>
    (is_ok r \<longrightarrow> ok)"
proof -
  note [simp] = no_calls_history [OF assms(1)]
  let ?p = "progress ''info'' ''clone''"
  let ?v = "?p (''cloning repository branch '' @ br) w"
  obtain x w2 where x: "run_command out ''git clone'' (GitClone u br d) ?v = (x, w2)" by fastforce
  let ?v2 = "?p (''checking out commit '' @ shortCommitSHA sha) (?p ''repository cloned successfully'' w2)"
  obtain y w3 where y: "run_command out ''git checkout'' (GitCheckout sha d) ?v2 = (y, w3)" by fastforce
  have hx: "w_history w2 = w_history w @ [(GitClone u br d, is_ok x)]" using run_command_history [OF x] by simp
  have hy: "w_history w3 = w_history w2 @ [(GitCheckout sha d, is_ok y)]" using run_command_history [OF y] by simp
  show ?thesis
  proof (cases x)
    case (Inl e)
    then have "r = Inl e" "w1 = w2" using assms(2) x by (simp_all add: cloneRepo_def Let_def)
    then show ?thesis using hx Inl by (intro exI [of _ False]) simp
  next
    case (Inr u)
    then have "is_ok r = is_ok y \<and> w_history w1 = w_history w3"
      using assms(2,3) x y by (cases y) (auto simp: cloneRepo_def Let_def)
    then show ?thesis using hx hy Inr by auto
  qed
qed

lemma prepare_dockerfile_history:
  assumes "no_calls progress" and "prepare_dockerfile out d ref ty port progress w = (r, w1)"
  shows "\<exists>ext. w_history w1 = w_history w @ ext"
    and "r = Inr br \<Longrightarrow> br_ImageRef br = ref"
proof -
  have g: "\<exists>ext. w_history w2 = w_history v @ ext" if "write_file out p c v = (x, w2)" for p c v x w2
    using write_file_calls [OF that, of "\<lambda>_. True"] by (auto simp: calls_def made_def)
  show "\<exists>ext. w_history w1 = w_history w @ ext" and "r = Inr br \<Longrightarrow> br_ImageRef br = ref"
    using assms by (auto simp: prepare_dockerfile_def Let_def dest!: g split: prod.splits sum.splits if_splits)
qed

lemma buildImage_history:
  assumes "no_calls progress" and "buildImage out d ref ty port progress w = (r, w1)"
  shows "\<exists>ext. w_history w1 = w_history w @ ext \<and>
    (\<forall>br. r = Inr br \<longrightarrow> br_ImageRef br = ref \<and> (\<exists>pre. ext = pre @ [(DockerBuild d ref, True)]))"
proof -
  note [simp] = no_calls_history [OF assms(1)]
  obtain x w2 where x: "prepare_dockerfile out d ref ty port progress w = (x, w2)" by fastforce
  obtain e where e: "w_history w2 = w_history w @ e" using prepare_dockerfile_history(1) [OF assms(1) x] by blast
  let ?v = "progress ''info'' ''build_image'' (''building Docker image '' @ ref) w2"
  obtain y w3 where y: "run_command out ''docker build'' (DockerBuild d ref) ?v = (y, w3)" by fastforce
  have hy: "w_history w3 = w_history w @ e @ [(DockerBuild d ref, is_ok y)]"
    using run_command_history [OF y] e by simp
  show ?thesis
  proof (cases x)
    case (Inl er)
    then show ?thesis using assms(2) x e by (auto simp: buildImage_def)
  next
    case (Inr br)
    have "br_ImageRef br = ref" using prepare_dockerfile_history(2) [OF assms(1) x] Inr by blast
    moreover have "w_history w1 = w_history w3" "r = Inr br' \<Longrightarrow> br' = br \<and> is_ok y" for br'
      using assms(2) x y Inr by (cases y; auto simp: buildImage_def Let_def)+
    ultimately show ?thesis using hy by (intro exI [of _ "e @ [(DockerBuild d ref, is_ok y)]"]) fastforce
  qed
qed

lemma build_in_history:
  assumes "no_calls progress" and "build_in out a sha tok d progress w = (r, w1)" and "sha \<noteq> []"
  shows "\<exists>ext. w_history w1 = w_history w @ ext \<and>
    (\<forall>br. r = Inr br \<longrightarrow> br_ImageRef br = buildImageRef a sha \<and>
       (\<exists>pre mid. ext = pre @ [(GitCheckout sha d, True)] @ mid @ [(DockerBuild d (buildImageRef a sha), True)]))"
proof -
  obtain c w2 where c: "cloneRepo out (buildAuthURL (app_RepoURL a) tok) (app_Branch a) sha d progress w = (c, w2)"
    by fastforce
  obtain e1 where h2: "w_history w2 = w_history w @ e1"
    and ok: "is_ok c \<Longrightarrow> \<exists>pre. e1 = pre @ [(GitCheckout sha d, True)]"
    using cloneRepo_history [OF assms(1) c assms(3)] by auto
  show ?thesis
  proof (cases c)
    case (Inl e)
    then show ?thesis using assms(2) c h2 by (auto simp: build_in_def)
  next
    case (Inr u)
    obtain b w3 where b: "buildImage out d (buildImageRef a sha) (app_ProjectType a) (app_InternalPort a) progress w2 = (b, w3)"
      by fastforce
    from buildImage_history [OF assms(1) b] obtain e2 where h3: "w_history w3 = w_history w2 @ e2"
      and bok: "\<forall>br. b = Inr br \<longrightarrow> br_ImageRef br = buildImageRef a sha \<and> (\<exists>pre. e2 = pre @ [(DockerBuild d (buildImageRef a sha), True)])"
      by (elim exE conjE)
    have r: "w1 = w3" "\<And>br. r = Inr br \<Longrightarrow> b = Inr br"
      using assms(2) c b Inr by (auto simp: build_in_def split: sum.splits)
    obtain pre where "e1 = pre @ [(GitCheckout sha d, True)]" using ok Inr by auto
    then show ?thesis using h2 h3 r bok by (intro exI [of _ "e1 @ e2"]) fastforce
  qed
qed

text \<open>C12.  A build that has created its directory removes it again, whatever fails in between, and
  that is its last call.  A build that succeeds has checked out exactly the requested commit there,
  then built there the image whose reference it returns, and both commands succeeded.\<close>

theorem CloneAndBuild_spec:
  assumes "no_calls progress" and "CloneAndBuildWithProgress out b a sha progress w = (r, w1)"
    and "dir = clone_dir b a sha"
  shows "\<exists>ext. w_history w1 = w_history w @ ext \<and>
    ((MkdirAll dir, True) \<in> set ext \<longrightarrow> (\<exists>ok. last ext = (RemoveAll dir, ok))) \<and>
    (\<forall>br. r = Inr br \<longrightarrow> sha \<noteq> [] \<and> br_ImageRef br = buildImageRef a sha \<and>
       (\<exists>pre mid ok. ext = pre @ [(GitCheckout sha dir, True)] @ mid @
          [(DockerBuild dir (buildImageRef a sha), True), (RemoveAll dir, ok)]))"
proof (cases "app_GitHubInstallationID a = None \<or> sha = []")
  case True
  then show ?thesis using assms(2) by (auto simp: CloneAndBuildWithProgress_def split: option.splits)
next
  case False
  then obtain inst where inst: "app_GitHubInstallationID a = Some inst" and sha: "sha \<noteq> []" by auto
  let ?p1 = "progress ''info'' ''build_auth'' ''requesting GitHub installation token'' w"
  obtain t w2 where t: "GetInstallationToken out (bld_ghClient b) inst ?p1 = (t, w2)" by fastforce
  have "set (map fst e) \<subseteq> {CreateInstallationToken inst}" if "w_history w2 = w_history w @ e" for e
    using t that assms(1)
    by (auto simp: GetInstallationToken_def getInstallationToken_def perform_def Let_def
        split: option.splits sum.splits prod.splits)
  moreover obtain e0 where e0: "w_history w2 = w_history w @ e0"
    using t assms(1) getInstallationToken_calls [of out "bld_ghClient b" inst ?p1 t w2 undefined]
    by (auto simp: GetInstallationToken_def calls_def made_def)
  ultimately have nomk: "(MkdirAll dir, ok) \<notin> set e0" for ok by force
  show ?thesis
  proof (cases t)
    case (Inl e)
    then show ?thesis using assms(2) t inst sha e0 nomk by (auto simp: CloneAndBuildWithProgress_def Let_def)
  next
    case (Inr tok)
    let ?w3 = "progress ''info'' ''build_auth'' ''GitHub installation token ready'' w2"
    obtain m w4 where m: "perform (MkdirAll dir) (\<lambda>h. o_file out h (MkdirAll dir)) ?w3 = (m, w4)" by fastforce
    have h4: "w_history w4 = w_history w @ e0 @ [(MkdirAll dir, is_ok m)]"
      using m e0 assms(1) perform_history [of "MkdirAll dir" "\<lambda>h. o_file out h (MkdirAll dir)" ?w3] by simp
    show ?thesis
    proof (cases m)
      case (Inl e)
      then show ?thesis
        using assms(2,3) t inst sha Inr m h4 nomk by (auto simp: CloneAndBuildWithProgress_def Let_def)
    next
      case ok: (Inr u)
      obtain x w5 where x: "build_in out a sha tok dir progress w4 = (x, w5)" by fastforce
      obtain e5 where e5: "w_history w5 = w_history w4 @ e5"
        and suc: "\<And>br. x = Inr br \<Longrightarrow> br_ImageRef br = buildImageRef a sha \<and>
          (\<exists>pre mid. e5 = pre @ [(GitCheckout sha dir, True)] @ mid @ [(DockerBuild dir (buildImageRef a sha), True)])"
        using build_in_history [OF assms(1) x sha] by blast
      have r: "r = x" "w1 = remove_all out dir w5"
        using assms(2,3) t inst sha Inr m ok x by (auto simp: CloneAndBuildWithProgress_def Let_def)
      obtain k where "w_history w1 = w_history w5 @ [(RemoveAll dir, k)]"
        using r(2) by simp
      then have "w_history w1 = w_history w @ (e0 @ [(MkdirAll dir, True)] @ e5 @ [(RemoveAll dir, k)])"
        using h4 e5 ok by simp
      moreover have "\<forall>br. r = Inr br \<longrightarrow> sha \<noteq> [] \<and> br_ImageRef br = buildImageRef a sha \<and>
          (\<exists>pre mid ok. e0 @ [(MkdirAll dir, True)] @ e5 @ [(RemoveAll dir, k)] = pre @ [(GitCheckout sha dir, True)] @ mid @
             [(DockerBuild dir (buildImageRef a sha), True), (RemoveAll dir, ok)])"
      proof (intro allI impI conjI)
        fix br assume "r = Inr br"
        then obtain pre mid where "br_ImageRef br = buildImageRef a sha"
          "e5 = pre @ [(GitCheckout sha dir, True)] @ mid @ [(DockerBuild dir (buildImageRef a sha), True)]"
          using suc r(1) by blast
        then show "br_ImageRef br = buildImageRef a sha" and "\<exists>pre mid ok. e0 @ [(MkdirAll dir, True)] @ e5 @ [(RemoveAll dir, k)] =
            pre @ [(GitCheckout sha dir, True)] @ mid @ [(DockerBuild dir (buildImageRef a sha), True), (RemoveAll dir, ok)]"
          by (simp, intro exI [of _ "e0 @ (MkdirAll dir, True) # pre"] exI [of _ mid] exI [of _ k]) simp
      qed (rule sha)
      ultimately show ?thesis by (intro exI [of _ "e0 @ [(MkdirAll dir, True)] @ e5 @ [(RemoveAll dir, k)]"]) simp
    qed
  qed
qed

text \<open>A tree whose files include a Dockerfile, and a connected app.\<close>

definition sample_build_app :: app where
  "sample_build_app =
     zero_app\<lparr>app_ID := 3, app_Name := ''shop'', app_RepoURL := ''https://github.com/acme/shop'',
       app_Branch := ''main'', app_GitHubInstallationID := Some 5\<rparr>"

definition docker_outside :: outside where
  "docker_outside = calm_outside\<lparr>o_clone_files := \<lambda>h d. [([''Dockerfile''], ''FROM scratch'')]\<rparr>"

definition sample_builder :: builder where
  "sample_builder = \<lparr>bld_ghClient = \<lparr>gh_instance = 0, gh_appID = 7, gh_appSlug = ''talos''\<rparr>, bld_dataDir = ''data''\<rparr>"

theorem CloneAndBuild_spec_witness:
  "\<exists>br w1. CloneAndBuildWithProgress docker_outside sample_builder sample_build_app ''0123456789'' (\<lambda>l s m w. w) sample_world =
      (Inr br, w1) \<and> br_ImageRef br = ''ghcr.io/acme/shop:0123456''"
proof -
  let ?p = "\<lambda>l s m w. w"
  have n: "no_calls ?p" by (simp add: no_calls_def)
  have t: "GetInstallationToken docker_outside (bld_ghClient sample_builder) 5 sample_world =
      (Inr ''t'', sample_world\<lparr>w_history := [(CreateInstallationToken 5, True)], w_tokens := [(0, 5) \<mapsto> (''t'', 3600000000000)]\<rparr>)"
    by (simp add: GetInstallationToken_def getInstallationToken_def cached_token_def GenerateJWT_def perform_def Let_def
        calm_outside_def docker_outside_def sample_world_def sample_builder_def)
  obtain br w1 where b: "CloneAndBuildWithProgress docker_outside sample_builder sample_build_app ''0123456789'' ?p sample_world = (Inr br, w1)"
    using t
    by (simp add: CloneAndBuildWithProgress_def build_in_def cloneRepo_def run_command_def buildImage_def
        prepare_dockerfile_def perform_def Let_def sample_build_app_def docker_outside_def calm_outside_def
        fileExists_def)
  have "buildImageRef sample_build_app ''0123456789'' = ''ghcr.io/acme/shop:0123456''" by code_simp
  then show ?thesis using b CloneAndBuild_spec [OF n b refl] by fastforce
qed

end
