(* ===== verification/Deploy_Engine.thy ===== *)
theory Deploy_Engine
  imports Builder Traefik_Proxy Credentials Store_Facts
begin

text \<open>
  \<open>internal/deploy/engine.go\<close>.  A function that only has effects maps worlds to worlds; one
  that also writes through its pointers to the deploy returns the changed record.  Errors of the
  store that the code only logs are dropped.  The goroutine a request starts is the \<open>job\<close> in
  its result.  A panic while an event is published is recorded in \<open>w_panic\<close>; the process
  would end there, so what the model computes after it does not matter.
\<close>

record engine =
  eng_docker :: docker_client
  eng_proxy :: traefik_manager
  eng_provisioner :: provisioner
  eng_dataDir :: string

text \<open>The UTF-8 bytes of the dash and the arrow in the messages.\<close>

definition em_dash :: string where
  "em_dash = [CHR 0xE2, CHR 0x80, CHR 0x94]"

definition right_arrow :: string where
  "right_arrow = [CHR 0xE2, CHR 0x86, CHR 0x92]"

definition not_connected :: string where
  "not_connected = ''GitHub App is not connected '' @ em_dash @ '' go to Settings '' @ right_arrow @
     '' GitHub to set it up, then try again''"

section \<open>Events and the end of a deploy\<close>

definition emitEvent :: "int \<Rightarrow> string \<Rightarrow> string \<Rightarrow> string \<Rightarrow> world \<Rightarrow> world" where
  "emitEvent deployID level step message w =
     (case on_db (CreateDeployEvent \<lparr>ev_ID = 0, ev_DeployID = deployID, ev_Timestamp = 0, ev_Level = level,
              ev_Step = step, ev_Message = message\<rparr>) w of
        (Inl e, w1) \<Rightarrow> w1
      | (Inr event, w1) \<Rightarrow>
          (case Publish (Some event) (w_broadcaster w1) of
             Returns b \<Rightarrow> w1\<lparr>w_broadcaster := b\<rparr>
           | Panics m \<Rightarrow> w1\<lparr>w_panic := Some m\<rparr>))"

definition save_deploy :: "deploy \<Rightarrow> world \<Rightarrow> world" where
  "save_deploy d w = snd (on_db (UpdateDeploy d) w)"

definition save_app :: "app \<Rightarrow> world \<Rightarrow> world" where
  "save_app a w = snd (on_db (UpdateApp a) w)"

definition failDeploy :: "deploy \<Rightarrow> string \<Rightarrow> world \<Rightarrow> world" where
  "failDeploy d reason w =
     emitEvent (dep_ID d) ''error'' ''finalize'' (''deploy failed: '' @ reason)
       (save_deploy (d\<lparr>dep_CompletedAt := Some (time_now w), dep_Status := DeployStatusFailed, dep_Logs := reason\<rparr>) w)"

section \<open>Environment of a container\<close>

definition validateEnvVars :: "app \<Rightarrow> world \<Rightarrow> (go_error + unit) \<times> world" where
  "validateEnvVars a w =
     (case on_db (GetAppEnvVars (app_ID a)) w of
        (Inl e, w1) \<Rightarrow> (Inr (), w1)
      | (Inr vars, w1) \<Rightarrow>
          (let missing = map env_Key (filter (\<lambda>v. env_Required v \<and> env_Value v = []) vars) in
           (if missing = [] then Inr () else Inl (ErrText (''missing required env vars: '' @ join '', '' missing)), w1)))"

text \<open>The variables that one link contributes; a service that is gone, is not active, has another
  type or does not decrypt contributes nothing.\<close>

definition link_env :: "outside \<Rightarrow> engine \<Rightarrow> app_service \<Rightarrow> world \<Rightarrow> string list \<times> world" where
  "link_env out e link w =
     (case on_db (GetService (lnk_ServiceID link)) w of
        (Inl err, w1) \<Rightarrow> ([], w1)
      | (Inr s, w1) \<Rightarrow>
          if svc_Status s \<noteq> ServiceStatusActive then ([], w1)
          else if svc_Type s \<notin> {ServicePostgres, ServiceMySQL, ServiceRedis, ServiceGarage} then ([], w1)
          else
            (case DecryptCredentials out (eng_provisioner e) s (svc_Type s) of
               Inl err \<Rightarrow> ([], w1)
             | Inr creds \<Rightarrow>
                 (case FormatEnvVars s creds (lnk_Alias link) of
                    Returns vars \<Rightarrow> (vars, w1)
                  | Panics m \<Rightarrow> ([], w1\<lparr>w_panic := Some m\<rparr>))))"

fun links_env :: "outside \<Rightarrow> engine \<Rightarrow> app_service list \<Rightarrow> world \<Rightarrow> string list \<times> world" where
  "links_env out e [] w = ([], w)"
| "links_env out e (l # ls) w =
     (let (vs, w1) = link_env out e l w; (rest, w2) = links_env out e ls w1 in (vs @ rest, w2))"

definition collectEnvVars :: "outside \<Rightarrow> engine \<Rightarrow> app \<Rightarrow> world \<Rightarrow> string list \<times> world" where
  "collectEnvVars out e a w =
     (let (fromLinks, w1) =
            (case on_db (ListAppServices (app_ID a)) w of
               (Inl err, w1) \<Rightarrow> ([], w1)
             | (Inr links, w1) \<Rightarrow> links_env out e links w1)
      in
      (case on_db (GetAppEnvVars (app_ID a)) w1 of
         (Inl err, w2) \<Rightarrow> (fromLinks, w2)
       | (Inr vars, w2) \<Rightarrow> (fromLinks @ map (\<lambda>v. env_Key v @ ''='' @ env_Value v) vars, w2)))"

text \<open>\<open>json.Marshal\<close> of the snapshot: the keys of a map are sorted; the nil map, which a failed
  query leaves, is \<open>null\<close>.\<close>

definition snapshot_json :: "go_error + (string \<times> string) list \<Rightarrow> string" where
  "snapshot_json r =
     (case r of
        Inl e \<Rightarrow> ''null''
      | Inr snap \<Rightarrow> json_print (JObj (map (\<lambda>(k, v). (k, JStr v)) (sort_key fst snap))))"

definition snapshot_env :: "app \<Rightarrow> deploy \<Rightarrow> world \<Rightarrow> deploy \<times> world" where
  "snapshot_env a d w =
     (let (snap, w1) = on_db (GetAppEnvVarsSnapshot (app_ID a)) w in
      (d\<lparr>dep_EnvSnapshot := snapshot_json snap\<rparr>, w1))"

section \<open>The steps of a deploy\<close>

definition stagingName :: "app \<Rightarrow> deploy \<Rightarrow> string" where
  "stagingName a d = ''talos-'' @ app_Name a @ ''-'' @ itoa (dep_ID d)"

definition liveName :: "app \<Rightarrow> string" where
  "liveName a = (if app_LiveContainerName a = [] then ''talos-'' @ app_Name a else app_LiveContainerName a)"

definition begin_deploy :: "app \<Rightarrow> deploy \<Rightarrow> world \<Rightarrow> deploy \<times> world" where
  "begin_deploy a d w =
     (let d1 = d\<lparr>dep_StartedAt := Some (time_now w), dep_Status := DeployStatusRunning\<rparr> in
      (d1, emitEvent (dep_ID d1) ''info'' ''start''
             (''deploy started for '' @ app_Name a @ '' with image '' @ dep_ImageRef d1) (save_deploy d1 w)))"

definition pull_stage :: "outside \<Rightarrow> deploy \<Rightarrow> bool \<Rightarrow> world \<Rightarrow> (go_error + unit) \<times> world" where
  "pull_stage out d skipPull w =
     (let say = (\<lambda>level. emitEvent (dep_ID d) level ''pull'') in
      if skipPull then (Inr (), say ''info'' ''skipping image pull because the image was built locally'' w)
      else
        (case PullImage out (dep_ImageRef d) (say ''info'' (''pulling image '' @ dep_ImageRef d) w) of
           (Inl err, w1) \<Rightarrow> (Inl err, say ''error'' (''pull failed: '' @ error_text err) w1)
         | (Inr _, w1) \<Rightarrow> (Inr (), say ''info'' ''image pulled successfully'' w1)))"

definition deploy_config :: "engine \<Rightarrow> app \<Rightarrow> deploy \<Rightarrow> string list \<Rightarrow> container_config" where
  "deploy_config e a d envVars =
     empty_config\<lparr>cfg_Name := stagingName a d, cfg_ImageRef := dep_ImageRef d, cfg_InternalPort := app_InternalPort a,
       cfg_Env := envVars,
       cfg_Labels := put_all (ExternalLabels (eng_proxy e) a) [(''managed-by'', ''talos''), (''talos-app'', app_Name a)],
       cfg_Networks := ExternalNetworks (eng_proxy e) a,
       cfg_Ports := (if app_AccessMode a = AccessModePort \<and> app_FallbackPort a > 0
         then [itoa (app_FallbackPort a) @ '':'' @ itoa (app_InternalPort a)] else [])\<rparr>"

definition requiresExclusiveCutover :: "engine \<Rightarrow> app \<Rightarrow> bool" where
  "requiresExclusiveCutover e a \<longleftrightarrow> app_AccessMode a = AccessModePort \<or> RequiresExclusiveSwitch (eng_proxy e) a"

text \<open>The cutover of an app that needs its port or its labels for itself: the old container goes
  before the new one starts.\<close>

definition stop_old_first :: "outside \<Rightarrow> engine \<Rightarrow> app \<Rightarrow> deploy \<Rightarrow> world \<Rightarrow> world" where
  "stop_old_first out e a d w =
     (if requiresExclusiveCutover e a \<and> liveName a \<noteq> [] then
        (let reason = (if app_AccessMode a = AccessModeDomain then ''before switching external proxy labels''
                       else ''before binding fallback port'');
             w1 = emitEvent (dep_ID d) ''info'' ''stop_old'' (''stopping old container '' @ liveName a @ '' '' @ reason) w
         in
         (case StopAndRemove out (liveName a) w1 of
            (Inl err, w2) \<Rightarrow> emitEvent (dep_ID d) ''warn'' ''stop_old'' (''stop old container: '' @ error_text err) w2
          | (Inr _, w2) \<Rightarrow> w2))
      else w)"

definition auto_rollback :: "outside \<Rightarrow> app \<Rightarrow> deploy \<Rightarrow> go_error \<Rightarrow> world \<Rightarrow> world" where
  "auto_rollback out a d err w =
     (let d1 = d\<lparr>dep_HealthStatus := ''unhealthy''\<rparr>;
          w1 = emitEvent (dep_ID d) ''error'' ''health_check'' (''health check failed: '' @ error_text err) w;
          w2 = emitEvent (dep_ID d) ''info'' ''auto_rollback'' ''stopping staging container, live container preserved'' w1;
          w3 = snd (StopAndRemove out (stagingName a d) w2);
          d2 = d1\<lparr>dep_CompletedAt := Some (time_now w3), dep_Status := DeployStatusAutoRollback,
                  dep_Logs := ''health check failed, auto-rolled back: '' @ error_text err\<rparr>
      in emitEvent (dep_ID d) ''info'' ''auto_rollback'' ''auto-rollback complete, previous version still live''
           (save_deploy d2 w3))"

definition route_stage :: "outside \<Rightarrow> engine \<Rightarrow> app \<Rightarrow> deploy \<Rightarrow> world \<Rightarrow> (go_error + unit) \<times> world" where
  "route_stage out e a d w =
     (let say = (\<lambda>level. emitEvent (dep_ID d) level ''route_update'') in
      if app_AccessMode a \<noteq> AccessModeDomain then
        (Inr (), say ''info'' ''fallback port mode uses direct host port binding; no proxy route update required'' w)
      else if RequiresExclusiveSwitch (eng_proxy e) a then
        (Inr (), say ''info''
           ''external proxy mode uses container labels; new container is now serving the custom domain'' w)
      else
        (case UpdateRoute out (eng_proxy e) a (stagingName a d)
                (say ''info'' (''updating traefik route to '' @ stagingName a d) w) of
           (Inl err, w1) \<Rightarrow>
             (Inl err, snd (StopAndRemove out (stagingName a d)
                              (say ''error'' (''route update failed: '' @ error_text err) w1)))
         | (Inr _, w1) \<Rightarrow> (Inr (), say ''info'' ''route updated successfully'' w1)))"

definition stop_old_last :: "outside \<Rightarrow> engine \<Rightarrow> app \<Rightarrow> deploy \<Rightarrow> world \<Rightarrow> world" where
  "stop_old_last out e a d w =
     (if liveName a \<noteq> stagingName a d \<and> \<not> requiresExclusiveCutover e a then
        (case StopAndRemove out (liveName a)
                (emitEvent (dep_ID d) ''info'' ''stop_old'' (''stopping old container '' @ liveName a) w) of
           (Inl err, w1) \<Rightarrow> emitEvent (dep_ID d) ''warn'' ''stop_old'' (''stop old container: '' @ error_text err) w1
         | (Inr _, w1) \<Rightarrow> emitEvent (dep_ID d) ''info'' ''stop_old'' ''old container stopped'' w1)
      else w)"

definition finalize :: "app \<Rightarrow> deploy \<Rightarrow> world \<Rightarrow> world" where
  "finalize a d w =
     (let w1 = save_deploy (d\<lparr>dep_CompletedAt := Some (time_now w), dep_Status := DeployStatusSuccess\<rparr>) w;
          w2 = save_app (a\<lparr>app_Status := AppStatusActive, app_ImageRef := dep_ImageRef d,
                 app_CurrentDeployID := Some (dep_ID d), app_LiveContainerName := stagingName a d\<rparr>) w1
      in emitEvent (dep_ID d) ''info'' ''finalize'' ''deploy completed successfully'' w2)"

text \<open>From a healthy staging container to the end.\<close>

definition route_and_finish :: "outside \<Rightarrow> engine \<Rightarrow> app \<Rightarrow> deploy \<Rightarrow> world \<Rightarrow> world" where
  "route_and_finish out e a d w =
     (let d1 = d\<lparr>dep_HealthStatus := ''healthy''\<rparr>;
          w1 = emitEvent (dep_ID d) ''info'' ''health_check'' ''health check passed'' w
      in
      (case route_stage out e a d1 w1 of
         (Inl err, w2) \<Rightarrow> failDeploy d1 (''update route: '' @ error_text err) w2
       | (Inr _, w2) \<Rightarrow> finalize a d1 (stop_old_last out e a d1 w2)))"

text \<open>The health check of a started staging container.\<close>

definition check_health :: "outside \<Rightarrow> engine \<Rightarrow> app \<Rightarrow> deploy \<Rightarrow> string \<Rightarrow> world \<Rightarrow> world" where
  "check_health out e a d containerID w =
     (let d1 = d\<lparr>dep_ContainerID := containerID\<rparr>;
          w1 = emitEvent (dep_ID d) ''info'' ''start'' (''staging container started: '' @ containerID) w;
          w2 = emitEvent (dep_ID d) ''info'' ''health_check'' ''waiting for health check (30s timeout)'' w1
      in
      (case WaitForHealth out containerID 30 w2 of
         (Inl err, w3) \<Rightarrow> auto_rollback out a d1 err w3
       | (Inr _, w3) \<Rightarrow> route_and_finish out e a d1 w3))"

definition run_staging :: "outside \<Rightarrow> engine \<Rightarrow> app \<Rightarrow> deploy \<Rightarrow> world \<Rightarrow> world" where
  "run_staging out e a d w =
     (let (envVars, w1) = collectEnvVars out e a w;
          w2 = emitEvent (dep_ID d) ''info'' ''start'' (''starting staging container '' @ stagingName a d) w1;
          w3 = stop_old_first out e a d w2
      in
      (case StartContainerWithConfig out (eng_docker e) (deploy_config e a d envVars) w3 of
         (Inl err, w4) \<Rightarrow>
           failDeploy d (''start container: '' @ error_text err)
             (emitEvent (dep_ID d) ''error'' ''start'' (''start failed: '' @ error_text err) w4)
       | (Inr containerID, w4) \<Rightarrow> check_health out e a d containerID w4))"

definition execute :: "outside \<Rightarrow> engine \<Rightarrow> app \<Rightarrow> deploy \<Rightarrow> bool \<Rightarrow> world \<Rightarrow> world" where
  "execute out e a d skipPull w =
     (let (d1, w1) = begin_deploy a d w in
      (case validateEnvVars a w1 of
         (Inl err, w2) \<Rightarrow>
           failDeploy d1 (error_text err)
             (emitEvent (dep_ID d) ''error'' ''start'' (''validation failed: '' @ error_text err) w2)
       | (Inr _, w2) \<Rightarrow>
           (let (d2, w3) = snapshot_env a d1 w2 in
            (case pull_stage out d2 skipPull w3 of
               (Inl err, w4) \<Rightarrow> failDeploy d2 (''pull image: '' @ error_text err) w4
             | (Inr _, w4) \<Rightarrow> run_staging out e a d2 w4))))"

section \<open>Building on the server\<close>

definition shortSHA :: "string \<Rightarrow> string" where
  "shortSHA sha = (if length sha \<ge> 7 then take 7 sha else sha)"

text \<open>The builder is made on first use and then kept, with the GitHub client of that moment.\<close>

definition getBuilder :: "engine \<Rightarrow> world \<Rightarrow> builder option \<times> world" where
  "getBuilder e w =
     (case w_builder w of
        Some c \<Rightarrow> (Some \<lparr>bld_ghClient = c, bld_dataDir = eng_dataDir e\<rparr>, w)
      | None \<Rightarrow>
          (case w_gh w of
             Some c \<Rightarrow> (Some \<lparr>bld_ghClient = c, bld_dataDir = eng_dataDir e\<rparr>, w\<lparr>w_builder := Some c\<rparr>)
           | None \<Rightarrow> (None, w)))"

definition SetGHClient :: "gh_client option \<Rightarrow> world \<Rightarrow> world" where
  "SetGHClient c w = w\<lparr>w_gh := c\<rparr>"

definition resolveBuildCommitSHA :: "outside \<Rightarrow> app \<Rightarrow> string \<Rightarrow> world \<Rightarrow> (go_error + string) \<times> world" where
  "resolveBuildCommitSHA out a branch0 w =
     (case w_gh w of
        None \<Rightarrow> (Inl (ErrText not_connected), w)
      | Some c \<Rightarrow>
          (case app_GitHubInstallationID a of
             None \<Rightarrow> (Inl (ErrText ''this app is not connected to a GitHub installation''), w)
           | Some inst \<Rightarrow>
               (let branch = (if branch0 = [] then app_Branch a else branch0) in
                if branch = [] then (Inl (ErrText ''no branch configured for this app''), w)
                else
                  (case ParseRepoFullName (app_RepoURL a) of
                     Inl err \<Rightarrow> (Inl (Wrap ''invalid repository URL'' err), w)
                   | Inr (owner, repo) \<Rightarrow>
                       (case ResolveBranchHeadSHA out c inst owner repo branch w of
                          (Inl err, w1) \<Rightarrow> (Inl (Wrap (''resolve branch HEAD for '' @ branch) err), w1)
                        | (Inr sha, w1) \<Rightarrow> (Inr sha, w1))))))"

text \<open>The commit to build: the one of the deploy, or the head of its branch.\<close>

definition resolve_commit :: "outside \<Rightarrow> app \<Rightarrow> deploy \<Rightarrow> world \<Rightarrow> (go_error + deploy) \<times> world" where
  "resolve_commit out a d w =
     (if dep_CommitSHA d \<noteq> [] then (Inr d, w)
      else
        (case resolveBuildCommitSHA out a (dep_Branch d)
                (emitEvent (dep_ID d) ''info'' ''resolve_commit'' (''resolving branch HEAD for '' @ dep_Branch d) w) of
           (Inl err, w1) \<Rightarrow> (Inl err, emitEvent (dep_ID d) ''error'' ''resolve_commit'' (error_text err) w1)
         | (Inr sha, w1) \<Rightarrow>
             (let d1 = d\<lparr>dep_CommitSHA := sha\<rparr> in
              (Inr d1, emitEvent (dep_ID d) ''info'' ''resolve_commit'' (''resolved commit '' @ shortSHA sha)
                         (save_deploy d1 w1)))))"

definition prepareTalosBuild :: "outside \<Rightarrow> engine \<Rightarrow> app \<Rightarrow> deploy \<Rightarrow> world \<Rightarrow> (go_error + deploy) \<times> world" where
  "prepareTalosBuild out e a d w =
     (case getBuilder e w of
        (None, w1) \<Rightarrow>
          (Inl (ErrText not_connected), emitEvent (dep_ID d) ''error'' ''build_setup'' ''GitHub App is not connected'' w1)
      | (Some b, w1) \<Rightarrow>
          if app_RepoURL a = [] then
            (Inl (ErrText (''no repository URL set for this app '' @ em_dash @ '' edit the app settings to add one'')),
             emitEvent (dep_ID d) ''error'' ''build_setup'' ''repository URL is not configured'' w1)
          else
            (case resolve_commit out a d w1 of
               (Inl err, w2) \<Rightarrow> (Inl err, w2)
             | (Inr d1, w2) \<Rightarrow>
                 (case CloneAndBuildWithProgress out b a (dep_CommitSHA d1) (emitEvent (dep_ID d))
                         (emitEvent (dep_ID d) ''info'' ''build'' ''starting repository clone and image build'' w2) of
                    (Inl err, w3) \<Rightarrow>
                      (Inl (Wrap ''build failed'' err),
                       emitEvent (dep_ID d) ''error'' ''build'' (''build failed: '' @ error_text err) w3)
                  | (Inr result, w3) \<Rightarrow>
                      (let d2 = d1\<lparr>dep_ImageRef := br_ImageRef result\<rparr> in
                       (Inr d2, emitEvent (dep_ID d) ''info'' ''build''
                                  (''image built successfully: '' @ dep_ImageRef d2) (save_deploy d2 w3))))))"

definition executeQueued :: "outside \<Rightarrow> engine \<Rightarrow> app \<Rightarrow> deploy \<Rightarrow> world \<Rightarrow> world" where
  "executeQueued out e a d w =
     (let w1 = emitEvent (dep_ID d) ''info'' ''queue'' ''deploy queued'' w in
      if app_BuildMode a = BuildModeTalosBuild \<and> dep_ImageRef d = [] then
        (case prepareTalosBuild out e a d w1 of
           (Inl err, w2) \<Rightarrow> failDeploy d (error_text err) w2
         | (Inr d1, w2) \<Rightarrow> execute out e a d1 True w2)
      else execute out e a d False w1)"

section \<open>Requests\<close>

text \<open>What a request leaves to a goroutine.\<close>

datatype job = RunQueued app deploy | RunRollback app deploy

fun run_job :: "outside \<Rightarrow> engine \<Rightarrow> job \<Rightarrow> world \<Rightarrow> world" where
  "run_job out e (RunQueued a d) w = executeQueued out e a d w"
| "run_job out e (RunRollback a d) w = execute out e a d False w"

definition in_progress :: "deploy \<Rightarrow> bool" where
  "in_progress d \<longleftrightarrow> dep_Status d = DeployStatusRunning \<or> dep_Status d = DeployStatusPending"

text \<open>The check of \<open>Deploy\<close>: the app, unless it is not managed or a deploy is in progress.\<close>

definition check_deploy :: "int \<Rightarrow> db \<Rightarrow> (go_error + app) \<times> db" where
  "check_deploy appID s =
     (case GetApp appID s of
        (Inl err, s1) \<Rightarrow> (Inl (Wrap ''get app'' err), s1)
      | (Inr a, s1) \<Rightarrow>
          if app_AppType a \<noteq> AppTypeManaged then (Inl (ErrText ''deploys are only supported for managed apps''), s1)
          else
            (case GetLatestDeploy appID s1 of
               (Inl err, s2) \<Rightarrow>
                 if err = ErrNotFound then (Inr a, s2) else (Inl (Wrap ''check running deploy'' err), s2)
             | (Inr latest, s2) \<Rightarrow> if in_progress latest then (Inl ErrDeployInProgress, s2) else (Inr a, s2)))"

definition new_deploy :: "int \<Rightarrow> string \<Rightarrow> string \<Rightarrow> string \<Rightarrow> string \<Rightarrow> deploy" where
  "new_deploy appID imageRef commitSHA branch triggeredBy =
     zero_deploy\<lparr>dep_AppID := appID, dep_ImageRef := imageRef, dep_CommitSHA := commitSHA, dep_Branch := branch,
       dep_Status := DeployStatusPending, dep_TriggeredBy := triggeredBy\<rparr>"

definition Deploy ::
  "int \<Rightarrow> string \<Rightarrow> string \<Rightarrow> string \<Rightarrow> string \<Rightarrow> db \<Rightarrow> (go_error + deploy \<times> job) \<times> db" where
  "Deploy appID imageRef commitSHA branch triggeredBy s =
     (case check_deploy appID s of
        (Inl err, s1) \<Rightarrow> (Inl err, s1)
      | (Inr a, s1) \<Rightarrow>
          (case CreateDeploy (new_deploy appID imageRef commitSHA branch triggeredBy) s1 of
             (Inl err, s2) \<Rightarrow> (Inl (Wrap ''create deploy'' err), s2)
           | (Inr d, s2) \<Rightarrow> (Inr (d, RunQueued a d), s2)))"

definition Rollback :: "int \<Rightarrow> db \<Rightarrow> (go_error + deploy \<times> job) \<times> db" where
  "Rollback appID s =
     (case GetApp appID s of
        (Inl err, s1) \<Rightarrow> (Inl (Wrap ''get app'' err), s1)
      | (Inr a, s1) \<Rightarrow>
          if app_AppType a \<noteq> AppTypeManaged then (Inl (ErrText ''rollbacks are only supported for managed apps''), s1)
          else
            (case GetLatestSuccessfulDeploy appID s1 of
               (Inl err, s2) \<Rightarrow> (Inl (Wrap ''get last successful deploy'' err), s2)
             | (Inr prev, s2) \<Rightarrow>
                 (case CreateDeploy ((new_deploy appID (dep_ImageRef prev) [] (dep_Branch prev) ''rollback'')
                         \<lparr>dep_RollbackOfID := Some (dep_ID prev)\<rparr>) s2 of
                    (Inl err, s3) \<Rightarrow> (Inl (Wrap ''create rollback deploy'' err), s3)
                  | (Inr d, s3) \<Rightarrow> (Inr (d, RunRollback a d), s3))))"

end
