(* ===== verification/Engine_Facts.thy ===== *)
theory Engine_Facts
  imports Deploy_Engine Builder_Claims Store_Claims Broadcaster_Claims
begin

text \<open>
  What every step of a deploy keeps.  \<open>w_ok\<close>: the database and the broadcaster have their
  invariants and nothing has panicked.  \<open>ready i y\<close>: in addition the driver does not fail and
  the row of deploy \<open>i\<close> exists, with the identity (app, image, commit, branch, origin) of
  \<open>y\<close>.  \<open>goes L i y w w1\<close>: a stretch of the run that keeps both and makes only calls of the
  kind \<open>L\<close>; it composes.
\<close>

definition w_ok :: "world \<Rightarrow> bool" where
  "w_ok w \<longleftrightarrow> db_inv (w_db w) \<and> b_inv (w_broadcaster w) \<and> w_panic w = None"

definition same_identity :: "deploy \<Rightarrow> deploy \<Rightarrow> bool" where
  "same_identity x y \<longleftrightarrow>
     dep_ID x = dep_ID y \<and> dep_AppID x = dep_AppID y \<and> dep_ImageRef x = dep_ImageRef y \<and>
     dep_CommitSHA x = dep_CommitSHA y \<and> dep_Branch x = dep_Branch y \<and> dep_TriggeredBy x = dep_TriggeredBy y \<and>
     dep_RollbackOfID x = dep_RollbackOfID y \<and> dep_CreatedAt x = dep_CreatedAt y"

definition row_of :: "int \<Rightarrow> world \<Rightarrow> deploy option" where
  "row_of i w = by_id dep_ID i (db_deploys (w_db w))"

definition ready :: "int \<Rightarrow> deploy \<Rightarrow> world \<Rightarrow> bool" where
  "ready i y w \<longleftrightarrow> w_ok w \<and> db_oracle (w_db w) = [] \<and> (\<exists>x. row_of i w = Some x \<and> same_identity y x)"

definition goes :: "(effect \<Rightarrow> bool) \<Rightarrow> int \<Rightarrow> deploy \<Rightarrow> world \<Rightarrow> world \<Rightarrow> bool" where
  "goes L i y w w1 \<longleftrightarrow> made L w w1 \<and> (w_ok w \<longrightarrow> w_ok w1) \<and> (ready i y w \<longrightarrow> ready i y w1)"

lemma goes_refl [simp]: "goes L i y w w"
  by (simp add: goes_def)

lemma goes_trans: "goes L i y a b \<Longrightarrow> goes L i y b c \<Longrightarrow> goes L i y a c"
  unfolding goes_def using made_trans by blast

lemma goes_mono: "goes L i y a b \<Longrightarrow> (\<And>e. L e \<Longrightarrow> L' e) \<Longrightarrow> goes L' i y a b"
  unfolding goes_def using made_mono by blast

lemma goes_calls: "calls L w w1 \<Longrightarrow> goes L i y w w1"
  by (auto simp: goes_def calls_def w_ok_def ready_def row_of_def)

section \<open>Steps on the database\<close>

lemma goes_db:
  assumes "db_inv (w_db w) \<longrightarrow> db_inv d1"
    and "ready i y w \<longrightarrow> db_oracle d1 = [] \<and> (\<exists>x. by_id dep_ID i (db_deploys d1) = Some x \<and> same_identity y x)"
  shows "goes L i y w (w\<lparr>w_db := d1\<rparr>)"
  using assms by (auto simp: goes_def made_def ready_def w_ok_def row_of_def)

text \<open>A query changes nothing but the clock and the oracle.\<close>

lemma goes_query:
  assumes "on_db f w = (r, w1)" and "same_tables (snd (f (w_db w))) (w_db w)"
    and "db_oracle (w_db w) = [] \<longrightarrow> db_oracle (snd (f (w_db w))) = []"
  shows "goes L i y w w1"
proof -
  have w1: "w1 = w\<lparr>w_db := snd (f (w_db w))\<rparr>" using assms(1) by (simp add: on_db_pair)
  have "db_inv (w_db w) \<longrightarrow> db_inv (snd (f (w_db w)))" using db_inv_same [OF assms(2)] by simp
  moreover have "db_deploys (snd (f (w_db w))) = db_deploys (w_db w)" using assms(2) by (simp add: same_tables_def)
  ultimately show ?thesis unfolding w1 using assms(3) by (intro goes_db) (simp_all add: ready_def row_of_def)
qed

lemma query_keeps:
  "same_tables (snd (query f d)) d" "db_oracle d = [] \<Longrightarrow> db_oracle (snd (query f d)) = []"
  using query_same [of f d "fst (query f d)" "snd (query f d)"] by (simp_all add: query_no_oracle)

lemma snd_query_row: "snd (query_row what f d) = snd (query f d)"
  by (simp add: query_row_def split: prod.split sum.split option.split)

lemma store_queries:
  "on_db (GetAppEnvVars a) w = (r1, w1) \<Longrightarrow> goes L i y w w1"
  "on_db (GetService s) w = (r2, w1) \<Longrightarrow> goes L i y w w1"
  "on_db (ListAppServices a) w = (r3, w1) \<Longrightarrow> goes L i y w w1"
  "on_db (GetAppEnvVarsSnapshot a) w = (r4, w1) \<Longrightarrow> goes L i y w w1"
  by (erule goes_query;
      simp add: GetAppEnvVars_def GetService_def ListAppServices_def GetAppEnvVarsSnapshot_def
        query_keeps snd_query_row)+

lemma exec_oracle: "exec stmt d = (r, d1) \<Longrightarrow> (\<And>x d2. stmt d = Inr (x, d2) \<Longrightarrow> db_oracle d2 = db_oracle d) \<Longrightarrow>
    db_oracle d = [] \<longrightarrow> db_oracle d1 = []"
  by (auto simp: exec_def split: sum.splits if_splits)

lemma CreateDeployEvent_keeps:
  assumes "CreateDeployEvent ev d = (r, d1)"
  shows "db_deploys d1 = db_deploys d \<and> (db_oracle d = [] \<longrightarrow> db_oracle d1 = [])"
proof -
  let ?stmt = "\<lambda>d. insert_into db_events db_events_update set_ev_id no_conflict (ev\<lparr>ev_Timestamp := current_timestamp d\<rparr>) d"
  obtain x where e: "exec ?stmt d = (x, d1)"
    using assms by (cases "exec ?stmt d") (auto simp: CreateDeployEvent_def wrapped_def split: sum.splits)
  have "db_deploys (snd (exec ?stmt d)) = db_deploys d"
    by (rule exec_invariant) (auto simp: same_tables_def insert_into_Inr)
  moreover have "db_oracle d = [] \<longrightarrow> db_oracle d1 = []" by (rule exec_oracle [OF e]) (auto simp: insert_into_Inr)
  ultimately show ?thesis using e by simp
qed

lemma goes_emit: "goes L i y w (emitEvent j level step msg w)"
proof -
  let ?e = "\<lparr>ev_ID = 0, ev_DeployID = j, ev_Timestamp = 0, ev_Level = level, ev_Step = step, ev_Message = msg\<rparr>"
  obtain r d1 where c: "CreateDeployEvent ?e (w_db w) = (r, d1)" by fastforce
  have inv: "db_inv (w_db w) \<longrightarrow> db_inv d1" using CreateDeployEvent_inv [of "w_db w" ?e] c by simp
  have keep: "db_deploys d1 = db_deploys (w_db w) \<and> (db_oracle (w_db w) = [] \<longrightarrow> db_oracle d1 = [])"
    by (rule CreateDeployEvent_keeps [OF c])
  have g: "goes L i y w (w\<lparr>w_db := d1\<rparr>)" by (rule goes_db) (use inv keep in \<open>auto simp: ready_def row_of_def\<close>)
  show ?thesis
  proof (cases r)
    case (Inl err)
    then show ?thesis using g c by (simp add: emitEvent_def on_db_pair)
  next
    case (Inr ev)
    have "goes L i y (w\<lparr>w_db := d1\<rparr>) (emitEvent j level step msg w)"
      using c Inr Publish_effect [OF _ refl, of "w_broadcaster w" ev]
      by (auto simp: emitEvent_def on_db_pair goes_def made_def w_ok_def ready_def row_of_def split: outcome.splits)
    then show ?thesis using g goes_trans by blast
  qed
qed

lemma same_identity_update: "same_identity y x \<Longrightarrow> same_identity y (updated_deploy_row d x)"
  by (simp add: same_identity_def updated_deploy_row_def)

text \<open>Storing a deploy: a failed statement changes nothing, and the row of another deploy stays.\<close>

lemma goes_save_deploy: "goes L i y w (save_deploy d w)"
proof -
  let ?t = "tbl_update (\<lambda>x. dep_ID x = dep_ID d) (updated_deploy_row d) (db_deploys (w_db w))"
  have inv: "db_inv (w_db w) \<longrightarrow> db_inv (snd (UpdateDeploy d (w_db w)))" using UpdateDeploy_inv by blast
  have "db_oracle (snd (UpdateDeploy d (w_db w))) = [] \<and>
      (\<exists>x. by_id dep_ID i (db_deploys (snd (UpdateDeploy d (w_db w)))) = Some x \<and> same_identity y x)" if r: "ready i y w"
  proof -
    obtain x where x: "by_id dep_ID i (db_deploys (w_db w)) = Some x" "same_identity y x"
      and w: "db_inv (w_db w)" "db_oracle (w_db w) = []"
      using r by (auto simp: ready_def row_of_def w_ok_def)
    show ?thesis
    proof (cases "by_id dep_ID (dep_ID d) (db_deploys (w_db w))")
      case None
      then have "UpdateDeploy d (w_db w) = (Inr (), w_db w)"
        using w by (simp add: UpdateDeploy_def exec_no_oracle update_where_id_def db_inv_def)
      then show ?thesis using x w by simp
    next
      case (Some old)
      note u = UpdateDeploy_run [OF w Some]
      have "dep_ID (updated_deploy_row d z) = dep_ID z" for z by (simp add: updated_deploy_row_def)
      then have "by_id dep_ID i ?t = Some (if i = dep_ID d then updated_deploy_row d x else x)"
        using x(1) deploys.by_id_update [of "updated_deploy_row d" i "dep_ID d" "db_deploys (w_db w)"]
        by (cases "i = dep_ID d") simp_all
      then show ?thesis using u w(2) x(2) same_identity_update by auto
    qed
  qed
  then show ?thesis unfolding save_deploy_def on_db_pair snd_conv by (intro goes_db impI) (use inv in auto)
qed

text \<open>Storing an app leaves the deploys alone.\<close>

lemma exec_deploys:
  assumes "\<And>d x d'. stmt d = Inr (x, d') \<Longrightarrow> db_deploys d' = db_deploys d \<and> db_oracle d' = db_oracle d"
  shows "db_deploys (snd (exec stmt d)) = db_deploys d"
    and "db_oracle d = [] \<Longrightarrow> db_oracle (snd (exec stmt d)) = []"
proof -
  show "db_deploys (snd (exec stmt d)) = db_deploys d"
    by (rule exec_invariant) (auto simp: same_tables_def dest: assms)
  show "db_oracle (snd (exec stmt d)) = []" if "db_oracle d = []"
    using that exec_oracle [of stmt d "fst (exec stmt d)" "snd (exec stmt d)"] assms by auto
qed

lemma UpdateApp_deploys:
  "db_deploys (snd (UpdateApp a d)) = db_deploys d" "db_oracle d = [] \<Longrightarrow> db_oracle (snd (UpdateApp a d)) = []"
  unfolding UpdateApp_def snd_wrapped
  by (rule exec_deploys; auto simp: update_where_id_Inr split: option.splits)+

lemma goes_save_app: "goes L i y w (save_app a w)"
  unfolding save_app_def on_db_pair snd_conv
  by (rule goes_db) (auto simp: UpdateApp_inv UpdateApp_deploys ready_def row_of_def)

section \<open>The environment of the container\<close>

lemma goes_validate: "validateEnvVars a w = (r, w1) \<Longrightarrow> goes L i y w w1"
  by (auto simp: validateEnvVars_def Let_def dest!: store_queries(1) [where L = L and i = i and y = y]
      split: prod.splits sum.splits if_splits)

text \<open>A struct decoded for a service type is the struct of that type.\<close>

lemma credentials_fields_type: "credentials_fields ty ms = Some c \<Longrightarrow> credentials_type c = ty"
  by (cases ty) (auto simp: sql_fields_def redis_fields_def garage_fields_def webui_fields_def split: option.splits)

lemma FormatEnvVars_returns:
  assumes "DecryptCredentials out p s (svc_Type s) = Inr c"
  shows "\<exists>vs. FormatEnvVars s c al = Returns vs"
proof -
  obtain ms where "credentials_fields (svc_Type s) ms = Some c"
    using assms
    by (auto simp: DecryptCredentials_def unmarshal_credentials_def bind_eq_Some_conv split: sum.splits option.splits)
  then have "credentials_type c = svc_Type s" by (rule credentials_fields_type)
  then show ?thesis by (cases c) (auto simp: FormatEnvVars_def Let_def split: service_type.splits)
qed

lemma goes_link_env: "link_env out e l w = (vs, w1) \<Longrightarrow> goes L i y w w1"
proof -
  assume l: "link_env out e l w = (vs, w1)"
  obtain r w2 where q: "on_db (GetService (lnk_ServiceID l)) w = (r, w2)" by fastforce
  have "w1 = w2"
  proof (cases r)
    case (Inl er)
    then show ?thesis using l q by (simp add: link_env_def)
  next
    case (Inr s)
    show ?thesis
    proof (cases "DecryptCredentials out (eng_provisioner e) s (svc_Type s)")
      case (Inl er)
      then show ?thesis using l q Inr by (auto simp: link_env_def split: if_splits)
    next
      case ok: (Inr c)
      then obtain us where "FormatEnvVars s c (lnk_Alias l) = Returns us" using FormatEnvVars_returns by blast
      then show ?thesis using l q Inr ok by (auto simp: link_env_def split: if_splits)
    qed
  qed
  then show ?thesis using store_queries(2) [OF q] by simp
qed

lemma goes_links_env: "links_env out e ls w = (vs, w1) \<Longrightarrow> goes L i y w w1"
proof (induction ls arbitrary: w vs)
  case (Cons l ls)
  then show ?case by (auto dest!: goes_link_env [where L = L and i = i and y = y] intro: goes_trans split: prod.splits)
qed simp

lemma goes_collect: "collectEnvVars out e a w = (vs, w1) \<Longrightarrow> goes L i y w w1"
proof -
  assume c: "collectEnvVars out e a w = (vs, w1)"
  obtain r w2 where q: "on_db (ListAppServices (app_ID a)) w = (r, w2)" by fastforce
  define p where "p = (case r of Inl err \<Rightarrow> ([], w2) | Inr links \<Rightarrow> links_env out e links w2)"
  obtain us w3 where p: "p = (us, w3)" by fastforce
  obtain r' w4 where q': "on_db (GetAppEnvVars (app_ID a)) w3 = (r', w4)" by fastforce
  have "goes L i y w w2" using store_queries(3) [OF q] .
  moreover have "goes L i y w2 w3" using p goes_links_env by (auto simp: p_def split: sum.splits)
  moreover have "goes L i y w3 w4" using store_queries(1) [OF q'] .
  moreover have "w1 = w4" using c q p q' by (auto simp: collectEnvVars_def p_def split: sum.splits)
  ultimately show ?thesis using goes_trans by blast
qed

lemma goes_snapshot: "snapshot_env a d w = (d1, w1) \<Longrightarrow> goes L i y w w1"
  by (auto simp: snapshot_env_def dest!: store_queries(4) [where L = L and i = i and y = y] split: prod.splits)

end
