(* ===== verification/Engine_Runs.thy ===== *)
theory Engine_Runs
  imports Engine_Facts
begin

text \<open>The stages of a deploy, one lemma each: what a stage keeps, and how the stages that end a
  deploy leave its row.\<close>

section \<open>Rows\<close>

lemma row_emit [simp]: "row_of i (emitEvent j l s m w) = row_of i w"
proof -
  let ?e = "\<lparr>ev_ID = 0, ev_DeployID = j, ev_Timestamp = 0, ev_Level = l, ev_Step = s, ev_Message = m\<rparr>"
  obtain r d1 where c: "CreateDeployEvent ?e (w_db w) = (r, d1)" by fastforce
  then show ?thesis
    using CreateDeployEvent_keeps [OF c]
    by (auto simp: emitEvent_def on_db_pair row_of_def split: sum.split outcome.split)
qed

lemma row_save_deploy:
  assumes "ready i y w" and "dep_ID d = i" and "row_of i w = Some x"
  shows "row_of i (save_deploy d w) = Some (updated_deploy_row d x)"
proof -
  have "dep_ID (updated_deploy_row d z) = dep_ID z" for z by (simp add: updated_deploy_row_def)
  then have "by_id dep_ID i (tbl_update (\<lambda>x. dep_ID x = i) (updated_deploy_row d) (db_deploys (w_db w))) =
      Some (updated_deploy_row d x)"
    using assms(3) deploys.by_id_update [of "updated_deploy_row d" i i "db_deploys (w_db w)"] by (simp add: row_of_def)
  moreover have "UpdateDeploy d (w_db w) = (Inr (), (w_db w)\<lparr>db_deploys :=
      tbl_update (\<lambda>x. dep_ID x = i) (updated_deploy_row d) (db_deploys (w_db w))\<rparr>)"
    using UpdateDeploy_run [of "w_db w" d x] assms by (simp add: ready_def w_ok_def row_of_def)
  ultimately show ?thesis by (simp add: save_deploy_def on_db_pair row_of_def)
qed

lemma row_save_app [simp]: "row_of i (save_app a w) = row_of i w"
  by (simp add: save_app_def on_db_pair row_of_def UpdateApp_deploys)

definition ended :: "int \<Rightarrow> deploy \<Rightarrow> deploy_status \<Rightarrow> world \<Rightarrow> bool" where
  "ended i y s w \<longleftrightarrow>
     ready i y w \<and> (\<exists>x. row_of i w = Some x \<and> dep_Status x = s \<and> dep_CompletedAt x \<noteq> None)"

lemma ready_goes: "goes L i y w w1 \<Longrightarrow> ready i y w \<Longrightarrow> ready i y w1"
  by (simp add: goes_def)

lemma ready_row: "ready i y w \<Longrightarrow> \<exists>x. row_of i w = Some x"
  by (auto simp: ready_def)

text \<open>Storing a finished deploy and telling about it ends it.\<close>

lemma save_ends:
  assumes "ready i y w" and "dep_ID d = i" and "dep_CompletedAt d \<noteq> None"
  shows "ended i y (dep_Status d) (save_deploy d w)"
proof -
  obtain x where x: "row_of i w = Some x" using ready_row [OF assms(1)] by blast
  have "ready i y (save_deploy d w)" by (rule ready_goes [OF goes_save_deploy assms(1)])
  then show ?thesis using row_save_deploy [OF assms(1,2) x] assms(3) by (simp add: ended_def updated_deploy_row_def)
qed

lemma ended_emit: "ended i y s w \<Longrightarrow> ended i y s (emitEvent j l st m w)"
  unfolding ended_def using ready_goes [OF goes_emit] by simp

lemma ended_save_app: "ended i y s w \<Longrightarrow> ended i y s (save_app a w)"
  unfolding ended_def using ready_goes [OF goes_save_app] by simp

section \<open>How a deploy ends\<close>

text \<open>The bookkeeping at the end of a stretch.\<close>

lemma goes_then:
  assumes "goes L i y w v"
  shows goes_then_emit: "goes L i y w (emitEvent j l s m v)"
    and goes_then_save: "goes L i y w (save_deploy d v)"
    and goes_then_save_app: "goes L i y w (save_app a v)"
  by (rule goes_trans [OF assms], rule goes_emit goes_save_deploy goes_save_app)+

lemma goes_fail: "goes L i y w (failDeploy d r w)"
  unfolding failDeploy_def by (intro goes_then goes_refl)

lemma fail_ends: "ready i y w \<Longrightarrow> dep_ID d = i \<Longrightarrow> ended i y DeployStatusFailed (failDeploy d r w)"
  unfolding failDeploy_def
  using save_ends [of i y w "d\<lparr>dep_CompletedAt := Some (time_now w), dep_Status := DeployStatusFailed, dep_Logs := r\<rparr>"]
  by (simp add: ended_emit)

lemma goes_StopAndRemove:
  "n \<noteq> m \<Longrightarrow> StopAndRemove out m w = (r, w1) \<Longrightarrow> goes (spares n) i y w w1"
  by (rule goes_calls) (auto dest: StopAndRemove_calls [where L = "spares n"])

lemma goes_any_StopAndRemove: "StopAndRemove out m w = (r, w1) \<Longrightarrow> goes (\<lambda>e. True) i y w w1"
  by (rule goes_calls) (auto dest: StopAndRemove_calls [where L = "\<lambda>e. True"])

lemma auto_rollback_ends:
  assumes "dep_ID d = i"
  shows "n \<noteq> stagingName a d \<Longrightarrow> goes (spares n) i y w (auto_rollback out a d err w)"
    and "goes (\<lambda>e. True) i y w (auto_rollback out a d err w)"
    and "ready i y w \<Longrightarrow> ended i y DeployStatusAutoRollback (auto_rollback out a d err w)"
proof -
  let ?w2 = "emitEvent (dep_ID d) ''info'' ''auto_rollback'' ''stopping staging container, live container preserved''
    (emitEvent (dep_ID d) ''error'' ''health_check'' (''health check failed: '' @ error_text err) w)"
  obtain r w3 where s: "StopAndRemove out (stagingName a d) ?w2 = (r, w3)" by fastforce
  let ?d = "d\<lparr>dep_HealthStatus := ''unhealthy'', dep_CompletedAt := Some (time_now w3),
    dep_Status := DeployStatusAutoRollback, dep_Logs := ''health check failed, auto-rolled back: '' @ error_text err\<rparr>"
  let ?w4 = "emitEvent (dep_ID d) ''info'' ''auto_rollback'' ''auto-rollback complete, previous version still live''
    (save_deploy ?d w3)"
  have eq: "auto_rollback out a d err w = ?w4" unfolding auto_rollback_def Let_def by (simp only: s snd_conv)
  have g2: "goes L i y w ?w2" for L by (intro goes_then goes_refl)
  have g4: "goes L i y w3 ?w4" for L by (intro goes_then goes_refl)
  show "goes (spares n) i y w (auto_rollback out a d err w)" if "n \<noteq> stagingName a d"
    unfolding eq by (rule goes_trans [OF goes_trans [OF g2 goes_StopAndRemove [OF that s]] g4])
  show "goes (\<lambda>e. True) i y w (auto_rollback out a d err w)"
    unfolding eq by (rule goes_trans [OF goes_trans [OF g2 goes_any_StopAndRemove [OF s]] g4])
  show "ended i y DeployStatusAutoRollback (auto_rollback out a d err w)" if r: "ready i y w"
  proof -
    have "ready i y w3" using ready_goes [OF goes_any_StopAndRemove [OF s] ready_goes [OF g2 r]] .
    from save_ends [OF this, of ?d] show ?thesis unfolding eq using assms by (simp add: ended_emit)
  qed
qed

lemma goes_finalize: "goes L i y w (finalize a d w)"
  unfolding finalize_def Let_def by (intro goes_then goes_refl)

lemma finalize_ends: "ready i y w \<Longrightarrow> dep_ID d = i \<Longrightarrow> ended i y DeployStatusSuccess (finalize a d w)"
  unfolding finalize_def Let_def
  using save_ends [of i y w "d\<lparr>dep_CompletedAt := Some (time_now w), dep_Status := DeployStatusSuccess\<rparr>"]
  by (simp add: ended_emit ended_save_app)

section \<open>The stages before\<close>

lemma goes_begin: "begin_deploy a d w = (d1, w1) \<Longrightarrow> goes L i y w w1 \<and> dep_ID d1 = dep_ID d \<and> dep_ImageRef d1 = dep_ImageRef d"
  by (auto simp: begin_deploy_def Let_def intro!: goes_then)

lemma goes_pull:
  assumes "pull_stage out d sk w = (r, w1)" and "\<And>s. L (ImagePull s)"
  shows "goes L i y w w1"
proof (cases sk)
  case True
  then show ?thesis using assms(1) goes_emit by (auto simp: pull_stage_def)
next
  case False
  let ?v = "emitEvent (dep_ID d) ''info'' ''pull'' (''pulling image '' @ dep_ImageRef d) w"
  obtain r' w2 where p: "PullImage out (dep_ImageRef d) ?v = (r', w2)" by fastforce
  then have "goes L i y w w2"
    using PullImage_calls [OF p, of L] assms(2) goes_calls goes_emit goes_trans by blast
  moreover have "goes L i y w2 w1"
    using assms(1) False p goes_emit by (auto simp: pull_stage_def Let_def split: sum.splits)
  ultimately show ?thesis by (rule goes_trans)
qed

lemma stop_old_first_exclusive:
  "\<not> requiresExclusiveCutover e a \<Longrightarrow> stop_old_first out e a d w = w"
  by (simp add: stop_old_first_def)

lemma goes_stop_old_first: "goes (\<lambda>e. True) i y w (stop_old_first out e a d w)"
proof (cases "requiresExclusiveCutover e a \<and> liveName a \<noteq> []")
  case True
  let ?v = "emitEvent (dep_ID d) ''info'' ''stop_old'' (''stopping old container '' @ liveName a @ '' '' @
     (if app_AccessMode a = AccessModeDomain then ''before switching external proxy labels''
                       else ''before binding fallback port'')) w"
  obtain r w2 where s: "StopAndRemove out (liveName a) ?v = (r, w2)" by fastforce
  have "goes (\<lambda>e. True) i y w w2" by (rule goes_trans [OF goes_emit goes_any_StopAndRemove [OF s]])
  moreover have "goes (\<lambda>e. True) i y w2 (stop_old_first out e a d w)"
    using True s goes_emit by (auto simp: stop_old_first_def Let_def split: sum.splits)
  ultimately show ?thesis by (rule goes_trans)
qed (unfold stop_old_first_def, simp only: if_False goes_refl)

lemma goes_stop_old_last: "goes (\<lambda>e. True) i y w (stop_old_last out e a d w)"
proof (cases "liveName a \<noteq> stagingName a d \<and> \<not> requiresExclusiveCutover e a")
  case True
  let ?v = "emitEvent (dep_ID d) ''info'' ''stop_old'' (''stopping old container '' @ liveName a) w"
  obtain r w2 where s: "StopAndRemove out (liveName a) ?v = (r, w2)" by fastforce
  have "goes (\<lambda>e. True) i y w w2" by (rule goes_trans [OF goes_emit goes_any_StopAndRemove [OF s]])
  moreover have "goes (\<lambda>e. True) i y w2 (stop_old_last out e a d w)"
    using True s goes_emit by (auto simp: stop_old_last_def split: sum.splits)
  ultimately show ?thesis by (rule goes_trans)
qed (auto simp: stop_old_last_def)

lemma write_route_calls:
  "write_route out ce we p c w = (r, w1) \<Longrightarrow> L (FileCreate p) \<and> L (FileWrite p c) \<longrightarrow> calls L w w1"
  by (auto simp: write_route_def dest!: create_file_calls [where L = L] write_contents_calls [where L = L]
      intro: calls_trans split: prod.splits sum.splits)

lemma UpdateRoute_calls:
  assumes "UpdateRoute out m a c w = (r, w1)" and "\<And>p. L (FileCreate p)" and "\<And>p x. L (FileWrite p x)"
  shows "calls L w w1"
  using assms by (auto simp: UpdateRoute_def dest!: write_route_calls [where L = L] split: if_splits)

lemma goes_route:
  assumes "route_stage out e a d w = (r, w1)"
    and "\<And>p. L (FileCreate p)" "\<And>p x. L (FileWrite p x)"
    and "\<And>v r w2. StopAndRemove out (stagingName a d) v = (r, w2) \<Longrightarrow> goes L i y v w2"
  shows "goes L i y w w1"
proof (cases "app_AccessMode a \<noteq> AccessModeDomain \<or> RequiresExclusiveSwitch (eng_proxy e) a")
  case True
  then show ?thesis using assms(1) goes_emit by (auto simp: route_stage_def Let_def split: if_splits)
next
  case False
  let ?v = "emitEvent (dep_ID d) ''info'' ''route_update'' (''updating traefik route to '' @ stagingName a d) w"
  obtain r' w2 where u: "UpdateRoute out (eng_proxy e) a (stagingName a d) ?v = (r', w2)" by fastforce
  have "goes L i y w w2"
    using goes_calls [OF UpdateRoute_calls [OF u assms(2,3)]] goes_emit goes_trans by blast
  moreover have "goes L i y w2 w1"
  proof (cases r')
    case (Inl err)
    obtain q w3 where s: "StopAndRemove out (stagingName a d)
        (emitEvent (dep_ID d) ''error'' ''route_update'' (''route update failed: '' @ error_text err) w2) = (q, w3)" by fastforce
    have "w1 = w3" using assms(1) False u Inl s by (auto simp: route_stage_def Let_def)
    then show ?thesis using assms(4) [OF s] goes_emit goes_trans by blast
  next
    case (Inr u')
    then show ?thesis using assms(1) False u goes_emit by (auto simp: route_stage_def Let_def)
  qed
  ultimately show ?thesis by (rule goes_trans)
qed

end
