(* ===== verification/Engine_Outcome.thy ===== *)
theory Engine_Outcome
  imports Engine_Runs
begin

text \<open>
  How a deploy turns out, stage by stage from the last one backwards.  \<open>gentle e a d\<close> are the
  calls that spare the live container, unless the app needs an exclusive cutover;
  \<open>came_up\<close> says that the container created for the deploy was last seen running and
  healthy; \<open>settled\<close> is the contract of every stage: the deploy's row ends, a deploy that
  does not succeed was gentle, and one that succeeds was gentle until its container had come up.
\<close>

definition gentle :: "engine \<Rightarrow> app \<Rightarrow> deploy \<Rightarrow> effect \<Rightarrow> bool" where
  "gentle e a d eff \<longleftrightarrow>
     (\<not> requiresExclusiveCutover e a \<and> liveName a \<noteq> stagingName a d \<longrightarrow> spares (liveName a) eff)"

definition came_up :: "outside \<Rightarrow> string \<Rightarrow> world \<Rightarrow> world \<Rightarrow> bool" where
  "came_up out n w v \<longleftrightarrow>
     (\<exists>e1 spec e2 c st.
        w_history v = w_history w @ e1 @ (ContainerCreate spec, True) # e2 @ [(ContainerInspect c, True)] \<and>
        spec_Name spec = n \<and> o_create out (w_history w @ e1) spec = Inr c \<and>
        o_inspect out (w_history w @ e1 @ (ContainerCreate spec, True) # e2) c = Inr st \<and>
        st_Running st \<and> st_Health st \<in> {None, Some ''healthy''})"

definition settled :: "outside \<Rightarrow> engine \<Rightarrow> app \<Rightarrow> deploy \<Rightarrow> int \<Rightarrow> deploy \<Rightarrow> world \<Rightarrow> world \<Rightarrow> bool" where
  "settled out e a d i y w w1 \<longleftrightarrow>
     goes (\<lambda>_. True) i y w w1 \<and>
     (\<exists>s. s \<in> {DeployStatusSuccess, DeployStatusFailed, DeployStatusAutoRollback} \<and> (ready i y w \<longrightarrow> ended i y s w1) \<and>
       (if s = DeployStatusSuccess
        then \<exists>v. goes (gentle e a d) i y w v \<and> came_up out (stagingName a d) w v \<and> goes (\<lambda>_. True) i y v w1
        else goes (gentle e a d) i y w w1))"

lemma came_up_after: "made L w v \<Longrightarrow> came_up out n v u \<Longrightarrow> came_up out n w u"
proof -
  assume "made L w v"
  then obtain ext where h: "w_history v = w_history w @ ext" by (auto simp: made_def)
  assume "came_up out n v u"
  then obtain e1 spec e2 c st where
    "w_history u = w_history w @ (ext @ e1) @ (ContainerCreate spec, True) # e2 @ [(ContainerInspect c, True)]"
    "spec_Name spec = n" "o_create out (w_history w @ ext @ e1) spec = Inr c"
    "o_inspect out (w_history w @ (ext @ e1) @ (ContainerCreate spec, True) # e2) c = Inr st"
    "st_Running st" "st_Health st \<in> {None, Some ''healthy''}"
    unfolding came_up_def h by (elim exE conjE) simp
  then show ?thesis unfolding came_up_def by (intro exI conjI)
qed

lemma goes_made: "goes L i y w v \<Longrightarrow> made L w v"
  by (simp add: goes_def)

lemma goes_any: "goes L i y w v \<Longrightarrow> goes (\<lambda>_. True) i y w v"
  by (rule goes_mono) simp_all

lemma settled_after:
  assumes "goes (gentle e a d) i y w v" and "settled out e a d i y v w1"
  shows "settled out e a d i y w w1"
proof -
  from assms(2) obtain s where s: "s \<in> {DeployStatusSuccess, DeployStatusFailed, DeployStatusAutoRollback}"
    "ready i y v \<longrightarrow> ended i y s w1" and t: "goes (\<lambda>_. True) i y v w1"
    and c: "if s = DeployStatusSuccess
        then \<exists>u. goes (gentle e a d) i y v u \<and> came_up out (stagingName a d) v u \<and> goes (\<lambda>_. True) i y u w1
        else goes (gentle e a d) i y v w1"
    unfolding settled_def by blast
  have "if s = DeployStatusSuccess
        then \<exists>u. goes (gentle e a d) i y w u \<and> came_up out (stagingName a d) w u \<and> goes (\<lambda>_. True) i y u w1
        else goes (gentle e a d) i y w w1"
    using c goes_trans [OF assms(1)] came_up_after [OF goes_made [OF assms(1)]] by (meson)
  then show ?thesis
    using s goes_trans [OF goes_any [OF assms(1)] t] ready_goes [OF assms(1)] unfolding settled_def by blast
qed

text \<open>A failed deploy and an automatic rollback are settled.\<close>

lemma gentle_staging: "eff \<in> {ContainerStop (stagingName a d), ContainerRemove (stagingName a d)} \<Longrightarrow> gentle e a d eff"
  by (auto simp: gentle_def)

lemma gentle_simps [simp]:
  "gentle e a d (ImagePull s)" "gentle e a d (ContainerInspect s)" "gentle e a d (FileCreate s)" "gentle e a d (FileWrite s t)"
  by (simp_all add: gentle_def)

lemma gentle_starts: "starts eff \<Longrightarrow> gentle e a d eff"
  by (simp add: gentle_def starts_spares)

lemma gentle_spares: "(\<And>n. spares n eff) \<Longrightarrow> gentle e a d eff"
  by (simp add: gentle_def)

lemma gentle_StopAndRemove:
  "StopAndRemove out (stagingName a d) w = (r, w1) \<Longrightarrow> goes (gentle e a d) i y w w1"
  by (rule goes_calls) (auto dest!: StopAndRemove_calls [where L = "gentle e a d"] simp: gentle_staging)

lemma settled_unsuccessful:
  assumes "goes (gentle e a d) i y w w1" and "ready i y w \<Longrightarrow> ended i y s w1"
    and "s = DeployStatusFailed \<or> s = DeployStatusAutoRollback"
  shows "settled out e a d i y w w1"
  unfolding settled_def using assms by (intro conjI exI [of _ s]) (auto intro: goes_any)

lemma settled_fail: "dep_ID d' = i \<Longrightarrow> settled out e a d i y w (failDeploy d' r w)"
  by (rule settled_unsuccessful [OF goes_fail fail_ends]) simp_all

lemma stagingName_cong: "dep_ID d' = dep_ID d \<Longrightarrow> stagingName a d' = stagingName a d"
  by (simp add: stagingName_def)

lemma gentle_cong: "dep_ID d' = dep_ID d \<Longrightarrow> gentle e a d' = gentle e a d"
  unfolding gentle_def fun_eq_iff stagingName_def by simp

lemma settled_cong:
  assumes "dep_ID d' = dep_ID d"
  shows "settled out e a d' i y w w1 = settled out e a d i y w w1"
  unfolding settled_def gentle_cong [OF assms] stagingName_cong [OF assms] ..

lemma gentle_auto_rollback: "goes (gentle e a d) i y w (auto_rollback out a d err w)"
proof -
  let ?w2 = "emitEvent (dep_ID d) ''info'' ''auto_rollback'' ''stopping staging container, live container preserved''
    (emitEvent (dep_ID d) ''error'' ''health_check'' (''health check failed: '' @ error_text err) w)"
  obtain r w3 where s: "StopAndRemove out (stagingName a d) ?w2 = (r, w3)" by fastforce
  have "goes (gentle e a d) i y w w3"
    by (rule goes_trans [OF _ gentle_StopAndRemove [OF s]], intro goes_then goes_refl)
  then show ?thesis unfolding auto_rollback_def Let_def s snd_conv by (intro goes_then)
qed

lemma settled_auto_rollback: "dep_ID d = i \<Longrightarrow> settled out e a d i y w (auto_rollback out a d err w)"
  by (rule settled_unsuccessful [OF gentle_auto_rollback auto_rollback_ends(3)]) simp_all

section \<open>A container that comes up\<close>

lemma perform_Inr:
  "perform eff f w = (Inr x, w1) \<Longrightarrow> w_history w1 = w_history w @ [(eff, True)] \<and> f (w_history w) = Inr x"
  by (auto simp: perform_def Let_def)

lemma container_spec_name: "container_spec_of out dc cfg = Inr spec \<Longrightarrow> spec_Name spec = cfg_Name cfg"
  by (auto simp: container_spec_of_def Let_def split: sum.splits)

lemma created:
  assumes "StartContainerWithConfig out dc cfg w = (Inr c, w1)"
  shows "\<exists>e1 spec e2. w_history w1 = w_history w @ e1 @ (ContainerCreate spec, True) # e2 \<and>
    spec_Name spec = cfg_Name cfg \<and> o_create out (w_history w @ e1) spec = Inr c"
proof -
  from assms obtain u w2 spec w3 where n: "EnsureNetwork out dc w = (Inr u, w2)"
    and sp: "container_spec_of out dc cfg = Inr spec" and cs: "create_and_start out spec w2 = (Inr c, w3)"
    and co: "connect_all out dc c (cfg_Networks cfg) w3 = (Inr (), w1)"
    by (auto simp: StartContainerWithConfig_def split: prod.splits sum.splits)
  from cs obtain u' w4 where cr: "perform (ContainerCreate spec) (\<lambda>h. o_create out h spec) w2 = (Inr c, w4)"
    and st: "perform (ContainerStart c) (\<lambda>h. o_start out h c) w4 = (Inr u', w3)"
    by (auto simp: create_and_start_def split: prod.splits sum.splits)
  obtain e1 where "w_history w2 = w_history w @ e1" using EnsureNetwork_calls [OF n] by (auto simp: calls_def made_def)
  moreover obtain e3 where "w_history w1 = w_history w3 @ e3" using connect_all_calls [OF co] by (auto simp: calls_def made_def)
  ultimately show ?thesis
    using perform_Inr [OF cr] perform_Inr [OF st] container_spec_name [OF sp]
    by (intro exI [of _ e1] exI [of _ spec] exI [of _ "(ContainerStart c, True) # e3"]) simp
qed

lemma emit_history [simp]: "w_history (emitEvent j l s m w) = w_history w"
  by (simp add: emitEvent_def on_db_pair split: sum.split outcome.split)

lemma came_up_healthy:
  assumes s: "StartContainerWithConfig out dc cfg w = (Inr c, w1)" and v: "w_history v = w_history w1"
    and h: "WaitForHealth out c t v = (Inr u, w2)"
  shows "came_up out (cfg_Name cfg) w w2"
proof -
  obtain e1 spec e2 where cr: "w_history w1 = w_history w @ e1 @ (ContainerCreate spec, True) # e2"
    "spec_Name spec = cfg_Name cfg" "o_create out (w_history w @ e1) spec = Inr c"
    using created [OF s] by blast
  from poll_health_bounded [OF h [unfolded WaitForHealth_def]] have "\<exists>ext. w_history w2 = w_history v @ ext \<and> (\<exists>g st.
      w_history w2 = g @ [(ContainerInspect c, True)] \<and>
      o_inspect out g c = Inr st \<and> st_Running st \<and> st_Health st \<in> {None, Some ''healthy''})" by auto
  then obtain ext g st
    where "w_history w2 = w_history v @ ext" and w2: "w_history w2 = g @ [(ContainerInspect c, True)]"
      and st: "o_inspect out g c = Inr st" "st_Running st" "st_Health st \<in> {None, Some ''healthy''}" by blast
  then have e: "g @ [(ContainerInspect c, True)] = w_history w @ e1 @ ((ContainerCreate spec, True) # e2) @ ext"
    using v cr(1) by simp
  have "\<exists>e3. (ContainerCreate spec, True) # e3 @ [(ContainerInspect c, True)] = (ContainerCreate spec, True) # e2 @ ext"
  proof (cases ext rule: rev_cases)
    case Nil
    then have "last ((ContainerCreate spec, True) # e2) = (ContainerInspect c, True)"
      using e by (metis append_Nil2 append_assoc last_appendR last_snoc list.distinct(1))
    then show ?thesis using Nil by (cases e2 rule: rev_cases) auto
  next
    case (snoc ys y)
    then have "y = (ContainerInspect c, True)" using e by (metis append_assoc last_snoc)
    then show ?thesis using snoc by auto
  qed
  then obtain e3 where e3: "(ContainerCreate spec, True) # e3 @ [(ContainerInspect c, True)] = (ContainerCreate spec, True) # e2 @ ext"
    by blast
  have "g @ [(ContainerInspect c, True)] = (w_history w @ e1 @ (ContainerCreate spec, True) # e3) @ [(ContainerInspect c, True)]"
    using e e3 by simp
  then have "g = w_history w @ e1 @ (ContainerCreate spec, True) # e3" by simp
  then show ?thesis using cr(2,3) w2 st unfolding came_up_def
    by (intro exI [of _ e1] exI [of _ spec] exI [of _ e3] exI [of _ c] exI [of _ st]) simp
qed

section \<open>The stages\<close>

lemma settled_route_and_finish:
  assumes "goes (gentle e a d) i y w v" and "came_up out (stagingName a d) w v" and "dep_ID d = i"
  shows "settled out e a d i y w (route_and_finish out e a d v)"
proof -
  let ?d = "d\<lparr>dep_HealthStatus := ''healthy''\<rparr>"
  let ?v = "emitEvent (dep_ID d) ''info'' ''health_check'' ''health check passed'' v"
  obtain r w2 where r: "route_stage out e a ?d ?v = (r, w2)" by fastforce
  have s: "stagingName a ?d = stagingName a d" by (simp add: stagingName_def)
  have g: "goes (gentle e a d) i y v w2"
    by (rule goes_trans [OF goes_emit goes_route [OF r]]) (auto simp: s intro: gentle_StopAndRemove)
  show ?thesis
  proof (cases r)
    case (Inl err)
    then have eq: "route_and_finish out e a d v = failDeploy ?d (''update route: '' @ error_text err) w2"
      using r by (simp add: route_and_finish_def)
    show ?thesis unfolding eq
      by (rule settled_after [OF goes_trans [OF assms(1) g] settled_fail]) (simp add: assms(3))
  next
    case (Inr u)
    then have eq: "route_and_finish out e a d v = finalize a ?d (stop_old_last out e a ?d w2)"
      using r by (simp add: route_and_finish_def Let_def)
    have t: "goes (\<lambda>_. True) i y v (stop_old_last out e a ?d w2)"
      by (rule goes_trans [OF goes_any [OF g] goes_stop_old_last])
    have rest: "goes (\<lambda>_. True) i y v (route_and_finish out e a d v)"
      unfolding eq by (rule goes_trans [OF t goes_finalize])
    have "ready i y w \<Longrightarrow> ended i y DeployStatusSuccess (route_and_finish out e a d v)"
      unfolding eq
      by (rule finalize_ends [OF ready_goes [OF t ready_goes [OF assms(1)]]]) (simp_all add: assms(3))
    then show ?thesis
      using assms(1,2) rest goes_trans [OF goes_any [OF assms(1)] rest] unfolding settled_def by auto
  qed
qed

lemma settled_check_health:
  assumes "StartContainerWithConfig out dc cfg w = (Inr c, w1)" and "cfg_Name cfg = stagingName a d" and "dep_ID d = i"
  shows "settled out e a d i y w (check_health out e a d c w1)"
proof -
  let ?d = "d\<lparr>dep_ContainerID := c\<rparr>"
  let ?v = "emitEvent (dep_ID d) ''info'' ''health_check'' ''waiting for health check (30s timeout)''
    (emitEvent (dep_ID d) ''info'' ''start'' (''staging container started: '' @ c) w1)"
  obtain r w2 where r: "WaitForHealth out c 30 ?v = (r, w2)" by fastforce
  have start: "goes (gentle e a d) i y w w1"
    by (rule goes_calls [OF calls_mono [OF StartContainerWithConfig_calls [OF assms(1)] gentle_starts]])
  have h: "goes (gentle e a d) i y ?v w2"
    by (rule goes_calls [OF calls_mono [OF WaitForHealth_calls [OF r]]]) simp
  have g: "goes (gentle e a d) i y w w2" by (rule goes_trans [OF _ h]) (intro goes_then start)
  show ?thesis
  proof (cases r)
    case (Inl err)
    then have eq: "check_health out e a d c w1 = auto_rollback out a ?d err w2"
      using r by (simp add: check_health_def)
    have "settled out e a ?d i y w2 (auto_rollback out a ?d err w2)"
      by (rule settled_auto_rollback) (simp add: assms(3))
    then show ?thesis unfolding eq using settled_after [OF g] settled_cong [of ?d d] by simp
  next
    case (Inr u)
    then have eq: "check_health out e a d c w1 = route_and_finish out e a ?d w2"
      using r by (simp add: check_health_def)
    have id: "dep_ID ?d = dep_ID d" by simp
    have "came_up out (stagingName a d) w w2"
      using came_up_healthy [OF assms(1) _ r [unfolded Inr]] assms(2) by simp
    then have "settled out e a ?d i y w (route_and_finish out e a ?d w2)"
      using g assms(3)
      by (intro settled_route_and_finish) (simp_all add: gentle_cong [OF id] stagingName_cong [OF id])
    then show ?thesis unfolding eq settled_cong [OF id] .
  qed
qed

lemma gentle_stop_old_first: "goes (gentle e a d) i y w (stop_old_first out e a d w)"
proof (cases "requiresExclusiveCutover e a")
  case True
  then show ?thesis by (intro goes_mono [OF goes_stop_old_first]) (simp add: gentle_def)
qed (simp add: stop_old_first_exclusive)

lemma settled_run_staging:
  assumes "dep_ID d = i"
  shows "settled out e a d i y w (run_staging out e a d w)"
proof -
  obtain env w1 where env: "collectEnvVars out e a w = (env, w1)" by fastforce
  let ?w3 = "stop_old_first out e a d
    (emitEvent (dep_ID d) ''info'' ''start'' (''starting staging container '' @ stagingName a d) w1)"
  obtain r w4 where r: "StartContainerWithConfig out (eng_docker e) (deploy_config e a d env) ?w3 = (r, w4)" by fastforce
  have g: "goes (gentle e a d) i y w ?w3"
    by (rule goes_trans [OF _ gentle_stop_old_first]) (intro goes_then goes_collect [OF env])
  have "settled out e a d i y ?w3 (run_staging out e a d w)"
  proof (cases r)
    case (Inl err)
    have "goes (gentle e a d) i y ?w3 w4"
      by (rule goes_calls [OF calls_mono [OF StartContainerWithConfig_calls [OF r] gentle_starts]])
    then have "settled out e a d i y ?w3 (failDeploy d (''start container: '' @ error_text err)
             (emitEvent (dep_ID d) ''error'' ''start'' (''start failed: '' @ error_text err) w4))"
      by (intro settled_after [OF _ settled_fail] goes_then assms)
    then show ?thesis using env r Inl by (simp add: run_staging_def Let_def)
  next
    case (Inr c)
    have "cfg_Name (deploy_config e a d env) = stagingName a d" by (simp add: deploy_config_def)
    from settled_check_health [OF r [unfolded Inr] this assms] show ?thesis
      using env r Inr by (simp add: run_staging_def Let_def)
  qed
  then show ?thesis by (rule settled_after [OF g])
qed

lemma settled_execute:
  assumes "dep_ID d = i"
  shows "settled out e a d i y w (execute out e a d pulled w)"
proof -
  obtain d1 w1 where b: "begin_deploy a d w = (d1, w1)" by fastforce
  obtain r w2 where v: "validateEnvVars a w1 = (r, w2)" by fastforce
  have d1: "dep_ID d1 = dep_ID d" using goes_begin [OF b] by blast
  have g2: "goes (gentle e a d) i y w w2"
    using goes_begin [OF b, of "gentle e a d"] goes_trans [OF _ goes_validate [OF v]] by blast
  show ?thesis
  proof (cases r)
    case (Inl err)
    then have eq: "execute out e a d pulled w = failDeploy d1 (error_text err)
             (emitEvent (dep_ID d) ''error'' ''start'' (''validation failed: '' @ error_text err) w2)"
      using b v by (simp add: execute_def Let_def)
    show ?thesis unfolding eq by (rule settled_after [OF goes_then_emit [OF g2] settled_fail]) (simp add: d1 assms)
  next
    case (Inr u)
    obtain d2 w3 where s: "snapshot_env a d1 w2 = (d2, w3)" by fastforce
    then have d2: "dep_ID d2 = dep_ID d" using d1 by (auto simp: snapshot_env_def split: prod.splits)
    obtain p w4 where p: "pull_stage out d2 pulled w3 = (p, w4)" by fastforce
    have g4: "goes (gentle e a d) i y w w4"
      by (rule goes_trans [OF goes_trans [OF g2 goes_snapshot [OF s]] goes_pull [OF p]]) simp
    show ?thesis
    proof (cases p)
      case (Inl err)
      then have "execute out e a d pulled w = failDeploy d2 (''pull image: '' @ error_text err) w4"
        using b v s p Inr by (simp add: execute_def Let_def)
      then show ?thesis using settled_after [OF g4 settled_fail] d2 assms by simp
    next
      case inr: (Inr u')
      then have "execute out e a d pulled w = run_staging out e a d2 w4"
        using b v s p Inr by (simp add: execute_def Let_def)
      then show ?thesis
        using settled_after [OF g4 settled_run_staging [of d2, unfolded settled_cong [OF d2]]] d2 assms by simp
    qed
  qed
qed

section \<open>The build\<close>

text \<open>A build whose progress callback keeps the contract keeps it, and stops no container.\<close>

definition builds :: "effect \<Rightarrow> bool" where
  "builds eff \<longleftrightarrow> (\<forall>n. spares n eff)"

definition goes_all :: "int \<Rightarrow> deploy \<Rightarrow> progress \<Rightarrow> bool" where
  "goes_all i y p \<longleftrightarrow> (\<forall>l s m v. goes builds i y v (p l s m v))"

lemma goes_progress: "goes_all i y p \<Longrightarrow> goes builds i y w v \<Longrightarrow> goes builds i y w (p l s m v)"
  unfolding goes_all_def using goes_trans by blast

lemma goes_perform: "perform eff f v = (r, w1) \<Longrightarrow> builds eff \<Longrightarrow> goes builds i y w v \<Longrightarrow> goes builds i y w w1"
  by (rule goes_trans [OF _ goes_calls]) (use calls_perform [where L = builds] in blast)+

lemma goes_clone_files [simp]: "goes L i y w (w1\<lparr>w_files := fs\<rparr>) = goes L i y w w1"
  "goes L i y w (w1\<lparr>w_tokens := tk\<rparr>) = goes L i y w w1" "goes L i y w (w1\<lparr>w_builder := b\<rparr>) = goes L i y w w1"
  by (simp_all add: goes_def made_def w_ok_def ready_def row_of_def)

lemma goes_run_command:
  "run_command out what eff v = (r, w1) \<Longrightarrow> builds eff \<Longrightarrow> goes builds i y w v \<Longrightarrow> goes builds i y w w1"
  by (auto simp: run_command_def perform_def Let_def goes_def made_def w_ok_def ready_def row_of_def
      split: sum.splits prod.splits)

lemma goes_write_file:
  "write_file out p c v = (r, w1) \<Longrightarrow> goes builds i y w v \<Longrightarrow> goes builds i y w w1"
  by (rule goes_trans [OF _ goes_calls]) (use write_file_calls [where L = builds] in \<open>auto simp: builds_def\<close>)

lemma builds_simps [simp]:
  "builds (GitClone s t u)" "builds (GitCheckout s t)" "builds (DockerBuild s t)" "builds (MkdirAll s)" "builds (RemoveAll s)"
  by (simp_all add: builds_def)

lemma goes_cloneRepo:
  assumes "goes_all i y p" and "cloneRepo out u br sha dir p v = (r, w1)" and "goes builds i y w v"
  shows "goes builds i y w w1"
  using assms(2,3)
  by (auto simp: cloneRepo_def Let_def intro: goes_progress [OF assms(1)]
      dest!: goes_run_command [where i = i and y = y and w = w] split: prod.splits sum.splits if_splits)

lemma goes_prepare_dockerfile:
  assumes "goes_all i y p" and "prepare_dockerfile out dir ref ty port p v = (r, w1)" and "goes builds i y w v"
  shows "goes builds i y w w1"
  using assms(2,3)
  by (auto simp: prepare_dockerfile_def Let_def intro: goes_progress [OF assms(1)]
      dest!: goes_write_file [where i = i and y = y and w = w] split: prod.splits sum.splits if_splits)

lemma goes_buildImage:
  assumes "goes_all i y p" and "buildImage out dir ref ty port p v = (r, w1)" and "goes builds i y w v"
  shows "goes builds i y w w1"
  using assms(2,3)
  by (auto simp: buildImage_def Let_def intro: goes_progress [OF assms(1)]
      dest!: goes_prepare_dockerfile [OF assms(1), where w = w]
        goes_run_command [where i = i and y = y and w = w] split: prod.splits sum.splits)

lemma goes_build_in:
  assumes "goes_all i y p" and "build_in out a sha tok dir p v = (r, w1)" and "goes builds i y w v"
  shows "goes builds i y w w1"
  using assms(2,3)
  by (auto simp: build_in_def dest!: goes_cloneRepo [OF assms(1), where w = w]
      goes_buildImage [OF assms(1), where w = w] split: prod.splits sum.splits)

lemma calls_builds: "(\<And>n. calls (spares n) w w1) \<Longrightarrow> calls builds w w1"
  by (auto simp: calls_def made_def builds_def list_all_iff) (metis same_append_eq)

lemma goes_token:
  "GetInstallationToken out c inst v = (r, w1) \<Longrightarrow> goes builds i y v w1"
  unfolding GetInstallationToken_def by (rule goes_calls [OF calls_builds], rule getInstallationToken_calls)

lemma goes_CloneAndBuild:
  assumes "goes_all i y p" and "CloneAndBuildWithProgress out b a sha p w = (r, w1)"
  shows "goes builds i y w w1"
proof (cases "app_GitHubInstallationID a")
  case None
  then show ?thesis using assms(2) by (simp add: CloneAndBuildWithProgress_def)
next
  case (Some inst)
  let ?p1 = "p ''info'' ''build_auth'' ''requesting GitHub installation token'' w"
  obtain t w2 where t: "GetInstallationToken out (bld_ghClient b) inst ?p1 = (t, w2)" by fastforce
  have g2: "goes builds i y w w2"
    by (rule goes_trans [OF goes_progress [OF assms(1) goes_refl] goes_token [OF t]])
  show ?thesis
  proof (cases "\<exists>tok. sha \<noteq> [] \<and> t = Inr tok")
    case False
    then show ?thesis using assms(2) Some t g2 by (cases t) (auto simp: CloneAndBuildWithProgress_def Let_def split: if_splits)
  next
    case True
    then obtain tok where tok: "sha \<noteq> []" "t = Inr tok" by blast
    let ?dir = "clone_dir b a sha"
    let ?w3 = "p ''info'' ''build_auth'' ''GitHub installation token ready'' w2"
    obtain m w4 where m: "perform (MkdirAll ?dir) (\<lambda>h. o_file out h (MkdirAll ?dir)) ?w3 = (m, w4)" by fastforce
    have g4: "goes builds i y w w4" by (rule goes_perform [OF m _ goes_progress [OF assms(1) g2]]) simp
    obtain x w5 where x: "build_in out a sha tok ?dir p w4 = (x, w5)" by fastforce
    have g5: "goes builds i y w w5" by (rule goes_build_in [OF assms(1) x g4])
    have "calls builds w5 (remove_all out ?dir w5)" by (rule remove_all_calls) simp
    then have g6: "goes builds i y w (remove_all out ?dir w5)" by (rule goes_trans [OF g5 goes_calls])
    have "w1 = w4 \<or> w1 = remove_all out ?dir w5"
      using assms(2) Some t tok m x by (cases m) (simp_all add: CloneAndBuildWithProgress_def Let_def)
    then show ?thesis using g4 g6 by blast
  qed
qed

lemma goes_resolve_commit:
  assumes "resolve_commit out a d w = (r, w1)"
  shows "goes builds i y w w1" and "\<And>d1. r = Inr d1 \<Longrightarrow> dep_ID d1 = dep_ID d"
proof -
  have res: "goes builds i y v w2" if "resolveBuildCommitSHA out a br v = (x, w2)" for br v x w2
  proof (rule goes_calls [OF calls_builds])
    show "calls (spares n) v w2" for n
      using that ResolveBranchHeadSHA_calls [where n = n]
      by (auto simp: resolveBuildCommitSHA_def Let_def split: option.splits sum.splits prod.splits if_splits)
  qed
  show "goes builds i y w w1" and "\<And>d1. r = Inr d1 \<Longrightarrow> dep_ID d1 = dep_ID d"
    using assms
    by (auto simp: resolve_commit_def Let_def intro!: goes_then intro: goes_trans [OF goes_emit] dest!: res
        split: if_splits prod.splits sum.splits)
qed

lemma goes_prepareTalosBuild:
  assumes "prepareTalosBuild out e a d w = (r, w1)"
  shows "goes builds i y w w1" and "\<And>d1. r = Inr d1 \<Longrightarrow> dep_ID d1 = dep_ID d"
proof -
  obtain b v where b: "getBuilder e w = (b, v)" by fastforce
  have gv: "goes builds i y w v" using b by (auto simp: getBuilder_def split: option.splits)
  obtain x w2 where x: "resolve_commit out a d v = (x, w2)" by fastforce
  have g2: "goes builds i y w w2" using goes_trans [OF gv goes_resolve_commit(1) [OF x]] .
  have all: "goes_all i y (emitEvent j)" for j by (simp add: goes_all_def goes_emit)
  have bld: "goes builds i y w w3"
    if "CloneAndBuildWithProgress out bl a' sha (emitEvent j) (emitEvent j l s m w2) = (q, w3)" for bl a' sha j l s m q w3
    by (rule goes_trans [OF goes_then_emit [OF g2] goes_CloneAndBuild [OF all that]])
  show "goes builds i y w w1" and "\<And>d1. r = Inr d1 \<Longrightarrow> dep_ID d1 = dep_ID d"
    using assms b x gv g2 goes_resolve_commit(2) [OF x]
    by (auto simp: prepareTalosBuild_def Let_def intro!: goes_then dest!: bld
        split: if_splits prod.splits sum.splits option.splits)
qed

lemma builds_gentle: "goes builds i y w v \<Longrightarrow> goes (gentle e a d) i y w v"
  by (erule goes_mono) (auto simp: builds_def gentle_def)

lemma settled_executeQueued:
  assumes "dep_ID d = i"
  shows "settled out e a d i y w (executeQueued out e a d w)"
proof -
  let ?w1 = "emitEvent (dep_ID d) ''info'' ''queue'' ''deploy queued'' w"
  show ?thesis
  proof (cases "app_BuildMode a = BuildModeTalosBuild \<and> dep_ImageRef d = []")
    case False
    then show ?thesis using settled_after [OF goes_emit settled_execute [OF assms]]
      by (auto simp: executeQueued_def Let_def)
  next
    case True
    obtain r w2 where r: "prepareTalosBuild out e a d ?w1 = (r, w2)" by fastforce
    have g: "goes (gentle e a d) i y w w2"
      by (rule goes_trans [OF goes_emit builds_gentle [OF goes_prepareTalosBuild(1) [OF r]]])
    show ?thesis
    proof (cases r)
      case (Inl err)
      then have eq: "executeQueued out e a d w = failDeploy d (error_text err) w2"
        using True r by (simp add: executeQueued_def Let_def)
      show ?thesis unfolding eq by (rule settled_after [OF g settled_fail]) (rule assms)
    next
      case (Inr d1)
      have id: "dep_ID d1 = dep_ID d" using goes_prepareTalosBuild(2) [OF r Inr] .
      have eq: "executeQueued out e a d w = execute out e a d1 True w2"
        using True r Inr by (simp add: executeQueued_def Let_def)
      show ?thesis unfolding eq
        using settled_after [OF g settled_execute [of d1, unfolded settled_cong [OF id]]] id assms by simp
    qed
  qed
qed

end
