(* ===== verification/Engine_Claims.thy ===== *)
theory Engine_Claims
  imports Engine_Outcome Proxy_Claims
begin

text \<open>The promises of the deploy engine, for every behaviour of the outside.\<close>

fun job_app :: "job \<Rightarrow> app" where
  "job_app (RunQueued a d) = a"
| "job_app (RunRollback a d) = a"

fun job_deploy :: "job \<Rightarrow> deploy" where
  "job_deploy (RunQueued a d) = d"
| "job_deploy (RunRollback a d) = d"

lemma settled_run_job: "settled out e (job_app j) (job_deploy j) (dep_ID (job_deploy j)) y w (run_job out e j w)"
  by (cases j) (simp_all add: settled_execute settled_executeQueued)

section \<open>Every deploy ends\<close>

text \<open>C1.  However the daemon, git, GitHub and the file system behave, a deploy whose row exists
  ends: its row gets one of the statuses success, failed and auto_rollback and a time of completion,
  while its image, commit, branch and origin stay those of the request.\<close>

theorem run_job_ends:
  assumes "ready i y w" and "dep_ID (job_deploy j) = i"
  shows "\<exists>x. row_of i (run_job out e j w) = Some x \<and>
    dep_Status x \<in> {DeployStatusSuccess, DeployStatusFailed, DeployStatusAutoRollback} \<and>
    dep_CompletedAt x \<noteq> None \<and> same_identity y x"
proof -
  from settled_run_job [of out e j y w] assms obtain s
    where s: "s \<in> {DeployStatusSuccess, DeployStatusFailed, DeployStatusAutoRollback}" and e: "ended i y s (run_job out e j w)"
    unfolding settled_def by blast
  from e obtain x where "row_of i (run_job out e j w) = Some x" "dep_Status x = s" "dep_CompletedAt x \<noteq> None"
    unfolding ended_def by blast
  moreover have "\<exists>x. row_of i (run_job out e j w) = Some x \<and> same_identity y x" using e by (simp add: ended_def ready_def)
  ultimately show ?thesis using s by auto
qed

definition deploy_world :: world where
  "deploy_world = sample_world\<lparr>w_db := sample_db\<rparr>"

definition running_row :: deploy where
  "running_row =
     zero_deploy\<lparr>dep_ID := 1, dep_AppID := 1, dep_ImageRef := ''img:1'', dep_Status := DeployStatusRunning,
       dep_CreatedAt := 5000000000\<rparr>"

definition sample_engine :: engine where
  "sample_engine =
     \<lparr>eng_docker = \<lparr>dc_network = ''talos''\<rparr>, eng_proxy = sample_manager, eng_provisioner = sample_provisioner,
      eng_dataDir = ''data''\<rparr>"

lemma deploy_world_ready: "ready 1 running_row deploy_world"
  using sample_db_facts sample_db_inv
  by (simp add: ready_def w_ok_def deploy_world_def sample_world_def row_of_def running_row_def same_identity_def
      NewEventBroadcaster_inv)

theorem run_job_ends_witness:
  "\<exists>x. row_of 1 (run_job calm_outside sample_engine (RunQueued sample_build_app running_row) deploy_world) = Some x \<and>
     dep_CompletedAt x \<noteq> None"
  using run_job_ends [OF deploy_world_ready, of "RunQueued sample_build_app running_row" calm_outside sample_engine]
  by (auto simp: running_row_def)

section \<open>No panic\<close>



section \<open>Two runs\<close>

text \<open>A talos build without a GitHub client fails; with a database that fails every statement,
  a rollback of a healthy app runs through.\<close>

definition shop :: app where
  "shop = zero_app\<lparr>app_ID := 1, app_Name := ''shop'', app_BuildMode := BuildModeTalosBuild\<rparr>"

definition locked :: "nat \<Rightarrow> history \<Rightarrow> world" where
  "locked n h = sample_world\<lparr>w_db := (empty_db 0)\<lparr>db_oracle := replicate n (Some ''locked'', 0)\<rparr>, w_history := h\<rparr>"

lemma locked_query: "query f ((empty_db 0)\<lparr>db_oracle := replicate (Suc n) (Some ''locked'', 0)\<rparr>) =
    (Inl (ErrSql (SqlFailure ''locked'')), (empty_db 0)\<lparr>db_oracle := replicate n (Some ''locked'', 0)\<rparr>)"
  by (simp add: query_def next_stmt_def empty_db_def)

lemma locked_exec: "exec f ((empty_db 0)\<lparr>db_oracle := replicate (Suc n) (Some ''locked'', 0)\<rparr>) =
    (Inl (ErrSql (SqlFailure ''locked'')), (empty_db 0)\<lparr>db_oracle := replicate n (Some ''locked'', 0)\<rparr>)"
  by (simp add: exec_def next_stmt_def empty_db_def)

lemma locked_steps:
  "emitEvent i l s m (locked (Suc n) h) = locked n h"
  "save_deploy d (locked (Suc n) h) = locked n h"
  "save_app a (locked (Suc n) h) = locked n h"
  "perform eff f (locked n h) = (f h, locked n (h @ [(eff, is_ok (f h))]))"
  "validateEnvVars a (locked (Suc n) h) = (Inr (), locked n h)"
  "snapshot_env a d (locked (Suc n) h) = (d\<lparr>dep_EnvSnapshot := ''null''\<rparr>, locked n h)"
  "collectEnvVars out e a (locked (Suc (Suc n)) h) = ([], locked n h)"
  by (simp_all del: replicate.simps add: locked_def emitEvent_def save_deploy_def save_app_def on_db_def locked_query locked_exec
      CreateDeployEvent_def UpdateDeploy_def UpdateApp_def wrapped_def perform_def validateEnvVars_def
      GetAppEnvVars_def snapshot_env_def GetAppEnvVarsSnapshot_def collectEnvVars_def ListAppServices_def snapshot_json_def Let_def split: prod.split)

lemma locked_begin: "begin_deploy a d (locked (Suc (Suc n)) h) =
    (d\<lparr>dep_StartedAt := Some (time_now (locked (Suc (Suc n)) h)), dep_Status := DeployStatusRunning\<rparr>, locked n h)"
  by (simp add: begin_deploy_def Let_def locked_steps)

lemma locked_pull: "pull_stage calm_outside d sk (locked (Suc (Suc n)) h) =
    (Inr (), if sk then locked (Suc n) h else locked n (h @ [(ImagePull (dep_ImageRef d), True)]))"
  by (simp add: pull_stage_def PullImage_def Let_def locked_steps calm_outside_def)

lemma shop_facts:
  "liveName shop = ''talos-shop''" "\<not> requiresExclusiveCutover sample_engine shop" "app_AccessMode shop = AccessModeOther []"
  "dep_ID d = 1 \<Longrightarrow> stagingName shop d = ''talos-shop-1''"
proof -
  have "itoa 1 = ''1''" by code_simp
  then show "dep_ID d = 1 \<Longrightarrow> stagingName shop d = ''talos-shop-1''" by (simp add: stagingName_def shop_def)
qed (simp_all add: liveName_def shop_def zero_app_def requiresExclusiveCutover_def sample_engine_def sample_manager_def
      RequiresExclusiveSwitch_def)

lemma locked_start:
  "\<exists>ext. StartContainerWithConfig calm_outside (eng_docker sample_engine) (deploy_config sample_engine shop d vs) (locked n h) =
     (Inr (''id-'' @ stagingName shop d), locked n (h @ ext))"
  by (simp add: StartContainerWithConfig_def EnsureNetwork_def create_and_start_def locked_steps calm_outside_def
      sample_engine_def container_spec_of_def deploy_config_def shop_facts exposed_internal_def port_specs_def shop_def zero_app_def
      ExternalNetworks_def sample_manager_def empty_config_def) blast

lemma locked_health:
  "WaitForHealth calm_outside c (Suc t) (locked n h) = (Inr (), locked n (h @ [(ContainerInspect c, True)]))"
  by (simp add: WaitForHealth_def calm_outside_def locked_steps eval_nat_numeral min_Suc_Suc)

lemma locked_stop:
  "StopAndRemove calm_outside c (locked n h) = (Inr (), locked n (h @ [(ContainerStop c, True), (ContainerRemove c, True)]))"
  by (simp add: StopAndRemove_def calm_outside_def locked_steps)

lemma locked_staging:
  assumes "dep_ID d = 1"
  shows "\<exists>ext. run_staging calm_outside sample_engine shop d (locked (20 + n) h) =
    locked (8 + n) (h @ ext @ [(ContainerInspect ''id-talos-shop-1'', True), (ContainerStop ''talos-shop'', True),
      (ContainerRemove ''talos-shop'', True)])"
proof -
  obtain ext where s: "StartContainerWithConfig calm_outside (eng_docker sample_engine) (deploy_config sample_engine shop d [])
     (locked (17 + n) h) = (Inr (''id-'' @ stagingName shop d), locked (17 + n) (h @ ext))"
    using locked_start by blast
  show ?thesis using s assms
    by (simp add: run_staging_def locked_steps shop_facts stop_old_first_exclusive eval_nat_numeral check_health_def
      locked_health route_and_finish_def route_stage_def stop_old_last_def locked_stop finalize_def Let_def) blast
qed

lemma locked_run: "\<exists>ext. w_history (run_job calm_outside sample_engine (RunRollback shop running_row) (locked 40 [])) =
    ext @ [(ContainerInspect ''id-talos-shop-1'', True), (ContainerStop ''talos-shop'', True), (ContainerRemove ''talos-shop'', True)]"
proof -
  define d where "d = running_row\<lparr>dep_StartedAt := Some (time_now (locked 40 [])), dep_Status := DeployStatusRunning,
    dep_EnvSnapshot := ''null''\<rparr>"
  have "dep_ID d = 1" by (simp add: d_def running_row_def)
  from locked_staging [OF this, of 14 "[(ImagePull ''img:1'', True)]"] obtain ext
    where r: "run_staging calm_outside sample_engine shop d (locked 34 [(ImagePull ''img:1'', True)]) =
        locked 22 ([(ImagePull ''img:1'', True)] @ ext @ [(ContainerInspect ''id-talos-shop-1'', True),
          (ContainerStop ''talos-shop'', True), (ContainerRemove ''talos-shop'', True)])" by auto
  have "begin_deploy shop running_row (locked 40 []) =
      (running_row\<lparr>dep_StartedAt := Some (time_now (locked 40 [])), dep_Status := DeployStatusRunning\<rparr>, locked 38 [])"
    using locked_begin [of shop running_row 38 "[]"] by simp
  moreover have "validateEnvVars shop (locked 38 []) = (Inr (), locked 37 [])" using locked_steps(5) [of shop 37] by simp
  moreover have "snapshot_env shop (running_row\<lparr>dep_StartedAt := Some (time_now (locked 40 [])), dep_Status := DeployStatusRunning\<rparr>)
      (locked 37 []) = (d, locked 36 [])" using locked_steps(6) [of shop _ 36] by (simp add: d_def)
  moreover have "pull_stage calm_outside d False (locked 36 []) = (Inr (), locked 34 [(ImagePull ''img:1'', True)])"
    using locked_pull [of d False 34 "[]"] by (simp add: d_def running_row_def)
  ultimately have "run_job calm_outside sample_engine (RunRollback shop running_row) (locked 40 []) =
      run_staging calm_outside sample_engine shop d (locked 34 [(ImagePull ''img:1'', True)])"
    by (simp add: execute_def)
  then show ?thesis using r by (intro exI [of _ "(ImagePull ''img:1'', True) # ext"]) (simp add: locked_def)
qed

section \<open>The live container\<close>

text \<open>C3.  Unless the app needs an exclusive cutover, a deploy that does not succeed has neither
  stopped nor removed the live container.\<close>

theorem unsuccessful_spares_live:
  assumes "ready i y w" and "dep_ID (job_deploy j) = i" and "\<not> requiresExclusiveCutover e (job_app j)"
    and "liveName (job_app j) \<noteq> stagingName (job_app j) (job_deploy j)"
    and "row_of i (run_job out e j w) = Some x" and "dep_Status x \<noteq> DeployStatusSuccess"
  shows "made (spares (liveName (job_app j))) w (run_job out e j w)"
proof -
  from settled_run_job [of out e j y w] assms(1,2) obtain s
    where e: "ended i y s (run_job out e j w)" and g: "s \<noteq> DeployStatusSuccess \<Longrightarrow>
      goes (gentle e (job_app j) (job_deploy j)) i y w (run_job out e j w)"
    unfolding settled_def by auto
  have "s \<noteq> DeployStatusSuccess" using e assms(5,6) by (auto simp: ended_def)
  then show ?thesis using goes_made [OF g] assms(3,4) made_mono unfolding gentle_def by blast
qed

definition no_github_world :: world where
  "no_github_world = deploy_world\<lparr>w_gh := None\<rparr>"

lemma no_github_ready: "ready 1 running_row no_github_world"
  using deploy_world_ready by (simp add: no_github_world_def ready_def w_ok_def row_of_def)

lemma no_github_ends:
  "ended 1 running_row DeployStatusFailed
     (run_job calm_outside sample_engine (RunQueued shop (running_row\<lparr>dep_ImageRef := []\<rparr>)) no_github_world)"
proof -
  let ?d = "running_row\<lparr>dep_ImageRef := []\<rparr>"
  let ?w = "emitEvent 1 ''error'' ''build_setup'' ''GitHub App is not connected''
    (emitEvent 1 ''info'' ''queue'' ''deploy queued'' no_github_world)"
  have id: "dep_ID ?d = 1" by (simp add: running_row_def)
  have "w_gh (emitEvent i l st m w) = w_gh w \<and> w_builder (emitEvent i l st m w) = w_builder w" for i l st m w
    by (simp add: emitEvent_def on_db_pair split: sum.split outcome.split)
  then have "run_job calm_outside sample_engine (RunQueued shop ?d) no_github_world = failDeploy ?d (error_text (ErrText not_connected)) ?w"
    using id by (simp add: executeQueued_def shop_def prepareTalosBuild_def getBuilder_def no_github_world_def deploy_world_def
        sample_world_def Let_def)
  moreover have "ready 1 running_row ?w" using ready_goes [OF goes_emit] no_github_ready by blast
  ultimately show ?thesis using fail_ends id by simp
qed

theorem unsuccessful_spares_live_witness:
  "made (spares ''talos-shop'') no_github_world
     (run_job calm_outside sample_engine (RunQueued shop (running_row\<lparr>dep_ImageRef := []\<rparr>)) no_github_world)"
proof -
  let ?j = "RunQueued shop (running_row\<lparr>dep_ImageRef := []\<rparr>)"
  obtain x where x: "row_of 1 (run_job calm_outside sample_engine ?j no_github_world) = Some x" "dep_Status x = DeployStatusFailed"
    using no_github_ends unfolding ended_def by blast
  have "dep_ID (job_deploy ?j) = 1" by (simp add: running_row_def)
  then show ?thesis using unsuccessful_spares_live [OF no_github_ready _ _ _ x(1)] x(2) shop_facts by simp
qed

text \<open>C2.  Unless the app needs an exclusive cutover, the live container is stopped or removed only
  after the container created for the deploy was seen running, and healthy when it has a health
  check.\<close>

theorem cutover_after_health:
  assumes "\<not> requiresExclusiveCutover e (job_app j)"
    and "liveName (job_app j) \<noteq> stagingName (job_app j) (job_deploy j)"
    and "w_history (run_job out e j w) = w_history w @ ext"
    and "(eff, ok) \<in> set ext" and "\<not> spares (liveName (job_app j)) eff"
  shows "\<exists>e1 spec e2 c st rest. ext = e1 @ (ContainerCreate spec, True) # e2 @ (ContainerInspect c, True) # rest \<and>
    spec_Name spec = stagingName (job_app j) (job_deploy j) \<and> o_create out (w_history w @ e1) spec = Inr c \<and>
    o_inspect out (w_history w @ e1 @ (ContainerCreate spec, True) # e2) c = Inr st \<and>
    st_Running st \<and> st_Health st \<in> {None, Some ''healthy''} \<and>
    list_all (\<lambda>x. spares (liveName (job_app j)) (fst x)) (e1 @ e2)"
proof -
  let ?g = "gentle e (job_app j) (job_deploy j)" and ?i = "dep_ID (job_deploy j)"
  have sp: "?g = spares (liveName (job_app j))" using assms(1,2) by (simp add: gentle_def fun_eq_iff)
  have "\<not> made ?g w (run_job out e j w)"
    using assms(3-5) unfolding sp by (force simp: made_def list_all_iff)
  then have "\<not> goes ?g ?i y w (run_job out e j w)" for y using goes_made by blast
  then obtain v where v: "goes ?g ?i undefined w v" "came_up out (stagingName (job_app j) (job_deploy j)) w v"
    and t: "goes (\<lambda>_. True) ?i undefined v (run_job out e j w)"
    using settled_run_job [of out e j undefined w] unfolding settled_def by (auto split: if_splits)
  from v(2) obtain e1 spec e2 c st where h:
    "w_history v = w_history w @ e1 @ (ContainerCreate spec, True) # e2 @ [(ContainerInspect c, True)]"
    "spec_Name spec = stagingName (job_app j) (job_deploy j)" "o_create out (w_history w @ e1) spec = Inr c"
    "o_inspect out (w_history w @ e1 @ (ContainerCreate spec, True) # e2) c = Inr st"
    "st_Running st" "st_Health st \<in> {None, Some ''healthy''}"
    unfolding came_up_def by blast
  obtain rest where "w_history (run_job out e j w) = w_history v @ rest" using t by (auto simp: goes_def made_def)
  then have "ext = e1 @ (ContainerCreate spec, True) # e2 @ (ContainerInspect c, True) # rest"
    using h(1) assms(3) by simp
  moreover have "list_all (\<lambda>x. spares (liveName (job_app j)) (fst x)) (e1 @ e2)"
    using v(1) h(1) unfolding sp by (auto simp: goes_def made_def)
  ultimately show ?thesis using h by blast
qed

theorem cutover_after_health_witness:
  "\<exists>e1 spec e2 c rest. w_history (run_job calm_outside sample_engine (RunRollback shop running_row) (locked 40 [])) =
     e1 @ (ContainerCreate spec, True) # e2 @ (ContainerInspect c, True) # rest \<and> spec_Name spec = ''talos-shop-1''"
proof -
  let ?j = "RunRollback shop running_row"
  obtain ext where h: "w_history (run_job calm_outside sample_engine ?j (locked 40 [])) =
      ext @ [(ContainerInspect ''id-talos-shop-1'', True), (ContainerStop ''talos-shop'', True), (ContainerRemove ''talos-shop'', True)]"
    using locked_run by blast
  have "stagingName shop running_row = ''talos-shop-1''" by (rule shop_facts) (simp add: running_row_def)
  then show ?thesis
    using cutover_after_health [of sample_engine ?j calm_outside "locked 40 []" _ "ContainerStop ''talos-shop''" True] h shop_facts
    by (fastforce simp: locked_def)
qed

end
