(* ===== verification/Engine_Requests.thy ===== *)
theory Engine_Requests
  imports Engine_Claims
begin

text \<open>The requests for a deploy and a rollback: what they check, what they store, what they leave
  to the goroutine.\<close>

lemma fk_ok_new_deploy:
  assumes "fk_ok d" and "dep_AppID x \<in> set (app_ids d)" and "opt_in (dep_RollbackOfID x) (deploy_ids d)"
  shows "fk_ok (d\<lparr>db_last_rowid := i, db_deploys := snd (tbl_insert set_dep_id x (db_deploys d))\<rparr>)"
proof -
  have "opt_in v (deploy_ids d @ [j])" if "opt_in v (deploy_ids d)" for v j using that by (cases v) auto
  then show ?thesis using assms
    by (auto simp: fk_ok_def deploy_ids_def app_ids_def service_ids_def list_all_iff set_dep_id_def)
qed

lemma CreateDeploy_run:
  assumes "db_inv d" and "db_oracle d = []" and "dep_AppID x \<in> set (app_ids d)"
    and "opt_in (dep_RollbackOfID x) (deploy_ids d)" and "i = tbl_seq (db_deploys d) + 1"
  shows "CreateDeploy x d = (Inr (x\<lparr>dep_ID := i\<rparr>),
    d\<lparr>db_last_rowid := i, db_deploys := snd (tbl_insert set_dep_id (new_deploy_row x d) (db_deploys d))\<rparr>)"
proof -
  let ?d' = "d\<lparr>db_last_rowid := i, db_deploys := snd (tbl_insert set_dep_id (new_deploy_row x d) (db_deploys d))\<rparr>"
  have "insert_into db_deploys db_deploys_update set_dep_id no_conflict (new_deploy_row x d) d = Inr (i, ?d')"
    using assms(5) by (simp add: insert_into_Inr no_conflict_def)
  moreover have "fk_ok ?d'"
    using fk_ok_new_deploy [of d "new_deploy_row x d" i] assms(1,3,4) by (simp add: new_deploy_row_def db_inv_def)
  ultimately show ?thesis using assms(2) by (simp add: CreateDeploy_def wrapped_def exec_no_oracle)
qed

lemma GetApp_run: "db_oracle d = [] \<Longrightarrow> by_id app_ID i (db_apps d) = Some a \<Longrightarrow> GetApp i d = (Inr a, d)"
  by (simp add: GetApp_def query_row_no_oracle)

lemma app_id_in: "db_inv d \<Longrightarrow> by_id app_ID i (db_apps d) = Some a \<Longrightarrow> i \<in> set (app_ids d) \<and> app_ID a = i"
  using apps.by_id_Some [of i "db_apps d" a] by (auto simp: app_ids_def)

text \<open>C4.  \<open>Deploy\<close> of a managed app reports that a deploy is in progress exactly when the
  latest deploy of the app is pending or running, and then stores nothing; otherwise it adds one
  pending row with the image, commit and branch of the request, keeps every other row, and leaves to
  the goroutine a job for that row, which is then ready to run.\<close>

theorem Deploy_spec:
  assumes "db_inv d" and "db_oracle d = []" and "by_id app_ID n (db_apps d) = Some a" and "app_AppType a = AppTypeManaged"
  shows "(if \<exists>x. fst (GetLatestDeploy n d) = Inr x \<and> in_progress x
      then Deploy n img sha br by_whom d = (Inl ErrDeployInProgress, d)
      else \<exists>x d'. Deploy n img sha br by_whom d = (Inr (x, RunQueued a x), d') \<and>
        (let row = x\<lparr>dep_CreatedAt := current_timestamp d\<rparr> in
         dep_Status x = DeployStatusPending \<and> dep_ImageRef x = img \<and> dep_CommitSHA x = sha \<and> dep_Branch x = br \<and>
         dep_AppID x = n \<and> dep_TriggeredBy x = by_whom \<and>
         tbl_rows (db_deploys d') = tbl_rows (db_deploys d) @ [row] \<and> db_apps d' = db_apps d \<and>
         (\<forall>w. w_ok w \<longrightarrow> ready (dep_ID x) row (w\<lparr>w_db := d'\<rparr>))))"
proof -
  have latest: "GetLatestDeploy n d = ((case first_row (deploys_of n d) of None \<Rightarrow> Inl ErrNotFound | Some x \<Rightarrow> Inr x), d)"
    using assms(2) by (simp add: GetLatestDeploy_def query_row_no_oracle)
  show ?thesis
  proof (cases "\<exists>x. fst (GetLatestDeploy n d) = Inr x \<and> in_progress x")
    case True
    then show ?thesis using latest assms(2-4)
      by (auto simp: Deploy_def check_deploy_def GetApp_run split: option.splits)
  next
    case False
    let ?x = "new_deploy n img sha br by_whom" and ?i = "tbl_seq (db_deploys d) + 1"
    let ?r = "new_deploy_row ?x d"
    let ?d' = "d\<lparr>db_last_rowid := ?i, db_deploys := snd (tbl_insert set_dep_id ?r (db_deploys d))\<rparr>"
    have "check_deploy n d = (Inr a, d)" using False latest assms(2-4)
      by (auto simp: check_deploy_def GetApp_run split: option.splits)
    moreover have c: "CreateDeploy ?x d = (Inr (?x\<lparr>dep_ID := ?i\<rparr>), ?d')"
      using app_id_in [OF assms(1,3)] by (intro CreateDeploy_run assms(1,2)) (simp_all add: new_deploy_def zero_deploy_def)
    ultimately have e: "Deploy n img sha br by_whom d = (Inr (?x\<lparr>dep_ID := ?i\<rparr>, RunQueued a (?x\<lparr>dep_ID := ?i\<rparr>)), ?d')"
      by (simp add: Deploy_def)
    have row: "set_dep_id ?i ?r = ?x\<lparr>dep_ID := ?i, dep_CreatedAt := current_timestamp d\<rparr>"
      by (simp add: set_dep_id_def new_deploy_row_def new_deploy_def zero_deploy_def)
    have "db_inv ?d'" using CreateDeploy_inv [OF assms(1), of ?x] c by simp
    moreover have "by_id dep_ID ?i (db_deploys ?d') = Some (set_dep_id ?i ?r)"
      using deploys.by_id_insert_new [of "db_deploys d" ?r] assms(1) by (simp add: db_inv_def)
    ultimately have "ready ?i (?x\<lparr>dep_ID := ?i, dep_CreatedAt := current_timestamp d\<rparr>) (w\<lparr>w_db := ?d'\<rparr>)" if "w_ok w" for w
      using that row assms(2) by (simp add: ready_def w_ok_def row_of_def same_identity_def)
    then show ?thesis using False e row by (simp add: new_deploy_def zero_deploy_def Let_def)
  qed
qed

text \<open>A database with one managed app and one successful deploy of it.\<close>

definition managed_db :: db where
  "managed_db = run_calls
     [CallCreateApp (zero_app\<lparr>app_Name := ''blog'', app_AppType := AppTypeManaged\<rparr>),
      CallCreateDeploy (zero_deploy\<lparr>dep_AppID := 1, dep_ImageRef := ''img:1'', dep_Status := DeployStatusSuccess\<rparr>)]
     (empty_db 5000000000)"

definition managed_app :: app where
  "managed_app = zero_app\<lparr>app_ID := 1, app_Name := ''blog'', app_AppType := AppTypeManaged,
     app_CreatedAt := 5000000000, app_UpdatedAt := 5000000000\<rparr>"

definition successful_row :: deploy where
  "successful_row = zero_deploy\<lparr>dep_ID := 1, dep_AppID := 1, dep_ImageRef := ''img:1'', dep_Status := DeployStatusSuccess,
     dep_CreatedAt := 5000000000\<rparr>"

lemma managed_db_inv: "db_inv managed_db"
proof -
  have "empty_db 5000000000 = (empty_db 5000000000)\<lparr>db_oracle := []\<rparr>" by (simp add: empty_db_def)
  then show ?thesis unfolding managed_db_def using run_calls_inv [OF empty_db_inv] by metis
qed

lemma managed_db_facts:
  "db_oracle managed_db = []" "by_id app_ID 1 (db_apps managed_db) = Some managed_app"
  "tbl_rows (db_deploys managed_db) = [successful_row]"
  by code_simp+

lemma managed_app_type: "app_AppType managed_app = AppTypeManaged"
  by (simp add: managed_app_def)

lemma managed_latest: "GetLatestDeploy 1 managed_db = (Inr successful_row, managed_db)"
  "GetLatestSuccessfulDeploy 1 managed_db = (Inr successful_row, managed_db)"
  by (simp_all add: GetLatestDeploy_def GetLatestSuccessfulDeploy_def query_row_no_oracle managed_db_facts deploys_of_def
      successful_deploys_of_def tbl_select_def first_row_def order_desc_def successful_row_def)

theorem Deploy_spec_witness:
  "\<exists>x d'. Deploy 1 ''img:2'' [] ''main'' ''manual'' managed_db = (Inr (x, RunQueued managed_app x), d') \<and>
     dep_ImageRef x = ''img:2'' \<and> length (tbl_rows (db_deploys d')) = 2"
  using Deploy_spec [OF managed_db_inv managed_db_facts(1,2) managed_app_type, of "''img:2''" "[]" "''main''" "''manual''"]
  by (auto simp: managed_latest managed_db_facts(3) in_progress_def successful_row_def Let_def)

section \<open>Rollback\<close>

text \<open>C11.  \<open>Rollback\<close> of a managed app redeploys its youngest successful deploy, which
  is the one in service, with the image stored in that row; whether a deploy is in progress does not
  matter.  Without a successful deploy it is an error and nothing is stored.\<close>

theorem Rollback_spec:
  assumes "db_inv d" and "db_oracle d = []" and "by_id app_ID n (db_apps d) = Some a" and "app_AppType a = AppTypeManaged"
  shows "case fst (GetLatestSuccessfulDeploy n d) of
      Inl err \<Rightarrow> err = ErrNotFound \<and> Rollback n d = (Inl (Wrap ''get last successful deploy'' ErrNotFound), d) \<and>
        (\<forall>x \<in> set (tbl_rows (db_deploys d)). dep_AppID x = n \<longrightarrow> dep_Status x \<noteq> DeployStatusSuccess)
    | Inr prev \<Rightarrow> \<exists>x d'. Rollback n d = (Inr (x, RunRollback a x), d') \<and>
        dep_ImageRef x = dep_ImageRef prev \<and> dep_RollbackOfID x = Some (dep_ID prev) \<and>
        dep_Status x = DeployStatusPending \<and> dep_CommitSHA x = [] \<and>
        tbl_rows (db_deploys d') = tbl_rows (db_deploys d) @ [x\<lparr>dep_CreatedAt := current_timestamp d\<rparr>] \<and>
        (\<forall>y \<in> set (tbl_rows (db_deploys d)). dep_AppID y = n \<and> dep_Status y = DeployStatusSuccess \<longrightarrow>
           dep_CreatedAt y \<le> dep_CreatedAt prev)"
proof -
  let ?ok = "successful_deploys_of n d"
  have latest: "GetLatestSuccessfulDeploy n d = ((case first_row ?ok of None \<Rightarrow> Inl ErrNotFound | Some x \<Rightarrow> Inr x), d)"
    using assms(2) by (simp add: GetLatestSuccessfulDeploy_def query_row_no_oracle)
  show ?thesis
  proof (cases ?ok)
    case Nil
    then have "GetLatestSuccessfulDeploy n d = (Inl ErrNotFound, d)" using latest by (simp add: first_row_def)
    moreover have "tbl_select (\<lambda>x. dep_AppID x = n \<and> dep_Status x = DeployStatusSuccess) (db_deploys d) = []"
      using Nil by (simp add: successful_deploys_of_def)
    ultimately show ?thesis using assms(2-4) by (auto simp: Rollback_def GetApp_run tbl_select_def filter_empty_conv)
  next
    case (Cons prev rest)
    then have l: "GetLatestSuccessfulDeploy n d = (Inr prev, d)" using latest by (simp add: first_row_def)
    have "set ?ok = set (tbl_select (\<lambda>x. dep_AppID x = n \<and> dep_Status x = DeployStatusSuccess) (db_deploys d))"
      by (simp add: successful_deploys_of_def)
    then have "prev \<in> set (tbl_rows (db_deploys d))" using Cons by (auto simp: tbl_select_def)
    then have fk: "opt_in (Some (dep_ID prev)) (deploy_ids d)" by (simp add: deploy_ids_def)
    let ?x = "(new_deploy n (dep_ImageRef prev) [] (dep_Branch prev) ''rollback'')\<lparr>dep_RollbackOfID := Some (dep_ID prev)\<rparr>"
    have "CreateDeploy ?x d = (Inr (?x\<lparr>dep_ID := tbl_seq (db_deploys d) + 1\<rparr>), d\<lparr>db_last_rowid := tbl_seq (db_deploys d) + 1,
        db_deploys := snd (tbl_insert set_dep_id (new_deploy_row ?x d) (db_deploys d))\<rparr>)"
      using app_id_in [OF assms(1,3)] fk by (intro CreateDeploy_run assms(1,2)) (simp_all add: new_deploy_def zero_deploy_def)
    moreover have "dep_CreatedAt y \<le> dep_CreatedAt prev"
      if "y \<in> set (tbl_rows (db_deploys d))" "dep_AppID y = n" "dep_Status y = DeployStatusSuccess" for y
      using order_desc_hd_max [of dep_CreatedAt _ prev rest y] Cons that
      by (auto simp: successful_deploys_of_def tbl_select_def)
    ultimately show ?thesis using l assms(2-4)
      by (simp add: Rollback_def GetApp_run new_deploy_def zero_deploy_def set_dep_id_def new_deploy_row_def)
  qed
qed

theorem Rollback_spec_witness:
  "\<exists>x d'. Rollback 1 managed_db = (Inr (x, RunRollback managed_app x), d') \<and> dep_ImageRef x = ''img:1'' \<and>
     dep_RollbackOfID x = Some 1"
  using Rollback_spec [OF managed_db_inv managed_db_facts(1,2) managed_app_type]
  by (auto simp: managed_latest successful_row_def)

section \<open>Two requests at once\<close>

text \<open>Each request runs in its own goroutine; the database runs one statement at a time, but
  nothing holds it between the check of \<open>Deploy\<close> and its insert.\<close>

datatype deploy_request = Asked | Checked app | Accepted deploy | Refused go_error

inductive req_step :: "int \<Rightarrow> db \<times> deploy_request list \<Rightarrow> db \<times> deploy_request list \<Rightarrow> bool" for n :: int where
  check: "i < length rs \<Longrightarrow> rs ! i = Asked \<Longrightarrow> check_deploy n d = (r, d1) \<Longrightarrow>
    req_step n (d, rs) (d1, rs[i := (case r of Inl e \<Rightarrow> Refused e | Inr a \<Rightarrow> Checked a)])"
| create: "i < length rs \<Longrightarrow> rs ! i = Checked a \<Longrightarrow> CreateDeploy (new_deploy n img sha br by_whom) d = (r, d1) \<Longrightarrow>
    req_step n (d, rs) (d1, rs[i := (case r of Inl e \<Rightarrow> Refused (Wrap ''create deploy'' e) | Inr x \<Rightarrow> Accepted x)])"

text \<open>A request that is not disturbed is \<open>Deploy\<close>.\<close>

lemma Deploy_is_two_steps:
  "Deploy n img sha br by_whom d = (Inr (x, j), d') \<Longrightarrow> (req_step n)\<^sup>*\<^sup>* (d, [Asked]) (d', [Accepted x])"
proof -
  assume "Deploy n img sha br by_whom d = (Inr (x, j), d')"
  then obtain a d1 where c: "check_deploy n d = (Inr a, d1)" "CreateDeploy (new_deploy n img sha br by_whom) d1 = (Inr x, d')"
    by (auto simp: Deploy_def split: prod.splits sum.splits)
  have "req_step n (d, [Asked]) (d1, [Checked a])" using check [of 0 "[Asked]" n d "Inr a" d1] c by simp
  moreover have "req_step n (d1, [Checked a]) (d', [Accepted x])"
    using create [of 0 "[Checked a]" a n img sha br by_whom d1 "Inr x" d'] c by simp
  ultimately show ?thesis by simp
qed

text \<open>The check of \<open>Deploy\<close> does not exclude a second deploy: whenever one request is
  accepted, two requests that both check before either inserts are both accepted, and two pending
  rows with different ids are in the table.\<close>

theorem Deploy_race:
  assumes "db_inv d" and "db_oracle d = []" and "by_id app_ID n (db_apps d) = Some a" and "check_deploy n d = (Inr a, d)"
  shows "\<exists>d' x y. (req_step n)\<^sup>*\<^sup>* (d, [Asked, Asked]) (d', [Accepted x, Accepted y]) \<and> dep_ID x \<noteq> dep_ID y \<and>
    {x\<lparr>dep_CreatedAt := current_timestamp d\<rparr>, y\<lparr>dep_CreatedAt := current_timestamp d\<rparr>} \<subseteq> set (tbl_rows (db_deploys d')) \<and>
    in_progress x \<and> in_progress y"
proof -
  let ?r = "new_deploy n [] [] [] ''manual''" and ?i = "tbl_seq (db_deploys d) + 1"
  let ?d1 = "d\<lparr>db_last_rowid := ?i, db_deploys := snd (tbl_insert set_dep_id (new_deploy_row ?r d) (db_deploys d))\<rparr>"
  let ?d2 = "?d1\<lparr>db_last_rowid := ?i + 1, db_deploys := snd (tbl_insert set_dep_id (new_deploy_row ?r ?d1) (db_deploys ?d1))\<rparr>"
  have app: "n \<in> set (app_ids d)" using app_id_in [OF assms(1,3)] by simp
  have c1: "CreateDeploy ?r d = (Inr (?r\<lparr>dep_ID := ?i\<rparr>), ?d1)"
    using app by (intro CreateDeploy_run assms(1,2)) (simp_all add: new_deploy_def zero_deploy_def)
  have inv: "db_inv ?d1" using CreateDeploy_inv [OF assms(1), of ?r] c1 by simp
  have c2: "CreateDeploy ?r ?d1 = (Inr (?r\<lparr>dep_ID := ?i + 1\<rparr>), ?d2)"
    using app assms(2) by (intro CreateDeploy_run inv) (simp_all add: new_deploy_def zero_deploy_def app_ids_def)
  have s: "req_step n (d, [Asked, Asked]) (d, [Checked a, Asked])" "req_step n (d, [Checked a, Asked]) (d, [Checked a, Checked a])"
    using check [of 0 "[Asked, Asked]" n d "Inr a" d] check [of 1 "[Checked a, Asked]" n d "Inr a" d] assms(4) by simp_all
  have t: "req_step n (d, [Checked a, Checked a]) (?d1, [Accepted (?r\<lparr>dep_ID := ?i\<rparr>), Checked a])"
    "req_step n (?d1, [Accepted (?r\<lparr>dep_ID := ?i\<rparr>), Checked a]) (?d2, [Accepted (?r\<lparr>dep_ID := ?i\<rparr>), Accepted (?r\<lparr>dep_ID := ?i + 1\<rparr>)])"
    using create [OF _ _ c1, of 0 "[Checked a, Checked a]" a] create [OF _ _ c2, of 1 "[Accepted (?r\<lparr>dep_ID := ?i\<rparr>), Checked a]" a]
    by simp_all
  have "(req_step n)\<^sup>*\<^sup>* (d, [Asked, Asked]) (?d2, [Accepted (?r\<lparr>dep_ID := ?i\<rparr>), Accepted (?r\<lparr>dep_ID := ?i + 1\<rparr>)])"
    using s t by (meson r_into_rtranclp rtranclp_trans)
  moreover have "current_timestamp ?d1 = current_timestamp d" by (simp add: current_timestamp_def)
  ultimately show ?thesis
    by (intro exI [of _ ?d2] exI [of _ "?r\<lparr>dep_ID := ?i\<rparr>"] exI [of _ "?r\<lparr>dep_ID := ?i + 1\<rparr>"])
       (simp add: in_progress_def new_deploy_def zero_deploy_def set_dep_id_def new_deploy_row_def)
qed

theorem Deploy_race_witness:
  "\<exists>d' x y. (req_step 1)\<^sup>*\<^sup>* (managed_db, [Asked, Asked]) (d', [Accepted x, Accepted y]) \<and> dep_ID x \<noteq> dep_ID y"
proof -
  have "check_deploy 1 managed_db = (Inr managed_app, managed_db)"
    by (simp add: check_deploy_def GetApp_run managed_db_facts(1,2) managed_app_type managed_latest in_progress_def successful_row_def)
  from Deploy_race [OF managed_db_inv managed_db_facts(1,2) this] show ?thesis by blast
qed

end
