(* ===== verification/Http.thy ===== *)
theory Http
  imports World Json_Roundtrip
begin

text \<open>
  What the handlers use of \<open>net/http\<close>, and \<open>internal/server/handlers/helpers.go\<close>: a
  response is a status, the cookies set, the content type and the body; a request is the parts a
  handler reads.  \<open>UserFromContext\<close> is the user that the middleware has put there.
\<close>

record cookie =
  ck_Name :: string
  ck_Value :: string
  ck_MaxAge :: int
  ck_HttpOnly :: bool
  ck_SameSiteLax :: bool

record response =
  rs_status :: int
  rs_cookies :: "cookie list"
  rs_type :: string
  rs_location :: string
  rs_body :: string

record request =
  rq_cookie :: "string option"
  rq_header :: "string \<Rightarrow> string"
  rq_body :: string
  rq_user :: "user option"

definition newline :: string where
  "newline = [CHR 0x0A]"

definition status_only :: "int \<Rightarrow> response" where
  "status_only code = \<lparr>rs_status = code, rs_cookies = [], rs_type = [], rs_location = [], rs_body = []\<rparr>"

text \<open>\<open>json.NewEncoder(w).Encode(v)\<close> ends the text with a newline.\<close>

definition writeJSON :: "int \<Rightarrow> json \<Rightarrow> response" where
  "writeJSON code v =
     (status_only code)\<lparr>rs_type := ''application/json'', rs_body := json_print v @ newline\<rparr>"

definition writeError :: "int \<Rightarrow> string \<Rightarrow> response" where
  "writeError code message = writeJSON code (JObj [(''error'', JStr message)])"

text \<open>\<open>http.Error\<close> and \<open>http.Redirect\<close> (the latter's body is a short HTML note, left
  out here).\<close>

definition http_error :: "string \<Rightarrow> int \<Rightarrow> response" where
  "http_error message code =
     (status_only code)\<lparr>rs_type := ''text/plain; charset=utf-8'', rs_body := message @ newline\<rparr>"

definition redirect :: "string \<Rightarrow> int \<Rightarrow> response" where
  "redirect url code = (status_only code)\<lparr>rs_location := url\<rparr>"

definition set_cookie :: "cookie \<Rightarrow> response \<Rightarrow> response" where
  "set_cookie c r = r\<lparr>rs_cookies := rs_cookies r @ [c]\<rparr>"

lemma response_simps [simp]:
  "rs_status (status_only c) = c" "rs_status (writeJSON c v) = c" "rs_status (writeError c m) = c"
  "rs_status (http_error m c) = c" "rs_status (redirect u c) = c" "rs_status (set_cookie k r) = rs_status r"
  "rs_cookies (status_only c) = []" "rs_cookies (writeJSON c v) = []" "rs_cookies (writeError c m) = []"
  "rs_cookies (http_error m c) = []" "rs_cookies (redirect u c) = []"
  "rs_cookies (set_cookie k r) = rs_cookies r @ [k]"
  by (simp_all add: status_only_def writeJSON_def writeError_def http_error_def redirect_def set_cookie_def)

text \<open>The body of an error response parses as the object with its message.\<close>

lemma writeError_body: "Decode (rs_body (writeError c m)) = Decode (json_print (JObj [(''error'', JStr m)]) @ newline)"
  by (simp add: writeError_def writeJSON_def)

end
