(* ===== verification/Sessions.thy ===== *)
theory Sessions
  imports Http Base64
begin

text \<open>
  \<open>internal/auth/auth.go\<close> and \<open>password.go\<close>, the handlers of
  \<open>internal/server/handlers/auth.go\<close> and the two authentication middlewares of
  \<open>internal/server/middleware.go\<close>.  HMAC-SHA256 is \<open>o_hmac\<close>; bcrypt is
  \<open>o_bcrypt_hash\<close> (whose salt makes it depend on the history) and \<open>o_bcrypt_ok\<close>.
\<close>

section \<open>The URL alphabet of base64\<close>

definition to_url_char :: "char \<Rightarrow> char" where
  "to_url_char c = (if c = CHR ''+'' then CHR ''-'' else if c = CHR ''/'' then CHR ''_'' else c)"

definition of_url_char :: "char \<Rightarrow> char" where
  "of_url_char c = (if c = CHR ''-'' then CHR ''+'' else if c = CHR ''_'' then CHR ''/'' else c)"

definition url_b64_encode :: "string \<Rightarrow> string" where
  "url_b64_encode s = map to_url_char (b64_encode s)"

definition url_b64_decode :: "string \<Rightarrow> string option" where
  "url_b64_decode s =
     (if CHR ''+'' \<in> set s \<or> CHR ''/'' \<in> set s then None else b64_decode (map of_url_char s))"

lemma b64_char_mem: "n < 64 \<Longrightarrow> b64_char n \<in> set b64_alphabet"
proof -
  assume "n < 64"
  moreover have "length b64_alphabet = 64" by code_simp
  ultimately show ?thesis by (simp add: b64_char_def)
qed

lemma b64_chars: "c \<in> set (b64_encode s) \<Longrightarrow> c \<in> insert (CHR ''='') (set b64_alphabet)"
  by (induction s rule: b64_encode.induct) (auto simp: six_bits b64_char_mem)

lemma url_char_back:
  assumes "c \<in> insert (CHR ''='') (set b64_alphabet)"
  shows "of_url_char (to_url_char c) = c" and "to_url_char c \<notin> {CHR ''+'', CHR ''/'', CHR ''.'', CHR '':''}"
proof -
  have "list_all (\<lambda>c. of_url_char (to_url_char c) = c \<and> to_url_char c \<notin> {CHR ''+'', CHR ''/'', CHR ''.'', CHR '':''})
      (CHR ''='' # b64_alphabet)" by code_simp
  with assms show "of_url_char (to_url_char c) = c" and "to_url_char c \<notin> {CHR ''+'', CHR ''/'', CHR ''.'', CHR '':''}"
    by (auto simp: list_all_iff)
qed

lemma url_b64_chars: "c \<in> set (url_b64_encode s) \<Longrightarrow> c \<notin> {CHR ''+'', CHR ''/'', CHR ''.'', CHR '':''}"
  unfolding url_b64_encode_def using b64_chars url_char_back(2) by auto

lemma url_b64_decode_encode [simp]: "url_b64_decode (url_b64_encode s) = Some s"
proof -
  have "map of_url_char (url_b64_encode s) = b64_encode s"
    unfolding url_b64_encode_def map_map by (rule map_idI) (simp add: b64_chars url_char_back(1) del: insert_iff)
  moreover have "CHR ''+'' \<notin> set (url_b64_encode s)" "CHR ''/'' \<notin> set (url_b64_encode s)"
    using url_b64_chars by blast+
  ultimately show ?thesis by (simp add: url_b64_decode_def)
qed

section \<open>The authentication service\<close>

record auth_service =
  as_secret :: string
  as_maxAge :: int

definition SetupRequired :: "db \<Rightarrow> (go_error + bool) \<times> db" where
  "SetupRequired d =
     (case HasUsers d of (Inl e, d1) \<Rightarrow> (Inl e, d1) | (Inr has, d1) \<Rightarrow> (Inr (\<not> has), d1))"

definition HashPassword :: "outside \<Rightarrow> string \<Rightarrow> world \<Rightarrow> (go_error + string) \<times> world" where
  "HashPassword out password w = perform (RandomBytes 16) (\<lambda>h. o_bcrypt_hash out h password) w"

definition CheckPassword :: "outside \<Rightarrow> string \<Rightarrow> string \<Rightarrow> bool" where
  "CheckPassword out password hash = o_bcrypt_ok out hash password"

definition new_user :: "string \<Rightarrow> string \<Rightarrow> user" where
  "new_user username hash =
     \<lparr>usr_ID = 0, usr_Username = username, usr_PasswordHash = hash, usr_CreatedAt = 0, usr_UpdatedAt = 0\<rparr>"

definition AuthCreateUser :: "outside \<Rightarrow> string \<Rightarrow> string \<Rightarrow> world \<Rightarrow> (go_error + user) \<times> world" where
  "AuthCreateUser out username password w =
     (case HashPassword out password w of
        (Inl e, w1) \<Rightarrow> (Inl (Wrap ''hash password'' e), w1)
      | (Inr hash, w1) \<Rightarrow> on_db (CreateUser (new_user username hash)) w1)"

definition Authenticate :: "outside \<Rightarrow> string \<Rightarrow> string \<Rightarrow> db \<Rightarrow> (go_error + user) \<times> db" where
  "Authenticate out username password d =
     (case GetUserByUsername username d of
        (Inl e, d1) \<Rightarrow> (if errors_is e ErrNotFound then Inl ErrUnauthorized else Inl e, d1)
      | (Inr u, d1) \<Rightarrow>
          (if CheckPassword out password (usr_PasswordHash u) then Inr u else Inl ErrUnauthorized, d1))"

text \<open>\<open>time.Time.Unix()\<close>.\<close>

definition unix :: "time \<Rightarrow> int" where
  "unix t = t div 1000000000"

definition signature :: "outside \<Rightarrow> auth_service \<Rightarrow> string \<Rightarrow> string" where
  "signature out s payload = url_b64_encode (o_hmac out (as_secret s) payload)"

definition CreateSession :: "outside \<Rightarrow> auth_service \<Rightarrow> user \<Rightarrow> time \<Rightarrow> string" where
  "CreateSession out s u now =
     (let expires = unix (now + as_maxAge s);
          payload = itoa (usr_ID u) @ '':'' @ itoa expires
      in url_b64_encode payload @ ''.'' @ signature out s payload)"

text \<open>What is left of \<open>ValidateSession\<close> once the signature is good.\<close>

definition session_user :: "string \<Rightarrow> db \<Rightarrow> (go_error + user) \<times> db" where
  "session_user payload d =
     (case splitn2 (CHR '':'') payload of
        [a, b] \<Rightarrow>
          (case (parse_int64 a, parse_int64 b) of
             (Some userID, Some expires) \<Rightarrow>
               if unix (db_now d) > expires then (Inl ErrUnauthorized, d)
               else
                 (case GetUserByID userID d of
                    (Inl e, d1) \<Rightarrow> (Inl ErrUnauthorized, d1)
                  | (Inr u, d1) \<Rightarrow> (Inr u, d1))
           | _ \<Rightarrow> (Inl ErrUnauthorized, d))
      | _ \<Rightarrow> (Inl ErrUnauthorized, d))"

definition ValidateSession :: "outside \<Rightarrow> auth_service \<Rightarrow> string \<Rightarrow> db \<Rightarrow> (go_error + user) \<times> db" where
  "ValidateSession out s token d =
     (case splitn2 (CHR ''.'') token of
        [p, sig] \<Rightarrow>
          (case url_b64_decode p of
             None \<Rightarrow> (Inl ErrUnauthorized, d)
           | Some payload \<Rightarrow>
               if sig \<noteq> signature out s payload then (Inl ErrUnauthorized, d) else session_user payload d)
      | _ \<Rightarrow> (Inl ErrUnauthorized, d))"

section \<open>The handlers\<close>

definition session_cookie :: "string \<Rightarrow> cookie" where
  "session_cookie token =
     \<lparr>ck_Name = ''talos_session'', ck_Value = token, ck_MaxAge = 86400 * 7, ck_HttpOnly = True, ck_SameSiteLax = True\<rparr>"

definition clear_cookie :: cookie where
  "clear_cookie =
     \<lparr>ck_Name = ''talos_session'', ck_Value = [], ck_MaxAge = - 1, ck_HttpOnly = True, ck_SameSiteLax = False\<rparr>"

definition user_body :: "user \<Rightarrow> json" where
  "user_body u = JObj [(''user'', JStr (usr_Username u))]"

text \<open>Both requests are a user name and a password.\<close>

definition decode_login :: "string \<Rightarrow> (string \<times> string) option" where
  "decode_login body =
     (case Option.bind (Decode body) json_object of
        None \<Rightarrow> None
      | Some ms \<Rightarrow>
          (case (string_field ''username'' ms, string_field ''password'' ms) of
             (Some u, Some p) \<Rightarrow> Some (u, p)
           | _ \<Rightarrow> None))"

definition SetupStatus :: "world \<Rightarrow> response \<times> world" where
  "SetupStatus w =
     (case on_db SetupRequired w of
        (Inl e, w1) \<Rightarrow> (writeError 500 ''failed to check setup status'', w1)
      | (Inr required, w1) \<Rightarrow> (writeJSON 200 (JObj [(''setup_required'', JBool required)]), w1))"

text \<open>Give the user a session and answer with the name.\<close>

definition log_in :: "outside \<Rightarrow> auth_service \<Rightarrow> int \<Rightarrow> user \<Rightarrow> world \<Rightarrow> response \<times> world" where
  "log_in out s code u w =
     (set_cookie (session_cookie (CreateSession out s u (time_now w))) (writeJSON code (user_body u)), w)"

definition Setup :: "outside \<Rightarrow> auth_service \<Rightarrow> string \<Rightarrow> world \<Rightarrow> response \<times> world" where
  "Setup out s body w =
     (case on_db SetupRequired w of
        (Inl e, w1) \<Rightarrow> (writeError 500 ''failed to check setup status'', w1)
      | (Inr required, w1) \<Rightarrow>
          if \<not> required then (writeError 409 ''admin account already exists'', w1)
          else
            (case decode_login body of
               None \<Rightarrow> (writeError 400 ''invalid request body'', w1)
             | Some (username, password) \<Rightarrow>
                 if username = [] \<or> password = [] then (writeError 400 ''username and password are required'', w1)
                 else if length password < 8 then (writeError 400 ''password must be at least 8 characters'', w1)
                 else
                   (case AuthCreateUser out username password w1 of
                      (Inl e, w2) \<Rightarrow> (writeError 500 ''failed to create user'', w2)
                    | (Inr u, w2) \<Rightarrow> log_in out s 201 u w2)))"

definition Login :: "outside \<Rightarrow> auth_service \<Rightarrow> string \<Rightarrow> world \<Rightarrow> response \<times> world" where
  "Login out s body w =
     (case decode_login body of
        None \<Rightarrow> (writeError 400 ''invalid request body'', w)
      | Some (username, password) \<Rightarrow>
          (case on_db (Authenticate out username password) w of
             (Inl e, w1) \<Rightarrow>
               (if errors_is e ErrUnauthorized then writeError 401 ''invalid credentials''
                else writeError 500 ''authentication failed'', w1)
           | (Inr u, w1) \<Rightarrow> log_in out s 200 u w1))"

definition Logout :: "world \<Rightarrow> response \<times> world" where
  "Logout w = (set_cookie clear_cookie (writeJSON 200 (JObj [(''status'', JStr ''logged out'')])), w)"

definition Me :: "user option \<Rightarrow> world \<Rightarrow> response \<times> world" where
  "Me u w =
     (case u of
        None \<Rightarrow> (writeError 401 ''not authenticated'', w)
      | Some u \<Rightarrow> (writeJSON 200 (user_body u), w))"

section \<open>The middlewares\<close>

text \<open>The protected handler gets the user; the refusal is the middleware's own answer.\<close>

definition guarded ::
  "response \<Rightarrow> outside \<Rightarrow> auth_service \<Rightarrow> (user \<Rightarrow> world \<Rightarrow> response \<times> world) \<Rightarrow> string option \<Rightarrow> world \<Rightarrow> response \<times> world" where
  "guarded refusal out s next c w =
     (case c of
        None \<Rightarrow> (refusal, w)
      | Some token \<Rightarrow>
          (case on_db (ValidateSession out s token) w of
             (Inl e, w1) \<Rightarrow> (set_cookie clear_cookie refusal, w1)
           | (Inr u, w1) \<Rightarrow> next u w1))"

definition AuthMiddleware ::
  "outside \<Rightarrow> auth_service \<Rightarrow> (user \<Rightarrow> world \<Rightarrow> response \<times> world) \<Rightarrow> string option \<Rightarrow> world \<Rightarrow> response \<times> world" where
  "AuthMiddleware = guarded (http_error ''unauthorized'' 401)"

definition WebAuthMiddleware ::
  "outside \<Rightarrow> auth_service \<Rightarrow> (user \<Rightarrow> world \<Rightarrow> response \<times> world) \<Rightarrow> string option \<Rightarrow> world \<Rightarrow> response \<times> world" where
  "WebAuthMiddleware = guarded (redirect ''/login'' 302)"

text \<open>\<open>RecoverMiddleware\<close> turns a panic of the handler into an error response; what the handler
  did before stays.\<close>

definition RecoverMiddleware :: "(world \<Rightarrow> response outcome \<times> world) \<Rightarrow> world \<Rightarrow> response \<times> world" where
  "RecoverMiddleware next w =
     (case next w of
        (Returns r, w1) \<Rightarrow> (r, w1)
      | (Panics m, w1) \<Rightarrow> (http_error ''internal server error'' 500, w1))"

end
