(* ===== verification/Auth_Claims.thy ===== *)
theory Auth_Claims
  imports Sessions Store_Properties
begin

text \<open>What the session tokens and the set-up of the first account promise.\<close>

section \<open>Tokens\<close>

lemma splitn2_token: "splitn2 (CHR ''.'') (url_b64_encode p @ ''.'' @ sig) = [url_b64_encode p, sig]"
proof -
  have "CHR ''.'' \<notin> set (url_b64_encode p)" using url_b64_chars by blast
  then show ?thesis by (simp add: splitn2_pair)
qed

lemma splitn2_payload: "splitn2 (CHR '':'') (itoa i @ '':'' @ t) = [itoa i, t]"
  by (simp add: splitn2_pair)

text \<open>C26.  A token that \<open>CreateSession\<close> made is accepted, and gives back the row of the
  user, exactly as long as the clock has not passed the second in which the session expires.\<close>

theorem session_roundtrip:
  assumes "db_inv d" and "db_oracle d = []" and "u \<in> set (tbl_rows (db_users d))"
    and "0 \<le> unix (now + as_maxAge s)" and "unix (now + as_maxAge s) \<le> max_int64"
    and "0 \<le> usr_ID u" and "usr_ID u \<le> max_int64"
  shows "ValidateSession out s (CreateSession out s u now) d =
    ((if unix (db_now d) \<le> unix (now + as_maxAge s) then Inr u else Inl ErrUnauthorized), d)"
proof -
  have "by_id usr_ID (usr_ID u) (db_users d) = Some u"
    using users.by_id_iff [of "db_users d" "usr_ID u" u] assms(1,3) by (simp add: db_inv_def users_ok_def)
  then have "GetUserByID (usr_ID u) d = (Inr u, d)" using assms(2) by (simp add: GetUserByID_def query_row_no_oracle)
  then show ?thesis
    using assms(4-7)
    by (simp add: ValidateSession_def CreateSession_def splitn2_token [unfolded append_Cons append_Nil] session_user_def
        splitn2_payload [unfolded append_Cons append_Nil] parse_int64_itoa max_int64_def Let_def)
qed

definition plain_service :: auth_service where
  "plain_service = \<lparr>as_secret = ''k'', as_maxAge = 604800000000000\<rparr>"

definition admin :: user where
  "admin = \<lparr>usr_ID = 1, usr_Username = ''admin'', usr_PasswordHash = ''h'', usr_CreatedAt = 5000000000, usr_UpdatedAt = 5000000000\<rparr>"

definition admin_db :: db where
  "admin_db = run_calls [CallCreateUser (new_user ''admin'' ''h'')] (empty_db 5000000000)"

lemma admin_db_facts: "db_inv admin_db" "db_oracle admin_db = []" "tbl_rows (db_users admin_db) = [admin]"
proof -
  have "empty_db 5000000000 = (empty_db 5000000000)\<lparr>db_oracle := []\<rparr>" by (simp add: empty_db_def)
  then show "db_inv admin_db" unfolding admin_db_def using run_calls_inv [OF empty_db_inv] by metis
  show "db_oracle admin_db = []" "tbl_rows (db_users admin_db) = [admin]" by code_simp+
qed

theorem session_roundtrip_witness:
  "fst (ValidateSession calm_outside plain_service (CreateSession calm_outside plain_service admin 5000000000) admin_db) = Inr admin"
proof -
  have now: "db_now admin_db = 5000000000" by code_simp
  have "admin \<in> set (tbl_rows (db_users admin_db))" by (simp add: admin_db_facts(3))
  from session_roundtrip [OF admin_db_facts(1,2) this, of 5000000000 plain_service calm_outside]
  show ?thesis by (simp add: plain_service_def admin_def unix_def max_int64_def now)
qed

text \<open>C25.  Only a token whose second part is the signature of its payload under the server's secret
  is accepted, and then only while it has not expired and for the user named in the payload, who
  still exists; no token changes a table.\<close>

theorem ValidateSession_sound:
  assumes "ValidateSession out s token d = (r, d')"
  shows "same_tables d' d \<and> (case r of
      Inl e \<Rightarrow> e = ErrUnauthorized
    | Inr u \<Rightarrow> \<exists>p payload a b expires. token = p @ ''.'' @ signature out s payload \<and> url_b64_decode p = Some payload \<and>
        payload = a @ '':'' @ b \<and> parse_int64 a = Some (usr_ID u) \<and> parse_int64 b = Some expires \<and>
        unix (db_now d) \<le> expires \<and> u \<in> set (tbl_rows (db_users d)))"
proof -
  have su: "same_tables d2 d \<and> (case r2 of
      Inl e \<Rightarrow> e = ErrUnauthorized
    | Inr u \<Rightarrow> \<exists>a b expires. payload = a @ '':'' @ b \<and> parse_int64 a = Some (usr_ID u) \<and> parse_int64 b = Some expires \<and>
        unix (db_now d) \<le> expires \<and> u \<in> set (tbl_rows (db_users d)))"
    if s: "session_user payload d = (r2, d2)" for payload r2 d2
  proof (cases "\<exists>a b i e. splitn2 (CHR '':'') payload = [a, b] \<and> parse_int64 a = Some i \<and> parse_int64 b = Some e \<and> unix (db_now d) \<le> e")
    case False
    then have "r2 = Inl ErrUnauthorized \<and> d2 = d"
      using s by (auto simp: session_user_def split: list.splits option.splits if_splits)
    then show ?thesis by simp
  next
    case True
    then obtain a b i e where p: "splitn2 (CHR '':'') payload = [a, b]" and i: "parse_int64 a = Some i"
      "parse_int64 b = Some e" "unix (db_now d) \<le> e" by blast
    obtain g d3 where g: "GetUserByID i d = (g, d3)" by fastforce
    have q: "same_tables d3 d" using g query_row_same by (simp add: GetUserByID_def)
    have r: "d2 = d3" "r2 = (case g of Inl e \<Rightarrow> Inl ErrUnauthorized | Inr u \<Rightarrow> Inr u)"
      using s p i g by (auto simp: session_user_def split: sum.splits)
    have u: "u \<in> set (tbl_rows (db_users d)) \<and> usr_ID u = i" if "g = Inr u" for u
    proof -
      have "by_id usr_ID i (db_users d3) = Some u"
        using g that query_row_cases [of "''get user by id''" "\<lambda>d. by_id usr_ID i (db_users d)" d g d3]
        by (auto simp: GetUserByID_def)
      then show ?thesis using users.by_id_Some [of i "db_users d3" u] q by (simp add: same_tables_def)
    qed
    have "payload = a @ '':'' @ b" using p splitn2_pair [of "CHR '':''" payload a b] by simp
    then show ?thesis using q r u i by (cases g) auto
  qed
  show ?thesis
  proof (cases "\<exists>p sig payload. splitn2 (CHR ''.'') token = [p, sig] \<and> url_b64_decode p = Some payload \<and> sig = signature out s payload")
    case False
    then have "r = Inl ErrUnauthorized \<and> d' = d"
      using assms by (auto simp: ValidateSession_def split: list.splits option.splits if_splits)
    then show ?thesis by simp
  next
    case True
    then obtain p payload where t: "splitn2 (CHR ''.'') token = [p, signature out s payload]" "url_b64_decode p = Some payload" by blast
    then have "session_user payload d = (r, d')" using assms by (simp add: ValidateSession_def)
    moreover have "token = p @ ''.'' @ signature out s payload"
      using t(1) splitn2_pair [of "CHR ''.''" token p] by simp
    ultimately show ?thesis using su [of payload r d'] t(2) by (cases r) fastforce+
  qed
qed

theorem ValidateSession_sound_witness:
  "\<exists>p payload. CreateSession calm_outside plain_service admin 5000000000 = p @ ''.'' @ signature calm_outside plain_service payload \<and>
     url_b64_decode p = Some payload"
proof -
  let ?t = "CreateSession calm_outside plain_service admin 5000000000"
  have now: "db_now admin_db = 5000000000" by code_simp
  have by_id: "by_id usr_ID 1 (db_users admin_db) = Some admin"
    using users.by_id_iff [of "db_users admin_db" 1 admin] admin_db_facts by (simp add: db_inv_def users_ok_def admin_def)
  have "fst (ValidateSession calm_outside plain_service ?t admin_db) = Inr admin"
    using by_id admin_db_facts(2)
    by (simp add: ValidateSession_def CreateSession_def splitn2_token [unfolded append_Cons append_Nil] session_user_def
        splitn2_payload [unfolded append_Cons append_Nil] parse_int64_itoa max_int64_def Let_def admin_def plain_service_def
        unix_def now GetUserByID_def query_row_no_oracle)
  then obtain d' where "ValidateSession calm_outside plain_service ?t admin_db = (Inr admin, d')" by (metis prod.collapse)
  from ValidateSession_sound [OF this] show ?thesis by auto
qed

section \<open>The first account\<close>

lemma CreateUser_run:
  assumes "db_inv d" and "db_oracle d = []" and "tbl_rows (db_users d) = []"
  shows "\<exists>d' row. CreateUser (new_user n h) d = (Inr ((new_user n h)\<lparr>usr_ID := usr_ID row\<rparr>), d') \<and> tbl_rows (db_users d') = [row] \<and>
    usr_Username row = n \<and> usr_PasswordHash row = h \<and> db_oracle d' = [] \<and> db_inv d'"
proof -
  let ?i = "tbl_seq (db_users d) + 1"
  let ?u = "(new_user n h)\<lparr>usr_CreatedAt := current_timestamp d, usr_UpdatedAt := current_timestamp d\<rparr>"
  let ?d' = "d\<lparr>db_last_rowid := ?i, db_users := snd (tbl_insert set_usr_id ?u (db_users d))\<rparr>"
  have "insert_into db_users db_users_update set_usr_id user_conflict ?u d = Inr (?i, ?d')"
    using assms(3) by (simp add: insert_into_Inr user_conflict_def)
  moreover have "fk_ok ?d'" using assms(1) by (simp add: db_inv_def fk_ok_def app_ids_def deploy_ids_def service_ids_def)
  ultimately have c: "CreateUser (new_user n h) d = (Inr ((new_user n h)\<lparr>usr_ID := ?i\<rparr>), ?d')"
    using assms(2) by (simp add: CreateUser_def wrapped_def exec_no_oracle)
  moreover have "db_inv ?d'" using CreateUser_inv [OF assms(1), of "new_user n h"] c by simp
  ultimately show ?thesis using assms(2,3)
    by (intro exI [of _ ?d'] exI [of _ "set_usr_id ?i ?u"]) (simp add: set_usr_id_def new_user_def)
qed

text \<open>C27.  On an empty user table a set-up with a name and a password of at least eight bytes
  stores exactly one account and sets a session cookie that is accepted at once; the account can log
  in with the same body, and no later set-up is accepted, whatever its body.\<close>

theorem Setup_then_login:
  assumes "db_inv (w_db w)" and "db_oracle (w_db w) = []" and "tbl_rows (db_users (w_db w)) = []"
    and "decode_login body = Some (n, p)" and "n \<noteq> []" and "8 \<le> length p"
    and "o_bcrypt_hash out (w_history w) p = Inr h" and "o_bcrypt_ok out h p"
  shows "\<exists>r w1 row. Setup out s body w = (r, w1) \<and> rs_status r = 201 \<and> tbl_rows (db_users (w_db w1)) = [row] \<and>
    usr_Username row = n \<and> usr_PasswordHash row = h \<and> rs_status (fst (Login out s body w1)) = 200 \<and>
    (\<forall>body'. Setup out s body' w1 = (writeError 409 ''admin account already exists'', w1))"
proof -
  let ?w = "w\<lparr>w_history := w_history w @ [(RandomBytes 16, True)]\<rparr>"
  obtain d' row where c: "CreateUser (new_user n h) (w_db w) = (Inr ((new_user n h)\<lparr>usr_ID := usr_ID row\<rparr>), d')"
    and row: "tbl_rows (db_users d') = [row]" "usr_Username row = n" "usr_PasswordHash row = h" "db_oracle d' = []"
    using CreateUser_run [OF assms(1-3)] by blast
  let ?w1 = "?w\<lparr>w_db := d'\<rparr>"
  have "p \<noteq> []" using assms(6) by auto
  have req: "on_db SetupRequired v = (Inr (tbl_rows (db_users (w_db v)) = []), v)" if "db_oracle (w_db v) = []" for v
    using that by (simp add: on_db_def SetupRequired_def HasUsers_def wrapped_def query_no_oracle)
  have "AuthCreateUser out n p w = (Inr ((new_user n h)\<lparr>usr_ID := usr_ID row\<rparr>), ?w1)"
    using c assms(7) by (simp add: AuthCreateUser_def HashPassword_def perform_def on_db_def)
  then have ran: "Setup out s body w = log_in out s 201 ((new_user n h)\<lparr>usr_ID := usr_ID row\<rparr>) ?w1"
    using assms(2-6) \<open>p \<noteq> []\<close> by (simp add: Setup_def req)
  have "GetUserByUsername n d' = (Inr row, d')"
    using row by (simp add: GetUserByUsername_def query_row_no_oracle tbl_first_def)
  then have "rs_status (fst (Login out s body ?w1)) = 200"
    using assms(4,8) row(3) by (simp add: Login_def on_db_def Authenticate_def CheckPassword_def log_in_def)
  moreover have "Setup out s body' ?w1 = (writeError 409 ''admin account already exists'', ?w1)" for body'
    using row by (simp add: Setup_def req)
  ultimately show ?thesis using ran row by (simp add: log_in_def)
qed

definition login_body :: string where
  "login_body = json_print (JObj [(''username'', JStr ''admin''), (''password'', JStr ''secret-password'')])"

theorem Setup_then_login_witness:
  "rs_status (fst (Setup calm_outside plain_service login_body sample_world)) = 201"
proof -
  have inv: "db_inv (w_db sample_world)" using empty_db_inv [where now = 0 and os = "[]"] by (simp add: sample_world_def empty_db_def)
  have "decode_login login_body = Some (''admin'', ''secret-password'')" by code_simp
  moreover have "db_oracle (w_db sample_world) = []" "tbl_rows (db_users (w_db sample_world)) = []"
    by (simp_all add: sample_world_def empty_db_def)
  ultimately show ?thesis
    using Setup_then_login [OF inv, of login_body "''admin''" "''secret-password''" calm_outside "''hash of secret-password''" plain_service]
    by (auto simp: calm_outside_def)
qed

end
