(* ===== verification/Webhook.thy ===== *)
theory Webhook
  imports Http Deploy_Engine
begin

text \<open>
  \<open>internal/github/webhook.go\<close> and the route \<open>/api/webhooks/github\<close> of
  \<open>internal/server/server.go\<close>.  The request body is \<open>rq_body\<close>; a failing read of it is
  outside the model.  A handler maps the state to its response, the job it started, if any, and the
  new state; a panic of a handler is recovered by \<open>RecoverMiddleware\<close>.
\<close>

section \<open>Payloads\<close>

record repository =
  rep_ID :: int
  rep_FullName :: string
  rep_CloneURL :: string

record workflow =
  wf_HeadBranch :: string
  wf_HeadSHA :: string
  wf_Status :: string
  wf_Conclusion :: string

record workflow_run_payload =
  wr_Action :: string
  wr_Repository :: repository
  wr_Workflow :: workflow
  wr_InstallationID :: int

record push_payload =
  pp_Ref :: string
  pp_After :: string
  pp_Repository :: repository
  pp_InstallationID :: int

record repository_summary =
  rsum_ID :: int
  rsum_FullName :: string
  rsum_NodeID :: string

record installation_payload =
  ip_Action :: string
  ip_InstallationID :: int
  ip_Repositories :: "repository_summary list"

definition decode_repository :: "(string \<times> json) list \<Rightarrow> repository option" where
  "decode_repository ms =
     (case (int_field ''id'' ms, string_field ''full_name'' ms, string_field ''clone_url'' ms) of
        (Some i, Some n, Some u) \<Rightarrow> Some \<lparr>rep_ID = i, rep_FullName = n, rep_CloneURL = u\<rparr>
      | _ \<Rightarrow> None)"

definition decode_workflow :: "(string \<times> json) list \<Rightarrow> workflow option" where
  "decode_workflow ms =
     (case (string_field ''head_branch'' ms, string_field ''head_sha'' ms, string_field ''status'' ms,
            string_field ''conclusion'' ms) of
        (Some b, Some s, Some st, Some c) \<Rightarrow>
          Some \<lparr>wf_HeadBranch = b, wf_HeadSHA = s, wf_Status = st, wf_Conclusion = c\<rparr>
      | _ \<Rightarrow> None)"

text \<open>A nested struct, and the id in the nested \<open>installation\<close>.\<close>

definition nested :: "string \<Rightarrow> ((string \<times> json) list \<Rightarrow> 'a option) \<Rightarrow> (string \<times> json) list \<Rightarrow> 'a option" where
  "nested name f ms = Option.bind (object_field name ms) f"

definition installation_id :: "(string \<times> json) list \<Rightarrow> int option" where
  "installation_id ms = nested ''installation'' (int_field ''id'') ms"

definition decode_workflow_run :: "(string \<times> json) list \<Rightarrow> workflow_run_payload option" where
  "decode_workflow_run ms =
     (case (string_field ''action'' ms, nested ''repository'' decode_repository ms,
            nested ''workflow_run'' decode_workflow ms, installation_id ms) of
        (Some a, Some r, Some flow, Some i) \<Rightarrow>
          Some \<lparr>wr_Action = a, wr_Repository = r, wr_Workflow = flow, wr_InstallationID = i\<rparr>
      | _ \<Rightarrow> None)"

definition decode_push :: "(string \<times> json) list \<Rightarrow> push_payload option" where
  "decode_push ms =
     (case (string_field ''ref'' ms, string_field ''after'' ms, nested ''repository'' decode_repository ms,
            installation_id ms) of
        (Some r, Some a, Some rp, Some i) \<Rightarrow>
          Some \<lparr>pp_Ref = r, pp_After = a, pp_Repository = rp, pp_InstallationID = i\<rparr>
      | _ \<Rightarrow> None)"

definition decode_summary :: "(string \<times> json) list \<Rightarrow> repository_summary option" where
  "decode_summary ms =
     (case (int_field ''id'' ms, string_field ''full_name'' ms, string_field ''node_id'' ms) of
        (Some i, Some n, Some nd) \<Rightarrow> Some \<lparr>rsum_ID = i, rsum_FullName = n, rsum_NodeID = nd\<rparr>
      | _ \<Rightarrow> None)"

fun decode_summaries :: "json list \<Rightarrow> repository_summary list option" where
  "decode_summaries [] = Some []"
| "decode_summaries (v # vs) =
     (case (Option.bind (json_object v) decode_summary, decode_summaries vs) of
        (Some r, Some rs) \<Rightarrow> Some (r # rs)
      | _ \<Rightarrow> None)"

definition decode_installation :: "(string \<times> json) list \<Rightarrow> installation_payload option" where
  "decode_installation ms =
     (case (string_field ''action'' ms, installation_id ms, Option.bind (list_field ''repositories'' ms) decode_summaries) of
        (Some a, Some i, Some rs) \<Rightarrow> Some \<lparr>ip_Action = a, ip_InstallationID = i, ip_Repositories = rs\<rparr>
      | _ \<Rightarrow> None)"

definition parse_payload :: "((string \<times> json) list \<Rightarrow> 'a option) \<Rightarrow> string \<Rightarrow> string \<Rightarrow> go_error + 'a" where
  "parse_payload f what payload =
     (case Option.bind (Option.bind (Unmarshal payload) json_object) f of
        None \<Rightarrow> Inl (Wrap what (ErrText ''invalid JSON''))
      | Some p \<Rightarrow> Inr p)"

definition ParseWorkflowRun :: "string \<Rightarrow> go_error + workflow_run_payload" where
  "ParseWorkflowRun = parse_payload decode_workflow_run ''parse workflow_run''"

definition ParseInstallation :: "string \<Rightarrow> go_error + installation_payload" where
  "ParseInstallation = parse_payload decode_installation ''parse installation''"

definition ParsePush :: "string \<Rightarrow> go_error + push_payload" where
  "ParsePush = parse_payload decode_push ''parse push''"

section \<open>The signature\<close>

text \<open>\<open>hex.DecodeString\<close>.\<close>

fun hex_decode :: "string \<Rightarrow> string option" where
  "hex_decode [] = Some []"
| "hex_decode [a] = None"
| "hex_decode (a # b # rest) =
     (case (hex_val a, hex_val b) of
        (Some x, Some y) \<Rightarrow> map_option (Cons (char_of (16 * x + y))) (hex_decode rest)
      | _ \<Rightarrow> None)"

definition verifySignature :: "outside \<Rightarrow> string \<Rightarrow> string \<Rightarrow> string \<Rightarrow> bool" where
  "verifySignature out secret body sig \<longleftrightarrow>
     has_prefix sig ''sha256='' \<and> hex_decode (trim_prefix sig ''sha256='') = Some (o_hmac out secret body)"

datatype webhook_event = EventWorkflowRun | EventInstallation | EventPush | EventOther string

definition webhook_event_of :: "string \<Rightarrow> webhook_event" where
  "webhook_event_of s =
     (if s = ''workflow_run'' then EventWorkflowRun
      else if s = ''installation'' then EventInstallation
      else if s = ''push'' then EventPush
      else EventOther s)"

text \<open>With an empty secret nothing is verified.\<close>

definition VerifyAndParse :: "outside \<Rightarrow> string \<Rightarrow> request \<Rightarrow> go_error + webhook_event \<times> string" where
  "VerifyAndParse out secret r =
     (if secret \<noteq> [] \<and> \<not> verifySignature out secret (rq_body r) (rq_header r ''X-Hub-Signature-256'')
      then Inl (ErrText ''invalid signature'')
      else if rq_header r ''X-GitHub-Event'' = [] then Inl (ErrText ''missing X-GitHub-Event header'')
      else Inr (webhook_event_of (rq_header r ''X-GitHub-Event''), rq_body r))"

section \<open>The route\<close>

text \<open>The fallback chain that finds the app of a payload: installation and repository, then the
  repository alone, then the name.\<close>

definition find_payload_app :: "int \<Rightarrow> repository \<Rightarrow> db \<Rightarrow> (go_error + app) \<times> db" where
  "find_payload_app inst rep d =
     (let by_repo = GetAppByGitHubRepoID (rep_ID rep);
          (first, d1) =
            (if inst > 0 \<and> rep_ID rep > 0 then
               (case GetAppByInstallationAndRepo inst (rep_ID rep) d of
                  (Inl e, d1) \<Rightarrow> by_repo d1
                | (Inr a, d1) \<Rightarrow> (Inr a, d1))
             else if rep_ID rep > 0 then by_repo d
             else (Inl ErrNotFound, d))
      in
      (case first of
         Inr a \<Rightarrow> (Inr a, d1)
       | Inl e \<Rightarrow> GetAppByName (rep_FullName rep) d1))"

definition workflow_image :: "app \<Rightarrow> workflow_run_payload \<Rightarrow> string" where
  "workflow_image a p =
     (let sha = wf_HeadSHA (wr_Workflow p);
          short = (if length sha > 7 then take 7 sha else sha);
          registry = (if app_RegistryURL a = [] then ''ghcr.io'' else app_RegistryURL a)
      in registry @ ''/'' @ rep_FullName (wr_Repository p) @ '':'' @ short)"

definition handle_workflow_run :: "workflow_run_payload \<Rightarrow> db \<Rightarrow> response \<times> job option \<times> db" where
  "handle_workflow_run p d =
     (let flow = wr_Workflow p in
      if \<not> (wf_Status flow = ''completed'' \<and> wf_Conclusion flow = ''success'') then (status_only 200, None, d)
      else
        (case find_payload_app (wr_InstallationID p) (wr_Repository p) d of
           (Inl e, d1) \<Rightarrow> (http_error ''app not found'' 404, None, d1)
         | (Inr a, d1) \<Rightarrow>
             if wf_HeadBranch flow \<noteq> app_Branch a then (status_only 200, None, d1)
             else if app_AppType a \<noteq> AppTypeManaged then (status_only 200, None, d1)
             else
               (case Deploy (app_ID a) (workflow_image a p) (wf_HeadSHA flow) (wf_HeadBranch flow) ''webhook'' d1 of
                  (Inl e, d2) \<Rightarrow> (http_error ''deploy failed'' 500, None, d2)
                | (Inr (x, j), d2) \<Rightarrow> (status_only 200, Some j, d2))))"

text \<open>The log line after a successful push deploy takes the first seven characters of the commit,
  which panics on a shorter one; the deploy is already under way then.\<close>

definition handle_push :: "push_payload \<Rightarrow> db \<Rightarrow> (response outcome) \<times> job option \<times> db" where
  "handle_push p d =
     (let branch = trim_prefix (pp_Ref p) ''refs/heads/''; ok = Returns (status_only 200) in
      (case find_payload_app (pp_InstallationID p) (pp_Repository p) d of
         (Inl e, d1) \<Rightarrow> (ok, None, d1)
       | (Inr a, d1) \<Rightarrow>
           if branch \<noteq> app_Branch a \<or> app_AppType a \<noteq> AppTypeManaged \<or> app_BuildMode a \<noteq> BuildModeTalosBuild
           then (ok, None, d1)
           else
             (case Deploy (app_ID a) [] (pp_After p) branch ''push'' d1 of
                (Inl e, d2) \<Rightarrow> (Returns (http_error ''deploy failed'' 500), None, d2)
              | (Inr (x, j), d2) \<Rightarrow>
                  (case slice_to 7 (pp_After p) of
                     None \<Rightarrow> (Panics ''slice bounds out of range'', Some j, d2)
                   | Some s \<Rightarrow> (ok, Some j, d2)))))"

definition webhook_route :: "outside \<Rightarrow> string \<Rightarrow> request \<Rightarrow> db \<Rightarrow> (response outcome) \<times> job option \<times> db" where
  "webhook_route out secret r d =
     (let invalid = (Returns (http_error ''invalid payload'' 400), None, d) in
      (case VerifyAndParse out secret r of
         Inl e \<Rightarrow> (Returns (http_error ''invalid webhook'' 400), None, d)
       | Inr (EventWorkflowRun, payload) \<Rightarrow>
           (case ParseWorkflowRun payload of
              Inl e \<Rightarrow> invalid
            | Inr p \<Rightarrow> (case handle_workflow_run p d of (rs, j, d1) \<Rightarrow> (Returns rs, j, d1)))
       | Inr (EventInstallation, payload) \<Rightarrow>
           (case ParseInstallation payload of Inl e \<Rightarrow> invalid | Inr p \<Rightarrow> (Returns (status_only 200), None, d))
       | Inr (EventPush, payload) \<Rightarrow>
           (case ParsePush payload of Inl e \<Rightarrow> invalid | Inr p \<Rightarrow> handle_push p d)
       | Inr (EventOther s, payload) \<Rightarrow> (Returns (status_only 200), None, d)))"

end
