(* ===== verification/Webhook_Claims.thy ===== *)
theory Webhook_Claims
  imports Webhook Engine_Requests
begin

text \<open>What has to hold for a webhook to start a deploy.\<close>

lemma exec_Inl_same: "exec stmt d = (Inl e, d') \<Longrightarrow> same_tables d' d"
  by (auto simp: exec_def dest!: next_stmt_same split: prod.splits option.splits sum.splits if_splits)

lemma check_deploy_same: "check_deploy n d = (r, d') \<Longrightarrow> same_tables d' d"
  by (auto simp: check_deploy_def GetApp_def GetLatestDeploy_def dest!: query_row_same
      intro: same_tables_trans split: prod.splits sum.splits if_splits)

lemma check_deploy_app:
  assumes "check_deploy n d = (Inr a, d')"
  shows "by_id app_ID n (db_apps d) = Some a \<and> app_AppType a = AppTypeManaged"
proof -
  obtain g d1 where g: "GetApp n d = (g, d1)" by fastforce
  then have "g = Inr a \<and> app_AppType a = AppTypeManaged"
    using assms by (auto simp: check_deploy_def split: prod.splits sum.splits if_splits)
  moreover have "same_tables d1 d" using g query_row_same by (simp add: GetApp_def)
  ultimately show ?thesis
    using g query_row_cases [of "''get app''" "\<lambda>d. by_id app_ID n (db_apps d)" d g d1]
    by (auto simp: GetApp_def same_tables_def)
qed

lemma Deploy_job:
  assumes "Deploy n img sha br by_whom d = (Inr (x, j), d')"
  shows "\<exists>a. j = RunQueued a x \<and> by_id app_ID n (db_apps d) = Some a \<and> app_AppType a = AppTypeManaged \<and>
    dep_AppID x = n \<and> dep_ImageRef x = img \<and> dep_CommitSHA x = sha \<and> dep_Branch x = br \<and> dep_TriggeredBy x = by_whom"
proof -
  obtain a d1 y where c: "check_deploy n d = (Inr a, d1)" and y: "CreateDeploy (new_deploy n img sha br by_whom) d1 = (Inr x, d')"
    and j: "j = RunQueued a x"
    using assms by (auto simp: Deploy_def split: prod.splits sum.splits)
  have "\<exists>i. x = (new_deploy n img sha br by_whom)\<lparr>dep_ID := i\<rparr>"
    using y by (auto simp: CreateDeploy_def split: prod.splits sum.splits)
  then show ?thesis using check_deploy_app [OF c] j by (auto simp: new_deploy_def zero_deploy_def)
qed

lemma wrapped_Inl: "wrapped p r = (Inl e, d) \<Longrightarrow> \<exists>e'. r = (Inl e', d)"
  by (cases r; cases "fst r") (auto simp: wrapped_def)

lemma CreateDeploy_error: "CreateDeploy x d = (Inl e, d') \<Longrightarrow> same_tables d' d"
  by (auto simp: CreateDeploy_def dest!: wrapped_Inl exec_Inl_same split: prod.splits sum.splits)

lemma Deploy_error: "Deploy n img sha br by_whom d = (Inl e, d') \<Longrightarrow> same_tables d' d"
  by (auto simp: Deploy_def dest!: check_deploy_same CreateDeploy_error intro: same_tables_trans
      split: prod.splits sum.splits)

lemma app_query:
  assumes "query_row what (find_app P) d = (r, d1)"
  shows "same_tables d1 d \<and> (\<forall>a. r = Inr a \<longrightarrow> a \<in> set (tbl_rows (db_apps d)) \<and> P a)"
proof -
  have s: "same_tables d1 d" using assms query_row_same by blast
  have "a \<in> set (tbl_rows (db_apps d)) \<and> P a" if "r = Inr a" for a
  proof -
    have "find_app P d1 = Some a" using query_row_cases [OF assms] that by auto
    then show ?thesis using s tbl_first_Some [of P "db_apps d1" a] by (simp add: find_app_def same_tables_def)
  qed
  then show ?thesis using s by blast
qed

text \<open>The app that a payload means.\<close>

definition payload_names :: "int \<Rightarrow> repository \<Rightarrow> app \<Rightarrow> bool" where
  "payload_names inst rp a \<longleftrightarrow>
     (rep_ID rp > 0 \<and> app_GitHubRepoID a = Some (rep_ID rp)) \<or> app_Name a = rep_FullName rp"

lemma find_payload_app_spec:
  assumes "find_payload_app inst rp d = (r, d1)"
  shows "same_tables d1 d \<and> (\<forall>a. r = Inr a \<longrightarrow> a \<in> set (tbl_rows (db_apps d)) \<and> payload_names inst rp a)"
proof -
  define f where "f =
    (if inst > 0 \<and> rep_ID rp > 0 then
       (case GetAppByInstallationAndRepo inst (rep_ID rp) d of
          (Inl e, d1) \<Rightarrow> GetAppByGitHubRepoID (rep_ID rp) d1
        | (Inr a, d1) \<Rightarrow> (Inr a, d1))
     else if rep_ID rp > 0 then GetAppByGitHubRepoID (rep_ID rp) d
     else (Inl ErrNotFound, d))"
  obtain s d2 where f: "f = (s, d2)" by fastforce
  have "same_tables d2 d \<and> (\<forall>a. s = Inr a \<longrightarrow> a \<in> set (tbl_rows (db_apps d)) \<and> rep_ID rp > 0 \<and> app_GitHubRepoID a = Some (rep_ID rp))"
  proof (cases "inst > 0 \<and> rep_ID rp > 0")
    case True
    obtain g d3 where g: "GetAppByInstallationAndRepo inst (rep_ID rp) d = (g, d3)" by fastforce
    note q = app_query [OF g [unfolded GetAppByInstallationAndRepo_def]]
    show ?thesis
    proof (cases g)
      case (Inl e)
      then have "GetAppByGitHubRepoID (rep_ID rp) d3 = (s, d2)" using f g True by (simp add: f_def)
      from app_query [OF this [unfolded GetAppByGitHubRepoID_def]] show ?thesis
        using q True by (auto simp: same_tables_def)
    next
      case (Inr a)
      then show ?thesis using f g True q by (simp add: f_def)
    qed
  next
    case False
    then show ?thesis
      using f app_query [of "''get app by github repo id''" "\<lambda>a. app_GitHubRepoID a = Some (rep_ID rp)" d s d2]
      by (auto simp: f_def GetAppByGitHubRepoID_def split: if_splits)
  qed
  moreover have "(case s of Inr a \<Rightarrow> (Inr a, d2) | Inl e \<Rightarrow> GetAppByName (rep_FullName rp) d2) = (r, d1)"
    using assms f by (simp add: find_payload_app_def f_def [symmetric] Let_def)
  ultimately show ?thesis
    using app_query [of "''get app by name''" "\<lambda>a. app_Name a = rep_FullName rp" d2 r d1]
    by (cases s) (auto simp: GetAppByName_def payload_names_def same_tables_def)
qed

text \<open>What a payload asks for: the event, the repository and installation, the branch, the commit
  and the origin.\<close>

fun asks_for :: "webhook_event \<Rightarrow> string \<Rightarrow> app \<Rightarrow> deploy \<Rightarrow> bool" where
  "asks_for EventWorkflowRun payload a x \<longleftrightarrow>
     (\<exists>p. ParseWorkflowRun payload = Inr p \<and> payload_names (wr_InstallationID p) (wr_Repository p) a \<and>
        wf_Status (wr_Workflow p) = ''completed'' \<and> wf_Conclusion (wr_Workflow p) = ''success'' \<and>
        wf_HeadBranch (wr_Workflow p) = app_Branch a \<and> dep_CommitSHA x = wf_HeadSHA (wr_Workflow p) \<and>
        dep_ImageRef x = workflow_image a p \<and> dep_TriggeredBy x = ''webhook'')"
| "asks_for EventPush payload a x \<longleftrightarrow>
     (\<exists>p. ParsePush payload = Inr p \<and> payload_names (pp_InstallationID p) (pp_Repository p) a \<and>
        trim_prefix (pp_Ref p) ''refs/heads/'' = app_Branch a \<and> app_BuildMode a = BuildModeTalosBuild \<and>
        dep_CommitSHA x = pp_After p \<and> dep_ImageRef x = [] \<and> dep_TriggeredBy x = ''push'')"
| "asks_for _ payload a x \<longleftrightarrow> False"

definition grants :: "webhook_event \<Rightarrow> string \<Rightarrow> db \<Rightarrow> job option \<times> db \<Rightarrow> bool" where
  "grants ev payload d jd \<longleftrightarrow>
     (case jd of
        (None, d') \<Rightarrow> same_tables d' d
      | (Some j, d') \<Rightarrow>
          \<exists>a x. j = RunQueued a x \<and> a \<in> set (tbl_rows (db_apps d)) \<and> app_AppType a = AppTypeManaged \<and>
            dep_AppID x = app_ID a \<and> dep_Branch x = app_Branch a \<and> asks_for ev payload a x)"

lemma Deploy_of_row:
  assumes "db_inv d" and "a \<in> set (tbl_rows (db_apps d))" and "same_tables d1 d"
    and "Deploy (app_ID a) img sha br by_whom d1 = (Inr (x, j), d')"
  shows "j = RunQueued a x \<and> app_AppType a = AppTypeManaged \<and> dep_AppID x = app_ID a \<and> dep_ImageRef x = img \<and>
    dep_CommitSHA x = sha \<and> dep_Branch x = br \<and> dep_TriggeredBy x = by_whom"
proof -
  have "by_id app_ID (app_ID a) (db_apps d1) = Some a"
    using apps.by_id_iff [of "db_apps d" "app_ID a" a] assms(1-3) by (simp add: db_inv_def apps_ok_def same_tables_def)
  then show ?thesis using Deploy_job [OF assms(4)] by auto
qed

lemma workflow_grants:
  assumes "db_inv d" and "ParseWorkflowRun payload = Inr p" and "handle_workflow_run p d = (rs, j, d')"
  shows "grants EventWorkflowRun payload d (j, d')"
proof (cases "wf_Status (wr_Workflow p) = ''completed'' \<and> wf_Conclusion (wr_Workflow p) = ''success''")
  case False
  then have "j = None" "d' = d" using assms(3) unfolding handle_workflow_run_def Let_def by (simp_all split: if_splits)
  then show ?thesis by (simp add: grants_def)
next
  case True
  obtain g d1 where g: "find_payload_app (wr_InstallationID p) (wr_Repository p) d = (g, d1)" by fastforce
  note f = find_payload_app_spec [OF g]
  show ?thesis
  proof (cases "\<exists>a. g = Inr a \<and> wf_HeadBranch (wr_Workflow p) = app_Branch a \<and> app_AppType a = AppTypeManaged")
    case False
    then have "j = None" "d' = d1" using assms(3) g True by (auto simp: handle_workflow_run_def Let_def split: sum.splits if_splits)
    then show ?thesis using f by (simp add: grants_def)
  next
    case True2: True
    then obtain a where a: "g = Inr a" "wf_HeadBranch (wr_Workflow p) = app_Branch a" "app_AppType a = AppTypeManaged" by blast
    obtain r d2 where r: "Deploy (app_ID a) (workflow_image a p) (wf_HeadSHA (wr_Workflow p)) (app_Branch a) ''webhook'' d1 = (r, d2)"
      by fastforce
    show ?thesis
    proof (cases r)
      case (Inl e)
      then have "j = None" "d' = d2" using assms(3) g a r True by (auto simp: handle_workflow_run_def Let_def)
      then show ?thesis using f Deploy_error [OF r [unfolded Inl]] same_tables_trans by (auto simp: grants_def)
    next
      case (Inr xj)
      obtain x j1 where xj: "xj = (x, j1)" by fastforce
      have "j = Some j1" using assms(3) g a r Inr xj True by (auto simp: handle_workflow_run_def Let_def)
      moreover have "a \<in> set (tbl_rows (db_apps d))" "payload_names (wr_InstallationID p) (wr_Repository p) a" "same_tables d1 d"
        using f a(1) by blast+
      ultimately show ?thesis
        using Deploy_of_row [OF assms(1) _ _ r [unfolded Inr xj]] assms(2) a True by (auto simp: grants_def)
    qed
  qed
qed

lemma push_grants:
  assumes "db_inv d" and "ParsePush payload = Inr p" and "handle_push p d = (rs, j, d')"
  shows "grants EventPush payload d (j, d')"
proof -
  let ?br = "trim_prefix (pp_Ref p) ''refs/heads/''"
  obtain g d1 where g: "find_payload_app (pp_InstallationID p) (pp_Repository p) d = (g, d1)" by fastforce
  note f = find_payload_app_spec [OF g]
  show ?thesis
  proof (cases "\<exists>a. g = Inr a \<and> ?br = app_Branch a \<and> app_AppType a = AppTypeManaged \<and> app_BuildMode a = BuildModeTalosBuild")
    case False
    then have "j = None" "d' = d1" using assms(3) g by (auto simp: handle_push_def Let_def split: sum.splits if_splits)
    then show ?thesis using f by (simp add: grants_def)
  next
    case True
    then obtain a where a: "g = Inr a" "?br = app_Branch a" "app_AppType a = AppTypeManaged" "app_BuildMode a = BuildModeTalosBuild"
      by blast
    obtain r d2 where r: "Deploy (app_ID a) [] (pp_After p) (app_Branch a) ''push'' d1 = (r, d2)" by fastforce
    show ?thesis
    proof (cases r)
      case (Inl e)
      then have "j = None" "d' = d2" using assms(3) g a r by (auto simp: handle_push_def Let_def)
      then show ?thesis using f Deploy_error [OF r [unfolded Inl]] same_tables_trans by (auto simp: grants_def)
    next
      case (Inr xj)
      obtain x j1 where xj: "xj = (x, j1)" by fastforce
      have "j = Some j1" using assms(3) g a r Inr xj by (auto simp: handle_push_def Let_def split: option.splits)
      moreover have "a \<in> set (tbl_rows (db_apps d))" "payload_names (pp_InstallationID p) (pp_Repository p) a" "same_tables d1 d"
        using f a(1) by blast+
      ultimately show ?thesis
        using Deploy_of_row [OF assms(1) _ _ r [unfolded Inr xj]] assms(2) a by (auto simp: grants_def)
    qed
  qed
qed


definition webhook_db :: db where
  "webhook_db = run_calls
     [CallCreateApp (zero_app\<lparr>app_Name := ''acme/shop'', app_AppType := AppTypeManaged, app_BuildMode := BuildModeTalosBuild,
        app_Branch := ''main''\<rparr>)] (empty_db 5000000000)"

definition push_body :: string where
  "push_body = json_print (JObj [(''ref'', JStr ''refs/heads/main''), (''after'', JStr ''0123456789''),
     (''repository'', JObj [(''full_name'', JStr ''acme/shop'')])])"

definition push_request :: request where
  "push_request =
     \<lparr>rq_cookie = None,
      rq_header = (\<lambda>n. if n = ''X-GitHub-Event'' then ''push'' else if n = ''X-Hub-Signature-256'' then ''sha256=6f6b'' else []),
      rq_body = push_body, rq_user = None\<rparr>"

lemma webhook_db_inv: "db_inv webhook_db"
proof -
  have "empty_db 5000000000 = (empty_db 5000000000)\<lparr>db_oracle := []\<rparr>" by (simp add: empty_db_def)
  then show ?thesis unfolding webhook_db_def using run_calls_inv [OF empty_db_inv] by metis
qed

lemma push_parsed: "ParsePush push_body = Inr \<lparr>pp_Ref = ''refs/heads/main'', pp_After = ''0123456789'',
   pp_Repository = \<lparr>rep_ID = 0, rep_FullName = ''acme/shop'', rep_CloneURL = []\<rparr>, pp_InstallationID = 0\<rparr>"
proof -
  let ?ms = "[(''ref'', JStr ''refs/heads/main''), (''after'', JStr ''0123456789''),
     (''repository'', JObj [(''full_name'', JStr ''acme/shop'')])]"
  have "Unmarshal push_body = Some (JObj ?ms)" unfolding push_body_def by (rule Unmarshal_print) simp
  moreover have "decode_push ?ms = Some \<lparr>pp_Ref = ''refs/heads/main'', pp_After = ''0123456789'',
     pp_Repository = \<lparr>rep_ID = 0, rep_FullName = ''acme/shop'', rep_CloneURL = []\<rparr>, pp_InstallationID = 0\<rparr>"
    by (simp add: decode_push_def decode_repository_def installation_id_def nested_def string_field_def int_field_def
        object_field_def field_values_def equal_fold_def to_upper_def to_upper_char_def)
  ultimately show ?thesis by (simp add: ParsePush_def parse_payload_def json_object_def)
qed

definition signing_outside :: outside where
  "signing_outside = calm_outside\<lparr>o_hmac := \<lambda>k m. ''ok''\<rparr>"

lemma push_verified: "VerifyAndParse signing_outside ''secret'' push_request = Inr (EventPush, push_body)"
proof -
  have "verifySignature signing_outside ''secret'' push_body ''sha256=6f6b''"
    unfolding verifySignature_def signing_outside_def by code_simp
  then show ?thesis by (simp add: VerifyAndParse_def push_request_def webhook_event_of_def)
qed

lemma webhook_app:
  "map (\<lambda>a. (app_ID a, app_Name a, app_Branch a, app_AppType a, app_BuildMode a)) (tbl_rows (db_apps webhook_db)) =
     [(1, ''acme/shop'', ''main'', AppTypeManaged, BuildModeTalosBuild)]"
  "db_oracle webhook_db = []" "tbl_rows (db_deploys webhook_db) = []"
  by code_simp+


end
