(* ===== verification/App_Handlers.thy ===== *)
theory App_Handlers
  imports Http Deploy_Engine
begin

text \<open>
  The JSON API of applications and deploys: \<open>internal/server/handlers/app.go\<close> and
  \<open>deploy.go\<close>.  An answer carries the value that is handed to the JSON encoder; the encoding
  of apps, deploys and events (with their times) is not modelled.
\<close>

datatype 'v answer =
    Failed int string
  | Answer int 'v
  | NoContent

fun answer_status :: "'v answer \<Rightarrow> int" where
  "answer_status (Failed c m) = c"
| "answer_status (Answer c v) = c"
| "answer_status NoContent = 204"

text \<open>\<open>parseID\<close>: the path parameter as a 64-bit integer.\<close>

definition parseID :: "string \<Rightarrow> int option" where
  "parseID param = parse_int64 param"

section \<open>Applications (app.go)\<close>

record app_handler =
  ah_proxy :: "traefik_manager option"
  ah_serverHost :: string
  ah_serverDomain :: string
  ah_proxyMode :: proxy_mode

record create_app_request =
  cr_Name :: string
  cr_AppType :: app_type
  cr_BuildMode :: build_mode
  cr_ProjectType :: project_type
  cr_RepoURL :: string
  cr_Branch :: string
  cr_InternalPort :: int
  cr_Domain :: string
  cr_ImageRef :: string
  cr_ContainerName :: string
  cr_ExternalTarget :: string
  cr_DockerNetwork :: string

record update_app_request =
  ur_Branch :: "string option"
  ur_InternalPort :: "int option"
  ur_Domain :: "string option"
  ur_ImageRef :: "string option"
  ur_ContainerName :: "string option"
  ur_ExternalTarget :: "string option"
  ur_DockerNetwork :: "string option"
  ur_AppType :: "app_type option"

definition body_members :: "string \<Rightarrow> (string \<times> json) list option" where
  "body_members body = Option.bind (Decode body) json_object"

definition decode_create :: "string \<Rightarrow> create_app_request option" where
  "decode_create body =
     Option.bind (body_members body) (\<lambda>ms.
     Option.bind (string_field ''name'' ms) (\<lambda>name.
     Option.bind (string_field ''app_type'' ms) (\<lambda>app_type.
     Option.bind (string_field ''build_mode'' ms) (\<lambda>build_mode.
     Option.bind (string_field ''project_type'' ms) (\<lambda>project_type.
     Option.bind (string_field ''repo_url'' ms) (\<lambda>repo_url.
     Option.bind (string_field ''branch'' ms) (\<lambda>branch.
     Option.bind (int_field ''internal_port'' ms) (\<lambda>port.
     Option.bind (string_field ''domain'' ms) (\<lambda>dom.
     Option.bind (string_field ''image_ref'' ms) (\<lambda>image.
     Option.bind (string_field ''container_name'' ms) (\<lambda>container.
     Option.bind (string_field ''external_target'' ms) (\<lambda>target.
     Option.bind (string_field ''docker_network'' ms) (\<lambda>nw.
     Some \<lparr>cr_Name = name, cr_AppType = app_type_of app_type, cr_BuildMode = build_mode_of build_mode,
           cr_ProjectType = project_type, cr_RepoURL = repo_url, cr_Branch = branch, cr_InternalPort = port,
           cr_Domain = dom, cr_ImageRef = image, cr_ContainerName = container, cr_ExternalTarget = target,
           cr_DockerNetwork = nw\<rparr>)))))))))))))"

definition decode_update :: "string \<Rightarrow> update_app_request option" where
  "decode_update body =
     Option.bind (body_members body) (\<lambda>ms.
     Option.bind (opt_string_field ''branch'' ms) (\<lambda>branch.
     Option.bind (opt_int_field ''internal_port'' ms) (\<lambda>port.
     Option.bind (opt_string_field ''domain'' ms) (\<lambda>dom.
     Option.bind (opt_string_field ''image_ref'' ms) (\<lambda>image.
     Option.bind (opt_string_field ''container_name'' ms) (\<lambda>container.
     Option.bind (opt_string_field ''external_target'' ms) (\<lambda>target.
     Option.bind (opt_string_field ''docker_network'' ms) (\<lambda>nw.
     Option.bind (opt_string_field ''app_type'' ms) (\<lambda>app_type.
     Some \<lparr>ur_Branch = branch, ur_InternalPort = port, ur_Domain = dom, ur_ImageRef = image,
           ur_ContainerName = container, ur_ExternalTarget = target, ur_DockerNetwork = nw,
           ur_AppType = map_option app_type_of app_type\<rparr>)))))))))"

fun normalizeAppType :: "app_type \<Rightarrow> app_type" where
  "normalizeAppType AppTypeAdoptedContainer = AppTypeAdoptedContainer"
| "normalizeAppType AppTypeExternalService = AppTypeExternalService"
| "normalizeAppType _ = AppTypeManaged"

fun normalizeBuildMode :: "build_mode \<Rightarrow> build_mode" where
  "normalizeBuildMode BuildModeExternalCI = BuildModeExternalCI"
| "normalizeBuildMode _ = BuildModeTalosBuild"

definition runtimeOwnerForType :: "app_type \<Rightarrow> runtime_owner" where
  "runtimeOwnerForType t = (if t = AppTypeManaged then RuntimeOwnerTalos else RuntimeOwnerExternal)"

fun sourceForType :: "app_type \<Rightarrow> string" where
  "sourceForType AppTypeAdoptedContainer = ''docker''"
| "sourceForType AppTypeExternalService = ''external''"
| "sourceForType _ = ''github''"

definition edgeProviderForMode :: "proxy_mode \<Rightarrow> edge_provider" where
  "edgeProviderForMode m =
     (if m = ProxyModeExternal then EdgeProviderExternalTraefik else EdgeProviderInternalTraefik)"

definition validateCreateRequest :: "create_app_request \<Rightarrow> string option" where
  "validateCreateRequest r =
     (case cr_AppType r of
        AppTypeManaged \<Rightarrow>
          if trim_space (cr_RepoURL r) = [] then Some ''repo_url is required for managed apps'' else None
      | AppTypeAdoptedContainer \<Rightarrow>
          if trim_space (cr_ContainerName r) = [] then Some ''container_name is required for adopted containers'' else None
      | AppTypeExternalService \<Rightarrow>
          if trim_space (cr_ExternalTarget r) = [] then Some ''external_target is required for external services'' else None
      | AppTypeOther s \<Rightarrow> None)"

definition applyAccessFields :: "string \<Rightarrow> string \<Rightarrow> app \<Rightarrow> db \<Rightarrow> (go_error + app) \<times> db" where
  "applyAccessFields serverHost serverDomain a0 d =
     (let a = a0\<lparr>app_FallbackPort := 0, app_AccessURL := [], app_AccessMode := AccessModePort\<rparr> in
      if app_Domain a \<noteq> [] then
        (Inr (a\<lparr>app_AccessMode := AccessModeDomain, app_AccessURL := ''https://'' @ app_Domain a\<rparr>), d)
      else
        (case app_AppType a of
           AppTypeManaged \<Rightarrow>
             (case NextFallbackPort d of
                (Inl e, d1) \<Rightarrow> (Inl e, d1)
              | (Inr port, d1) \<Rightarrow>
                  (let host = (if serverDomain \<noteq> [] then serverDomain else serverHost) in
                   (Inr (a\<lparr>app_FallbackPort := port, app_AccessURL := ''http://'' @ host @ '':'' @ itoa port\<rparr>), d1)))
         | AppTypeAdoptedContainer \<Rightarrow> (Inr (a\<lparr>app_AccessURL := []\<rparr>), d)
         | AppTypeExternalService \<Rightarrow> (Inr (a\<lparr>app_AccessURL := app_ExternalTarget a\<rparr>), d)
         | AppTypeOther s \<Rightarrow> (Inr a, d)))"

definition syncNonManagedRoute ::
  "outside \<Rightarrow> traefik_manager option \<Rightarrow> app \<Rightarrow> world \<Rightarrow> (go_error + unit) \<times> world" where
  "syncNonManagedRoute out proxy a w =
     (case proxy of
        None \<Rightarrow> (Inr (), w)
      | Some m \<Rightarrow>
          if app_AppType a = AppTypeManaged then (Inr (), w)
          else if app_Domain a = [] then RemoveRoute out m (app_Name a) w
          else if app_AppType a = AppTypeAdoptedContainer then UpdateRoute out m a (EffectiveContainerName a) w
          else if app_AppType a = AppTypeExternalService then UpdateRoute out m a [] w
          else (Inr (), w))"

definition AppList :: "world \<Rightarrow> app list answer \<times> world" where
  "AppList w =
     (case on_db ListApps w of
        (Inl e, w1) \<Rightarrow> (Failed 500 ''failed to list apps'', w1)
      | (Inr apps, w1) \<Rightarrow> (Answer 200 apps, w1))"

text \<open>The lookup every handler of one app starts with.\<close>

definition with_app :: "string \<Rightarrow> (app \<Rightarrow> world \<Rightarrow> 'v answer \<times> world) \<Rightarrow> world \<Rightarrow> 'v answer \<times> world" where
  "with_app param f w =
     (case parseID param of
        None \<Rightarrow> (Failed 400 ''invalid app id'', w)
      | Some i \<Rightarrow>
          (case on_db (GetApp i) w of
             (Inl e, w1) \<Rightarrow>
               (if errors_is e ErrNotFound then Failed 404 ''app not found'' else Failed 500 ''failed to get app'', w1)
           | (Inr a, w1) \<Rightarrow> f a w1))"

definition AppGet :: "string \<Rightarrow> world \<Rightarrow> app answer \<times> world" where
  "AppGet param = with_app param (\<lambda>a w. (Answer 200 a, w))"

text \<open>The request with its defaults, and the row it asks for.\<close>

definition default_create :: "create_app_request \<Rightarrow> create_app_request" where
  "default_create r0 =
     (let r1 = r0\<lparr>cr_AppType := normalizeAppType (cr_AppType r0)\<rparr>;
          r2 = (if cr_Branch r1 = [] then r1\<lparr>cr_Branch := ''main''\<rparr> else r1)
      in if cr_AppType r2 \<noteq> AppTypeExternalService \<and> cr_InternalPort r2 = 0 then r2\<lparr>cr_InternalPort := 3000\<rparr> else r2)"

definition requested_app :: "app_handler \<Rightarrow> create_app_request \<Rightarrow> app" where
  "requested_app h r =
     zero_app\<lparr>app_Name := cr_Name r, app_AppType := cr_AppType r, app_BuildMode := normalizeBuildMode (cr_BuildMode r),
       app_ProjectType := cr_ProjectType r, app_RuntimeOwner := runtimeOwnerForType (cr_AppType r),
       app_EdgeProvider := edgeProviderForMode (ah_proxyMode h), app_Source := sourceForType (cr_AppType r),
       app_RepoURL := trim_space (cr_RepoURL r), app_Branch := cr_Branch r, app_InternalPort := cr_InternalPort r,
       app_ImageRef := trim_space (cr_ImageRef r), app_Domain := trim_space (cr_Domain r),
       app_Status := AppStatusInactive, app_ContainerName := trim_space (cr_ContainerName r),
       app_ExternalTarget := trim_space (cr_ExternalTarget r), app_DockerNetwork := trim_space (cr_DockerNetwork r)\<rparr>"

definition AppCreate :: "outside \<Rightarrow> app_handler \<Rightarrow> string \<Rightarrow> world \<Rightarrow> app answer \<times> world" where
  "AppCreate out h body w =
     (case decode_create body of
        None \<Rightarrow> (Failed 400 ''invalid request body'', w)
      | Some r0 \<Rightarrow>
          if cr_Name r0 = [] then (Failed 400 ''name is required'', w)
          else
            (let r = default_create r0 in
             (case validateCreateRequest r of
                Some m \<Rightarrow> (Failed 400 m, w)
              | None \<Rightarrow>
                  (case on_db (applyAccessFields (ah_serverHost h) (ah_serverDomain h) (requested_app h r)) w of
                     (Inl e, w1) \<Rightarrow> (Failed 500 ''failed to assign port'', w1)
                   | (Inr a, w1) \<Rightarrow>
                       (case on_db (CreateApp a) w1 of
                          (Inl e, w2) \<Rightarrow> (Failed 500 ''failed to create app'', w2)
                        | (Inr a1, w2) \<Rightarrow>
                            (case syncNonManagedRoute out (ah_proxy h) a1 w2 of
                               (Inl e, w3) \<Rightarrow> (Failed 500 ''failed to configure route'', w3)
                             | (Inr _, w3) \<Rightarrow> (Answer 201 a1, w3)))))))"

text \<open>The fields an update sets, in the order of the code.\<close>

definition set_if :: "'a option \<Rightarrow> ('a \<Rightarrow> app \<Rightarrow> app) \<Rightarrow> app \<Rightarrow> app" where
  "set_if v f a = (case v of None \<Rightarrow> a | Some x \<Rightarrow> f x a)"

definition apply_update :: "update_app_request \<Rightarrow> app \<Rightarrow> app" where
  "apply_update r a =
     set_if (ur_Domain r) (\<lambda>x a. a\<lparr>app_Domain := trim_space x\<rparr>)
    (set_if (ur_AppType r) (\<lambda>x a. a\<lparr>app_AppType := normalizeAppType x, app_RuntimeOwner := runtimeOwnerForType (normalizeAppType x),
                                  app_Source := sourceForType (normalizeAppType x)\<rparr>)
    (set_if (ur_DockerNetwork r) (\<lambda>x a. a\<lparr>app_DockerNetwork := trim_space x\<rparr>)
    (set_if (ur_ExternalTarget r) (\<lambda>x a. a\<lparr>app_ExternalTarget := trim_space x\<rparr>)
    (set_if (ur_ContainerName r) (\<lambda>x a. a\<lparr>app_ContainerName := trim_space x\<rparr>)
    (set_if (ur_ImageRef r) (\<lambda>x a. a\<lparr>app_ImageRef := trim_space x\<rparr>)
    (set_if (ur_InternalPort r) (\<lambda>x a. a\<lparr>app_InternalPort := x\<rparr>)
    (set_if (ur_Branch r) (\<lambda>x a. a\<lparr>app_Branch := x\<rparr>) a)))))))"

definition AppUpdate :: "outside \<Rightarrow> app_handler \<Rightarrow> string \<Rightarrow> string \<Rightarrow> world \<Rightarrow> app answer \<times> world" where
  "AppUpdate out h param body =
     with_app param (\<lambda>a0 w.
       (case decode_update body of
          None \<Rightarrow> (Failed 400 ''invalid request body'', w)
        | Some r \<Rightarrow>
            (case on_db (applyAccessFields (ah_serverHost h) (ah_serverDomain h) (apply_update r a0)) w of
               (Inl e, w1) \<Rightarrow> (Failed 500 ''failed to assign port'', w1)
             | (Inr a, w1) \<Rightarrow>
                 (case on_db (UpdateApp a) w1 of
                    (Inl e, w2) \<Rightarrow> (Failed 500 ''failed to update app'', w2)
                  | (Inr _, w2) \<Rightarrow>
                      (case syncNonManagedRoute out (ah_proxy h) a w2 of
                         (Inl e, w3) \<Rightarrow> (Failed 500 ''failed to update route'', w3)
                       | (Inr _, w3) \<Rightarrow> (Answer 200 a, w3))))))"

definition AppDelete :: "outside \<Rightarrow> app_handler \<Rightarrow> string \<Rightarrow> world \<Rightarrow> unit answer \<times> world" where
  "AppDelete out h param =
     with_app param (\<lambda>a w.
       (case on_db (DeleteApp (the (parseID param))) w of
          (Inl e, w1) \<Rightarrow> (Failed 500 ''failed to delete app'', w1)
        | (Inr _, w1) \<Rightarrow>
            (case ah_proxy h of
               None \<Rightarrow> (NoContent, w1)
             | Some m \<Rightarrow> (NoContent, snd (RemoveRoute out m (app_Name a) w1)))))"

definition AppRestart :: "outside \<Rightarrow> string \<Rightarrow> world \<Rightarrow> string answer \<times> world" where
  "AppRestart out param =
     with_app param (\<lambda>a w.
       if app_AppType a = AppTypeExternalService then (Failed 400 ''external services cannot be restarted'', w)
       else if EffectiveContainerName a = [] then (Failed 400 ''no container is associated with this app'', w)
       else
         (case Restart out (EffectiveContainerName a) w of
            (Inl e, w1) \<Rightarrow> (Failed 500 ''failed to restart container'', w1)
          | (Inr _, w1) \<Rightarrow> (Answer 200 ''restarted'', w1)))"

end
