(* ===== verification/Garage_Client.thy ===== *)
theory Garage_Client
  imports Docker_Client Url_Lib Json_Roundtrip
begin

text \<open>
  \<open>internal/services/garage.go\<close>: the client of the Garage admin API.  What the HTTP transport
  answers is \<open>o_http\<close>: an error, or a status with the result of reading the body.  A request
  context may be done at any moment (\<open>o_ctx_done\<close>); the background context never is.  Every
  request carries the token in its \<open>Authorization\<close> header, so the recorded call has it too.
\<close>

record garage_client =
  gc_adminURL :: string
  gc_adminToken :: string

record garage_bucket =
  gb_ID :: string
  gb_GlobalAliases :: "string list"
  gb_Created :: string
  gb_Objects :: int
  gb_Bytes :: int

record garage_key =
  gk_AccessKeyID :: string
  gk_SecretAccessKey :: string
  gk_Name :: string

datatype http_context = BackgroundContext | RequestContext

definition ctx_done :: "outside \<Rightarrow> http_context \<Rightarrow> world \<Rightarrow> bool" where
  "ctx_done out ctx w \<longleftrightarrow> ctx = RequestContext \<and> o_ctx_done out (w_history w)"

definition ErrCanceled :: go_error where
  "ErrCanceled = ErrText ''context canceled''"

section \<open>One request and its retries\<close>

datatype verdict =
    Again go_error
  | GivesUp go_error
  | Body string

definition api_status :: "int \<Rightarrow> string \<Rightarrow> go_error" where
  "api_status code body = ErrText (''garage admin API returned '' @ itoa code @ '': '' @ body)"

definition http_call :: "outside \<Rightarrow> garage_client \<Rightarrow> string \<Rightarrow> string \<Rightarrow> string \<Rightarrow> world \<Rightarrow>
    (go_error + int \<times> (go_error + string)) \<times> world" where
  "http_call out c meth path body w =
     (let e = HttpCall meth (gc_adminURL c @ path) (gc_adminToken c) body in perform e (\<lambda>h. o_http out h e) w)"

definition attempt :: "outside \<Rightarrow> garage_client \<Rightarrow> string \<Rightarrow> string \<Rightarrow> string \<Rightarrow> world \<Rightarrow> verdict \<times> world" where
  "attempt out c meth path body w =
     (if parse_url (gc_adminURL c @ path) = None then (GivesUp (Wrap ''create request'' (ErrText ''parse url'')), w)
      else
        (case http_call out c meth path body w of
           (Inl e, w1) \<Rightarrow> (Again (Wrap ''garage admin API unreachable'' e), w1)
         | (Inr (code, Inl e), w1) \<Rightarrow> (Again (Wrap ''read response'' e), w1)
         | (Inr (code, Inr b), w1) \<Rightarrow>
             (if code \<ge> 500 then Again (api_status code b)
              else if code < 200 \<or> code \<ge> 300 then GivesUp (api_status code b)
              else Body b, w1)))"

text \<open>The loop of \<open>do\<close> with \<open>n\<close> attempts left after this one: it waits before every
  further attempt, or stops waiting when the context is done.\<close>

fun attempts :: "outside \<Rightarrow> garage_client \<Rightarrow> http_context \<Rightarrow> string \<Rightarrow> string \<Rightarrow> string \<Rightarrow> nat \<Rightarrow> world \<Rightarrow>
    (go_error + string) \<times> world" where
  "attempts out c ctx meth path body n w =
     (case attempt out c meth path body w of
        (GivesUp e, w1) \<Rightarrow> (Inl e, w1)
      | (Body b, w1) \<Rightarrow> (Inr b, w1)
      | (Again e, w1) \<Rightarrow>
          (case n of
             0 \<Rightarrow> (Inl e, w1)
           | Suc m \<Rightarrow>
               if ctx_done out ctx w1 then (Inl ErrCanceled, w1) else attempts out c ctx meth path body m w1))"

declare attempts.simps [simp del]

text \<open>\<open>do\<close> with a result to decode into; an empty body leaves the zero value.\<close>

definition garage_do ::
  "outside \<Rightarrow> garage_client \<Rightarrow> http_context \<Rightarrow> string \<Rightarrow> string \<Rightarrow> json option \<Rightarrow> 'a \<Rightarrow> (json \<Rightarrow> 'a option) \<Rightarrow> world \<Rightarrow>
    (go_error + 'a) \<times> world" where
  "garage_do out c ctx meth path body zero decode w =
     (case attempts out c ctx meth path (case body of None \<Rightarrow> [] | Some j \<Rightarrow> json_print j) 2 w of
        (Inl e, w1) \<Rightarrow> (Inl e, w1)
      | (Inr b, w1) \<Rightarrow>
          (if b = [] then Inr zero
           else
             (case Option.bind (Unmarshal b) decode of
                None \<Rightarrow> Inl (Wrap ''decode response'' (ErrText ''invalid JSON''))
              | Some x \<Rightarrow> Inr x), w1))"

definition garage_post :: "outside \<Rightarrow> garage_client \<Rightarrow> http_context \<Rightarrow> string \<Rightarrow> json option \<Rightarrow> world \<Rightarrow> (go_error + unit) \<times> world" where
  "garage_post out c ctx path body w =
     (case attempts out c ctx ''POST'' path (case body of None \<Rightarrow> [] | Some j \<Rightarrow> json_print j) 2 w of
        (Inl e, w1) \<Rightarrow> (Inl e, w1)
      | (Inr b, w1) \<Rightarrow> (Inr (), w1))"

section \<open>Buckets and keys\<close>

fun all_strings :: "json list \<Rightarrow> string list option" where
  "all_strings [] = Some []"
| "all_strings (v # vs) =
     (case (into_string [] v, all_strings vs) of (Some s, Some ss) \<Rightarrow> Some (s # ss) | _ \<Rightarrow> None)"

definition strings_field :: "string \<Rightarrow> (string \<times> json) list \<Rightarrow> string list option" where
  "strings_field name ms = Option.bind (list_field name ms) all_strings"

definition bucket_fields :: "(string \<times> json) list \<Rightarrow> garage_bucket option" where
  "bucket_fields ms =
     (case (string_field ''id'' ms, strings_field ''globalAliases'' ms, string_field ''created'' ms, int_field ''objects'' ms,
            int_field ''bytes'' ms) of
        (Some i, Some a, Some c, Some n, Some b) \<Rightarrow>
          Some \<lparr>gb_ID = i, gb_GlobalAliases = a, gb_Created = c, gb_Objects = n, gb_Bytes = b\<rparr>
      | _ \<Rightarrow> None)"

definition decode_bucket :: "json \<Rightarrow> garage_bucket option" where
  "decode_bucket j = Option.bind (json_object j) bucket_fields"

fun decode_buckets :: "json list \<Rightarrow> garage_bucket list option" where
  "decode_buckets [] = Some []"
| "decode_buckets (v # vs) =
     (case (decode_bucket v, decode_buckets vs) of (Some b, Some bs) \<Rightarrow> Some (b # bs) | _ \<Rightarrow> None)"

definition zero_bucket :: garage_bucket where
  "zero_bucket = \<lparr>gb_ID = [], gb_GlobalAliases = [], gb_Created = [], gb_Objects = 0, gb_Bytes = 0\<rparr>"

definition ListBuckets :: "outside \<Rightarrow> garage_client \<Rightarrow> http_context \<Rightarrow> world \<Rightarrow> (go_error + garage_bucket list) \<times> world" where
  "ListBuckets out c ctx w =
     (case garage_do out c ctx ''GET'' ''/v2/ListBuckets'' None [] (\<lambda>j. Option.bind (into_list [] j) decode_buckets) w of
        (Inl e, w1) \<Rightarrow> (Inl (Wrap ''list buckets'' e), w1)
      | (Inr bs, w1) \<Rightarrow> (Inr bs, w1))"

definition CreateBucket :: "outside \<Rightarrow> garage_client \<Rightarrow> http_context \<Rightarrow> string \<Rightarrow> world \<Rightarrow> (go_error + garage_bucket) \<times> world" where
  "CreateBucket out c ctx globalAlias w =
     (case garage_do out c ctx ''POST'' ''/v2/CreateBucket'' (Some (JObj [(''globalAlias'', JStr globalAlias)])) zero_bucket
             decode_bucket w of
        (Inl e, w1) \<Rightarrow> (Inl (Wrap ''create bucket'' e), w1)
      | (Inr b, w1) \<Rightarrow> (Inr b, w1))"

definition DeleteBucket :: "outside \<Rightarrow> garage_client \<Rightarrow> http_context \<Rightarrow> string \<Rightarrow> world \<Rightarrow> (go_error + unit) \<times> world" where
  "DeleteBucket out c ctx bucketID w =
     (case garage_post out c ctx (''/v2/DeleteBucket?id='' @ bucketID) None w of
        (Inl e, w1) \<Rightarrow> (Inl (Wrap ''delete bucket'' e), w1)
      | (Inr _, w1) \<Rightarrow> (Inr (), w1))"

definition key_fields :: "(string \<times> json) list \<Rightarrow> garage_key option" where
  "key_fields ms =
     (case (string_field ''accessKeyId'' ms, string_field ''secretAccessKey'' ms, string_field ''name'' ms) of
        (Some a, Some s, Some n) \<Rightarrow> Some \<lparr>gk_AccessKeyID = a, gk_SecretAccessKey = s, gk_Name = n\<rparr>
      | _ \<Rightarrow> None)"

definition CreateKey :: "outside \<Rightarrow> garage_client \<Rightarrow> http_context \<Rightarrow> string \<Rightarrow> world \<Rightarrow> (go_error + garage_key) \<times> world" where
  "CreateKey out c ctx name w =
     (case garage_do out c ctx ''POST'' ''/v2/CreateKey'' (Some (JObj [(''name'', JStr name)]))
             \<lparr>gk_AccessKeyID = [], gk_SecretAccessKey = [], gk_Name = []\<rparr>
             (\<lambda>j. Option.bind (json_object j) key_fields) w of
        (Inl e, w1) \<Rightarrow> (Inl (Wrap ''create key'' e), w1)
      | (Inr k, w1) \<Rightarrow> (Inr k, w1))"

text \<open>The keys of a Go map are marshalled in sorted order.\<close>

definition AllowKey :: "outside \<Rightarrow> garage_client \<Rightarrow> http_context \<Rightarrow> string \<Rightarrow> string \<Rightarrow> world \<Rightarrow> (go_error + unit) \<times> world" where
  "AllowKey out c ctx bucketID accessKeyID w =
     (case garage_post out c ctx ''/v2/AllowBucketKey''
             (Some (JObj [(''accessKeyId'', JStr accessKeyID), (''bucketId'', JStr bucketID),
                (''permissions'', JObj [(''owner'', JBool True), (''read'', JBool True), (''write'', JBool True)])])) w of
        (Inl e, w1) \<Rightarrow> (Inl (Wrap ''allow key'' e), w1)
      | (Inr _, w1) \<Rightarrow> (Inr (), w1))"

section \<open>The cluster layout\<close>

definition IsClusterConfigured :: "outside \<Rightarrow> garage_client \<Rightarrow> http_context \<Rightarrow> world \<Rightarrow> (go_error + bool) \<times> world" where
  "IsClusterConfigured out c ctx w =
     (case garage_do out c ctx ''GET'' ''/v2/GetClusterLayout'' None []
             (\<lambda>j. Option.bind (json_object j) (list_field ''roles'')) w of
        (Inl e, w1) \<Rightarrow> (Inl (Wrap ''get cluster layout'' e), w1)
      | (Inr roles, w1) \<Rightarrow> (Inr (roles \<noteq> []), w1))"

text \<open>The first key that a loop over a Go map meets may be any of its keys.\<close>

definition first_key :: "outside \<Rightarrow> world \<Rightarrow> (string \<times> json) list \<Rightarrow> string" where
  "first_key out w ms = (let ks = remdups (map fst ms) in ks ! (o_map_order out (w_history w) mod length ks))"

definition layout_roles :: "string \<Rightarrow> json" where
  "layout_roles nodeID =
     JObj [(''roles'', JArr [JObj [(''capacity'', JNum ''1000000000''), (''id'', JStr nodeID), (''tags'', JArr []),
                                 (''zone'', JStr ''dc1'')]])]"

definition ConfigureSingleNodeLayout :: "outside \<Rightarrow> garage_client \<Rightarrow> http_context \<Rightarrow> world \<Rightarrow> (go_error + unit) \<times> world" where
  "ConfigureSingleNodeLayout out c ctx w =
     (case garage_do out c ctx ''GET'' ''/v2/GetNodeInfo?node=self'' None []
             (\<lambda>j. Option.bind (json_object j) (object_field ''success'')) w of
        (Inl e, w1) \<Rightarrow> (Inl (Wrap ''get node info'' e), w1)
      | (Inr success, w1) \<Rightarrow>
          if success = [] then (Inl (ErrText ''could not determine node ID: empty success map''), w1)
          else
            (case garage_do out c ctx ''GET'' ''/v2/GetClusterLayout'' None 0
                    (\<lambda>j. Option.bind (json_object j) (int_field ''version'')) w1 of
               (Inl e, w2) \<Rightarrow> (Inl (Wrap ''get cluster layout'' e), w2)
             | (Inr version, w2) \<Rightarrow>
                 (case garage_post out c ctx ''/v2/UpdateClusterLayout'' (Some (layout_roles (first_key out w1 success))) w2 of
                    (Inl e, w3) \<Rightarrow> (Inl (Wrap ''update cluster layout'' e), w3)
                  | (Inr _, w3) \<Rightarrow>
                      (case garage_post out c ctx ''/v2/ApplyClusterLayout''
                              (Some (JObj [(''version'', JNum (itoa (version + 1)))])) w3 of
                         (Inl e, w4) \<Rightarrow> (Inl (Wrap ''apply cluster layout'' e), w4)
                       | (Inr _, w4) \<Rightarrow> (Inr (), w4)))))"

section \<open>Waiting for the API\<close>

text \<open>The loop of \<open>WaitForReady\<close> with \<open>n\<close> ticks left: one every two seconds of the
  timeout at most.\<close>

fun ready_polls :: "outside \<Rightarrow> garage_client \<Rightarrow> http_context \<Rightarrow> nat \<Rightarrow> nat \<Rightarrow> world \<Rightarrow> (go_error + unit) \<times> world" where
  "ready_polls out c ctx timeout 0 w =
     (Inl (ErrText (''garage admin API not ready after '' @ seconds_str timeout)), w)"
| "ready_polls out c ctx timeout (Suc n) w =
     (if ctx_done out ctx w then (Inl ErrCanceled, w)
      else if parse_url (gc_adminURL c @ ''/v2/GetClusterStatus'') = None then ready_polls out c ctx timeout n w
      else
        (case http_call out c ''GET'' ''/v2/GetClusterStatus'' [] w of
           (Inl e, w1) \<Rightarrow> ready_polls out c ctx timeout n w1
         | (Inr (code, b), w1) \<Rightarrow> if code < 500 then (Inr (), w1) else ready_polls out c ctx timeout n w1))"

definition WaitForReady :: "outside \<Rightarrow> garage_client \<Rightarrow> http_context \<Rightarrow> nat \<Rightarrow> world \<Rightarrow> (go_error + unit) \<times> world" where
  "WaitForReady out c ctx timeout w =
     ready_polls out c ctx timeout (min (timeout div 2) (o_health_ticks out (w_history w))) w"

section \<open>What the client leaves alone\<close>

fun is_http :: "effect \<Rightarrow> bool" where
  "is_http (HttpCall m u k b) = True"
| "is_http _ = False"

lemma http_call_calls: "http_call out c m p b w = (r, w1) \<Longrightarrow> calls is_http w w1"
  by (auto simp: http_call_def Let_def dest: calls_perform [where L = is_http])

lemma attempt_calls: "attempt out c m p b w = (r, w1) \<Longrightarrow> calls is_http w w1"
  by (auto simp: attempt_def dest!: http_call_calls split: prod.splits sum.splits if_splits)

lemma attempts_calls: "attempts out c ctx m p b n w = (r, w1) \<Longrightarrow> calls is_http w w1"
proof (induction n arbitrary: w)
  case 0
  then show ?case
    by (auto simp: attempts.simps [of _ _ _ _ _ _ 0] dest!: attempt_calls split: prod.splits verdict.splits)
next
  case (Suc n)
  from Suc.prems Suc.IH show ?case
    by (auto simp: attempts.simps [of _ _ _ _ _ _ "Suc n"] dest!: attempt_calls intro: calls_trans
        split: prod.splits verdict.splits if_splits)
qed

lemma garage_do_calls: "garage_do out c ctx m p b z d w = (r, w1) \<Longrightarrow> calls is_http w w1"
  by (auto simp: garage_do_def dest!: attempts_calls split: prod.splits sum.splits)

lemma garage_post_calls: "garage_post out c ctx p b w = (r, w1) \<Longrightarrow> calls is_http w w1"
  by (auto simp: garage_post_def dest!: attempts_calls split: prod.splits sum.splits)

lemma CreateBucket_calls: "CreateBucket out c ctx n w = (r, w1) \<Longrightarrow> calls is_http w w1"
  by (auto simp: CreateBucket_def dest!: garage_do_calls split: prod.splits sum.splits)

lemma ListBuckets_calls: "ListBuckets out c ctx w = (r, w1) \<Longrightarrow> calls is_http w w1"
  by (auto simp: ListBuckets_def dest!: garage_do_calls split: prod.splits sum.splits)

lemma DeleteBucket_calls: "DeleteBucket out c ctx n w = (r, w1) \<Longrightarrow> calls is_http w w1"
  by (auto simp: DeleteBucket_def dest!: garage_post_calls split: prod.splits sum.splits)

lemma IsClusterConfigured_calls: "IsClusterConfigured out c ctx w = (r, w1) \<Longrightarrow> calls is_http w w1"
  by (auto simp: IsClusterConfigured_def dest!: garage_do_calls split: prod.splits sum.splits)

lemma ConfigureSingleNodeLayout_calls: "ConfigureSingleNodeLayout out c ctx w = (r, w1) \<Longrightarrow> calls is_http w w1"
  by (auto simp: ConfigureSingleNodeLayout_def dest!: garage_do_calls garage_post_calls intro: calls_trans
      split: prod.splits sum.splits if_splits)

lemma ready_polls_calls: "ready_polls out c ctx t n w = (r, w1) \<Longrightarrow> calls is_http w w1"
proof (induction n arbitrary: w)
  case (Suc n)
  then show ?case
    by (auto dest!: http_call_calls intro: calls_trans split: prod.splits sum.splits if_splits)
qed simp

lemma WaitForReady_calls: "WaitForReady out c ctx t w = (r, w1) \<Longrightarrow> calls is_http w w1"
  unfolding WaitForReady_def by (rule ready_polls_calls)

end
