(* ===== verification/Provisioner.thy ===== *)
theory Provisioner
  imports Garage_Client Credentials Builder
begin

text \<open>
  \<open>internal/services/provisioner.go\<close>: the containers of managed services.  The methods that
  change the \<open>*domain.Service\<close> they are given return it changed.  Credentials handed over as an
  \<open>interface{}\<close> are an option of the credential structs, \<open>None\<close> for nil.
\<close>

section \<open>Paths on the host\<close>

text \<open>\<open>filepath.Rel\<close>: both paths are cleaned; what is left of the base after the common
  components is climbed out of, unless that would take a step up from an unknown directory.\<close>

fun drop_common :: "'a list \<Rightarrow> 'a list \<Rightarrow> 'a list \<times> 'a list" where
  "drop_common (a # as) (b # bs) = (if a = b then drop_common as bs else (a # as, b # bs))"
| "drop_common as bs = (as, bs)"

definition path_comps :: "string \<Rightarrow> string list" where
  "path_comps p = (if p = [] then [] else if p = ''/'' then [[]] else split_char (CHR ''/'') p)"

definition path_rel :: "string \<Rightarrow> string \<Rightarrow> string option" where
  "path_rel basepath targpath =
     (let base = path_clean basepath; targ = path_clean targpath; b = (if base = ''.'' then [] else base) in
      if base = targ then Some ''.''
      else if path_is_abs b \<noteq> path_is_abs targ then None
      else
        (let (up, down) = drop_common (path_comps b) (path_comps targ) in
         if up \<noteq> [] \<and> down \<noteq> [] \<and> hd up = ''..'' then None
         else Some (join ''/'' (replicate (length up) ''..'' @ down))))"

definition path_abs :: "outside \<Rightarrow> string \<Rightarrow> go_error + string" where
  "path_abs out p =
     (if path_is_abs p then Inr (path_clean p)
      else (case o_cwd out of Inl e \<Rightarrow> Inl e | Inr d \<Rightarrow> Inr (path_join [d, p])))"

definition host_path :: "outside \<Rightarrow> provisioner \<Rightarrow> string \<Rightarrow> string" where
  "host_path out p containerPath =
     (let result =
        (if prov_hostDataRoot p \<noteq> [] then
           (case path_rel (prov_dataDir p) containerPath of
              None \<Rightarrow> containerPath
            | Some rel \<Rightarrow> path_join [prov_hostDataRoot p, rel])
         else containerPath)
      in
      if path_is_abs result then result
      else (case path_abs out result of Inl e \<Rightarrow> result | Inr a \<Rightarrow> a))"

section \<open>Generated credentials\<close>

text \<open>\<open>rand.Int(rand.Reader, big.NewInt(n))\<close> is some number below \<open>n\<close>.\<close>

definition random_char :: "outside \<Rightarrow> string \<Rightarrow> world \<Rightarrow> char \<times> world" where
  "random_char out chars w =
     (chars ! (o_rand_int out (w_history w) (length chars) mod length chars),
      w\<lparr>w_history := w_history w @ [(RandomInt (length chars), True)]\<rparr>)"

fun random_string :: "outside \<Rightarrow> string \<Rightarrow> nat \<Rightarrow> world \<Rightarrow> string \<times> world" where
  "random_string out chars 0 w = ([], w)"
| "random_string out chars (Suc n) w =
     (let (c, w1) = random_char out chars w; (s, w2) = random_string out chars n w1 in (c # s, w2))"

definition lower_letters :: string where
  "lower_letters = ''abcdefghijklmnopqrstuvwxyz''"

definition upper_letters :: string where
  "upper_letters = ''ABCDEFGHIJKLMNOPQRSTUVWXYZ''"

definition ten_digits :: string where
  "ten_digits = ''0123456789''"

definition GeneratePassword :: "outside \<Rightarrow> nat \<Rightarrow> world \<Rightarrow> string \<times> world" where
  "GeneratePassword out = random_string out (lower_letters @ upper_letters @ ten_digits @ ''-_.~'')"

definition GenerateAccessKey :: "outside \<Rightarrow> nat \<Rightarrow> world \<Rightarrow> string \<times> world" where
  "GenerateAccessKey out = random_string out (upper_letters @ ten_digits)"

definition GenerateServiceName :: "outside \<Rightarrow> service_type \<Rightarrow> world \<Rightarrow> string \<times> world" where
  "GenerateServiceName out ty w =
     (let pre = service_type_str ty;
          (suffix, w1) = random_string out (lower_letters @ ten_digits) 4 w
      in ((if length pre > 4 then take 4 pre else pre) @ ''-'' @ suffix, w1))"

text \<open>The RPC secret of Garage: \<open>rand.Read\<close> into 32 bytes, whose error is ignored, in
  hexadecimal.\<close>

definition hex_encode :: "string \<Rightarrow> string" where
  "hex_encode s = concat (map (\<lambda>c. [hex_digit (of_char c div 16), hex_digit (of_char c mod 16)]) s)"

definition GenerateRPCSecret :: "outside \<Rightarrow> world \<Rightarrow> string \<times> world" where
  "GenerateRPCSecret out w =
     (case random_bytes out 32 w of
        (Inl e, w1) \<Rightarrow> (hex_encode (replicate 32 (CHR 0x00)), w1)
      | (Inr bytes, w1) \<Rightarrow> (hex_encode bytes, w1))"

definition svc_container :: "string \<Rightarrow> string" where
  "svc_container name = ''talos-svc-'' @ name"

fun DefaultCredentials :: "outside \<Rightarrow> service_type \<Rightarrow> string \<Rightarrow> world \<Rightarrow> credentials option \<times> world" where
  "DefaultCredentials out ServicePostgres containerName w =
     (let (pw, w1) = GeneratePassword out 24 w in (Some (PostgresCredentials containerName 5432 ''app'' ''postgres'' pw), w1))"
| "DefaultCredentials out ServiceMySQL containerName w =
     (let (pw, w1) = GeneratePassword out 24 w in (Some (MySQLCredentials containerName 3306 ''app'' ''mysql'' pw), w1))"
| "DefaultCredentials out ServiceRedis containerName w =
     (let (pw, w1) = GeneratePassword out 24 w in (Some (RedisCredentials containerName 6379 pw), w1))"
| "DefaultCredentials out ServiceGarage containerName w =
     (let (rpc, w1) = GenerateRPCSecret out w;
          (access, w2) = GenerateAccessKey out 20 w1;
          (secret, w3) = GeneratePassword out 40 w2;
          (admin, w4) = GeneratePassword out 32 w3
      in (Some (GarageCredentials (''http://'' @ containerName @ '':3900'') ''garage'' access secret [] admin rpc), w4))"
| "DefaultCredentials out ServiceGarageWebUI containerName w =
     (let (pw, w1) = GeneratePassword out 16 w in
      (Some (GarageWebUICredentials (''http://talos-svc-'' @ containerName @ '':3903'')
               (''http://talos-svc-'' @ containerName @ '':3900'') [] ''admin'' pw), w1))"
| "DefaultCredentials out (ServiceOther s) containerName w = (None, w)"

section \<open>The container of a service\<close>

definition text_lines :: "string list \<Rightarrow> string" where
  "text_lines ls = concat (map (\<lambda>l. l @ [CHR 0x0A]) ls)"

definition generateGarageConfig :: "string \<Rightarrow> string \<Rightarrow> string \<Rightarrow> string" where
  "generateGarageConfig rpcSecret region adminToken = text_lines
     [''metadata_dir = '' @ quoted ''/var/lib/garage/meta'', ''data_dir = '' @ quoted ''/var/lib/garage/data'',
      ''db_engine = '' @ quoted ''sqlite'', ''replication_factor = 1'', [],
      ''rpc_bind_addr = '' @ quoted ''[::]:3901'', ''rpc_public_addr = '' @ quoted ''127.0.0.1:3901'',
      ''rpc_secret = '' @ quoted rpcSecret, [],
      ''[s3_api]'', ''s3_region = '' @ quoted region, ''api_bind_addr = '' @ quoted ''[::]:3900'', [],
      ''[admin]'', ''api_bind_addr = '' @ quoted ''[::]:3903'', ''admin_token = '' @ quoted adminToken]"

text \<open>The zero value of the struct of a type, which a failed \<open>json.Unmarshal\<close> leaves (its error
  is ignored; the code only ever decodes what it has marshalled itself).\<close>

fun zero_credentials :: "service_type \<Rightarrow> credentials" where
  "zero_credentials ServicePostgres = PostgresCredentials [] 0 [] [] []"
| "zero_credentials ServiceMySQL = MySQLCredentials [] 0 [] [] []"
| "zero_credentials ServiceRedis = RedisCredentials [] 0 []"
| "zero_credentials ServiceGarage = GarageCredentials [] [] [] [] [] [] []"
| "zero_credentials ServiceGarageWebUI = GarageWebUICredentials [] [] [] [] []"
| "zero_credentials (ServiceOther s) = RedisCredentials [] 0 []"

definition read_credentials :: "service_type \<Rightarrow> string \<Rightarrow> credentials" where
  "read_credentials ty text =
     (case unmarshal_credentials ty text of Inl e \<Rightarrow> zero_credentials ty | Inr c \<Rightarrow> c)"

definition base_config :: "service \<Rightarrow> container_config" where
  "base_config s =
     empty_config\<lparr>cfg_Name := svc_container (svc_Name s), cfg_ImageRef := svc_ImageRef s,
       cfg_InternalPort := svc_InternalPort s,
       cfg_Labels := [(''managed-by'', ''talos''), (''talos-svc'', svc_Name s), (''talos-type'', service_type_str (svc_Type s))]\<rparr>"

text \<open>The struct that is decoded is that of the service's type; a definition always exists for the
  types with a case.\<close>

definition with_volume :: "outside \<Rightarrow> provisioner \<Rightarrow> service \<Rightarrow> string \<Rightarrow> container_config \<Rightarrow> container_config" where
  "with_volume out p s volHost cfg =
     cfg\<lparr>cfg_Volumes := [host_path out p volHost @ '':'' @
           (case ServiceDefinitions (svc_Type s) of None \<Rightarrow> [] | Some d \<Rightarrow> def_VolumePath d)]\<rparr>"

definition with_health_cmd :: "service \<Rightarrow> container_config \<Rightarrow> container_config" where
  "with_health_cmd s cfg =
     cfg\<lparr>cfg_HealthCheck := Some (case ServiceDefinitions (svc_Type s) of None \<Rightarrow> [] | Some d \<Rightarrow> def_HealthCmd d)\<rparr>"

definition buildContainerConfigFromJSON ::
  "outside \<Rightarrow> provisioner \<Rightarrow> service \<Rightarrow> string \<Rightarrow> string \<Rightarrow> go_error + container_config" where
  "buildContainerConfigFromJSON out p s credJSON volHost =
     (let cfg = base_config s; name = cfg_Name cfg in
      case svc_Type s of
        ServiceOther t \<Rightarrow> Inl (ErrText (''unsupported service type: '' @ t))
      | ty \<Rightarrow>
          (case read_credentials ty credJSON of
             PostgresCredentials host port database user password \<Rightarrow>
               Inr (with_health_cmd s (with_volume out p s volHost cfg)
                 \<lparr>cfg_Env := [''POSTGRES_DB='' @ database, ''POSTGRES_USER='' @ user, ''POSTGRES_PASSWORD='' @ password]\<rparr>)
           | MySQLCredentials host port database user password \<Rightarrow>
               Inr (with_health_cmd s (with_volume out p s volHost cfg)
                 \<lparr>cfg_Env := [''MYSQL_DATABASE='' @ database, ''MYSQL_USER='' @ user, ''MYSQL_PASSWORD='' @ password,
                             ''MYSQL_ROOT_PASSWORD='' @ password]\<rparr>)
           | RedisCredentials host port password \<Rightarrow>
               Inr (with_volume out p s volHost cfg
                 \<lparr>cfg_HealthCheck := Some [''CMD'', ''redis-cli'', ''-a'', password, ''ping'']\<rparr>)
           | GarageCredentials endpoint region access secret bucket admin rpc \<Rightarrow>
               Inr (cfg
                 \<lparr>cfg_Env := [''GARAGE_CONFIG_FILE=/etc/garage.toml''],
                  cfg_Volumes := [host_path out p (volHost @ ''/garage.toml'') @ '':/etc/garage.toml:ro'',
                                  name @ ''-meta:/var/lib/garage/meta'', name @ ''-data:/var/lib/garage/data''],
                  cfg_HealthCheck := Some [''CMD-SHELL'', ''wget -qO- http://localhost:3900/health || exit 1'']\<rparr>)
           | GarageWebUICredentials admin_url s3 admin_key username password \<Rightarrow>
               Inr (cfg
                 \<lparr>cfg_Env := [''API_BASE_URL='' @ admin_url, ''API_ADMIN_KEY='' @ admin_key, ''S3_ENDPOINT_URL='' @ s3] @
                    (if username \<noteq> [] then [''AUTH_USER_PASS='' @ username @ '':'' @ password] else []),
                  cfg_HealthCheck := Some [''CMD-SHELL'', ''wget -qO- http://localhost:3909/ || exit 1'']\<rparr>)))"

section \<open>Provisioning\<close>

definition credentials_value :: "credentials option \<Rightarrow> json" where
  "credentials_value c = (case c of None \<Rightarrow> JNull | Some x \<Rightarrow> credentials_json x)"

definition buildContainerConfig ::
  "outside \<Rightarrow> provisioner \<Rightarrow> service \<Rightarrow> credentials option \<Rightarrow> string \<Rightarrow> go_error + container_config" where
  "buildContainerConfig out p s creds volHost =
     buildContainerConfigFromJSON out p s (json_print (credentials_value creds)) volHost"

definition vol_host :: "provisioner \<Rightarrow> service \<Rightarrow> string" where
  "vol_host p s = path_join [prov_dataDir p, ''services'', svc_Name s]"

definition make_dir :: "outside \<Rightarrow> string \<Rightarrow> world \<Rightarrow> (go_error + unit) \<times> world" where
  "make_dir out path w = perform (MkdirAll path) (\<lambda>h. o_file out h (MkdirAll path)) w"

text \<open>Writing \<open>garage.toml\<close>; a directory in its place, which Docker makes for a missing bind
  mount, is removed first.\<close>

definition write_garage_config :: "outside \<Rightarrow> string \<Rightarrow> string \<Rightarrow> world \<Rightarrow> (go_error + unit) \<times> world" where
  "write_garage_config out volHost contents w =
     (let configPath = path_join [volHost, ''garage.toml''];
          w1 = (if o_is_dir out (w_history w) configPath then remove_all out configPath w else w)
      in write_file out configPath contents w1)"

text \<open>The error is ignored where a status is stored after a failure.\<close>

definition save_service :: "service \<Rightarrow> world \<Rightarrow> world" where
  "save_service s w = snd (on_db (UpdateService s) w)"

definition mark_error :: "service \<Rightarrow> go_error \<Rightarrow> world \<Rightarrow> (go_error + unit) \<times> service \<times> world" where
  "mark_error s e w =
     (let s1 = s\<lparr>svc_Status := ServiceStatusError\<rparr> in (Inl e, s1, save_service s1 w))"

definition is_unspecified :: "string \<Rightarrow> bool" where
  "is_unspecified a \<longleftrightarrow> a = ''0.0.0.0'' \<or> a = ''::''"

definition join_host_port :: "string \<Rightarrow> string \<Rightarrow> string" where
  "join_host_port h port =
     (if CHR '':'' \<in> set h \<or> CHR ''%'' \<in> set h then ''['' @ h @ '']:'' @ port else h @ '':'' @ port)"

definition GarageAdminURL :: "outside \<Rightarrow> service \<Rightarrow> world \<Rightarrow> (go_error + string) \<times> world" where
  "GarageAdminURL out s w =
     (let containerName = svc_container (svc_Name s);
          target = join_host_port containerName ''3903'';
          url = (\<lambda>addr. ''http://'' @ addr @ '':3903'')
      in
      (case perform (Dial target) (\<lambda>h. o_dial out h target) w of
         (Inr _, w1) \<Rightarrow> (Inr (url containerName), w1)
       | (Inl _, w1) \<Rightarrow>
           (case Inspect out containerName w1 of
              (Inl e, w2) \<Rightarrow> (Inl (Wrap ''resolve garage admin address'' e), w2)
            | (Inr st, w2) \<Rightarrow>
                (case filter (\<lambda>n. \<not> is_unspecified (snd n)) (st_Networks st) of
                   [] \<Rightarrow> (Inr (url containerName), w2)
                 | n # _ \<Rightarrow> (Inr (url (snd n)), w2)))))"

text \<open>The ten attempts to create the bucket; a \<open>break\<close> in the select only leaves the select,
  so a context that is done does not end them.\<close>

fun create_bucket_attempts ::
  "outside \<Rightarrow> garage_client \<Rightarrow> http_context \<Rightarrow> string \<Rightarrow> nat \<Rightarrow> world \<Rightarrow> garage_bucket option \<times> world" where
  "create_bucket_attempts out c ctx name 0 w = (None, w)"
| "create_bucket_attempts out c ctx name (Suc n) w =
     (case CreateBucket out c ctx name w of
        (Inr b, w1) \<Rightarrow> (Some b, w1)
      | (Inl e, w1) \<Rightarrow> create_bucket_attempts out c ctx name n w1)"

definition ensure_layout :: "outside \<Rightarrow> garage_client \<Rightarrow> http_context \<Rightarrow> world \<Rightarrow> world" where
  "ensure_layout out c ctx w =
     (case IsClusterConfigured out c ctx w of
        (Inl e, w1) \<Rightarrow> w1
      | (Inr configured, w1) \<Rightarrow> if configured then w1 else snd (ConfigureSingleNodeLayout out c ctx w1))"

text \<open>The default bucket of a Garage service.  The credentials that are stored again are the ones
  from before: their bucket is never set.\<close>

definition default_bucket ::
  "outside \<Rightarrow> provisioner \<Rightarrow> http_context \<Rightarrow> service \<Rightarrow> credentials option \<Rightarrow> world \<Rightarrow> service \<times> world" where
  "default_bucket out p ctx s creds w =
     (case creds of
        Some (GarageCredentials endpoint region access secret bucket admin rpc) \<Rightarrow>
          if svc_Type s \<noteq> ServiceGarage \<or> bucket \<noteq> [] then (s, w)
          else
            (case GarageAdminURL out s w of
               (Inl e, w1) \<Rightarrow> (s, w1)
             | (Inr adminURL, w1) \<Rightarrow>
                 (let c = \<lparr>gc_adminURL = adminURL, gc_adminToken = admin\<rparr> in
                  (case WaitForReady out c ctx 30 w1 of
                     (Inl e, w2) \<Rightarrow> (s, w2)
                   | (Inr _, w2) \<Rightarrow>
                       (case create_bucket_attempts out c ctx (svc_Name s) 10 (ensure_layout out c ctx w2) of
                          (Some b, w3) \<Rightarrow>
                            if gb_GlobalAliases b = [] then (s, w3)
                            else
                              (case EncryptCredentials out p s (the creds) w3 of
                                 (Inl e, w4) \<Rightarrow> (s, w4)
                               | (Inr s1, w4) \<Rightarrow> (s1, save_service s1 w4))
                        | (None, w3) \<Rightarrow> (s, w3)))))
      | _ \<Rightarrow> (s, w))"

text \<open>\<open>ProvisionService\<close> in the three parts between which its caller can touch the service.\<close>

definition provision_begin ::
  "outside \<Rightarrow> provisioner \<Rightarrow> service \<Rightarrow> credentials option \<Rightarrow> world \<Rightarrow> (go_error + unit) \<times> service \<times> world" where
  "provision_begin out p s creds w =
     (let s1 = s\<lparr>svc_Status := ServiceStatusProvisioning\<rparr> in
      (case on_db (UpdateService s1) w of
         (Inl e, w1) \<Rightarrow> (Inl (Wrap ''update status'' e), s1, w1)
       | (Inr _, w1) \<Rightarrow>
           (case Encrypt out (json_print (credentials_value creds)) (prov_encKey p) w1 of
              (Inl e, w2) \<Rightarrow> (Inl (Wrap ''encrypt credentials'' e), s1, w2)
            | (Inr encrypted, w2) \<Rightarrow> (Inr (), s1\<lparr>svc_Credentials := encrypted\<rparr>, w2))))"

text \<open>The files of a Garage service; a type assertion that fails panics.\<close>

definition garage_files ::
  "outside \<Rightarrow> string \<Rightarrow> service \<Rightarrow> credentials option \<Rightarrow> world \<Rightarrow> (go_error + unit) \<times> world" where
  "garage_files out volHost s creds w =
     (if svc_Type s \<noteq> ServiceGarage then (Inr (), w)
      else
        (let w1 = snd (make_dir out (path_join [volHost, ''meta'']) w);
             w2 = snd (make_dir out (path_join [volHost, ''data'']) w1)
         in
         (case creds of
            Some (GarageCredentials endpoint region access secret bucket admin rpc) \<Rightarrow>
              (case write_garage_config out volHost (generateGarageConfig rpc region admin) w2 of
                 (Inl e, w3) \<Rightarrow> (Inl (Wrap ''write garage config'' e), w3)
               | (Inr _, w3) \<Rightarrow> (Inr (), w3))
          | _ \<Rightarrow> (Inl (ErrText ''interface conversion''), w2\<lparr>w_panic := Some ''interface conversion''\<rparr>))))"

text \<open>The common end of provisioning and starting; \<open>f\<close> is what becomes of an error of the last
  update.\<close>

definition start_service_container ::
  "outside \<Rightarrow> docker_client \<Rightarrow> (go_error + unit \<Rightarrow> go_error + unit) \<Rightarrow> service \<Rightarrow> container_config \<Rightarrow> world \<Rightarrow>
     (go_error + unit) \<times> service \<times> world" where
  "start_service_container out dc f s cfg w =
     (let w1 = snd (StopAndRemove out (svc_container (svc_Name s)) w) in
      (case StartContainerWithConfig out dc cfg w1 of
         (Inl e, w2) \<Rightarrow> mark_error s (Wrap ''start container'' e) w2
       | (Inr containerID, w2) \<Rightarrow>
           (let s1 = s\<lparr>svc_ContainerID := containerID, svc_Status := ServiceStatusActive\<rparr> in
            (case on_db (UpdateService s1) w2 of (r, w3) \<Rightarrow> (f r, s1, w3)))))"

definition provision_container ::
  "outside \<Rightarrow> docker_client \<Rightarrow> provisioner \<Rightarrow> http_context \<Rightarrow> service \<Rightarrow> credentials option \<Rightarrow> world \<Rightarrow>
     (go_error + unit) \<times> service \<times> world" where
  "provision_container out dc p ctx s creds w =
     (let volHost = vol_host p s in
      (case make_dir out volHost w of
         (Inl e, w1) \<Rightarrow> (Inl (Wrap ''create volume dir'' e), s, w1)
       | (Inr _, w1) \<Rightarrow>
           (case garage_files out volHost s creds w1 of
              (Inl e, w2) \<Rightarrow> (Inl e, s, w2)
            | (Inr _, w2) \<Rightarrow>
                (case buildContainerConfig out p s creds volHost of
                   Inl e \<Rightarrow> (Inl (Wrap ''build config'' e), s, w2)
                 | Inr cfg \<Rightarrow>
                     (case PullImage out (svc_ImageRef s) w2 of
                        (Inl e, w3) \<Rightarrow> mark_error s (Wrap ''pull image'' e) w3
                      | (Inr _, w3) \<Rightarrow>
                          (case start_service_container out dc (wrap_err ''update service'') s cfg w3 of
                             (Inl e, s1, w4) \<Rightarrow> (Inl e, s1, w4)
                           | (Inr _, s1, w4) \<Rightarrow>
                               (case default_bucket out p ctx s1 creds w4 of (s2, w5) \<Rightarrow> (Inr (), s2, w5))))))))"

definition ProvisionService ::
  "outside \<Rightarrow> docker_client \<Rightarrow> provisioner \<Rightarrow> http_context \<Rightarrow> service \<Rightarrow> credentials option \<Rightarrow> world \<Rightarrow>
     (go_error + unit) \<times> service \<times> world" where
  "ProvisionService out dc p ctx s creds w =
     (case provision_begin out p s creds w of
        (Inl e, s1, w1) \<Rightarrow> (Inl e, s1, w1)
      | (Inr _, s1, w1) \<Rightarrow> provision_container out dc p ctx s1 creds w1)"

section \<open>Stopping, starting, deleting\<close>

definition StopService :: "outside \<Rightarrow> service \<Rightarrow> world \<Rightarrow> (go_error + unit) \<times> service \<times> world" where
  "StopService out s w =
     (if svc_ContainerID s = [] then (Inr (), s, w)
      else
        (let w1 = snd (StopAndRemove out (svc_container (svc_Name s)) w);
             s1 = s\<lparr>svc_ContainerID := [], svc_Status := ServiceStatusStopped\<rparr>
         in (case on_db (UpdateService s1) w1 of (r, w2) \<Rightarrow> (r, s1, w2))))"

text \<open>\<open>Provisioner.DeleteService\<close>: the container goes first, then the row.\<close>

definition RemoveService :: "outside \<Rightarrow> int \<Rightarrow> world \<Rightarrow> (go_error + unit) \<times> world" where
  "RemoveService out i w =
     (case on_db (GetService i) w of
        (Inl e, w1) \<Rightarrow> (Inl (Wrap ''get service'' e), w1)
      | (Inr s, w1) \<Rightarrow> on_db (DeleteService i) (snd (StopAndRemove out (svc_container (svc_Name s)) w1)))"

text \<open>The configuration of Garage is written again; whether that works is not checked.\<close>

definition rewrite_garage_config :: "outside \<Rightarrow> string \<Rightarrow> service \<Rightarrow> string \<Rightarrow> world \<Rightarrow> world" where
  "rewrite_garage_config out volHost s credJSON w =
     (if svc_Type s \<noteq> ServiceGarage then w
      else
        (case read_credentials ServiceGarage credJSON of
           GarageCredentials endpoint region access secret bucket admin rpc \<Rightarrow>
             snd (write_garage_config out volHost (generateGarageConfig rpc region admin) w)
         | _ \<Rightarrow> w))"

definition StartService ::
  "outside \<Rightarrow> docker_client \<Rightarrow> provisioner \<Rightarrow> service \<Rightarrow> world \<Rightarrow> (go_error + unit) \<times> service \<times> world" where
  "StartService out dc p s w =
     (if svc_Status s = ServiceStatusActive then (Inr (), s, w)
      else
        (case Decrypt out (svc_Credentials s) (prov_encKey p) of
           Inl e \<Rightarrow> (Inl (Wrap ''decrypt credentials'' e), s, w)
         | Inr credJSON \<Rightarrow>
             (let volHost = vol_host p s; w1 = rewrite_garage_config out volHost s credJSON w in
              (case buildContainerConfigFromJSON out p s credJSON volHost of
                 Inl e \<Rightarrow> (Inl (Wrap ''build config'' e), s, w1)
               | Inr cfg \<Rightarrow> start_service_container out dc id s cfg w1))))"

end
