(* ===== verification/Service_Handlers.thy ===== *)
theory Service_Handlers
  imports App_Handlers Provisioner
begin

text \<open>
  \<open>internal/server/handlers/service.go\<close>: the JSON API of services, buckets, links and
  environment variables.  \<open>ServiceCreate\<close> returns the work of the goroutine it starts as a
  \<open>service_job\<close>.
\<close>

section \<open>Services\<close>

definition hide_credentials :: "service \<Rightarrow> service" where
  "hide_credentials s = s\<lparr>svc_Credentials := []\<rparr>"

definition ServiceList :: "world \<Rightarrow> service list answer \<times> world" where
  "ServiceList w =
     (case on_db ListServices w of
        (Inl e, w1) \<Rightarrow> (Failed 500 (error_text e), w1)
      | (Inr ss, w1) \<Rightarrow> (Answer 200 (map hide_credentials ss), w1))"

text \<open>The lookup of the service that a path names.\<close>

definition with_service :: "string \<Rightarrow> (service \<Rightarrow> world \<Rightarrow> 'v answer \<times> world) \<Rightarrow> world \<Rightarrow> 'v answer \<times> world" where
  "with_service param f w =
     (case parse_int64 param of
        None \<Rightarrow> (Failed 400 ''invalid service id'', w)
      | Some i \<Rightarrow>
          (case on_db (GetService i) w of
             (Inl e, w1) \<Rightarrow> (Failed 404 ''service not found'', w1)
           | (Inr s, w1) \<Rightarrow> f s w1))"

definition ServiceGet :: "string \<Rightarrow> world \<Rightarrow> service answer \<times> world" where
  "ServiceGet param = with_service param (\<lambda>s w. (Answer 200 (hide_credentials s), w))"

section \<open>Creating a service\<close>

definition service_type_of :: "string \<Rightarrow> service_type" where
  "service_type_of s =
     (if s = ''postgres'' then ServicePostgres else if s = ''mysql'' then ServiceMySQL
      else if s = ''redis'' then ServiceRedis else if s = ''garage'' then ServiceGarage
      else if s = ''garage_webui'' then ServiceGarageWebUI else ServiceOther s)"

record create_service_request =
  cs_Name :: string
  cs_Type :: service_type
  cs_Creds :: "(string \<times> json) list option"

fun into_opt_map :: "(string \<times> json) list option \<Rightarrow> json \<Rightarrow> (string \<times> json) list option option" where
  "into_opt_map x (JObj ms) = Some (Some (put_all ms (case x of None \<Rightarrow> [] | Some old \<Rightarrow> old)))"
| "into_opt_map x JNull = Some None"
| "into_opt_map x _ = None"

definition decode_create_service :: "string \<Rightarrow> create_service_request option" where
  "decode_create_service body =
     Option.bind (body_members body) (\<lambda>ms.
     Option.bind (string_field ''name'' ms) (\<lambda>name.
     Option.bind (string_field ''type'' ms) (\<lambda>ty.
     Option.bind (decode_into into_opt_map None (field_values ''credentials'' ms)) (\<lambda>creds.
     Some \<lparr>cs_Name = name, cs_Type = service_type_of ty, cs_Creds = creds\<rparr>))))"

text \<open>The value of a text member, unless it is missing, empty or no text.\<close>

definition text_or :: "(string \<times> json) list \<Rightarrow> string \<Rightarrow> string \<Rightarrow> string" where
  "text_or m k v0 =
     (case map_of m k of Some (JStr v) \<Rightarrow> (if v \<noteq> [] then v else v0) | _ \<Rightarrow> v0)"

fun buildCredsFromMap ::
  "outside \<Rightarrow> service_type \<Rightarrow> (string \<times> json) list \<Rightarrow> string \<Rightarrow> world \<Rightarrow> credentials option \<times> world" where
  "buildCredsFromMap out ServicePostgres m containerName w =
     (let (pw, w1) = GeneratePassword out 24 w in
      (Some (PostgresCredentials containerName 5432 (text_or m ''database'' ''app'') (text_or m ''user'' ''postgres'')
               (text_or m ''password'' pw)), w1))"
| "buildCredsFromMap out ServiceMySQL m containerName w =
     (let (pw, w1) = GeneratePassword out 24 w in
      (Some (MySQLCredentials containerName 3306 (text_or m ''database'' ''app'') (text_or m ''user'' ''mysql'')
               (text_or m ''password'' pw)), w1))"
| "buildCredsFromMap out ServiceRedis m containerName w =
     (let (pw, w1) = GeneratePassword out 24 w in
      (Some (RedisCredentials containerName 6379 (text_or m ''password'' pw)), w1))"
| "buildCredsFromMap out ServiceGarage m containerName w =
     (let (rpc, w1) = GenerateRPCSecret out w;
          (access, w2) = GenerateAccessKey out 20 w1;
          (secret, w3) = GeneratePassword out 40 w2;
          (admin, w4) = GeneratePassword out 32 w3
      in
      (Some (GarageCredentials (''http://'' @ containerName @ '':3900'') (text_or m ''region'' ''garage'')
               (text_or m ''access_key'' access) (text_or m ''secret_key'' secret) (text_or m ''bucket'' []) admin rpc), w4))"
| "buildCredsFromMap out ServiceGarageWebUI m containerName w =
     (let (pw, w1) = GeneratePassword out 16 w in
      (Some (GarageWebUICredentials (''http://'' @ containerName @ '':3903'') (''http://'' @ containerName @ '':3900'') []
               (text_or m ''username'' ''admin'') (text_or m ''password'' pw)), w1))"
| "buildCredsFromMap out (ServiceOther s) m containerName w = (None, w)"

definition pending_service :: "string \<Rightarrow> service_type \<Rightarrow> string \<Rightarrow> int \<Rightarrow> service" where
  "pending_service name ty img port =
     \<lparr>svc_ID = 0, svc_Name = name, svc_Type = ty, svc_ImageRef = img, svc_Status = ServiceStatusPending,
      svc_ContainerID = [], svc_AppID = None, svc_VolumePath = [], svc_Credentials = [], svc_Config = [],
      svc_InternalPort = port, svc_CreatedAt = 0, svc_UpdatedAt = 0\<rparr>"

record service_job =
  sj_Service :: service
  sj_Creds :: "credentials option"

definition ServiceCreate :: "outside \<Rightarrow> string \<Rightarrow> world \<Rightarrow> service answer \<times> service_job option \<times> world" where
  "ServiceCreate out body w =
     (case decode_create_service body of
        None \<Rightarrow> (Failed 400 ''invalid request body'', None, w)
      | Some r \<Rightarrow>
          (case ServiceDefinitions (cs_Type r) of
             None \<Rightarrow> (Failed 400 ''unsupported service type'', None, w)
           | Some d \<Rightarrow>
               (let (name, w1) = (if cs_Name r = [] then GenerateServiceName out (cs_Type r) w else (cs_Name r, w));
                    (creds, w2) =
                      (case cs_Creds r of
                         Some m \<Rightarrow> buildCredsFromMap out (cs_Type r) m (svc_container name) w1
                       | None \<Rightarrow> DefaultCredentials out (cs_Type r) (svc_container name) w1);
                    s = pending_service name (cs_Type r) (def_DefaultImage d) (def_Port d)
                in
                (case on_db (CreateService s) w2 of
                   (Inl e, w3) \<Rightarrow>
                     (if contains (error_text e) ''UNIQUE constraint failed''
                      then Failed 409 ''A service with this name already exists''
                      else Failed 500 (error_text e), None, w3)
                 | (Inr s1, w3) \<Rightarrow>
                     (Answer 202 (hide_credentials s1), Some \<lparr>sj_Service = s1, sj_Creds = creds\<rparr>, w3)))))"

text \<open>
  The goroutine.  The handler that started it clears \<open>svc.Credentials\<close> of the service they
  share, without a lock, before it answers: \<open>blanked\<close> says whether that assignment falls after
  the credentials were encrypted into it.
\<close>

definition provision_shared ::
  "outside \<Rightarrow> docker_client \<Rightarrow> provisioner \<Rightarrow> bool \<Rightarrow> service \<Rightarrow> credentials option \<Rightarrow> world \<Rightarrow>
     (go_error + unit) \<times> service \<times> world" where
  "provision_shared out dc p blanked s creds w =
     (case provision_begin out p s creds w of
        (Inl e, s1, w1) \<Rightarrow> (Inl e, s1, w1)
      | (Inr _, s1, w1) \<Rightarrow>
          provision_container out dc p BackgroundContext (if blanked then hide_credentials s1 else s1) creds w1)"

definition webui_sidecar :: "outside \<Rightarrow> docker_client \<Rightarrow> provisioner \<Rightarrow> string \<Rightarrow> string \<Rightarrow> world \<Rightarrow> world" where
  "webui_sidecar out dc p name adminToken w =
     (let (pw, w1) = GeneratePassword out 16 w;
          creds = GarageWebUICredentials (''http://talos-svc-'' @ name @ '':3903'') (''http://talos-svc-'' @ name @ '':3900'')
                    adminToken ''admin'' pw;
          s = (case ServiceDefinitions ServiceGarageWebUI of
                 None \<Rightarrow> pending_service (name @ ''-webui'') ServiceGarageWebUI [] 0
               | Some d \<Rightarrow> pending_service (name @ ''-webui'') ServiceGarageWebUI (def_DefaultImage d) (def_Port d))
      in
      (case on_db (CreateService s) w1 of
         (Inl e, w2) \<Rightarrow> w2
       | (Inr s1, w2) \<Rightarrow> snd (snd (ProvisionService out dc p BackgroundContext s1 (Some creds) w2))))"

definition run_service_job :: "outside \<Rightarrow> docker_client \<Rightarrow> provisioner \<Rightarrow> bool \<Rightarrow> service_job \<Rightarrow> world \<Rightarrow> world" where
  "run_service_job out dc p blanked j w =
     (let w1 = snd (snd (provision_shared out dc p blanked (sj_Service j) (sj_Creds j) w)) in
      if svc_Type (sj_Service j) \<noteq> ServiceGarage \<or> w_panic w1 \<noteq> None then w1
      else
        (case sj_Creds j of
           Some (GarageCredentials endpoint region access secret bucket admin rpc) \<Rightarrow>
             webui_sidecar out dc p (svc_Name (sj_Service j)) admin w1
         | _ \<Rightarrow> w1\<lparr>w_panic := Some ''interface conversion''\<rparr>))"

section \<open>The life of a service\<close>

definition ServiceDelete :: "outside \<Rightarrow> string \<Rightarrow> world \<Rightarrow> unit answer \<times> world" where
  "ServiceDelete out param w =
     (case parse_int64 param of
        None \<Rightarrow> (Failed 400 ''invalid service id'', w)
      | Some i \<Rightarrow>
          (case RemoveService out i w of
             (Inl e, w1) \<Rightarrow> (Failed 500 (error_text e), w1)
           | (Inr _, w1) \<Rightarrow> (NoContent, w1)))"

definition service_answer :: "(go_error + unit) \<times> service \<times> world \<Rightarrow> service answer \<times> world" where
  "service_answer x =
     (case x of
        (Inl e, s, w) \<Rightarrow> (Failed 500 (error_text e), w)
      | (Inr _, s, w) \<Rightarrow> (Answer 200 (hide_credentials s), w))"

definition ServiceStop :: "outside \<Rightarrow> string \<Rightarrow> world \<Rightarrow> service answer \<times> world" where
  "ServiceStop out param = with_service param (\<lambda>s w. service_answer (StopService out s w))"

definition ServiceStart :: "outside \<Rightarrow> docker_client \<Rightarrow> provisioner \<Rightarrow> string \<Rightarrow> world \<Rightarrow> service answer \<times> world" where
  "ServiceStart out dc p param = with_service param (\<lambda>s w. service_answer (StartService out dc p s w))"

definition GetCredentials :: "outside \<Rightarrow> provisioner \<Rightarrow> string \<Rightarrow> world \<Rightarrow> credentials answer \<times> world" where
  "GetCredentials out p param =
     with_service param (\<lambda>s w.
       (case svc_Type s of
          ServiceOther t \<Rightarrow> Failed 400 ''unknown service type''
        | ty \<Rightarrow>
            (case DecryptCredentials out p s ty of
               Inl e \<Rightarrow> Failed 500 ''decrypt failed''
             | Inr c \<Rightarrow> Answer 200 c), w))"

section \<open>Buckets\<close>

text \<open>\<open>getGarageService\<close>, \<open>decryptGarageCreds\<close> and the client for the admin API, as the
  three bucket handlers need them; \<open>prepare\<close> is what a handler reads of the request before it
  looks for the API.\<close>

definition with_garage_service :: "string \<Rightarrow> (service \<Rightarrow> world \<Rightarrow> 'v answer \<times> world) \<Rightarrow> world \<Rightarrow> 'v answer \<times> world" where
  "with_garage_service param f =
     with_service param (\<lambda>s w. if svc_Type s \<noteq> ServiceGarage then (Failed 400 ''not a garage service'', w) else f s w)"

definition with_garage_api ::
  "outside \<Rightarrow> provisioner \<Rightarrow> string \<Rightarrow> string + 'q \<Rightarrow> (service \<Rightarrow> credentials \<Rightarrow> garage_client \<Rightarrow> 'q \<Rightarrow> world \<Rightarrow> 'v answer \<times> world) \<Rightarrow>
     world \<Rightarrow> 'v answer \<times> world" where
  "with_garage_api out p param prepare f =
     with_garage_service param (\<lambda>s w.
       (case DecryptCredentials out p s ServiceGarage of
          Inl e \<Rightarrow> (Failed 500 ''decrypt failed'', w)
        | Inr gc \<Rightarrow>
            (case prepare of
               Inl m \<Rightarrow> (Failed 400 m, w)
             | Inr q \<Rightarrow>
                 (case GarageAdminURL out s w of
                    (Inl e, w1) \<Rightarrow> (Failed 502 (''resolve garage: '' @ error_text e), w1)
                  | (Inr url, w1) \<Rightarrow> f s gc \<lparr>gc_adminURL = url, gc_adminToken = gc_AdminToken gc\<rparr> q w1))))"

definition garage_api_failed :: "go_error \<Rightarrow> 'v answer" where
  "garage_api_failed e = Failed 502 (''garage admin API: '' @ error_text e)"

definition BucketList :: "outside \<Rightarrow> provisioner \<Rightarrow> string \<Rightarrow> world \<Rightarrow> garage_bucket list answer \<times> world" where
  "BucketList out p param =
     with_garage_api out p param (Inr ()) (\<lambda>s gc c q w.
       (case ListBuckets out c RequestContext w of
          (Inl e, w1) \<Rightarrow> (garage_api_failed e, w1)
        | (Inr bs, w1) \<Rightarrow> (Answer 200 bs, w1)))"

definition bucket_name :: "string \<Rightarrow> string + string" where
  "bucket_name body =
     (case Option.bind (body_members body) (string_field ''name'') of
        None \<Rightarrow> Inl ''bucket name required''
      | Some n \<Rightarrow> if n = [] then Inl ''bucket name required'' else Inr n)"

text \<open>The first bucket of a service becomes the bucket in its credentials.\<close>

definition remember_bucket :: "outside \<Rightarrow> provisioner \<Rightarrow> service \<Rightarrow> credentials \<Rightarrow> garage_bucket \<Rightarrow> world \<Rightarrow> world" where
  "remember_bucket out p s gc b w =
     (case (gc, gb_GlobalAliases b) of
        (GarageCredentials endpoint region access secret bucket admin rpc, alias # _) \<Rightarrow>
          if bucket \<noteq> [] then w
          else
            (case EncryptCredentials out p s (GarageCredentials endpoint region access secret alias admin rpc) w of
               (Inl e, w1) \<Rightarrow> w1
             | (Inr s1, w1) \<Rightarrow> save_service s1 w1)
      | _ \<Rightarrow> w)"

definition BucketCreate :: "outside \<Rightarrow> provisioner \<Rightarrow> string \<Rightarrow> string \<Rightarrow> world \<Rightarrow> garage_bucket answer \<times> world" where
  "BucketCreate out p param body =
     with_garage_api out p param (bucket_name body) (\<lambda>s gc c name w.
       (case CreateBucket out c RequestContext name w of
          (Inl e, w1) \<Rightarrow> (garage_api_failed e, w1)
        | (Inr b, w1) \<Rightarrow> (Answer 201 b, remember_bucket out p s gc b w1)))"

definition BucketDelete :: "outside \<Rightarrow> provisioner \<Rightarrow> string \<Rightarrow> string \<Rightarrow> world \<Rightarrow> unit answer \<times> world" where
  "BucketDelete out p param bucketID =
     with_garage_api out p param (if bucketID = [] then Inl ''bucket id required'' else Inr bucketID) (\<lambda>s gc c b w.
       (case DeleteBucket out c RequestContext b w of
          (Inl e, w1) \<Rightarrow> (garage_api_failed e, w1)
        | (Inr _, w1) \<Rightarrow> (NoContent, w1)))"

section \<open>Links and environment variables\<close>

definition with_app_id :: "string \<Rightarrow> (int \<Rightarrow> world \<Rightarrow> 'v answer \<times> world) \<Rightarrow> world \<Rightarrow> 'v answer \<times> world" where
  "with_app_id param f w =
     (case parse_int64 param of None \<Rightarrow> (Failed 400 ''invalid app id'', w) | Some i \<Rightarrow> f i w)"

definition store_answer :: "(db \<Rightarrow> (go_error + 'a) \<times> db) \<Rightarrow> ('a \<Rightarrow> 'v answer) \<Rightarrow> world \<Rightarrow> 'v answer \<times> world" where
  "store_answer f ok w =
     (case on_db f w of
        (Inl e, w1) \<Rightarrow> (Failed 500 (error_text e), w1)
      | (Inr x, w1) \<Rightarrow> (ok x, w1))"

definition decode_link :: "string \<Rightarrow> (int \<times> string) option" where
  "decode_link body =
     Option.bind (body_members body) (\<lambda>ms.
     Option.bind (int_field ''service_id'' ms) (\<lambda>i.
     Option.bind (string_field ''alias'' ms) (\<lambda>a. Some (i, a))))"

text \<open>\<open>WriteHeader\<close> without a body.\<close>

definition LinkService :: "string \<Rightarrow> string \<Rightarrow> world \<Rightarrow> unit answer \<times> world" where
  "LinkService param body =
     with_app_id param (\<lambda>appID w.
       (case decode_link body of
          None \<Rightarrow> (Failed 400 ''invalid request body'', w)
        | Some (serviceID, alias) \<Rightarrow>
            if alias = [] then (Failed 400 ''alias is required'', w)
            else store_answer (LinkAppService appID serviceID alias) (Answer 201) w))"

definition UnlinkService :: "string \<Rightarrow> string \<Rightarrow> world \<Rightarrow> unit answer \<times> world" where
  "UnlinkService param serviceParam =
     with_app_id param (\<lambda>appID w.
       (case parse_int64 serviceParam of
          None \<Rightarrow> (Failed 400 ''invalid service id'', w)
        | Some serviceID \<Rightarrow> store_answer (UnlinkAppService appID serviceID) (\<lambda>_. NoContent) w))"

definition ListLinks :: "string \<Rightarrow> world \<Rightarrow> app_service list answer \<times> world" where
  "ListLinks param = with_app_id param (\<lambda>appID. store_answer (ListAppServices appID) (Answer 200))"

definition mask_secret :: "app_env_var \<Rightarrow> app_env_var" where
  "mask_secret v = (if env_IsSecret v then v\<lparr>env_Value := ''****''\<rparr> else v)"

definition ListEnvVars :: "string \<Rightarrow> world \<Rightarrow> app_env_var list answer \<times> world" where
  "ListEnvVars param =
     with_app_id param (\<lambda>appID. store_answer (GetAppEnvVars appID) (\<lambda>vs. Answer 200 (map mask_secret vs)))"

definition decode_env_var :: "string \<Rightarrow> (string \<times> string \<times> bool) option" where
  "decode_env_var body =
     Option.bind (body_members body) (\<lambda>ms.
     Option.bind (string_field ''key'' ms) (\<lambda>k.
     Option.bind (string_field ''value'' ms) (\<lambda>v.
     Option.bind (bool_field ''is_secret'' ms) (\<lambda>s. Some (k, v, s)))))"

definition SetEnvVar :: "string \<Rightarrow> string \<Rightarrow> world \<Rightarrow> app_env_var answer \<times> world" where
  "SetEnvVar param body =
     with_app_id param (\<lambda>appID w.
       (case decode_env_var body of
          None \<Rightarrow> (Failed 400 ''invalid request body'', w)
        | Some (k, v, s) \<Rightarrow>
            if k = [] then (Failed 400 ''key is required'', w)
            else
              store_answer
                (SetAppEnvVar \<lparr>env_ID = 0, env_AppID = appID, env_Key = k, env_Value = v, env_IsSecret = s, env_Required = False\<rparr>)
                (Answer 200) w))"

definition DeleteEnvVar :: "string \<Rightarrow> string \<Rightarrow> world \<Rightarrow> unit answer \<times> world" where
  "DeleteEnvVar param key =
     with_app_id param (\<lambda>appID. store_answer (DeleteAppEnvVar appID key) (\<lambda>_. NoContent))"

definition with_app_key :: "string \<Rightarrow> string \<Rightarrow> (int \<Rightarrow> world \<Rightarrow> 'v answer \<times> world) \<Rightarrow> world \<Rightarrow> 'v answer \<times> world" where
  "with_app_key param key f w =
     (case parseID param of
        None \<Rightarrow> (Failed 400 ''invalid app id'', w)
      | Some i \<Rightarrow> if key = [] then (Failed 400 ''key is required'', w) else f i w)"

definition ListEnvVarHistory :: "string \<Rightarrow> string \<Rightarrow> world \<Rightarrow> app_env_var_history list answer \<times> world" where
  "ListEnvVarHistory param key =
     with_app_key param key (\<lambda>appID w.
       (case on_db (GetAppEnvVarHistory appID key) w of
          (Inl e, w1) \<Rightarrow> (Failed 500 ''failed to get history'', w1)
        | (Inr hs, w1) \<Rightarrow> (Answer 200 hs, w1)))"

definition RevealEnvVar :: "string \<Rightarrow> string \<Rightarrow> world \<Rightarrow> (string \<times> string) answer \<times> world" where
  "RevealEnvVar param key =
     with_app_key param key (\<lambda>appID w.
       (case on_db (GetAppEnvVars appID) w of
          (Inl e, w1) \<Rightarrow> (Failed 500 ''failed to get env vars'', w1)
        | (Inr vs, w1) \<Rightarrow>
            (case List.find (\<lambda>v. env_Key v = key) vs of
               None \<Rightarrow> (Failed 404 ''env var not found'', w1)
             | Some v \<Rightarrow> (Answer 200 (env_Key v, env_Value v), w1))))"

end
