(* ===== verification/Service_Claims.thy ===== *)
theory Service_Claims
  imports Service_Handlers Store_Claims
begin

text \<open>
  What holds of every service in the table, whatever requests are made and whatever provisioning
  jobs run: the contract of the store is the locale \<open>row_condition\<close>, interpreted for the
  condition that a service can be used.
\<close>

section \<open>A condition on rows and the store\<close>

definition services_hold :: "(service \<Rightarrow> bool) \<Rightarrow> db \<Rightarrow> bool" where
  "services_hold cond d \<longleftrightarrow> list_all cond (tbl_rows (db_services d))"

text \<open>The store sets the id and the times of a row itself; a condition that does not read them is
  kept by every method that is given a service for which it holds.\<close>

locale row_condition =
  fixes cond :: "service \<Rightarrow> bool"
  assumes cond_id: "cond (s\<lparr>svc_ID := i\<rparr>) = cond s"
    and cond_created: "cond (s\<lparr>svc_CreatedAt := t\<rparr>) = cond s"
    and cond_updated: "cond (s\<lparr>svc_UpdatedAt := t\<rparr>) = cond s"
    and cond_pending: "svc_Status s = ServiceStatusPending \<Longrightarrow> svc_Credentials s = [] \<Longrightarrow> cond s"
begin

lemma holds_same: "same_tables d e \<Longrightarrow> services_hold cond d = services_hold cond e"
  by (simp add: services_hold_def same_tables_def)

lemma holds_exec:
  assumes "services_hold cond d" and "\<And>d x d'. services_hold cond d \<Longrightarrow> stmt d = Inr (x, d') \<Longrightarrow> services_hold cond d'"
  shows "services_hold cond (snd (exec stmt d))"
  using assms(1) holds_same assms(2) by (rule exec_invariant) auto

lemma holds_query_row: "query_row p f d = (r, d1) \<Longrightarrow> services_hold cond d \<Longrightarrow> services_hold cond d1"
  using holds_same query_row_same by blast

lemma GetService_holds: "GetService i d = (r, d1) \<Longrightarrow> services_hold cond d \<Longrightarrow> services_hold cond d1"
  unfolding GetService_def by (rule holds_query_row)

lemma GetService_cond:
  assumes "GetService i d = (Inr s, d1)" and "services_hold cond d"
  shows "cond s"
proof -
  have "services_hold cond d1" using GetService_holds assms by blast
  moreover have "s \<in> set (tbl_rows (db_services d1))"
    using query_row_cases [of "''get service''" "\<lambda>d. by_id svc_ID i (db_services d)" d "Inr s" d1] assms(1)
    by (auto simp: GetService_def dest!: services.by_id_Some)
  ultimately show ?thesis by (simp add: services_hold_def list_all_iff)
qed

lemma CreateService_holds:
  assumes "services_hold cond d" and "svc_Status s = ServiceStatusPending" and "svc_Credentials s = []"
  shows "services_hold cond (snd (CreateService s d))"
proof -
  have "cond (new_service_row s d0)" for d0
    by (rule cond_pending) (simp_all add: new_service_row_def assms)
  then have "services_hold cond (snd (exec (\<lambda>d. insert_into db_services db_services_update set_svc_id service_conflict (new_service_row s d) d) d))"
    using assms(1) by (intro holds_exec) (auto simp: insert_into_Inr services_hold_def set_svc_id_def cond_id)
  then show ?thesis by (simp add: CreateService_def wrapped_def split: prod.split sum.split)
qed

lemma UpdateService_holds: "services_hold cond d \<Longrightarrow> cond s \<Longrightarrow> services_hold cond (snd (UpdateService s d))"
  unfolding UpdateService_def snd_wrapped
  by (rule holds_exec)
     (auto simp: update_where_id_Inr services_hold_def updated_service_row_def list_all_iff cond_id cond_created cond_updated
       split: option.splits)

lemma DeleteService_holds: "services_hold cond d \<Longrightarrow> services_hold cond (snd (DeleteService i d))"
  unfolding DeleteService_def snd_wrapped by (rule holds_exec) (auto simp: services_hold_def list_all_iff)

lemma save_service_holds: "services_hold cond (w_db w) \<Longrightarrow> cond s \<Longrightarrow> services_hold cond (w_db (save_service s w))"
  by (simp add: save_service_def on_db_db UpdateService_holds)

end

section \<open>Services that can be used\<close>

text \<open>Credentials that are stored can be decrypted and decoded into the struct of the service's type;
  an active service has a container and credentials.\<close>

definition usable :: "outside \<Rightarrow> provisioner \<Rightarrow> service \<Rightarrow> bool" where
  "usable out p s \<longleftrightarrow>
     (svc_Credentials s \<noteq> [] \<longrightarrow> is_ok (DecryptCredentials out p s (svc_Type s))) \<and>
     (svc_Status s = ServiceStatusActive \<longrightarrow> svc_ContainerID s \<noteq> [] \<and> svc_Credentials s \<noteq> [])"

lemma usable_fields [simp]:
  "usable out p (s\<lparr>svc_ID := i\<rparr>) = usable out p s" "usable out p (s\<lparr>svc_CreatedAt := t\<rparr>) = usable out p s"
  "usable out p (s\<lparr>svc_UpdatedAt := t\<rparr>) = usable out p s"
  by (simp_all add: usable_def DecryptCredentials_def)

lemma usable_inactive:
  "usable out p s \<Longrightarrow> st \<noteq> ServiceStatusActive \<Longrightarrow> usable out p (s\<lparr>svc_Status := st\<rparr>)"
  "usable out p s \<Longrightarrow> st \<noteq> ServiceStatusActive \<Longrightarrow> usable out p (s\<lparr>svc_ContainerID := c, svc_Status := st\<rparr>)"
  by (simp_all add: usable_def DecryptCredentials_def)

interpretation rows: row_condition "usable out p" for out p
  by unfold_locales (simp_all add: usable_def DecryptCredentials_def)

text \<open>What the code relies on: AES-GCM opens what it sealed, random reads fill their buffer, the ids
  that the Docker daemon gives to containers are not empty.\<close>

definition names_containers :: "outside \<Rightarrow> bool" where
  "names_containers out \<longleftrightarrow> (\<forall>h spec i. o_create out h spec = Inr i \<longrightarrow> i \<noteq> [])"

definition sound_outside :: "outside \<Rightarrow> bool" where
  "sound_outside out \<longleftrightarrow> opens_sealed out \<and> fills_buffers out \<and> names_containers out"

lemma Decrypt_nonempty: "Decrypt out [] key = Inr x \<Longrightarrow> False"
proof -
  have "b64_decode [] = Some []" by code_simp
  then show "Decrypt out [] key = Inr x \<Longrightarrow> False" by (auto simp: Decrypt_def nonce_size_def split: if_splits)
qed

lemma create_and_start_id: "names_containers out \<Longrightarrow> create_and_start out spec w = (Inr i, w1) \<Longrightarrow> i \<noteq> []"
  by (auto simp: create_and_start_def names_containers_def perform_def Let_def split: prod.splits sum.splits)

lemma StartContainerWithConfig_id:
  "names_containers out \<Longrightarrow> StartContainerWithConfig out dc cfg w = (Inr i, w1) \<Longrightarrow> i \<noteq> []"
  by (auto simp: StartContainerWithConfig_def dest: create_and_start_id split: prod.splits sum.splits)

text \<open>Encrypting fitting credentials makes any inactive service usable.\<close>

definition fits :: "service \<Rightarrow> credentials option \<Rightarrow> bool" where
  "fits s creds \<longleftrightarrow> (\<exists>c. creds = Some c \<and> credentials_type c = svc_Type s \<and> port_fits c)"

lemma encrypted_readable:
  assumes "sound_outside out" and "fits s creds"
    and "Encrypt out (json_print (credentials_value creds)) (prov_encKey p) w = (Inr enc, w1)"
  shows "DecryptCredentials out p (s\<lparr>svc_Credentials := enc\<rparr>) (svc_Type s) = Inr (the creds) \<and> enc \<noteq> []"
proof -
  obtain c where c: "creds = Some c" "credentials_type c = svc_Type s" "port_fits c" using assms(2) by (auto simp: fits_def)
  have "Decrypt out enc (prov_encKey p) = Inr (json_print (credentials_json c))"
    using decrypt_encrypted assms(1,3) c(1) by (auto simp: sound_outside_def credentials_value_def)
  moreover from this have "enc \<noteq> []" using Decrypt_nonempty by blast
  moreover have "unmarshal_credentials (svc_Type s) (json_print (credentials_json c)) = Inr c"
    using unmarshal_marshal_credentials [OF c(3)] c(2) by simp
  ultimately show ?thesis using c(1) by (simp add: DecryptCredentials_def)
qed

section \<open>What the calls of the provisioner leave in the database\<close>

lemma make_dir_db: "make_dir out d w = (r, w1) \<Longrightarrow> w_db w1 = w_db w"
  by (auto simp: make_dir_def perform_def Let_def)

lemma write_garage_config_db: "write_garage_config out v c w = (r, w1) \<Longrightarrow> w_db w1 = w_db w"
proof -
  have "w_db (snd (write_garage_config out v c w)) = w_db w"
    by (simp add: write_garage_config_def frame Let_def)
  then show "write_garage_config out v c w = (r, w1) \<Longrightarrow> w_db w1 = w_db w" by simp
qed

lemma calls_db: "calls L w w1 \<Longrightarrow> w_db w1 = w_db w"
  by (simp add: calls_def)

lemma garage_files_db: "garage_files out v s c w = (r, w1) \<Longrightarrow> w_db w1 = w_db w"
proof -
  have "w_db (snd (make_dir out d w0)) = w_db w0" for d w0 using make_dir_db surjective_pairing by metis
  then show "garage_files out v s c w = (r, w1) \<Longrightarrow> w_db w1 = w_db w"
    by (auto simp: garage_files_def Let_def dest!: write_garage_config_db
        split: if_splits option.splits credentials.splits prod.splits sum.splits)
qed

lemma PullImage_db: "PullImage out i w = (r, w1) \<Longrightarrow> w_db w1 = w_db w"
  using PullImage_calls [of out i w r w1 "\<lambda>_. True"] calls_db by blast

lemma StopAndRemove_db: "w_db (snd (StopAndRemove out n w)) = w_db w"
  using StopAndRemove_calls [of out n w _ _ "\<lambda>_. True"] calls_db surjective_pairing by metis

lemma StartContainerWithConfig_db: "StartContainerWithConfig out dc cfg w = (r, w1) \<Longrightarrow> w_db w1 = w_db w"
  using StartContainerWithConfig_calls calls_db by blast

lemma Encrypt_db: "Encrypt out t k w = (r, w1) \<Longrightarrow> w_db w1 = w_db w"
  by (auto simp: Encrypt_def random_bytes_def perform_def Let_def split: if_splits prod.splits sum.splits)

lemma GarageAdminURL_db: "GarageAdminURL out s w = (r, w1) \<Longrightarrow> w_db w1 = w_db w"
  by (auto simp: GarageAdminURL_def Inspect_def perform_def Let_def split: prod.splits sum.splits list.splits)

lemma create_bucket_attempts_db: "create_bucket_attempts out c ctx n k w = (r, w1) \<Longrightarrow> w_db w1 = w_db w"
proof (induction k arbitrary: w)
  case (Suc k)
  then show ?case by (auto dest!: CreateBucket_calls calls_db split: prod.splits sum.splits)
qed simp

lemma ensure_layout_db: "w_db (ensure_layout out c ctx w) = w_db w"
  using ConfigureSingleNodeLayout_calls calls_db
  by (auto simp: ensure_layout_def dest!: IsClusterConfigured_calls calls_db split: prod.splits sum.splits)
     (metis surjective_pairing)

lemma EncryptCredentials_db: "EncryptCredentials out p s c w = (r, w1) \<Longrightarrow> w_db w1 = w_db w"
  by (auto simp: EncryptCredentials_def dest: Encrypt_db split: prod.splits sum.splits)

lemmas keeps_db =
  make_dir_db garage_files_db PullImage_db StartContainerWithConfig_db EncryptCredentials_db GarageAdminURL_db
  create_bucket_attempts_db

section \<open>Every operation keeps services usable\<close>

abbreviation all_usable :: "outside \<Rightarrow> provisioner \<Rightarrow> world \<Rightarrow> bool" where
  "all_usable out p w \<equiv> services_hold (usable out p) (w_db w)"

lemma UpdateService_usable:
  "on_db (UpdateService s) w = (r, w1) \<Longrightarrow> all_usable out p w \<Longrightarrow> usable out p s \<Longrightarrow> all_usable out p w1"
  using rows.UpdateService_holds [of out p "w_db w" s] by (auto simp: on_db_pair)

text \<open>Credentials that are encrypted for the service and have not been touched since.\<close>

definition ready :: "outside \<Rightarrow> provisioner \<Rightarrow> service \<Rightarrow> bool" where
  "ready out p s \<longleftrightarrow> svc_Credentials s \<noteq> [] \<and> is_ok (DecryptCredentials out p s (svc_Type s))"

lemma ready_fields [simp]:
  "ready out p (s\<lparr>svc_Status := st\<rparr>) = ready out p s" "ready out p (s\<lparr>svc_ContainerID := c\<rparr>) = ready out p s"
  "ready out p (s\<lparr>svc_ContainerID := c, svc_Status := st\<rparr>) = ready out p s"
  by (simp_all add: ready_def DecryptCredentials_def)

lemma usable_ready:
  "ready out p s \<Longrightarrow> svc_Status s \<noteq> ServiceStatusActive \<or> svc_ContainerID s \<noteq> [] \<Longrightarrow> usable out p s"
  by (auto simp: ready_def usable_def)

lemma mark_error_usable:
  assumes "mark_error s e w = (r, s1, w1)" and "all_usable out p w" and "usable out p s"
  shows "all_usable out p w1"
  using assms rows.save_service_holds [of out p w "s\<lparr>svc_Status := ServiceStatusError\<rparr>"]
  by (auto simp: mark_error_def Let_def usable_inactive)

lemma start_service_container_usable:
  assumes "names_containers out" and "start_service_container out dc f s cfg w = (r, s1, w1)"
    and "all_usable out p w" and "ready out p s" and "svc_Status s \<noteq> ServiceStatusActive"
  shows "all_usable out p w1" and "\<exists>c st. s1 = s\<lparr>svc_ContainerID := c, svc_Status := st\<rparr> \<and> usable out p s1"
proof -
  obtain w2 where w2: "snd (StopAndRemove out (svc_container (svc_Name s)) w) = w2" "w_db w2 = w_db w"
    using StopAndRemove_db by blast
  obtain x w3 where x: "StartContainerWithConfig out dc cfg w2 = (x, w3)" by fastforce
  have w3: "all_usable out p w3" using StartContainerWithConfig_db [OF x] w2 assms(3) by simp
  have us: "usable out p s" using assms(4,5) usable_ready by blast
  have "all_usable out p w1 \<and> (\<exists>c st. s1 = s\<lparr>svc_ContainerID := c, svc_Status := st\<rparr> \<and> usable out p s1)"
  proof (cases x)
    case (Inl e)
    then have m: "mark_error s (Wrap ''start container'' e) w3 = (r, s1, w1)"
      using assms(2) x w2 by (simp add: start_service_container_def Let_def)
    then have "s1 = s\<lparr>svc_ContainerID := svc_ContainerID s, svc_Status := ServiceStatusError\<rparr>"
      by (auto simp: mark_error_def Let_def)
    moreover have "usable out p (s\<lparr>svc_Status := ServiceStatusError\<rparr>)" using us usable_inactive(1) by blast
    ultimately show ?thesis using mark_error_usable [OF m w3 us] by fastforce
  next
    case (Inr i)
    let ?s = "s\<lparr>svc_ContainerID := i, svc_Status := ServiceStatusActive\<rparr>"
    obtain y where u: "on_db (UpdateService ?s) w3 = (y, w1)" and s1: "s1 = ?s"
      using assms(2) x w2 Inr by (auto simp: start_service_container_def Let_def split: prod.splits)
    have "usable out p ?s"
      using StartContainerWithConfig_id [OF assms(1) x [unfolded Inr]] assms(4) by (intro usable_ready) simp_all
    then show ?thesis using UpdateService_usable [OF u w3] s1 by blast
  qed
  then show "all_usable out p w1" and "\<exists>c st. s1 = s\<lparr>svc_ContainerID := c, svc_Status := st\<rparr> \<and> usable out p s1" by blast+
qed

text \<open>A service whose credentials are encrypted anew.\<close>

lemma EncryptCredentials_usable:
  assumes "sound_outside out" and "credentials_type c = svc_Type s" and "port_fits c"
    and "EncryptCredentials out p s c w = (Inr s1, w1)" and "svc_Status s = ServiceStatusActive \<longrightarrow> svc_ContainerID s \<noteq> []"
  shows "usable out p s1" and "w_db w1 = w_db w"
proof -
  obtain enc where e: "Encrypt out (json_print (credentials_json c)) (prov_encKey p) w = (Inr enc, w1)"
    and s1: "s1 = s\<lparr>svc_Credentials := enc\<rparr>"
    using assms(4) by (auto simp: EncryptCredentials_def split: prod.splits sum.splits)
  have "DecryptCredentials out p s1 (svc_Type s) = Inr c \<and> enc \<noteq> []"
    using encrypted_readable [OF assms(1), of s "Some c" p w enc w1] assms(2,3) e
    by (simp add: fits_def credentials_value_def s1)
  then show "usable out p s1" using assms(5) by (auto simp: usable_def s1)
  show "w_db w1 = w_db w" using Encrypt_db [OF e] .
qed

text \<open>The default bucket of a Garage service encrypts the credentials once more.\<close>

lemma default_bucket_usable:
  assumes "sound_outside out" and "default_bucket out p ctx s creds w = (s1, w1)"
    and "all_usable out p w" and "fits s creds" and "svc_Status s = ServiceStatusActive \<longrightarrow> svc_ContainerID s \<noteq> []"
  shows "all_usable out p w1"
proof -
  have enc: "w_db w4 = w_db w3 \<and> (\<forall>s2. r = Inr s2 \<longrightarrow> creds = Some c \<longrightarrow> s' = s \<longrightarrow> w_db w3 = w_db w \<longrightarrow>
      all_usable out p (save_service s2 w4))"
    if "EncryptCredentials out p s' c w3 = (r, w4)" for r c s' w3 w4
    using EncryptCredentials_usable [OF assms(1) _ _ _ assms(5)] rows.save_service_holds [of out p w4]
      EncryptCredentials_db [OF that(1)] assms(3,4) that by (auto simp: fits_def)
  show ?thesis
    using assms(2,3)
    by (auto simp: default_bucket_def Let_def ensure_layout_db
        dest!: GarageAdminURL_db create_bucket_attempts_db WaitForReady_calls [THEN calls_db] enc
        split: option.splits credentials.splits if_splits prod.splits sum.splits)
qed

text \<open>Provisioning: the two parts of \<open>ProvisionService\<close>.\<close>

lemma provision_begin_usable:
  assumes "sound_outside out" and "provision_begin out p s creds w = (r, s1, w1)"
    and "all_usable out p w" and "svc_Credentials s = []" and "fits s creds"
  shows "all_usable out p w1" and "fits s1 creds" and "is_ok r \<Longrightarrow> ready out p s1 \<and> svc_Status s1 = ServiceStatusProvisioning"
proof -
  let ?s = "s\<lparr>svc_Status := ServiceStatusProvisioning\<rparr>"
  obtain x w2 where x: "on_db (UpdateService ?s) w = (x, w2)" by fastforce
  have "usable out p ?s" using assms(4) by (simp add: usable_def)
  then have w2: "all_usable out p w2" using UpdateService_usable [OF x assms(3)] by blast
  have f: "fits ?s creds" using assms(5) by (simp add: fits_def)
  obtain y w3 where y: "Encrypt out (json_print (credentials_value creds)) (prov_encKey p) w2 = (y, w3)" by fastforce
  have "all_usable out p w1 \<and> fits s1 creds \<and> (is_ok r \<longrightarrow> ready out p s1 \<and> svc_Status s1 = ServiceStatusProvisioning)"
    using assms(2) x y w2 f Encrypt_db [OF y] encrypted_readable [OF assms(1) f, of p w2 _ w3]
    by (auto simp: provision_begin_def Let_def fits_def ready_def split: sum.splits)
  then show "all_usable out p w1" "fits s1 creds" "is_ok r \<Longrightarrow> ready out p s1 \<and> svc_Status s1 = ServiceStatusProvisioning"
    by blast+
qed

lemma provision_container_usable:
  assumes "sound_outside out" and "provision_container out dc p ctx s creds w = (r, s1, w1)"
    and "all_usable out p w" and "fits s creds" and "ready out p s" and "svc_Status s \<noteq> ServiceStatusActive"
  shows "all_usable out p w1"
proof -
  have n: "names_containers out" using assms(1) by (simp add: sound_outside_def)
  have u: "usable out p s" using assms(5,6) usable_ready by blast
  have start: "all_usable out p w5"
    if st: "start_service_container out dc g s cfg w3 = (x, s2, w4)" and w3: "w_db w3 = w_db w"
      and w5: "w5 = w4 \<or> (\<exists>s3. default_bucket out p ctx s2 creds w4 = (s3, w5))" for g cfg w3 x s2 w4 w5
  proof -
    have w3: "all_usable out p w3" using assms(3) w3 by simp
    obtain c st where "s2 = s\<lparr>svc_ContainerID := c, svc_Status := st\<rparr>" and "usable out p s2"
      using start_service_container_usable(2) [OF n st w3 assms(5,6)] by blast
    then have "fits s2 creds" and "svc_Status s2 = ServiceStatusActive \<longrightarrow> svc_ContainerID s2 \<noteq> []"
      using assms(4) by (auto simp: fits_def usable_def)
    then show ?thesis
      using w5 default_bucket_usable [OF assms(1)] start_service_container_usable(1) [OF n st w3 assms(5,6)] by blast
  qed
  have err: "all_usable out p w3" if "mark_error s e w2 = (x, s2, w3)" and "w_db w2 = w_db w" for e w2 x s2 w3
    using mark_error_usable [OF that(1) _ u] assms(3) that(2) by simp
  show ?thesis
    using assms(2,3)
    by (auto simp: provision_container_def Let_def dest!: make_dir_db garage_files_db PullImage_db
        split: prod.splits sum.splits elim: start err)
qed

text \<open>The work of the goroutine, when the credentials are not cleared under it.\<close>

definition fresh_job :: "service_job \<Rightarrow> bool" where
  "fresh_job j \<longleftrightarrow> svc_Credentials (sj_Service j) = [] \<and> fits (sj_Service j) (sj_Creds j)"

lemma provision_shared_usable:
  assumes "sound_outside out" and "provision_shared out dc p False s creds w = (r, s1, w1)"
    and "all_usable out p w" and "svc_Credentials s = []" and "fits s creds"
  shows "all_usable out p w1"
proof -
  obtain x s2 w2 where b: "provision_begin out p s creds w = (x, s2, w2)" by (metis prod_cases3)
  note start = provision_begin_usable [OF assms(1) b assms(3,4,5)]
  show ?thesis
  proof (cases x)
    case (Inl e)
    then show ?thesis using assms(2) b start(1) by (simp add: provision_shared_def)
  next
    case (Inr u)
    then have c: "provision_container out dc p BackgroundContext s2 creds w2 = (r, s1, w1)"
      using assms(2) b by (simp add: provision_shared_def)
    have "ready out p s2" and "svc_Status s2 \<noteq> ServiceStatusActive" using start(3) Inr by simp_all
    then show ?thesis using provision_container_usable [OF assms(1) c start(1,2)] by blast
  qed
qed

lemma ProvisionService_shared: "ProvisionService out dc p BackgroundContext s creds w = provision_shared out dc p False s creds w"
  by (auto simp: ProvisionService_def provision_shared_def split: prod.split sum.split)

lemma random_string_db: "random_string out cs k w = (s, w1) \<Longrightarrow> w_db w1 = w_db w"
  by (induction k arbitrary: w s w1) (auto simp: random_char_def Let_def split: prod.splits)

lemma generators_db:
  "GeneratePassword out n w = (s, w1) \<Longrightarrow> w_db w1 = w_db w"
  "GenerateAccessKey out n w = (s, w1) \<Longrightarrow> w_db w1 = w_db w"
  "GenerateRPCSecret out w = (s, w1) \<Longrightarrow> w_db w1 = w_db w"
  "GenerateServiceName out ty w = (s, w1) \<Longrightarrow> w_db w1 = w_db w"
  by (auto simp: GeneratePassword_def GenerateAccessKey_def GenerateServiceName_def GenerateRPCSecret_def random_bytes_def
      perform_def Let_def dest: random_string_db split: prod.splits sum.splits)

lemma CreateService_usable:
  assumes "on_db (CreateService s) w = (r, w1)" and "all_usable out p w"
    and "svc_Status s = ServiceStatusPending" and "svc_Credentials s = []"
  shows "all_usable out p w1"
  using rows.CreateService_holds [OF assms(2-4)] assms(1) by (auto simp: on_db_pair)

lemma CreateService_Inr:
  assumes "on_db (CreateService s) w = (Inr s1, w1)"
  shows "svc_Type s1 = svc_Type s \<and> svc_Credentials s1 = svc_Credentials s \<and> svc_Name s1 = svc_Name s"
  using assms by (auto simp: on_db_pair CreateService_def wrapped_def new_service_row_def exec_def insert_into_Inr set_svc_id_def
      split: prod.splits sum.splits if_splits)

lemma created_and_provisioned:
  assumes "sound_outside out" and "on_db (CreateService s) w = (Inr s1, w1)" and "all_usable out p w"
    and "svc_Status s = ServiceStatusPending" and "svc_Credentials s = []" and "fits s creds"
  shows "all_usable out p (snd (snd (provision_shared out dc p False s1 creds w1)))"
proof -
  obtain r s2 w2 where run: "provision_shared out dc p False s1 creds w1 = (r, s2, w2)" by (metis prod_cases3)
  have "svc_Credentials s1 = []" and "fits s1 creds" using CreateService_Inr [OF assms(2)] assms(5,6) by (simp_all add: fits_def)
  then show ?thesis
    using provision_shared_usable [OF assms(1) run CreateService_usable [OF assms(2-5)]] run by simp
qed

lemma webui_sidecar_usable:
  assumes "sound_outside out" and "all_usable out p w"
  shows "all_usable out p (webui_sidecar out dc p name token w)"
proof -
  obtain d where d: "ServiceDefinitions ServiceGarageWebUI = Some d" by simp
  let ?s = "pending_service (name @ ''-webui'') ServiceGarageWebUI (def_DefaultImage d) (def_Port d)"
  obtain pw w1 where pw: "GeneratePassword out 16 w = (pw, w1)" by fastforce
  obtain r w2 where create: "on_db (CreateService ?s) w1 = (r, w2)" by fastforce
  have w1: "all_usable out p w1" using generators_db(1) [OF pw] assms(2) by simp
  have p: "svc_Status ?s = ServiceStatusPending" "svc_Credentials ?s = []" by (simp_all add: pending_service_def)
  have f: "fits ?s (Some (GarageWebUICredentials a b token c e))" for a b c e
    by (simp add: fits_def port_fits_def pending_service_def)
  show ?thesis
  proof (cases r)
    case (Inl e)
    then show ?thesis
      using CreateService_usable [OF create w1 p] pw create d by (simp add: webui_sidecar_def Let_def del: ServiceDefinitions.simps)
  next
    case (Inr s1)
    then show ?thesis
      using created_and_provisioned [OF assms(1) create [unfolded Inr] w1 p f] pw create d
      by (simp add: webui_sidecar_def Let_def ProvisionService_shared del: ServiceDefinitions.simps)
  qed
qed

lemma run_service_job_usable:
  assumes "sound_outside out" and "all_usable out p w" and "fresh_job j"
  shows "all_usable out p (run_service_job out dc p False j w)"
proof -
  obtain r s w1 where run: "provision_shared out dc p False (sj_Service j) (sj_Creds j) w = (r, s, w1)" by (metis prod_cases3)
  have "all_usable out p w1"
    using provision_shared_usable [OF assms(1) run assms(2)] assms(3) by (simp add: fresh_job_def)
  then show ?thesis
    using run webui_sidecar_usable [OF assms(1)]
    by (auto simp: run_service_job_def split: option.split credentials.split)
qed

section \<open>The handlers\<close>

lemma made_credentials:
  "DefaultCredentials out ty n w = (c, w1) \<Longrightarrow> ServiceDefinitions ty \<noteq> None \<Longrightarrow>
     w_db w1 = w_db w \<and> (\<forall>s. svc_Type s = ty \<longrightarrow> fits s c)"
  "buildCredsFromMap out ty m n w = (c, w1) \<Longrightarrow> ServiceDefinitions ty \<noteq> None \<Longrightarrow>
     w_db w1 = w_db w \<and> (\<forall>s. svc_Type s = ty \<longrightarrow> fits s c)"
  by (cases ty; auto simp: fits_def port_fits_def max_int64_def Let_def dest!: generators_db split: prod.splits)+

lemma ServiceCreate_usable:
  assumes "ServiceCreate out body w = (a, j, w1)" and "all_usable out p w"
  shows "all_usable out p w1 \<and> (\<forall>x. j = Some x \<longrightarrow> fresh_job x)"
proof -
  have create: "all_usable out p w3 \<and> (\<forall>s1. r = Inr s1 \<longrightarrow> fresh_job \<lparr>sj_Service = s1, sj_Creds = c\<rparr>)"
    if "on_db (CreateService (pending_service n ty i k)) w2 = (r, w3)" and "w_db w2 = w_db w"
      and "\<forall>s. svc_Type s = ty \<longrightarrow> fits s c" for n ty i k w2 r w3 c
    using CreateService_usable [OF that(1)] that assms(2)
    by (auto simp: pending_service_def fresh_job_def fits_def dest!: CreateService_Inr)
  show ?thesis
    using assms
    by (auto simp: ServiceCreate_def Let_def dest!: create made_credentials generators_db split: prod.splits sum.splits option.splits if_splits)
qed

lemma with_service_usable:
  assumes "with_service param f w = (a, w1)" and "all_usable out p w"
    and "\<And>s w2. usable out p s \<Longrightarrow> all_usable out p w2 \<Longrightarrow> f s w2 = (a, w1) \<Longrightarrow> all_usable out p w1"
  shows "all_usable out p w1"
proof (cases "parse_int64 param")
  case None
  then show ?thesis using assms(1,2) by (simp add: with_service_def)
next
  case (Some i)
  obtain r w2 where get: "on_db (GetService i) w = (r, w2)" by fastforce
  then have g: "GetService i (w_db w) = (r, w_db w2)" by (auto simp: on_db_pair)
  have w2: "all_usable out p w2" using rows.GetService_holds [OF g assms(2)] .
  show ?thesis
  proof (cases r)
    case (Inl e)
    then show ?thesis using assms(1) Some get w2 by (simp add: with_service_def)
  next
    case (Inr s)
    then show ?thesis
      using assms(1) Some get assms(3) [OF rows.GetService_cond [OF g [unfolded Inr] assms(2)] w2] by (simp add: with_service_def)
  qed
qed

lemma ServiceStop_usable: "ServiceStop out param w = (a, w1) \<Longrightarrow> all_usable out p w \<Longrightarrow> all_usable out p w1"
  unfolding ServiceStop_def
proof (erule with_service_usable, assumption)
  fix s w2
  assume s: "usable out p s" and w2: "all_usable out p w2" and run: "service_answer (StopService out s w2) = (a, w1)"
  have "all_usable out p w4"
    if "on_db (UpdateService (s\<lparr>svc_ContainerID := [], svc_Status := ServiceStatusStopped\<rparr>))
          (snd (StopAndRemove out (svc_container (svc_Name s)) w2)) = (r, w4)" for r w4
    using UpdateService_usable [OF that] usable_inactive(2) [OF s] w2 by (simp add: StopAndRemove_db)
  then show "all_usable out p w1"
    using run w2 by (auto simp: service_answer_def StopService_def Let_def split: if_splits prod.splits sum.splits)
qed

lemma rewrite_garage_config_db: "w_db (rewrite_garage_config out v s c w) = w_db w"
  by (simp add: rewrite_garage_config_def write_garage_config_db [OF surjective_pairing] split: credentials.split)

lemma ServiceStart_usable:
  assumes "sound_outside out" and "ServiceStart out dc p param w = (a, w1)" and "all_usable out p w"
  shows "all_usable out p w1"
  using assms(2,3) unfolding ServiceStart_def
proof (rule with_service_usable)
  fix s w2
  assume s: "usable out p s" and w2: "all_usable out p w2" and run: "service_answer (StartService out dc p s w2) = (a, w1)"
  have n: "names_containers out" using assms(1) by (simp add: sound_outside_def)
  have "all_usable out p w4"
    if "Decrypt out (svc_Credentials s) (prov_encKey p) = Inr t" and "svc_Status s \<noteq> ServiceStatusActive"
      and "start_service_container out dc id s cfg w3 = (r, s1, w4)" and "w_db w3 = w_db w2" for t cfg w3 r s1 w4
  proof -
    have "ready out p s" using s that(1) by (auto simp: ready_def usable_def dest: Decrypt_nonempty)
    then show ?thesis using start_service_container_usable(1) [OF n that(3) _ _ that(2)] w2 that(4) by simp
  qed
  then show "all_usable out p w1"
    using run w2
    by (auto simp: service_answer_def StartService_def Let_def rewrite_garage_config_db
        split: if_splits prod.splits sum.splits)
qed

lemma ServiceDelete_usable: "ServiceDelete out param w = (a, w1) \<Longrightarrow> all_usable out p w \<Longrightarrow> all_usable out p w1"
proof -
  have "all_usable out p (snd (RemoveService out i w))" if "all_usable out p w" for i
  proof -
    obtain r w2 where get: "on_db (GetService i) w = (r, w2)" by fastforce
    then have "GetService i (w_db w) = (r, w_db w2)" by (auto simp: on_db_pair)
    then have "all_usable out p w2" using rows.GetService_holds that by blast
    then show ?thesis
      using get rows.DeleteService_holds by (cases r) (simp_all add: RemoveService_def on_db_db StopAndRemove_db)
  qed
  then show "ServiceDelete out param w = (a, w1) \<Longrightarrow> all_usable out p w \<Longrightarrow> all_usable out p w1"
    by (auto simp: ServiceDelete_def split: option.splits prod.splits sum.splits) (metis snd_conv)+
qed

lemma BucketCreate_usable:
  assumes "sound_outside out" and "BucketCreate out p param body w = (a, w1)" and "all_usable out p w"
  shows "all_usable out p w1"
  using assms(2,3) unfolding BucketCreate_def with_garage_api_def with_garage_service_def
proof (rule with_service_usable)
  fix s w2
  assume s: "usable out p s" and w2: "all_usable out p w2"
    and run: "(if svc_Type s \<noteq> ServiceGarage then (Failed 400 ''not a garage service'', w2)
       else case DecryptCredentials out p s ServiceGarage of Inl e \<Rightarrow> (Failed 500 ''decrypt failed'', w2)
         | Inr gc \<Rightarrow>
             (case bucket_name body of Inl m \<Rightarrow> (Failed 400 m, w2)
              | Inr q \<Rightarrow>
                  (case GarageAdminURL out s w2 of
                     (Inl e, w1) \<Rightarrow> (Failed 502 (''resolve garage: '' @ error_text e), w1)
                   | (Inr url, w1) \<Rightarrow>
                       (case CreateBucket out \<lparr>gc_adminURL = url, gc_adminToken = gc_AdminToken gc\<rparr> RequestContext q w1 of
                          (Inl e, w1) \<Rightarrow> (garage_api_failed e, w1)
                        | (Inr b, w1) \<Rightarrow> (Answer 201 b, remember_bucket out p s gc b w1))))) = (a, w1)"
  have store: "all_usable out p (remember_bucket out p s gc b w3)"
    if "svc_Type s = ServiceGarage" and "w_db w3 = w_db w2" for gc b w3
  proof -
    have "all_usable out p (save_service s1 w4)" and "w_db w4 = w_db w2"
      if "EncryptCredentials out p s (GarageCredentials e r k t l d c) w3 = (Inr s1, w4)" for e r k t l d c s1 w4
      using EncryptCredentials_usable [OF assms(1) _ _ that] EncryptCredentials_db [OF that] s w2
        \<open>svc_Type s = ServiceGarage\<close> \<open>w_db w3 = w_db w2\<close> rows.save_service_holds
      by (auto simp: port_fits_def usable_def)
    then show ?thesis
      using w2 that(2) by (auto simp: remember_bucket_def dest: EncryptCredentials_db
          split: credentials.split list.split prod.split sum.split)
  qed
  show "all_usable out p w1"
    using run w2
    by (auto dest!: GarageAdminURL_db CreateBucket_calls [THEN calls_db] intro!: store
        split: if_splits prod.splits sum.splits)
qed

section \<open>Requests and jobs in any order\<close>

datatype service_request =
  CreateRequest string | DeleteRequest string | StopRequest string | StartRequest string | BucketRequest string string

fun serve_service ::
  "outside \<Rightarrow> docker_client \<Rightarrow> provisioner \<Rightarrow> service_request \<Rightarrow> world \<Rightarrow> service_job list \<times> world" where
  "serve_service out dc p (CreateRequest body) w =
     (case ServiceCreate out body w of (a, j, w1) \<Rightarrow> (case j of None \<Rightarrow> [] | Some x \<Rightarrow> [x], w1))"
| "serve_service out dc p (DeleteRequest i) w = ([], snd (ServiceDelete out i w))"
| "serve_service out dc p (StopRequest i) w = ([], snd (ServiceStop out i w))"
| "serve_service out dc p (StartRequest i) w = ([], snd (ServiceStart out dc p i w))"
| "serve_service out dc p (BucketRequest i body) w = ([], snd (BucketCreate out p i body w))"

text \<open>A request is answered, or one of the jobs that earlier requests have left runs.\<close>

inductive service_step ::
  "outside \<Rightarrow> docker_client \<Rightarrow> provisioner \<Rightarrow> world \<times> service_job list \<Rightarrow> world \<times> service_job list \<Rightarrow> bool"
  for out dc p where
  request: "serve_service out dc p r w = (new, w1) \<Longrightarrow> service_step out dc p (w, js) (w1, js @ new)"
| job: "j \<in> set js \<Longrightarrow> service_step out dc p (w, js) (run_service_job out dc p False j w, remove1 j js)"

lemma serve_service_usable:
  assumes "sound_outside out" and "all_usable out p w" and "serve_service out dc p r w = (new, w1)"
  shows "all_usable out p w1 \<and> list_all fresh_job new"
  using assms(2,3) ServiceCreate_usable ServiceDelete_usable ServiceStop_usable
    ServiceStart_usable [OF assms(1)] BucketCreate_usable [OF assms(1)]
  by (cases r) (auto split: prod.splits option.splits, (metis surjective_pairing)+)

lemma service_step_usable:
  assumes "sound_outside out" and "service_step out dc p c d" and "all_usable out p (fst c) \<and> list_all fresh_job (snd c)"
  shows "all_usable out p (fst d) \<and> list_all fresh_job (snd d)"
  using assms(2)
proof cases
  case (request r w new w1 js)
  then show ?thesis using serve_service_usable [OF assms(1)] assms(3) by fastforce
next
  case (job j js w)
  then have "fresh_job j" using assms(3) by (simp add: list_all_iff)
  moreover have "set (remove1 j js) \<subseteq> set js" by (rule set_remove1_subset)
  ultimately show ?thesis
    using job assms(3) run_service_job_usable [OF assms(1)] by (auto simp: list_all_iff)
qed


definition cache_request :: string where
  "cache_request = json_print (JObj [(''name'', JStr ''cache''), (''type'', JStr ''redis'')])"

lemma cache_request_created:
  "\<exists>j w1. serve_service calm_outside dc p (CreateRequest cache_request) sample_world = ([j], w1) \<and>
     tbl_rows (db_services (w_db w1)) \<noteq> [] \<and> sj_Creds j \<noteq> None"
proof -
  have "body_members cache_request = Some [(''name'', JStr ''cache''), (''type'', JStr ''redis'')]"
    using Decode_print [of "JObj [(''name'', JStr ''cache''), (''type'', JStr ''redis'')]" "[]"]
    by (simp add: cache_request_def body_members_def json_object_def ends_number_def del: json_print.simps)
  then have "decode_create_service cache_request = Some \<lparr>cs_Name = ''cache'', cs_Type = ServiceRedis, cs_Creds = None\<rparr>"
    by (simp add: decode_create_service_def string_field_def field_values_def equal_fold_def to_upper_def to_upper_char_def service_type_of_def)
  moreover obtain pw w1 where pw: "GeneratePassword calm_outside 24 sample_world = (pw, w1)" by fastforce
  moreover have "w_db w1 = empty_db 0" using generators_db(1) [OF pw] by (simp add: sample_world_def)
  ultimately show ?thesis
    by (simp add: ServiceCreate_def pending_service_def CreateService_def on_db_pair empty_db_def exec_no_oracle
        empty_table_def wrapped_def insert_into_def service_conflict_def tbl_insert_def fk_ok_def set_svc_id_def new_service_row_def Let_def
        split: prod.split)
qed


end
