(* ===== verification/Service_Races.thy ===== *)
theory Service_Races
  imports Service_Claims Engine_Requests
begin

text \<open>
  Where the parts of the program share more than they should: the service that
  \<open>handlers/service.go\<close> hands to its goroutine, and the names of containers.
\<close>

section \<open>Credentials cleared under the provisioner\<close>

abbreviation service_row :: "int \<Rightarrow> world \<Rightarrow> service option" where
  "service_row i w \<equiv> by_id svc_ID i (db_services (w_db w))"

lemma UpdateService_row:
  assumes "on_db (UpdateService s) w = (Inr u, w1)" and "service_row (svc_ID s) w \<noteq> None"
  shows "\<exists>c t. service_row (svc_ID s) w1 = Some (s\<lparr>svc_CreatedAt := c, svc_UpdatedAt := t\<rparr>)"
proof -
  let ?stmt = "\<lambda>d. update_where_id db_services db_services_update svc_ID service_conflict (svc_ID s)
                    (updated_service_row s (current_timestamp d)) d"
  have "exec ?stmt (w_db w) = (Inr u, w_db w1)"
    using assms(1) by (auto simp: on_db_pair UpdateService_def wrapped_def intro: prod_eqI split: prod.splits sum.splits)
  then obtain d where d: "next_stmt (w_db w) = (None, d)" and run: "?stmt d = Inr (u, w_db w1)"
    by (auto dest!: exec_ok)
  have "db_services d = db_services (w_db w)" using next_stmt_tables [OF d] by simp
  then obtain r where "by_id svc_ID (svc_ID s) (db_services d) = Some r" using assms(2) by auto
  then show ?thesis
    using run services.by_id_Some [of "svc_ID s"] by (auto simp: update_where_id_Inr updated_service_row_def services.by_id_update split: option.splits)
qed

lemma UpdateService_has_row:
  assumes "on_db (UpdateService s) w = (Inr u, w1)" and "service_row (svc_ID s) w \<noteq> None"
  shows "service_row (svc_ID s) w1 \<noteq> None"
  using UpdateService_row [OF assms] by auto

text \<open>Without a default bucket, a provisioning that succeeds ends with the update that makes the
  service active.\<close>

lemma provision_container_row:
  assumes "sound_outside out" and "provision_container out dc p ctx s creds w = (Inr u, s1, w1)"
    and "svc_Type s \<noteq> ServiceGarage" and "service_row (svc_ID s) w \<noteq> None"
  shows "\<exists>row. service_row (svc_ID s) w1 = Some row \<and> svc_Status row = ServiceStatusActive \<and> svc_ContainerID row \<noteq> [] \<and>
    svc_Credentials row = svc_Credentials s"
proof -
  have n: "names_containers out" using assms(1) by (simp add: sound_outside_def)
  have bucket: "default_bucket out p ctx s2 creds w2 = (s2, w2)" if "svc_Type s2 \<noteq> ServiceGarage" for s2 w2
    using that by (simp add: default_bucket_def split: option.split credentials.split)
  have start: "w_db w2 = w_db w \<longrightarrow> svc_Type s2 = svc_Type s \<and>
      (\<exists>row. service_row (svc_ID s) w3 = Some row \<and> svc_Status row = ServiceStatusActive \<and> svc_ContainerID row \<noteq> [] \<and>
         svc_Credentials row = svc_Credentials s)"
    if run: "start_service_container out dc (wrap_err t) s cfg w2 = (Inr v, s2, w3)" for t cfg w2 v s2 w3
  proof
    assume w2: "w_db w2 = w_db w"
    obtain i w4 y where i: "StartContainerWithConfig out dc cfg (snd (StopAndRemove out (svc_container (svc_Name s)) w2)) = (Inr i, w4)"
      and up: "on_db (UpdateService (s\<lparr>svc_ContainerID := i, svc_Status := ServiceStatusActive\<rparr>)) w4 = (Inr y, w3)"
      and s2: "s2 = s\<lparr>svc_ContainerID := i, svc_Status := ServiceStatusActive\<rparr>"
      using run by (auto simp: start_service_container_def mark_error_def Let_def wrap_err_def split: prod.splits sum.splits)
    have "w_db w4 = w_db w" using StartContainerWithConfig_db [OF i] w2 by (simp add: StopAndRemove_db)
    then show "svc_Type s2 = svc_Type s \<and> (\<exists>row. service_row (svc_ID s) w3 = Some row \<and> svc_Status row = ServiceStatusActive \<and>
        svc_ContainerID row \<noteq> [] \<and> svc_Credentials row = svc_Credentials s)"
      using UpdateService_row [OF up] StartContainerWithConfig_id [OF n i] assms(4) s2 by auto
  qed
  show ?thesis
    using assms(2,3)
    by (auto simp: provision_container_def mark_error_def Let_def bucket
        dest!: start make_dir_db garage_files_db PullImage_db split: prod.splits sum.splits)
qed


definition one_service :: "service \<Rightarrow> db" where
  "one_service s = (empty_db 0)\<lparr>db_services := \<lparr>tbl_seq = 1, tbl_rows = [s]\<rparr>\<rparr>"

lemma one_service_update:
  assumes "w_db w = one_service r" and "svc_ID r = 1" and "svc_ID s = 1" and "svc_AppID s = None"
  shows "\<exists>w1 r1. on_db (UpdateService s) w = (Inr (), w1) \<and> w_db w1 = one_service r1 \<and> svc_ID r1 = 1"
proof -
  have "UpdateService s (one_service r) = (Inr (), one_service (updated_service_row s 0 r))"
    using assms(2-4)
    by (simp add: UpdateService_def current_timestamp_def updated_service_row_def one_service_def empty_db_def wrapped_def exec_no_oracle update_where_id_def by_id_def
        tbl_first_def tbl_update_def service_conflict_def fk_ok_def empty_table_def)
  then show ?thesis using assms by (auto simp: on_db_pair updated_service_row_def)
qed

lemma calm_calls:
  "length k = 32 \<Longrightarrow> \<exists>x w1. Encrypt calm_outside t k w = (Inr x, w1)"
  "\<exists>w1. make_dir calm_outside d w = (Inr (), w1)"
  "\<exists>w1. PullImage calm_outside i w = (Inr (), w1)"
  "cfg_Ports cfg = [] \<Longrightarrow> cfg_Networks cfg = [] \<Longrightarrow>
     \<exists>x w1. StartContainerWithConfig calm_outside \<lparr>dc_network = ''talos''\<rparr> cfg w = (Inr x, w1)"
  by (simp_all add: Encrypt_def make_dir_def PullImage_def StartContainerWithConfig_def EnsureNetwork_def container_spec_of_def
      exposed_internal_def port_specs_def create_and_start_def random_bytes_def perform_def Let_def calm_outside_def split: sum.split)

lemma calm_provision:
  "\<exists>s1 w1. provision_shared calm_outside \<lparr>dc_network = ''talos''\<rparr> sample_provisioner b
       sample_service (Some (RedisCredentials ''h'' 6379 ''pw'')) (sample_world\<lparr>w_db := one_service sample_service\<rparr>) = (Inr (), s1, w1)"
proof -
  let ?dc = "\<lparr>dc_network = ''talos''\<rparr>" and ?c = "RedisCredentials ''h'' 6379 ''pw''"
  let ?s = "sample_service\<lparr>svc_Status := ServiceStatusProvisioning\<rparr>"
  obtain w1 r1 where w1: "on_db (UpdateService ?s) (sample_world\<lparr>w_db := one_service sample_service\<rparr>) = (Inr (), w1)"
      "w_db w1 = one_service r1" "svc_ID r1 = 1"
    using one_service_update [of "sample_world\<lparr>w_db := one_service sample_service\<rparr>" sample_service ?s] by (auto simp: sample_service_def)
  obtain enc w2 where w2: "Encrypt calm_outside (json_print (credentials_value (Some ?c))) (prov_encKey sample_provisioner) w1 = (Inr enc, w2)"
    using calm_calls(1) by (fastforce simp: sample_provisioner_def)
  let ?s2 = "if b then hide_credentials (?s\<lparr>svc_Credentials := enc\<rparr>) else ?s\<lparr>svc_Credentials := enc\<rparr>"
  have s2: "svc_ID ?s2 = 1" "svc_AppID ?s2 = None" "svc_Type ?s2 = ServiceRedis" by (simp_all add: hide_credentials_def sample_service_def)
  obtain w3 where w3: "make_dir calm_outside (vol_host sample_provisioner ?s2) w2 = (Inr (), w3)" using calm_calls(2) by blast
  have files: "garage_files calm_outside v ?s2 c w = (Inr (), w)" for v c w using s2 by (simp add: garage_files_def)
  obtain cfg where cfg: "buildContainerConfig calm_outside sample_provisioner ?s2 (Some ?c) (vol_host sample_provisioner ?s2) = Inr cfg"
      "cfg_Ports cfg = []" "cfg_Networks cfg = []"
    using unmarshal_marshal_credentials [of ?c] s2
    by (simp add: buildContainerConfig_def buildContainerConfigFromJSON_def read_credentials_def credentials_value_def port_fits_def
        max_int64_def Let_def with_volume_def base_config_def empty_config_def)
  obtain w4 where w4: "PullImage calm_outside (svc_ImageRef ?s2) w3 = (Inr (), w4)" using calm_calls(3) by blast
  let ?w5 = "snd (StopAndRemove calm_outside (svc_container (svc_Name ?s2)) w4)"
  obtain i w6 where w6: "StartContainerWithConfig calm_outside ?dc cfg ?w5 = (Inr i, w6)" using calm_calls(4) cfg(2,3) by blast
  have "w_db w6 = one_service r1"
    using w1(2) Encrypt_db [OF w2] make_dir_db [OF w3] PullImage_db [OF w4] StartContainerWithConfig_db [OF w6] by (simp add: StopAndRemove_db)
  then obtain w7 where w7: "on_db (UpdateService (?s2\<lparr>svc_ContainerID := i, svc_Status := ServiceStatusActive\<rparr>)) w6 = (Inr (), w7)"
    using one_service_update [of w6 r1 "?s2\<lparr>svc_ContainerID := i, svc_Status := ServiceStatusActive\<rparr>"] w1(3) s2 by auto
  show ?thesis
    using w1(1) w2 w3 files cfg(1) w4 w6 w7
    by (simp add: provision_shared_def provision_begin_def provision_container_def start_service_container_def default_bucket_def Let_def)
qed


section \<open>One name for two containers\<close>



end
