(* ===== verification/Settings.thy ===== *)
theory Settings
  imports Provisioner Config
begin

text \<open>
  \<open>internal/settings/service.go\<close>: the settings page's view of the env file that the next
  start of the server reads.  The function fields of \<open>Service\<close> are the package \<open>os\<close>
  in production, so they are the files of the world; \<open>set_docker\<close> says whether a Docker
  client was given.
\<close>

section \<open>The service and its data\<close>

datatype install_mode = InstallModeUnknown | InstallModeDocker | InstallModeBare

record settings_service =
  set_docker :: bool
  set_envPath :: string

record snapshot =
  snap_Domain :: string
  snap_ACMEEmail :: string
  snap_ProxyMode :: proxy_mode
  snap_EdgeProvider :: config_edge_provider
  snap_EdgeNetwork :: string
  snap_EdgeCertResolver :: string
  snap_EdgeEntrypoint :: string
  snap_Mode :: install_mode
  snap_EnvPath :: string
  snap_DockerImage :: string
  snap_ConfiguredURL :: string
  snap_ApplyCommand :: string
  snap_ApplyTitle :: string
  snap_ApplyDescription :: string
  snap_SupportsAppDomains :: bool

text \<open>The two modes of the input are texts that the form sent.\<close>

record update_input =
  upd_Domain :: string
  upd_ACMEEmail :: string
  upd_ProxyMode :: string
  upd_EdgeProvider :: string
  upd_EdgeNetwork :: string
  upd_EdgeCertResolver :: string
  upd_EdgeEntrypoint :: string

definition defaultDockerEnvPath :: string where "defaultDockerEnvPath = ''/opt/talos/.env''"
definition legacyBareEnvPath :: string where "legacyBareEnvPath = ''/etc/talos/.env''"
definition systemdUnitPath :: string where "systemdUnitPath = ''/etc/systemd/system/talos.service''"
definition talosBinaryPath :: string where "talosBinaryPath = ''/usr/local/bin/talos''"

definition NewService :: settings_service where
  "NewService = \<lparr>set_docker = True, set_envPath = []\<rparr>"

definition WithEnvPath :: "string \<Rightarrow> settings_service \<Rightarrow> settings_service" where
  "WithEnvPath path s = s\<lparr>set_envPath := path\<rparr>"

definition parseProxyMode :: "string \<Rightarrow> proxy_mode" where
  "parseProxyMode v = (if trim_space v = ''external'' then ProxyModeExternal else ProxyModeInternal)"

definition parseEdgeProvider :: "string \<Rightarrow> config_edge_provider" where
  "parseEdgeProvider v = EdgeProviderTraefik"

definition defaultString :: "string \<Rightarrow> string \<Rightarrow> string" where
  "defaultString v fallback = (if trim_space v = [] then fallback else trim_space v)"

section \<open>Where the env file is\<close>

definition no_settings_docker :: "world \<Rightarrow> outside \<Rightarrow> install_mode \<times> string" where
  "no_settings_docker w out =
     (if stat_ok out systemdUnitPath w \<and> stat_ok out talosBinaryPath w then (InstallModeBare, []) else (InstallModeUnknown, []))"

definition detectInstallMode :: "outside \<Rightarrow> settings_service \<Rightarrow> world \<Rightarrow> (install_mode \<times> string) \<times> world" where
  "detectInstallMode out s w =
     (if set_docker s then
        (case Inspect out ''talos'' w of
           (Inr st, w1) \<Rightarrow> ((InstallModeDocker, (case st_Image st of None \<Rightarrow> [] | Some i \<Rightarrow> i)), w1)
         | (Inl e, w1) \<Rightarrow> (no_settings_docker w1 out, w1))
      else (no_settings_docker w out, w))"

definition resolveEnvPath :: "outside \<Rightarrow> settings_service \<Rightarrow> install_mode \<Rightarrow> world \<Rightarrow> string" where
  "resolveEnvPath out s mode w =
     (if set_envPath s \<noteq> [] then set_envPath s
      else if stat_ok out defaultDockerEnvPath w then defaultDockerEnvPath
      else if mode = InstallModeDocker \<or> mode = InstallModeBare then defaultDockerEnvPath
      else if stat_ok out legacyBareEnvPath w then legacyBareEnvPath
      else if stat_ok out ''.env'' w then ''.env''
      else defaultDockerEnvPath)"

section \<open>Reading and rewriting the env file\<close>

text \<open>What a line says: nothing when it is blank, a comment or has no equals sign.  Later lines
  win.\<close>

definition line_entry :: "string \<Rightarrow> (string \<times> string) option" where
  "line_entry line =
     (let l = trim_space line in
      if l = [] \<or> has_prefix l ''#'' then None else cut_char (CHR ''='') l)"

definition env_lines :: "string list \<Rightarrow> string \<rightharpoonup> string" where
  "env_lines ls = fold (\<lambda>l m. case line_entry l of None \<Rightarrow> m | Some (k, v) \<Rightarrow> m(k \<mapsto> v)) ls Map.empty"

definition nl :: char where "nl = CHR 0x0A"

definition env_values :: "string \<Rightarrow> string \<rightharpoonup> string" where
  "env_values data = env_lines (split_char nl data)"

definition readEnvValues :: "outside \<Rightarrow> string \<Rightarrow> world \<Rightarrow> (go_error + (string \<rightharpoonup> string)) \<times> world" where
  "readEnvValues out path w =
     (case read_file out path w of
        (Inl e, w1) \<Rightarrow> (Inl e, w1)
      | (Inr data, w1) \<Rightarrow> (Inr (env_values data), w1))"

text \<open>The lines that stay, and the updates that no line has taken.  The key of a line is what
  precedes the equals sign, white space and comment signs included.\<close>

fun rewrite_lines :: "string list \<Rightarrow> (string \<times> string) list \<Rightarrow> string list \<times> (string \<times> string) list" where
  "rewrite_lines [] remaining = ([], remaining)"
| "rewrite_lines (l # ls) remaining =
     (case cut_char (CHR ''='') l of
        None \<Rightarrow> (let (out, r) = rewrite_lines ls remaining in (l # out, r))
      | Some (k, old) \<Rightarrow>
          (case map_of remaining k of
             None \<Rightarrow> (let (out, r) = rewrite_lines ls remaining in (l # out, r))
           | Some v \<Rightarrow>
               (let (out, r) = rewrite_lines ls (filter (\<lambda>kv. fst kv \<noteq> k) remaining) in
                (if v = [] then out else (k @ ''='' @ v) # out, r))))"

definition preferredOrder :: "string list" where
  "preferredOrder = [''TALOS_DOMAIN'', ''TALOS_ACME_EMAIL'', ''TALOS_PROXY_MODE'', ''TALOS_EDGE_NETWORK'', ''TALOS_EDGE_CERT_RESOLVER'']"

text \<open>The lines for the keys of a list, those without a value left out.\<close>

fun key_lines :: "(string \<times> string) list \<Rightarrow> string list \<Rightarrow> string list" where
  "key_lines remaining [] = []"
| "key_lines remaining (k # ks) =
     (case map_of remaining k of
        None \<Rightarrow> key_lines remaining ks
      | Some v \<Rightarrow> if v = [] then key_lines remaining ks else (k @ ''='' @ v) # key_lines remaining ks)"

definition added_lines :: "(string \<times> string) list \<Rightarrow> string list" where
  "added_lines remaining =
     key_lines remaining preferredOrder @
     key_lines remaining (sort (filter (\<lambda>k. k \<notin> set preferredOrder) (map fst remaining)))"

definition rewrite_env :: "string list \<Rightarrow> (string \<times> string) list \<Rightarrow> string" where
  "rewrite_env ls updates =
     (let (kept, remaining) = rewrite_lines ls updates;
          output = join [nl] (kept @ added_lines remaining)
      in if output \<noteq> [] \<and> \<not> has_suffix output [nl] then output @ [nl] else output)"

definition updateEnvFile :: "outside \<Rightarrow> string \<Rightarrow> (string \<times> string) list \<Rightarrow> world \<Rightarrow> (go_error + unit) \<times> world" where
  "updateEnvFile out path updates w =
     (let save = (\<lambda>ls w1.
            (case make_dir out (path_dir path) w1 of
               (Inl e, w2) \<Rightarrow> (Inl e, w2)
             | (Inr _, w2) \<Rightarrow> write_file out path (rewrite_env ls updates) w2))
      in
      (case read_file out path w of
         (Inl e, w1) \<Rightarrow> if is_not_exist e then save [] w1 else (Inl e, w1)
       | (Inr data, w1) \<Rightarrow> save (split_char nl data) w1))"

section \<open>How to apply the settings\<close>

definition configuredURL :: "string \<Rightarrow> string \<Rightarrow> int \<Rightarrow> string" where
  "configuredURL dmn fallbackHost port =
     (let d = trim_space dmn;
          h = trim_space fallbackHost;
          host = (if h = [] \<or> h = ''0.0.0.0'' then ''localhost'' else h)
      in
      if d \<noteq> [] then ''https://'' @ d
      else if contains host '':'' then ''http://'' @ host
      else ''http://'' @ host @ '':'' @ itoa port)"

fun applyTitle :: "install_mode \<Rightarrow> proxy_mode \<Rightarrow> string" where
  "applyTitle InstallModeDocker ProxyModeExternal = ''Recreate Talos and reconnect it to the shared edge proxy network''"
| "applyTitle InstallModeDocker ProxyModeInternal = ''Recreate the Talos container''"
| "applyTitle InstallModeBare m = ''Restart the Talos service''"
| "applyTitle InstallModeUnknown m = ''Apply the saved configuration''"

fun applyDescription :: "install_mode \<Rightarrow> proxy_mode \<Rightarrow> string" where
  "applyDescription InstallModeDocker ProxyModeExternal =
     ''Saving updates /opt/talos/.env, but the running Talos container and any new external-proxy label behavior keep using the old values until you recreate Talos and reconnect it to the shared edge network.''"
| "applyDescription InstallModeDocker ProxyModeInternal =
     ''Saving updates /opt/talos/.env, but the running Talos container keeps using the old values until you recreate it.''"
| "applyDescription InstallModeBare ProxyModeExternal =
     ''Saving updates the env file, but the running Talos process and your external proxy keep using the old values until Talos restarts and new app deployments publish updated labels.''"
| "applyDescription InstallModeBare ProxyModeInternal =
     ''Saving updates the env file, but the running Talos process keeps using the old values until the systemd service restarts.''"
| "applyDescription InstallModeUnknown m =
     ''Saving updates the env file, but Talos will not use the new values until the current runtime is restarted.''"

definition continued :: "string \<Rightarrow> string" where
  "continued s = s @ '' '' @ [CHR 0x5C]"

text \<open>The \<open>docker run\<close> of an internal proxy, from the port to the image.\<close>

definition recreate_command :: "bool \<Rightarrow> string \<Rightarrow> string \<Rightarrow> string \<Rightarrow> int \<Rightarrow> string" where
  "recreate_command key_there keyPath img envPath port =
     ''docker stop talos'' @ [nl] @ ''docker rm talos'' @ [nl] @
     concat (map (\<lambda>l. continued l @ [nl])
       ([''docker run -d'', ''  --name talos'', ''  --restart unless-stopped'', ''  --network talos'',
         ''  -p '' @ itoa port @ '':3000'', ''  -v /var/run/docker.sock:/var/run/docker.sock'',
         ''  -v /opt/talos/data:/data'', ''  -v '' @ envPath @ '':'' @ envPath] @
        (if key_there then [''  -v '' @ keyPath @ '':'' @ keyPath @ '':ro''] else []) @
        [''  --env-file '' @ envPath])) @ ''  '' @ img"

definition external_command ::
  "bool \<Rightarrow> string \<Rightarrow> string \<Rightarrow> string \<Rightarrow> int \<Rightarrow> string \<Rightarrow> string \<Rightarrow> string \<Rightarrow> string" where
  "external_command key_there keyPath img envPath port edgeNetwork edgeCertResolver dmn =
     join [nl]
       ([''docker pull '' @ img, ''docker stop talos'', ''docker rm talos'',
         ''docker network inspect '' @ edgeNetwork @ '' >/dev/null 2>&1 || docker network create '' @ edgeNetwork] @
        map continued
          ([''docker run -d'', ''  --name talos'', ''  --restart unless-stopped'', ''  --network talos'',
            ''  -p '' @ itoa port @ '':3000'', ''  -v /var/run/docker.sock:/var/run/docker.sock'',
            ''  -v /opt/talos/data:/data'', ''  -v '' @ envPath @ '':'' @ envPath] @
           (if key_there then [''  -v '' @ keyPath @ '':'' @ keyPath @ '':ro''] else []) @
           [''  --env-file '' @ envPath] @
           (if dmn \<noteq> [] then
              [''  --label traefik.enable=true'',
               ''  --label traefik.docker.network='' @ edgeNetwork,
               ''  --label traefik.http.routers.talos.rule=Host(`'' @ dmn @ ''`)'',
               ''  --label traefik.http.routers.talos.entrypoints=websecure'',
               ''  --label traefik.http.routers.talos.tls=true'',
               ''  --label traefik.http.routers.talos.tls.certresolver='' @ edgeCertResolver,
               ''  --label traefik.http.services.talos.loadbalancer.server.port=3000'']
            else [])) @
        [''  '' @ img, ''docker network connect '' @ edgeNetwork @ '' talos''])"

definition applyCommand ::
  "outside \<Rightarrow> world \<Rightarrow> install_mode \<Rightarrow> proxy_mode \<Rightarrow> string \<Rightarrow> string \<Rightarrow> int \<Rightarrow> string \<Rightarrow> string \<Rightarrow> string \<Rightarrow> string" where
  "applyCommand out w mode proxyMode dockerImage envPath port edgeNetwork edgeCertResolver dmn =
     (case mode of
        InstallModeDocker \<Rightarrow>
          (let img = (if dockerImage = [] then ''ghcr.io/logic-roastery/project-talos:latest'' else dockerImage);
               keyPath = path_join [path_dir envPath, ''github-app.private-key.pem''];
               key_there = stat_ok out keyPath w
           in
           (case proxyMode of
              ProxyModeExternal \<Rightarrow> external_command key_there keyPath img envPath port edgeNetwork edgeCertResolver dmn
            | ProxyModeInternal \<Rightarrow> recreate_command key_there keyPath img envPath port))
      | InstallModeBare \<Rightarrow>
          (if proxyMode = ProxyModeExternal \<and> dmn \<noteq> []
           then ''sudo systemctl restart talos'' @ [nl] @
             ''# Then update your external proxy to route Host(`'' @ dmn @ ''`) to http://<server-ip-or-host>:3000''
           else ''sudo systemctl restart talos'')
      | InstallModeUnknown \<Rightarrow> ''Restart the running Talos process so it reloads '' @ envPath)"

section \<open>Load and Save\<close>

definition env_get :: "(string \<rightharpoonup> string) \<Rightarrow> string \<Rightarrow> string" where
  "env_get m k = (case m k of None \<Rightarrow> [] | Some v \<Rightarrow> v)"

text \<open>The two functions fill the same struct from the same seven values.\<close>

definition settings_snapshot ::
  "outside \<Rightarrow> world \<Rightarrow> install_mode \<Rightarrow> string \<Rightarrow> string \<Rightarrow> string \<Rightarrow> int \<Rightarrow>
     string \<Rightarrow> string \<Rightarrow> proxy_mode \<Rightarrow> config_edge_provider \<Rightarrow> string \<Rightarrow> string \<Rightarrow> string \<Rightarrow> snapshot" where
  "settings_snapshot out w mode dockerImage envPath fallbackHost port dmn mail proxyMode edgeProvider network resolver entrypoint =
     \<lparr>snap_Domain = dmn, snap_ACMEEmail = mail, snap_ProxyMode = proxyMode, snap_EdgeProvider = edgeProvider,
      snap_EdgeNetwork = network, snap_EdgeCertResolver = resolver, snap_EdgeEntrypoint = entrypoint,
      snap_Mode = mode, snap_EnvPath = envPath, snap_DockerImage = dockerImage,
      snap_ConfiguredURL = configuredURL dmn fallbackHost port,
      snap_ApplyCommand = applyCommand out w mode proxyMode dockerImage envPath port network resolver dmn,
      snap_ApplyTitle = applyTitle mode proxyMode, snap_ApplyDescription = applyDescription mode proxyMode,
      snap_SupportsAppDomains = True\<rparr>"

definition SettingsLoad :: "outside \<Rightarrow> settings_service \<Rightarrow> string \<Rightarrow> int \<Rightarrow> world \<Rightarrow> (go_error + snapshot) \<times> world" where
  "SettingsLoad out s fallbackHost port w =
     (let ((mode, dockerImage), w1) = detectInstallMode out s w;
          envPath = resolveEnvPath out s mode w1;
          load = (\<lambda>values w2. Inr (settings_snapshot out w2 mode dockerImage envPath fallbackHost port
            (trim_space (env_get values ''TALOS_DOMAIN'')) (trim_space (env_get values ''TALOS_ACME_EMAIL''))
            (parseProxyMode (env_get values ''TALOS_PROXY_MODE'')) (parseEdgeProvider (env_get values ''TALOS_EDGE_PROVIDER''))
            (defaultString (env_get values ''TALOS_EDGE_NETWORK'') ''traefik-public'')
            (defaultString (env_get values ''TALOS_EDGE_CERT_RESOLVER'') ''letsencrypt'')
            (defaultString (env_get values ''TALOS_EDGE_ENTRYPOINT'') ''websecure'')))
      in
      (case readEnvValues out envPath w1 of
         (Inl e, w2) \<Rightarrow> if is_not_exist e then (load Map.empty w2, w2) else (Inl e, w2)
       | (Inr values, w2) \<Rightarrow> (load values w2, w2)))"

definition settings_updates :: "update_input \<Rightarrow> (string \<times> string) list" where
  "settings_updates input =
     [(''TALOS_DOMAIN'', trim_space (upd_Domain input)),
      (''TALOS_ACME_EMAIL'', trim_space (upd_ACMEEmail input)),
      (''TALOS_PROXY_MODE'', proxy_mode_str (parseProxyMode (upd_ProxyMode input))),
      (''TALOS_EDGE_PROVIDER'', ''traefik''),
      (''TALOS_EDGE_NETWORK'', defaultString (upd_EdgeNetwork input) ''traefik-public''),
      (''TALOS_EDGE_CERT_RESOLVER'', defaultString (upd_EdgeCertResolver input) ''letsencrypt''),
      (''TALOS_EDGE_ENTRYPOINT'', defaultString (upd_EdgeEntrypoint input) ''websecure'')]"

definition SettingsSave ::
  "outside \<Rightarrow> settings_service \<Rightarrow> update_input \<Rightarrow> string \<Rightarrow> int \<Rightarrow> world \<Rightarrow> (go_error + snapshot) \<times> world" where
  "SettingsSave out s input fallbackHost port w =
     (let ((mode, dockerImage), w1) = detectInstallMode out s w;
          envPath = resolveEnvPath out s mode w1;
          updates = settings_updates input; u = env_get (map_of updates)
      in
      (case updateEnvFile out envPath updates w1 of
         (Inl e, w2) \<Rightarrow> (Inl e, w2)
       | (Inr _, w2) \<Rightarrow>
           (Inr (settings_snapshot out w2 mode dockerImage envPath fallbackHost port
              (u ''TALOS_DOMAIN'') (u ''TALOS_ACME_EMAIL'') (parseProxyMode (u ''TALOS_PROXY_MODE''))
              (parseEdgeProvider (u ''TALOS_EDGE_PROVIDER'')) (u ''TALOS_EDGE_NETWORK'')
              (u ''TALOS_EDGE_CERT_RESOLVER'') (u ''TALOS_EDGE_ENTRYPOINT'')), w2)))"

end
