(* ===== verification/Settings_Claims.thy ===== *)
theory Settings_Claims
  imports Settings
begin

text \<open>
  Saving the settings and reading them again: what the lines of the env file say before and after
  \<open>updateEnvFile\<close>.
\<close>

section \<open>What lines say\<close>

lemma env_lines_append: "env_lines (xs @ ys) = env_lines xs ++ env_lines ys"
proof -
  let ?f = "\<lambda>l m. case line_entry l of None \<Rightarrow> m | Some (k, v) \<Rightarrow> m(k \<mapsto> v)"
  have "fold ?f ys m = m ++ fold ?f ys Map.empty" for m :: "string \<rightharpoonup> string"
  proof (induction ys arbitrary: m)
    case (Cons l ys)
    show ?case
    proof (cases "line_entry l")
      case None
      then show ?thesis using Cons [of m] by simp
    next
      case (Some e)
      obtain k v where e: "e = (k, v)" by fastforce
      have "fold ?f ys (m(k \<mapsto> v)) = m(k \<mapsto> v) ++ fold ?f ys Map.empty" by (rule Cons)
      also have "\<dots> = m ++ ([k \<mapsto> v] ++ fold ?f ys Map.empty)" by (simp only: map_add_assoc map_add_upd map_add_empty)
      also have "[k \<mapsto> v] ++ fold ?f ys Map.empty = fold ?f ys [k \<mapsto> v]" by (rule Cons [symmetric])
      finally show ?thesis using Some e by (simp del: fun_upd_apply)
    qed
  qed simp
  from this [of "fold ?f xs Map.empty"] show ?thesis by (simp only: env_lines_def fold_append comp_apply)
qed

lemma env_lines_simps [simp]:
  "env_lines [] = Map.empty"
  "line_entry l = None \<Longrightarrow> env_lines (l # ls) = env_lines ls"
  "line_entry l = Some (k, v) \<Longrightarrow> env_lines (l # ls) = [k \<mapsto> v] ++ env_lines ls"
proof -
  have "env_lines (l # ls) = env_lines [l] ++ env_lines ls" using env_lines_append [of "[l]" ls] by simp
  moreover have "env_lines [l] = (case line_entry l of None \<Rightarrow> Map.empty | Some (k, v) \<Rightarrow> [k \<mapsto> v])"
    by (simp add: env_lines_def)
  ultimately show "line_entry l = None \<Longrightarrow> env_lines (l # ls) = env_lines ls"
    and "line_entry l = Some (k, v) \<Longrightarrow> env_lines (l # ls) = [k \<mapsto> v] ++ env_lines ls" by simp_all
qed (simp add: env_lines_def)

text \<open>A key that can be written: \<open>KEY=value\<close> is read as it stands.\<close>

definition plain_key :: "string \<Rightarrow> bool" where
  "plain_key k \<longleftrightarrow> k \<noteq> [] \<and> hd k \<noteq> CHR ''#'' \<and> \<not> is_space (hd k) \<and> CHR ''='' \<notin> set k \<and> nl \<notin> set k"

definition plain_value :: "string \<Rightarrow> bool" where
  "plain_value v \<longleftrightarrow> trimmed v \<and> nl \<notin> set v"

lemma line_entry_plain:
  assumes "plain_key k" and "plain_value v" and "v \<noteq> []"
  shows "line_entry (k @ ''='' @ v) = Some (k, v)"
proof -
  have "trimmed (k @ ''='' @ v)" using assms by (cases k) (auto simp: trimmed_def plain_key_def plain_value_def)
  then have "trim_space (k @ ''='' @ v) = k @ ''='' @ v" by (rule trim_space_trimmed)
  moreover have "\<not> has_prefix (k @ ''='' @ v) ''#''" using assms(1) by (cases k) (auto simp: has_prefix_def plain_key_def)
  ultimately show ?thesis
    using assms(1) by (simp add: line_entry_def Let_def plain_key_def)
qed

text \<open>The lines of a file mention the tracked keys at most once each, at the start of a line.\<close>

definition mentions :: "string \<Rightarrow> string \<Rightarrow> bool" where
  "mentions k l \<longleftrightarrow> (\<exists>v. line_entry l = Some (k, v)) \<or> (\<exists>v. cut_char (CHR ''='') l = Some (k, v))"

definition well_placed :: "string set \<Rightarrow> string list \<Rightarrow> bool" where
  "well_placed ks ls \<longleftrightarrow>
     (\<forall>k \<in> ks. length (filter (mentions k) ls) \<le> 1) \<and>
     (\<forall>l \<in> set ls. \<forall>k v. k \<in> ks \<longrightarrow> line_entry l = Some (k, v) \<longrightarrow> (\<exists>u. cut_char (CHR ''='') l = Some (k, u)))"

text \<open>A line that starts with a plain key and an equals sign is read as an entry for that key.\<close>

lemma trim_space_keeps:
  assumes "k \<noteq> []" and "\<not> is_space (hd k)" and "\<not> is_space c"
  shows "\<exists>u'. trim_space (k @ c # u) = k @ c # u'"
proof -
  have l: "dropWhile is_space (k @ c # u) = k @ c # u" using assms(1,2) by (cases k) auto
  show ?thesis
  proof (cases "\<forall>x \<in> set u. is_space x")
    case True
    then have "dropWhile is_space (rev u @ c # rev k) = c # rev k" using assms(3) by (simp add: dropWhile_append3 dropWhile_append2)
    then have "trim_space (k @ c # u) = k @ c # []" using l by (simp add: trim_space_def trim_left_def trim_right_def)
    then show ?thesis by blast
  next
    case False
    then have "dropWhile is_space (rev u @ c # rev k) = dropWhile is_space (rev u) @ c # rev k" by (auto simp: dropWhile_append1)
    then have "trim_space (k @ c # u) = k @ c # rev (dropWhile is_space (rev u))"
      using l by (simp add: trim_space_def trim_left_def trim_right_def)
    then show ?thesis by blast
  qed
qed

lemma line_entry_raw:
  assumes "cut_char (CHR ''='') l = Some (k, u)" and "plain_key k"
  shows "\<exists>v. line_entry l = Some (k, v)"
proof -
  have l: "l = k @ CHR ''='' # u" and k: "CHR ''='' \<notin> set k" using assms(1) cut_char_Some by blast+
  have "\<not> is_space (CHR ''='')" by code_simp
  then obtain v where t: "trim_space l = k @ CHR ''='' # v"
    using trim_space_keeps [of k "CHR ''=''" u] assms(2) l by (auto simp: plain_key_def)
  have "\<not> has_prefix (k @ CHR ''='' # v) ''#''" using assms(2) by (cases k) (auto simp: has_prefix_def plain_key_def)
  then show ?thesis using t k by (simp add: line_entry_def Let_def)
qed

lemma env_lines_unmentioned: "filter (mentions k) ls = [] \<Longrightarrow> env_lines ls k = None"
proof (induction ls)
  case (Cons l ls)
  then have "env_lines ls k = None" and "\<not> mentions k l" by (auto split: if_splits)
  then show ?case by (cases "line_entry l") (auto simp: mentions_def map_add_def)
qed simp

section \<open>What rewriting does\<close>

definition plain_updates :: "(string \<times> string) list \<Rightarrow> bool" where
  "plain_updates us \<longleftrightarrow> distinct (map fst us) \<and> list_all (\<lambda>(k, v). plain_key k \<and> plain_value v) us"

definition starts_line :: "string \<Rightarrow> string list \<Rightarrow> bool" where
  "starts_line k ls \<longleftrightarrow> (\<exists>l \<in> set ls. \<exists>u. cut_char (CHR ''='') l = Some (k, u))"

lemma plain_updates_filter: "plain_updates us \<Longrightarrow> plain_updates (filter P us)"
  by (auto simp: plain_updates_def list_all_iff distinct_map_filter)

lemma plain_updates_get: "plain_updates us \<Longrightarrow> map_of us k = Some v \<Longrightarrow> plain_key k \<and> plain_value v"
  by (auto simp: plain_updates_def list_all_iff dest!: map_of_SomeD)

lemma map_of_without: "map_of (filter (\<lambda>kv. fst kv \<noteq> k) us) = (map_of us)(k := None)"
  by (induction us) auto

lemma well_placed_tail: "well_placed ks (l # ls) \<Longrightarrow> js \<subseteq> ks \<Longrightarrow> well_placed js ls"
  unfolding well_placed_def by (intro conjI ballI; force split: if_splits)

text \<open>An update whose key starts a line is spent and its value stands for the line; every other key
  says what it said before.\<close>

lemma rewrite_lines_spec:
  assumes "rewrite_lines ls us = (out, r)" and "plain_updates us" and "well_placed (dom (map_of us)) ls"
  shows "map_of r = (\<lambda>k. if starts_line k ls then None else map_of us k) \<and> plain_updates r \<and>
    env_lines out k =
      (case map_of us k of None \<Rightarrow> env_lines ls k | Some v \<Rightarrow> if starts_line k ls \<and> v \<noteq> [] then Some v else None)"
  using assms
proof (induction ls arbitrary: us out r)
  case Nil
  then show ?case by (auto simp: starts_line_def split: option.split)
next
  case (Cons l ls)
  show ?case
  proof (cases "\<exists>j u v. cut_char (CHR ''='') l = Some (j, u) \<and> map_of us j = Some v")
    case False
    obtain out' where run: "rewrite_lines ls us = (out', r)" and out: "out = l # out'"
      using Cons.prems(1) False by (auto simp: Let_def split: option.splits prod.splits)
    have wp: "well_placed (dom (map_of us)) ls" using well_placed_tail Cons.prems(3) by blast
    have starts: "starts_line j (l # ls) = starts_line j ls" if "map_of us j \<noteq> None" for j
      using False that by (auto simp: starts_line_def)
    have "map_of us j = None" if "line_entry l = Some (j, v)" for j v
      using Cons.prems(3) that False by (fastforce simp: well_placed_def)
    then have entry: "line_entry l = None \<or> (\<exists>j v. line_entry l = Some (j, v) \<and> map_of us j = None)"
      by (cases "line_entry l") auto
    have r: "(if starts_line j (l # ls) then None else map_of us j) = (if starts_line j ls then None else map_of us j)" for j
      using starts [of j] by (cases "map_of us j") auto
    note IH = Cons.IH [OF run Cons.prems(2) wp]
    have "env_lines out k = (case map_of us k of None \<Rightarrow> env_lines (l # ls) k
        | Some v \<Rightarrow> if starts_line k (l # ls) \<and> v \<noteq> [] then Some v else None)"
      using IH entry starts [of k] by (cases "map_of us k") (auto simp: out map_add_def split: option.splits)
    then show ?thesis using IH r by simp
  next
    case True
    then obtain j u v where cut: "cut_char (CHR ''='') l = Some (j, u)" and j: "map_of us j = Some v" by blast
    let ?us = "filter (\<lambda>kv. fst kv \<noteq> j) us"
    obtain out' where run: "rewrite_lines ls ?us = (out', r)" and out: "out = (if v = [] then out' else (j @ ''='' @ v) # out')"
      using Cons.prems(1) cut j by (auto simp: Let_def split: prod.splits if_splits)
    have sub: "dom (map_of ?us) \<subseteq> dom (map_of us)" by (auto simp: map_of_without split: if_splits)
    note IH = Cons.IH [OF run plain_updates_filter [OF Cons.prems(2)] well_placed_tail [OF Cons.prems(3) sub], unfolded map_of_without]
    have plain: "plain_key j" "plain_value v" using plain_updates_get [OF Cons.prems(2) j] by blast+
    obtain w where entry: "line_entry l = Some (j, w)" using line_entry_raw [OF cut plain(1)] by blast
    have "length (filter (mentions j) (l # ls)) \<le> 1"
      using Cons.prems(3) j unfolding well_placed_def by blast
    then have "filter (mentions j) ls = []" using cut by (simp add: mentions_def split: if_splits)
    then have none: "env_lines ls j = None" by (rule env_lines_unmentioned)
    have starts: "starts_line i (l # ls) \<longleftrightarrow> i = j \<or> starts_line i ls" for i using cut by (auto simp: starts_line_def)
    have new: "v \<noteq> [] \<Longrightarrow> line_entry (j @ ''='' @ v) = Some (j, v)" using line_entry_plain plain by blast
    show ?thesis
      using IH j none starts entry new by (auto simp: out map_add_def fun_eq_iff split: option.splits)
  qed
qed

lemma key_lines_spec:
  "plain_updates us \<Longrightarrow> env_lines (key_lines us ks) k =
     (case map_of us k of None \<Rightarrow> None | Some v \<Rightarrow> if k \<in> set ks \<and> v \<noteq> [] then Some v else None)"
proof (induction ks)
  case Nil
  then show ?case by (simp split: option.split)
next
  case (Cons j ks)
  have "line_entry (j @ ''='' @ v) = Some (j, v)" if "map_of us j = Some v" and "v \<noteq> []" for v
    using line_entry_plain plain_updates_get [OF Cons.prems that(1)] that(2) by blast
  then show ?case using Cons by (auto simp: map_add_def split: option.splits)
qed

lemma added_lines_spec:
  assumes "plain_updates us"
  shows "env_lines (added_lines us) k = (case map_of us k of None \<Rightarrow> None | Some v \<Rightarrow> if v = [] then None else Some v)"
proof -
  have "k \<in> set (map fst us)" if "map_of us k = Some v" for v using that by (force dest: map_of_SomeD)
  then show ?thesis
    using assms by (auto simp: added_lines_def env_lines_append key_lines_spec map_add_def split: option.split)
qed

lemma new_line_plain: "plain_updates us \<Longrightarrow> map_of us k = Some v \<Longrightarrow> nl \<notin> set (k @ ''='' @ v)"
  using plain_updates_get by (fastforce simp: plain_key_def plain_value_def nl_def)

lemma kept_lines_plain:
  "rewrite_lines ls us = (out, r) \<Longrightarrow> plain_updates us \<Longrightarrow> \<forall>l \<in> set ls. nl \<notin> set l \<Longrightarrow> l \<in> set out \<Longrightarrow> nl \<notin> set l"
proof (induction ls arbitrary: us out r)
  case (Cons a ls)
  show ?case
  proof (cases "l = a \<or> (\<exists>k v. map_of us k = Some v \<and> l = k @ ''='' @ v)")
    case True
    then show ?thesis using Cons.prems new_line_plain by auto
  next
    case False
    then obtain us' out' r' where "rewrite_lines ls us' = (out', r')" "plain_updates us'" "l \<in> set out'"
      using Cons.prems plain_updates_filter
      by (fastforce simp: Let_def split: option.splits prod.splits if_splits)
    then show ?thesis using Cons.IH Cons.prems(3) by auto
  qed
qed simp

lemma key_lines_plain: "plain_updates us \<Longrightarrow> l \<in> set (key_lines us ks) \<Longrightarrow> nl \<notin> set l"
proof (induction ks)
  case (Cons k ks)
  then show ?case using new_line_plain [of us k] by (cases "map_of us k") (auto split: if_splits)
qed simp

lemma env_values_of_lines:
  assumes "\<forall>l \<in> set ls. nl \<notin> set l"
  shows "env_values (join [nl] ls) = env_lines ls" and "env_values (join [nl] ls @ [nl]) = env_lines ls"
proof -
  have "line_entry [] = None" by (simp add: line_entry_def)
  then have "split_char nl (join [nl] ls) = ls \<or> ls = [] \<and> split_char nl (join [nl] ls) = [[]]"
    using split_char_join [of ls nl] assms by (cases "ls = []") auto
  then show one: "env_values (join [nl] ls) = env_lines ls" using \<open>line_entry [] = None\<close> by (auto simp: env_values_def)
  have "split_char nl (join [nl] ls @ [nl]) = split_char nl (join [nl] ls) @ [[]]"
    using split_char_append_sep [of nl "join [nl] ls" "[]"] by simp
  then show "env_values (join [nl] ls @ [nl]) = env_lines ls"
    using one \<open>line_entry [] = None\<close> by (simp add: env_values_def env_lines_append)
qed

lemma rewrite_env_values:
  assumes "plain_updates us" and "well_placed (dom (map_of us)) ls" and "\<forall>l \<in> set ls. nl \<notin> set l"
  shows "env_values (rewrite_env ls us) k =
    (case map_of us k of None \<Rightarrow> env_lines ls k | Some v \<Rightarrow> if v = [] then None else Some v)"
proof -
  obtain kept r where run: "rewrite_lines ls us = (kept, r)" by fastforce
  note spec = rewrite_lines_spec [OF run assms(1,2), of k]
  have "\<forall>l \<in> set (kept @ added_lines r). nl \<notin> set l"
    using kept_lines_plain [OF run assms(1,3)] key_lines_plain [of r] spec by (auto simp: added_lines_def)
  then have "env_values (rewrite_env ls us) = env_lines (kept @ added_lines r)"
    using env_values_of_lines [of "kept @ added_lines r"] run by (simp add: rewrite_env_def Let_def)
  then show ?thesis
    using spec by (auto simp: env_lines_append map_add_def added_lines_spec split: option.split)
qed

section \<open>The file\<close>

lemma make_dir_files: "make_dir out d w = (r, w1) \<Longrightarrow> w_files w1 = w_files w"
  by (auto simp: make_dir_def perform_def Let_def)

text \<open>Reading a file that is there may fail, but not because it is missing.\<close>

definition reads_existing :: "outside \<Rightarrow> bool" where
  "reads_existing out \<longleftrightarrow> (\<forall>h p e. o_read out h p = Inl e \<longrightarrow> \<not> is_not_exist e)"

definition file_lines :: "string \<Rightarrow> world \<Rightarrow> string list" where
  "file_lines path w = (case w_files w path of None \<Rightarrow> [] | Some data \<Rightarrow> split_char nl data)"

lemma file_lines_plain: "\<forall>l \<in> set (file_lines path w). nl \<notin> set l"
  by (auto simp: file_lines_def dest: split_char_elems split: option.splits)

lemma updateEnvFile_file:
  assumes "reads_existing out" and "updateEnvFile out path us w = (Inr u, w1)"
  shows "w_files w1 = (w_files w)(path \<mapsto> rewrite_env (file_lines path w) us)"
proof -
  have save: "w_files w1 = (w_files w)(path \<mapsto> rewrite_env ls us)"
    if "(case make_dir out (path_dir path) w0 of (Inl e, w2) \<Rightarrow> (Inl e, w2)
         | (Inr _, w2) \<Rightarrow> write_file out path (rewrite_env ls us) w2) = (Inr u, w1)" and "w_files w0 = w_files w" for ls w0
    using that by (auto dest!: make_dir_files write_file_files split: prod.splits sum.splits)
  show ?thesis
  proof (cases "w_files w path")
    case None
    then show ?thesis
      using assms(2) save [of "[]" w] by (simp add: updateEnvFile_def read_file_def file_lines_def is_not_exist_def ErrNoEnt_def)
  next
    case (Some data)
    then show ?thesis
      using assms save
      by (auto simp: updateEnvFile_def read_file_def file_lines_def reads_existing_def perform_def Let_def split: sum.splits)
  qed
qed

text \<open>The seven updates, when the fields of the form are single lines.\<close>

definition single_line :: "update_input \<Rightarrow> bool" where
  "single_line input \<longleftrightarrow>
     list_all (\<lambda>v. nl \<notin> set v) [upd_Domain input, upd_ACMEEmail input, upd_EdgeNetwork input, upd_EdgeCertResolver input, upd_EdgeEntrypoint input]"

lemma set_trim_space: "set (trim_space s) \<subseteq> set s"
  by (auto simp: trim_space_def trim_left_def trim_right_def dest!: set_dropWhileD)

lemma plain_trimmed: "nl \<notin> set v \<Longrightarrow> plain_value (trim_space v)"
  using set_trim_space [of v] by (auto simp: plain_value_def)

lemma plain_default: "nl \<notin> set v \<Longrightarrow> plain_value d \<Longrightarrow> plain_value (defaultString v d)"
  by (simp add: defaultString_def plain_trimmed)

lemma settings_updates_plain: "single_line input \<Longrightarrow> plain_updates (settings_updates input)"
proof -
  assume one: "single_line input"
  have keys: "list_all plain_key (map fst (settings_updates input)) \<and> distinct (map fst (settings_updates input))"
    unfolding settings_updates_def list.map fst_conv by code_simp
  have fixed: "plain_value ''traefik''" "plain_value ''traefik-public''" "plain_value ''letsencrypt''" "plain_value ''websecure''"
    by code_simp+
  have "plain_value (proxy_mode_str ProxyModeInternal)" "plain_value (proxy_mode_str ProxyModeExternal)" by code_simp+
  then have mode: "plain_value (proxy_mode_str m)" for m by (cases m) blast+
  have "list_all plain_value (map snd (settings_updates input))"
    using one fixed mode by (simp add: settings_updates_def single_line_def plain_trimmed plain_default)
  then show ?thesis using keys by (auto simp: plain_updates_def list_all_iff)
qed

definition tracked_keys :: "string set" where
  "tracked_keys = set preferredOrder \<union> {''TALOS_EDGE_PROVIDER'', ''TALOS_EDGE_ENTRYPOINT''}"

lemma dom_settings_updates: "dom (map_of (settings_updates input)) = tracked_keys"
  by (auto simp: settings_updates_def tracked_keys_def preferredOrder_def dom_map_of_conv_image_fst)

section \<open>Saving and loading\<close>

text \<open>The conditions on the lines, computed.\<close>

definition key_is :: "string \<Rightarrow> (string \<times> string) option \<Rightarrow> bool" where
  "key_is k e = (case e of None \<Rightarrow> False | Some kv \<Rightarrow> fst kv = k)"

lemma key_is_iff: "key_is k e \<longleftrightarrow> (\<exists>v. e = Some (k, v))"
  by (auto simp: key_is_def split: option.split)

lemma well_placed_code:
  "well_placed (set ks) ls \<longleftrightarrow>
     list_all (\<lambda>k. length (filter (\<lambda>l. key_is k (line_entry l) \<or> key_is k (cut_char (CHR ''='') l)) ls) \<le> 1 \<and>
       list_all (\<lambda>l. key_is k (line_entry l) \<longrightarrow> key_is k (cut_char (CHR ''='') l)) ls) ks"
  unfolding well_placed_def mentions_def list_all_iff key_is_iff [symmetric] by (auto simp: key_is_iff)

lemma detectInstallMode_files: "detectInstallMode out s w = (x, w1) \<Longrightarrow> w_files w1 = w_files w"
  by (auto simp: detectInstallMode_def Inspect_def perform_def Let_def split: if_splits prod.splits sum.splits)

lemma SettingsSave_file:
  assumes "reads_existing out" and "SettingsSave out s input host port w = (Inr snap, w1)"
  shows "w_files w1 = (w_files w)(snap_EnvPath snap \<mapsto> rewrite_env (file_lines (snap_EnvPath snap) w) (settings_updates input))"
proof -
  obtain m i w2 where d: "detectInstallMode out s w = ((m, i), w2)" by (metis surj_pair)
  obtain u where up: "updateEnvFile out (resolveEnvPath out s m w2) (settings_updates input) w2 = (Inr u, w1)"
    and path: "snap_EnvPath snap = resolveEnvPath out s m w2"
    using assms(2) d by (auto simp: SettingsSave_def settings_snapshot_def Let_def split: prod.splits sum.splits)
  show ?thesis
    using updateEnvFile_file [OF assms(1) up] detectInstallMode_files [OF d] path by (simp add: file_lines_def)
qed


definition sample_input :: update_input where
  "sample_input =
     \<lparr>upd_Domain = '' talos.example '', upd_ACMEEmail = [], upd_ProxyMode = ''external'', upd_EdgeProvider = ''traefik'',
      upd_EdgeNetwork = ''edge'', upd_EdgeCertResolver = [], upd_EdgeEntrypoint = ''web''\<rparr>"

definition sample_env :: string where
  "sample_env = join [nl] [''# Talos'', ''TALOS_PORT=3000'', ''TALOS_DOMAIN=old.example'', ''TALOS_ACME_EMAIL=me@old.example'']"

definition settings_world :: world where
  "settings_world = sample_world\<lparr>w_files := [defaultDockerEnvPath \<mapsto> sample_env]\<rparr>"

lemma sample_save:
  "\<exists>snap w1. SettingsSave calm_outside NewService sample_input ''0.0.0.0'' 3000 settings_world = (Inr snap, w1) \<and>
     snap_EnvPath snap = defaultDockerEnvPath"
  by (simp add: SettingsSave_def NewService_def detectInstallMode_def Inspect_def resolveEnvPath_def updateEnvFile_def read_file_def
      settings_world_def make_dir_def write_file_def create_file_def write_contents_def perform_def calm_outside_def stat_ok_def
      settings_snapshot_def Let_def)

lemma sample_facts:
  "reads_existing calm_outside" "single_line sample_input"
  "well_placed tracked_keys (file_lines defaultDockerEnvPath settings_world)"
proof -
  show "reads_existing calm_outside" by (simp add: reads_existing_def calm_outside_def)
  show "single_line sample_input" by code_simp
  have "file_lines defaultDockerEnvPath settings_world = split_char nl sample_env"
    by (simp add: file_lines_def settings_world_def)
  moreover have "tracked_keys = set (preferredOrder @ [''TALOS_EDGE_PROVIDER'', ''TALOS_EDGE_ENTRYPOINT''])"
    by (simp add: tracked_keys_def)
  moreover have "well_placed (set (preferredOrder @ [''TALOS_EDGE_PROVIDER'', ''TALOS_EDGE_ENTRYPOINT''])) (split_char nl sample_env)"
    unfolding well_placed_code by code_simp
  ultimately show "well_placed tracked_keys (file_lines defaultDockerEnvPath settings_world)" by simp
qed


definition settings_values :: "snapshot \<Rightarrow> (string \<times> string \<times> proxy_mode) \<times> string \<times> string \<times> string \<times> string" where
  "settings_values sn =
     ((snap_Domain sn, snap_ACMEEmail sn, snap_ProxyMode sn), snap_EdgeNetwork sn, snap_EdgeCertResolver sn,
      snap_EdgeEntrypoint sn, snap_ConfiguredURL sn)"

lemma parseProxyMode_str: "parseProxyMode (proxy_mode_str m) = m"
proof -
  have "parseProxyMode ''internal'' = ProxyModeInternal" "parseProxyMode ''external'' = ProxyModeExternal" by code_simp+
  then show ?thesis by (cases m) simp_all
qed

lemma defaultString_again: "trim_space d = d \<Longrightarrow> d \<noteq> [] \<Longrightarrow> defaultString (defaultString v d) e = defaultString v d"
  by (simp add: defaultString_def)

lemma defaultString_filled: "trim_space d = d \<Longrightarrow> d \<noteq> [] \<Longrightarrow> defaultString v d \<noteq> []"
  by (simp add: defaultString_def)



text \<open>A variable that the file sets twice keeps its second value, so the save has no effect.\<close>

lemma stale_duplicate_wins:
  "env_values (rewrite_env [''TALOS_DOMAIN=a.example'', ''TALOS_DOMAIN=b.example''] [(''TALOS_DOMAIN'', ''new.example'')]) ''TALOS_DOMAIN''
     = Some ''b.example''"
  by code_simp

end
