(* ===== verification/Log_Stream.thy ===== *)
theory Log_Stream
  imports Http Docker_Client "HOL-Library.Word"
begin

unbundle bit_operations_syntax

text \<open>
  \<open>internal/server/handlers/logs.go\<close>: the container's multiplexed log stream, taken apart
  into server-sent events, and the remaining calls of \<open>runtime/docker/client.go\<close>,
  \<open>Exec\<close> and \<open>StreamLogs\<close>.  A frame has an eight-byte header whose last four
  bytes are the size of the payload, most significant byte first; the size is a 32-bit word.
\<close>

section \<open>Frames\<close>

definition word_byte :: "char \<Rightarrow> 32 word" where
  "word_byte c = word_of_nat (of_char c)"

text \<open>\<open>binary.BigEndian.Uint32\<close>, as the standard library writes it.\<close>

definition be_uint32 :: "string \<Rightarrow> 32 word" where
  "be_uint32 b =
     word_byte (b ! 3) OR push_bit 8 (word_byte (b ! 2)) OR push_bit 16 (word_byte (b ! 1)) OR push_bit 24 (word_byte (b ! 0))"

datatype sse = Sse string string

definition sse_text :: "sse \<Rightarrow> string" where
  "sse_text e =
     (case e of Sse event data \<Rightarrow> ''event: '' @ event @ newline @ ''data: '' @ data @ newline @ newline)"

definition stream_type :: "char \<Rightarrow> string" where
  "stream_type b = (if b = CHR 0x02 then ''stderr'' else ''stdout'')"

definition frame_events :: "char \<Rightarrow> string \<Rightarrow> sse list" where
  "frame_events kind payload =
     map (Sse (stream_type kind))
       (filter (\<lambda>l. l \<noteq> []) (split_char (CHR 0x0A) (trim_right (\<lambda>c. c = CHR 0x0A) payload)))"

text \<open>The loop: \<open>io.ReadFull\<close> fails when the stream ends first, and the loop with it.\<close>

function demux :: "string \<Rightarrow> sse list" where
  "demux s =
     (if length s < 8 then []
      else
        (let hdr = take 8 s; rest = drop 8 s; size = unat (be_uint32 (drop 4 hdr)) in
         if size = 0 then demux rest
         else if length rest < size then []
         else frame_events (hd hdr) (take size rest) @ demux (drop size rest)))"
  by pat_completeness auto
termination
  by (relation "measure length") auto

declare demux.simps [simp del]

section \<open>The handler and the calls of the daemon\<close>

definition open_log_stream :: "outside \<Rightarrow> string \<Rightarrow> string \<Rightarrow> world \<Rightarrow> (go_error + string) \<times> world" where
  "open_log_stream out name tail w =
     (case perform (ContainerLogs name tail) (\<lambda>h. o_logs out h name tail) w of
        (Inl e, w1) \<Rightarrow> (Inl (Wrap ''stream logs'' e), w1)
      | (Inr bytes, w1) \<Rightarrow> (Inr bytes, w1))"

text \<open>The three calls of an exec are one; its answer is the output with the exit code.  The output
  is read as it is, with the headers of its frames.\<close>

definition Exec :: "outside \<Rightarrow> string \<Rightarrow> string list \<Rightarrow> world \<Rightarrow> (go_error + string) \<times> world" where
  "Exec out name cmd w =
     (case perform (ContainerExec name cmd) (\<lambda>h. o_exec out h name cmd) w of
        (Inl e, w1) \<Rightarrow> (Inl e, w1)
      | (Inr (output, code), w1) \<Rightarrow>
          if code \<noteq> 0 then (Inl (ErrText (''exec exited with code '' @ itoa code)), w1) else (Inr output, w1))"

datatype log_answer = LogRefused int string | LogEvents "sse list"

definition log_container :: "app \<Rightarrow> string" where
  "log_container a = (if EffectiveContainerName a = [] then ''talos-'' @ app_Name a else EffectiveContainerName a)"

definition StreamLogs :: "outside \<Rightarrow> string \<Rightarrow> world \<Rightarrow> log_answer \<times> world" where
  "StreamLogs out param w =
     (case parse_int64 param of
        None \<Rightarrow> (LogRefused 400 ''invalid app id'', w)
      | Some i \<Rightarrow>
          (case on_db (GetApp i) w of
             (Inl e, w1) \<Rightarrow> (LogRefused 404 ''app not found'', w1)
           | (Inr a, w1) \<Rightarrow>
               if app_AppType a = AppTypeExternalService
               then (LogRefused 400 ''external services do not have container logs'', w1)
               else
                 (case open_log_stream out (log_container a) ''100'' w1 of
                    (Inl e, w2) \<Rightarrow> (LogRefused 500 ''failed to open log stream'', w2)
                  | (Inr bytes, w2) \<Rightarrow>
                      (LogEvents ([Sse ''status'' ''connected''] @ demux bytes @ [Sse ''status'' ''stopped'']), w2))))"

section \<open>Taking apart what was put together\<close>

text \<open>How the daemon writes a frame.\<close>

definition be_bytes :: "nat \<Rightarrow> string" where
  "be_bytes n = map (\<lambda>k. char_of (n div 2 ^ k)) [24, 16, 8, 0]"

definition frame_bytes :: "char \<times> string \<Rightarrow> string" where
  "frame_bytes f = (case f of (kind, payload) \<Rightarrow> [kind, CHR 0x00, CHR 0x00, CHR 0x00] @ be_bytes (length payload) @ payload)"

lemma word_byte_char_of: "word_byte (char_of n) = take_bit 8 (word_of_nat n)"
proof -
  have "(of_char (char_of n :: char) :: nat) = take_bit 8 n" by (simp add: take_bit_eq_mod)
  then show ?thesis by (simp add: word_byte_def of_nat_take_bit)
qed

lemma be_uint32_bytes: "be_uint32 (be_bytes n) = word_of_nat n"
proof (rule bit_word_eqI)
  fix i
  assume "i < LENGTH(32)"
  then have i: "i < 32" by simp
  consider "i < 8" | "8 \<le> i" "i < 16" | "16 \<le> i" "i < 24" | "24 \<le> i" using i by linarith
  then show "bit (be_uint32 (be_bytes n)) i \<longleftrightarrow> bit (word_of_nat n :: 32 word) i"
    by cases (use i in \<open>auto simp: be_uint32_def be_bytes_def word_byte_char_of bit_simps drop_bit_eq_div [symmetric]\<close>)
qed

lemma be_uint32_size: "n < 2 ^ 32 \<Longrightarrow> unat (be_uint32 (be_bytes n)) = n"
  by (simp add: be_uint32_bytes unat_of_nat take_bit_nat_eq_self)

lemma be_bytes_length [simp]: "length (be_bytes n) = 4"
  by (simp add: be_bytes_def)

lemma demux_short: "length s < 8 \<Longrightarrow> demux s = []"
  by (simp add: demux.simps)

lemma frame_events_Nil [simp]: "frame_events kind [] = []"
  by (simp add: frame_events_def trim_right_def)

lemma demux_step:
  assumes "8 \<le> length s" and "be_uint32 (drop 4 (take 8 s)) = z" and "drop 8 s = rest" and "hd (take 8 s) = kind"
  shows "demux s =
    (if unat z = 0 then demux rest else if length rest < unat z then []
     else frame_events kind (take (unat z) rest) @ demux (drop (unat z) rest))"
  unfolding demux.simps [of s] Let_def assms(2-4) using assms(1) by simp

lemma demux_frame:
  assumes "length payload < 2 ^ 32"
  shows "demux (frame_bytes (kind, payload) @ rest) = frame_events kind payload @ demux rest"
proof -
  let ?z = "be_uint32 (be_bytes (length payload))"
  have "demux (frame_bytes (kind, payload) @ rest) =
      (if unat ?z = 0 then demux (payload @ rest) else if length (payload @ rest) < unat ?z then []
       else frame_events kind (take (unat ?z) (payload @ rest)) @ demux (drop (unat ?z) (payload @ rest)))"
    by (rule demux_step) (simp_all add: frame_bytes_def)
  then show ?thesis using be_uint32_size [OF assms] by (cases "payload = []") simp_all
qed

text \<open>Whatever is missing at the end of the stream, what was sent before is a prefix.\<close>

lemma demux_prefix: "prefix (demux s) (demux (s @ t))"
proof (induction s rule: demux.induct)
  case (1 s)
  show ?case
  proof (cases "length s < 8")
    case False
    define z where "z = be_uint32 (drop 4 (take 8 s))"
    have s: "demux s = (if unat z = 0 then demux (drop 8 s) else if length (drop 8 s) < unat z then []
        else frame_events (hd (take 8 s)) (take (unat z) (drop 8 s)) @ demux (drop (unat z) (drop 8 s)))"
      by (rule demux_step) (use False z_def in simp_all)
    have st: "demux (s @ t) = (if unat z = 0 then demux (drop 8 s @ t) else if length (drop 8 s @ t) < unat z then []
        else frame_events (hd (take 8 s)) (take (unat z) (drop 8 s @ t)) @ demux (drop (unat z) (drop 8 s @ t)))"
      by (rule demux_step) (use False z_def in simp_all)
    show ?thesis
    proof (cases "unat z = 0")
      case True
      then show ?thesis using 1(1) [OF False refl refl refl] s st by (simp add: z_def)
    next
      case nonzero: False
      show ?thesis
      proof (cases "length (drop 8 s) < unat z")
        case False
        have "prefix (demux (drop (unat z) (drop 8 s))) (demux (drop (unat z) (drop 8 s) @ t))"
          using 1(2) [OF \<open>\<not> length s < 8\<close> refl refl refl] nonzero False unfolding z_def by blast
        then show ?thesis using s st nonzero False by simp
      qed (use s nonzero in simp)
    qed
  qed (simp add: demux_short)
qed

abbreviation frames_events :: "(char \<times> string) list \<Rightarrow> sse list" where
  "frames_events fs \<equiv> concat (map (\<lambda>(kind, payload). frame_events kind payload) fs)"

lemma demux_frames: "list_all (\<lambda>f. length (snd f) < 2 ^ 32) fs \<Longrightarrow> demux (concat (map frame_bytes fs)) = frames_events fs"
  by (induction fs) (auto simp: demux_frame demux_short simp del: demux.simps)

definition plain_event :: "sse \<Rightarrow> bool" where
  "plain_event e =
     (case e of Sse event line \<Rightarrow> event \<in> {''stdout'', ''stderr''} \<and> line \<noteq> [] \<and> CHR 0x0A \<notin> set line)"

lemma frame_events_plain: "e \<in> set (frame_events kind payload) \<Longrightarrow> plain_event e"
  by (auto simp: plain_event_def frame_events_def stream_type_def dest: split_char_elems)



end
