(* ===== verification/Go_Time.thy ===== *)
theory Go_Time
  imports Domain
begin

text \<open>
  Times as text: what the program uses of the method \<open>Format\<close> of the package \<open>time\<close>, for
  times in UTC.
\<close>

text \<open>The date of a day counted from 1 January 1970 in the Gregorian calendar.\<close>

definition civil_date :: "int \<Rightarrow> int \<times> int \<times> int" where
  "civil_date days =
     (let z = days + 719468; era = z div 146097; doe = z mod 146097;
          yoe = (doe - doe div 1460 + doe div 36524 - doe div 146096) div 365;
          doy = doe - (365 * yoe + yoe div 4 - yoe div 100);
          mp = (5 * doy + 2) div 153;
          day = doy - (153 * mp + 2) div 5 + 1;
          month = (if mp < 10 then mp + 3 else mp - 9);
          year = yoe + era * 400 + (if month \<le> 2 then 1 else 0)
      in (year, month, day))"

definition pad :: "nat \<Rightarrow> int \<Rightarrow> string" where
  "pad width n = replicate (width - length (itoa n)) (CHR ''0'') @ itoa n"

text \<open>The layout \<open>20060102-150405\<close>, in UTC.\<close>

definition format_stamp :: "time \<Rightarrow> string" where
  "format_stamp t =
     (let secs = t div 1000000000; days = secs div 86400; s = secs mod 86400; (y, m, d) = civil_date days
      in pad 4 y @ pad 2 m @ pad 2 d @ ''-'' @ pad 2 (s div 3600) @ pad 2 (s div 60 mod 60) @ pad 2 (s mod 60))"

lemma format_stamp_leap_day: "format_stamp 1709212509999999999 = ''20240229-131509''"
  by code_simp

text \<open>The layout \<open>time.RFC3339\<close>, in UTC.\<close>

definition rfc3339 :: "time \<Rightarrow> string" where
  "rfc3339 t =
     (let secs = t div 1000000000; days = secs div 86400; s = secs mod 86400; (y, m, d) = civil_date days
      in pad 4 y @ ''-'' @ pad 2 m @ ''-'' @ pad 2 d @ ''T'' @ pad 2 (s div 3600) @ '':'' @ pad 2 (s div 60 mod 60) @ '':'' @ pad 2 (s mod 60) @ ''Z'')"

end
