(* ===== verification/Backups.thy ===== *)
theory Backups
  imports App_Handlers Builder Go_Time
begin

text \<open>
  \<open>internal/backup/manager.go\<close> and \<open>internal/server/handlers/backup.go\<close>: backups of the
  database and the service volumes.  An archive is the list of its entries (name, whether it is a
  directory, contents); \<open>o_targz\<close> and \<open>o_untargz\<close> are the tar and gzip writers and
  readers, \<open>o_snapshot\<close> what \<open>VACUUM INTO\<close> writes for a database and \<open>o_walk\<close> the
  files and directories that \<open>filepath.Walk\<close> meets, relative to its root.
\<close>

section \<open>File names\<close>

definition backup_filename :: "time \<Rightarrow> string" where
  "backup_filename t = ''talos-backup-'' @ format_stamp t @ ''.tar.gz''"

section \<open>The manager\<close>

record backup_manager =
  bm_dataDir :: string
  bm_backupDir :: string
  bm_retain :: int

definition NewManager :: "string \<Rightarrow> string \<Rightarrow> int \<Rightarrow> backup_manager" where
  "NewManager dataDir backupDir retain =
     \<lparr>bm_dataDir = dataDir, bm_backupDir = backupDir, bm_retain = (if retain \<le> 0 then 10 else retain)\<rparr>"

definition dbPath :: "backup_manager \<Rightarrow> string" where
  "dbPath m = path_join [bm_dataDir m, ''talos.db'']"

type_synonym archive = "(string \<times> bool \<times> string) list"

definition wrapped_call :: "string \<Rightarrow> (go_error + 'a) \<times> world \<Rightarrow> (go_error + 'a) \<times> world" where
  "wrapped_call what rw = (wrap_err what (fst rw), snd rw)"

text \<open>\<open>os.MkdirAll\<close> and \<open>os.MkdirTemp\<close>.\<close>

definition mkdir_all :: "outside \<Rightarrow> string \<Rightarrow> world \<Rightarrow> (go_error + unit) \<times> world" where
  "mkdir_all out path w = perform (MkdirAll path) (\<lambda>h. o_file out h (MkdirAll path)) w"

definition mkdir_temp :: "outside \<Rightarrow> string \<Rightarrow> world \<Rightarrow> (go_error + string) \<times> world" where
  "mkdir_temp out pattern w = perform (MkdirTemp pattern) (o_mkdir_temp out) w"

definition vacuum_into :: "outside \<Rightarrow> string \<Rightarrow> world \<Rightarrow> (go_error + unit) \<times> world" where
  "vacuum_into out path w =
     (case perform (VacuumInto path) (\<lambda>h. o_vacuum out h path) w of
        (Inl e, w1) \<Rightarrow> (Inl e, w1)
      | (Inr _, w1) \<Rightarrow> (Inr (), w1\<lparr>w_files := (w_files w1)(path \<mapsto> o_snapshot out (w_db w))\<rparr>))"

section \<open>Writing an archive\<close>

text \<open>While an entry is added, the writers may push what they have gathered to the file, which can
  fail.  A directory is a header only; the contents of a file are read when its turn comes.\<close>

definition add_entry ::
  "outside \<Rightarrow> string \<Rightarrow> string \<Rightarrow> string \<Rightarrow> bool \<Rightarrow> archive \<Rightarrow> world \<Rightarrow> (go_error + archive) \<times> world" where
  "add_entry out dest path name is_dir es w =
     (case perform (FileWrite dest name) (\<lambda>h. o_file out h (FileWrite dest name)) w of
        (Inl e, w1) \<Rightarrow> (Inl e, w1)
      | (Inr _, w1) \<Rightarrow>
          if is_dir then (Inr (es @ [(name, True, [])]), w1)
          else
            (case read_file out path w1 of
               (Inl e, w2) \<Rightarrow> (Inl e, w2)
             | (Inr data, w2) \<Rightarrow>
                 (case perform (FileWrite dest data) (\<lambda>h. o_file out h (FileWrite dest data)) w2 of
                    (Inl e, w3) \<Rightarrow> (Inl e, w3)
                  | (Inr _, w3) \<Rightarrow> (Inr (es @ [(name, False, data)]), w3))))"

definition addFileToTar :: "outside \<Rightarrow> string \<Rightarrow> string \<Rightarrow> string \<Rightarrow> archive \<Rightarrow> world \<Rightarrow> (go_error + archive) \<times> world" where
  "addFileToTar out dest path name es w =
     (if \<not> stat_ok out path w then (Inl (Wrap (''stat '' @ path) ErrNoEnt), w)
      else add_entry out dest path name False es w)"

fun add_walked ::
  "outside \<Rightarrow> string \<Rightarrow> string \<Rightarrow> string \<Rightarrow> (string \<times> bool) list \<Rightarrow> archive \<Rightarrow> world \<Rightarrow> (go_error + archive) \<times> world" where
  "add_walked out dest dir arcname [] es w = (Inr es, w)"
| "add_walked out dest dir arcname ((rel, is_dir) # rest) es w =
     (case add_entry out dest (path_join [dir, rel]) (path_join [arcname, rel]) is_dir es w of
        (Inl e, w1) \<Rightarrow> (Inl e, w1)
      | (Inr es1, w1) \<Rightarrow> add_walked out dest dir arcname rest es1 w1)"

definition addDirToTar :: "outside \<Rightarrow> string \<Rightarrow> string \<Rightarrow> string \<Rightarrow> archive \<Rightarrow> world \<Rightarrow> (go_error + archive) \<times> world" where
  "addDirToTar out dest dir arcname es w =
     (case perform (DirWalk dir) (\<lambda>h. o_walk out h dir) w of
        (Inl e, w1) \<Rightarrow> (Inl e, w1)
      | (Inr found, w1) \<Rightarrow> add_walked out dest dir arcname found es w1)"

text \<open>Closing the writers flushes them; its errors are ignored.  After a failure the file keeps
  whatever had been written.\<close>

definition close_archive :: "outside \<Rightarrow> string \<Rightarrow> archive \<Rightarrow> world \<Rightarrow> world" where
  "close_archive out dest es w = snd (write_contents out dest (o_targz out es) w)"

definition write_archive :: "outside \<Rightarrow> backup_manager \<Rightarrow> string \<Rightarrow> string \<Rightarrow> world \<Rightarrow> (go_error + unit) \<times> world" where
  "write_archive out m dest dbCopyPath w =
     (case create_file out dest w of
        (Inl e, w1) \<Rightarrow> (Inl (Wrap ''create backup file'' e), w1)
      | (Inr _, w1) \<Rightarrow>
          (case addFileToTar out dest dbCopyPath ''talos.db'' [] w1 of
             (Inl e, w2) \<Rightarrow> (Inl (Wrap ''tar database'' e), close_archive out dest [] w2)
           | (Inr es, w2) \<Rightarrow>
               (let servicesDir = path_join [bm_dataDir m, ''services''] in
                if stat_ok out servicesDir w2 then
                  (case addDirToTar out dest servicesDir ''services'' es w2 of
                     (Inl e, w3) \<Rightarrow> (Inl (Wrap ''tar services'' e), close_archive out dest es w3)
                   | (Inr es1, w3) \<Rightarrow> (Inr (), close_archive out dest es1 w3))
                else (Inr (), close_archive out dest es w2))))"

section \<open>Creating, retaining, deleting\<close>

definition deleteBackupFiles :: "outside \<Rightarrow> backup_manager \<Rightarrow> string \<Rightarrow> world \<Rightarrow> (go_error + unit) \<times> world" where
  "deleteBackupFiles out m filename w =
     (case remove_file out (path_join [bm_backupDir m, filename]) w of
        (Inl e, w1) \<Rightarrow> if is_not_exist e then (Inr (), w1) else (Inl e, w1)
      | (Inr _, w1) \<Rightarrow> (Inr (), w1))"

fun delete_surplus :: "outside \<Rightarrow> backup_manager \<Rightarrow> backup list \<Rightarrow> world \<Rightarrow> world" where
  "delete_surplus out m [] w = w"
| "delete_surplus out m (b # bs) w =
     delete_surplus out m bs (snd (on_db (DeleteBackup (bak_ID b)) (snd (deleteBackupFiles out m (bak_Filename b) w))))"

definition enforceRetentionPolicy :: "outside \<Rightarrow> backup_manager \<Rightarrow> world \<Rightarrow> (go_error + unit) \<times> world" where
  "enforceRetentionPolicy out m w =
     (case on_db ListBackups w of
        (Inl e, w1) \<Rightarrow> (Inl (Wrap ''list backups'' e), w1)
      | (Inr bs, w1) \<Rightarrow>
          if int (length bs) \<le> bm_retain m then (Inr (), w1)
          else (Inr (), delete_surplus out m (drop (nat (bm_retain m)) bs) w1))"

definition record_backup :: "outside \<Rightarrow> backup_manager \<Rightarrow> string \<Rightarrow> string \<Rightarrow> world \<Rightarrow> (go_error + backup) \<times> world" where
  "record_backup out m filename dest w =
     (case w_files w dest of
        None \<Rightarrow> (Inl (Wrap ''stat backup file'' ErrNoEnt), w)
      | Some contents \<Rightarrow>
          (case on_db (CreateBackup
                  \<lparr>bak_ID = 0, bak_Filename = filename, bak_SizeBytes = int (length contents), bak_Type = ''full'',
                   bak_Status = ''completed'', bak_CreatedAt = 0\<rparr>) w of
             (Inl e, w1) \<Rightarrow> (Inl (Wrap ''record backup'' e), w1)
           | (Inr b, w1) \<Rightarrow> (Inr b, snd (enforceRetentionPolicy out m w1))))"

definition CreateFullBackup :: "outside \<Rightarrow> backup_manager \<Rightarrow> world \<Rightarrow> (go_error + backup) \<times> world" where
  "CreateFullBackup out m w =
     (case mkdir_all out (bm_backupDir m) w of
        (Inl e, w1) \<Rightarrow> (Inl (Wrap ''create backup directory'' e), w1)
      | (Inr _, w1) \<Rightarrow>
          (let filename = backup_filename (time_now w1); dest = path_join [bm_backupDir m, filename] in
           (case mkdir_temp out ''talos-backup-*'' w1 of
              (Inl e, w2) \<Rightarrow> (Inl (Wrap ''create temp dir'' e), w2)
            | (Inr tmpDir, w2) \<Rightarrow>
                (let dbCopyPath = path_join [tmpDir, ''talos.db''];
                     (r, w5) =
                       (case vacuum_into out dbCopyPath w2 of
                          (Inl e, w3) \<Rightarrow> (Inl (Wrap ''vacuum into'' e), w3)
                        | (Inr _, w3) \<Rightarrow>
                            (case write_archive out m dest dbCopyPath w3 of
                               (Inl e, w4) \<Rightarrow> (Inl e, w4)
                             | (Inr _, w4) \<Rightarrow> record_backup out m filename dest w4))
                 in (r, remove_all out tmpDir w5)))))"

definition DeleteBackupFile :: "outside \<Rightarrow> backup_manager \<Rightarrow> int \<Rightarrow> world \<Rightarrow> (go_error + unit) \<times> world" where
  "DeleteBackupFile out m i w =
     (case on_db (GetBackup i) w of
        (Inl e, w1) \<Rightarrow> (Inl (Wrap ''get backup'' e), w1)
      | (Inr b, w1) \<Rightarrow>
          (case deleteBackupFiles out m (bak_Filename b) w1 of
             (Inl e, w2) \<Rightarrow> (Inl (Wrap ''delete backup file'' e), w2)
           | (Inr _, w2) \<Rightarrow> wrapped_call ''delete backup record'' (on_db (DeleteBackup i) w2)))"

text \<open>The scheduler: one backup per tick until its context is cancelled; a failed backup does not stop
  it.\<close>

fun StartScheduler :: "outside \<Rightarrow> backup_manager \<Rightarrow> nat \<Rightarrow> world \<Rightarrow> world" where
  "StartScheduler out m 0 w = w"
| "StartScheduler out m (Suc ticks) w = StartScheduler out m ticks (snd (CreateFullBackup out m w))"

section \<open>Restoring\<close>

definition extractFile :: "outside \<Rightarrow> string \<Rightarrow> string \<Rightarrow> world \<Rightarrow> (go_error + unit) \<times> world" where
  "extractFile out contents dest w =
     (case mkdir_all out (path_dir dest) w of
        (Inl e, w1) \<Rightarrow> (Inl e, w1)
      | (Inr _, w1) \<Rightarrow> write_file out dest contents w1)"

definition in_services :: "string \<Rightarrow> bool" where
  "in_services name \<longleftrightarrow> length name > length ''services/'' \<and> has_prefix name ''services/''"

definition restore_entry :: "outside \<Rightarrow> backup_manager \<Rightarrow> string \<times> bool \<times> string \<Rightarrow> world \<Rightarrow> (go_error + unit) \<times> world" where
  "restore_entry out m entry w =
     (case entry of (name, is_dir, contents) \<Rightarrow>
        if name = ''talos.db'' then wrapped_call ''restore database'' (extractFile out contents (dbPath m) w)
        else if in_services name then
          (let dest = path_join [bm_dataDir m, name] in
           if is_dir then wrapped_call (''create dir '' @ dest) (mkdir_all out dest w)
           else wrapped_call (''restore '' @ name) (extractFile out contents dest w))
        else (Inr (), w))"

fun restore_entries :: "outside \<Rightarrow> backup_manager \<Rightarrow> archive \<Rightarrow> world \<Rightarrow> (go_error + unit) \<times> world" where
  "restore_entries out m [] w = (Inr (), w)"
| "restore_entries out m (entry # rest) w =
     (case restore_entry out m entry w of
        (Inl e, w1) \<Rightarrow> (Inl e, w1)
      | (Inr _, w1) \<Rightarrow> restore_entries out m rest w1)"

text \<open>The reader gives the entries up to the first error, if there is one.\<close>

definition Restore :: "outside \<Rightarrow> backup_manager \<Rightarrow> int \<Rightarrow> world \<Rightarrow> (go_error + unit) \<times> world" where
  "Restore out m i w =
     (case on_db (GetBackup i) w of
        (Inl e, w1) \<Rightarrow> (Inl (Wrap ''get backup'' e), w1)
      | (Inr b, w1) \<Rightarrow>
          (case read_file out (path_join [bm_backupDir m, bak_Filename b]) w1 of
             (Inl e, w2) \<Rightarrow> (Inl (Wrap ''open backup file'' e), w2)
           | (Inr bytes, w2) \<Rightarrow>
               (case o_untargz out bytes of (es, broken) \<Rightarrow>
                  (case restore_entries out m es w2 of
                     (Inl e, w3) \<Rightarrow> (Inl e, w3)
                   | (Inr _, w3) \<Rightarrow> (case broken of None \<Rightarrow> (Inr (), w3) | Some e \<Rightarrow> (Inl e, w3))))))"

section \<open>The handlers\<close>

definition BackupCreate :: "outside \<Rightarrow> backup_manager \<Rightarrow> world \<Rightarrow> backup answer \<times> world" where
  "BackupCreate out m w =
     (case CreateFullBackup out m w of
        (Inl e, w1) \<Rightarrow> (Failed 500 (error_text e), w1)
      | (Inr b, w1) \<Rightarrow> (Answer 201 b, w1))"

definition BackupList :: "world \<Rightarrow> backup list answer \<times> world" where
  "BackupList w =
     (case on_db ListBackups w of
        (Inl e, w1) \<Rightarrow> (Failed 500 (error_text e), w1)
      | (Inr bs, w1) \<Rightarrow> (Answer 200 bs, w1))"

definition with_backup_id :: "string \<Rightarrow> (int \<Rightarrow> world \<Rightarrow> 'v answer \<times> world) \<Rightarrow> world \<Rightarrow> 'v answer \<times> world" where
  "with_backup_id param f w =
     (case parseID param of None \<Rightarrow> (Failed 400 ''invalid backup id'', w) | Some i \<Rightarrow> f i w)"

text \<open>The file to be served.\<close>

definition BackupDownload :: "outside \<Rightarrow> backup_manager \<Rightarrow> string \<Rightarrow> world \<Rightarrow> string answer \<times> world" where
  "BackupDownload out m param =
     with_backup_id param (\<lambda>i w.
       (case on_db (GetBackup i) w of
          (Inl e, w1) \<Rightarrow> (Failed 404 ''backup not found'', w1)
        | (Inr b, w1) \<Rightarrow>
            (let path = path_join [bm_backupDir m, bak_Filename b] in
             if \<not> stat_ok out path w1 then (Failed 404 ''backup file not found on disk'', w1) else (Answer 200 path, w1))))"

definition BackupDelete :: "outside \<Rightarrow> backup_manager \<Rightarrow> string \<Rightarrow> world \<Rightarrow> unit answer \<times> world" where
  "BackupDelete out m param =
     with_backup_id param (\<lambda>i w.
       (case DeleteBackupFile out m i w of
          (Inl e, w1) \<Rightarrow> (Failed 500 (error_text e), w1)
        | (Inr _, w1) \<Rightarrow> (NoContent, w1)))"

definition BackupRestore :: "outside \<Rightarrow> backup_manager \<Rightarrow> string \<Rightarrow> world \<Rightarrow> string answer \<times> world" where
  "BackupRestore out m param =
     with_backup_id param (\<lambda>i w.
       (case Restore out m i w of
          (Inl e, w1) \<Rightarrow> (Failed 500 (''restore failed: '' @ error_text e), w1)
        | (Inr _, w1) \<Rightarrow>
            (Answer 200 ''Backup restored successfully. Restart the server to apply database changes.'', w1)))"

end
