(* ===== verification/Paths.thy ===== *)
theory Paths
  imports Go_Prelude
begin

text \<open>
  Absolute and relative paths made of ordinary components: \<open>filepath.Clean\<close> keeps them,
  \<open>filepath.Join\<close> appends their components, and different components give different paths.
\<close>

definition abs_path :: "string list \<Rightarrow> string" where
  "abs_path cs = ''/'' @ join ''/'' cs"

definition plain_path :: "string list \<Rightarrow> bool" where
  "plain_path cs \<longleftrightarrow> cs \<noteq> [] \<and> list_all plain_component cs"

lemma split_join_plain: "plain_path cs \<Longrightarrow> split_char (CHR ''/'') (join ''/'' cs) = cs"
by (rule split_char_join) (auto simp: plain_path_def plain_component_def list_all_iff)

lemma join_inj: "plain_path as \<Longrightarrow> plain_path bs \<Longrightarrow> join ''/'' as = join ''/'' bs \<longleftrightarrow> as = bs"
  by (metis split_join_plain)

lemma abs_path_inj: "plain_path as \<Longrightarrow> plain_path bs \<Longrightarrow> abs_path as = abs_path bs \<longleftrightarrow> as = bs"
  by (simp add: abs_path_def join_inj)

lemma plain_path_append [simp]: "plain_path as \<Longrightarrow> plain_path bs \<Longrightarrow> plain_path (as @ bs)"
  by (simp add: plain_path_def)

lemma clean_join: "plain_path cs \<Longrightarrow> path_clean (join ''/'' cs) = join ''/'' cs"
proof -
  assume p: "plain_path cs"
  have "\<not> path_is_abs (join ''/'' cs)"
  proof (cases cs)
    case (Cons c ds)
    then have "c \<noteq> []" "CHR ''/'' \<notin> set c" using p by (auto simp: plain_path_def plain_component_def)
    then show ?thesis using Cons by (cases c; cases ds) (auto simp: path_is_abs_def has_prefix_def)
  qed (simp add: path_is_abs_def has_prefix_def)
  moreover have "clean_comps r [] cs = cs" for r
    using p clean_comps_plain [of cs r "[]"] by (simp add: plain_path_def list_all_iff)
  moreover have "cs \<noteq> []" using p by (simp add: plain_path_def)
  ultimately show ?thesis by (simp add: path_clean_def split_join_plain [OF p])
qed

lemma clean_abs: "plain_path cs \<Longrightarrow> path_clean (abs_path cs) = abs_path cs"
proof -
  assume p: "plain_path cs"
  have "split_char (CHR ''/'') (abs_path cs) = [] # cs"
    using split_char_append_sep [of "CHR ''/''" "[]"] by (simp add: abs_path_def split_join_plain [OF p])
  moreover have "clean_comps r [] cs = cs" for r
    using p clean_comps_plain [of cs r "[]"] by (simp add: plain_path_def list_all_iff)
  ultimately show ?thesis by (simp add: path_clean_def path_is_abs_def has_prefix_def abs_path_def)
qed

lemma join_nonempty: "plain_path cs \<Longrightarrow> join ''/'' cs \<noteq> []"
  by (cases cs) (auto simp: plain_path_def plain_component_def, metis append_is_Nil_conv join.simps(2,3) neq_Nil_conv)

lemma path_join_rel:
  "plain_path as \<Longrightarrow> plain_path bs \<Longrightarrow> path_join [join ''/'' as, join ''/'' bs] = join ''/'' (as @ bs)"
  using clean_join [of "as @ bs"] join_nonempty [of as] join_nonempty [of bs]
  by (simp add: path_join_def join_append plain_path_def)

lemma path_join_abs:
  "plain_path as \<Longrightarrow> plain_path bs \<Longrightarrow> path_join [abs_path as, join ''/'' bs] = abs_path (as @ bs)"
  using clean_abs [of "as @ bs"] join_nonempty [of bs]
  by (simp add: path_join_def abs_path_def join_append plain_path_def)

end
