(* ===== verification/Backups_Claims.thy ===== *)
theory Backups_Claims
  imports Backups Store_Properties Paths
begin

text \<open>
  What a backup keeps and brings back.  \<open>CreateFullBackup_spec\<close> says which rows are left after
  the retention policy, \<open>backup_lost_on_tie\<close> that a backup can be removed by its own request, and
  \<open>Create_then_Restore\<close> that an archive restores the database and the files of the services.
\<close>

section \<open>Deleting the surplus\<close>

lemma remove_file_db [frame]: "w_db (snd (remove_file out p w)) = w_db w"
  by (auto simp: remove_file_def perform_def Let_def split: sum.split)

lemma deleteBackupFiles_db [frame]: "w_db (snd (deleteBackupFiles out m f w)) = w_db w"
  using remove_file_db [of out "path_join [bm_backupDir m, f]" w]
  by (auto simp: deleteBackupFiles_def split: prod.splits sum.splits)

text \<open>\<open>g\<close> has the files of \<open>f\<close>, some of them removed.\<close>

definition fewer_files :: "(string \<rightharpoonup> string) \<Rightarrow> (string \<rightharpoonup> string) \<Rightarrow> bool" where
  "fewer_files f g \<longleftrightarrow> (\<forall>p. g p = None \<or> g p = f p)"

lemma fewer_files_refl [simp]: "fewer_files f f"
  by (simp add: fewer_files_def)

lemma fewer_files_trans: "fewer_files f g \<Longrightarrow> fewer_files g h \<Longrightarrow> fewer_files f h"
  by (metis fewer_files_def)

lemma deleteBackupFiles_fewer: "fewer_files (w_files w) (w_files (snd (deleteBackupFiles out m f w)))"
  by (auto simp: deleteBackupFiles_def remove_file_def perform_def fewer_files_def Let_def split: prod.splits sum.splits)

lemma delete_surplus_fewer: "fewer_files (w_files w) (w_files (delete_surplus out m bs w))"
proof (induction bs arbitrary: w)
  case (Cons b bs)
  show ?case
    using fewer_files_trans [OF deleteBackupFiles_fewer Cons.IH [of "snd (on_db (DeleteBackup (bak_ID b))
      (snd (deleteBackupFiles out m (bak_Filename b) w)))", unfolded on_db_frame]] by simp
qed simp

lemma remove_all_fewer: "fewer_files (w_files w) (w_files (remove_all out dir w))"
  by (auto simp: remove_all_def perform_def fewer_files_def Let_def split: sum.split)

lemma enforce_fewer: "fewer_files (w_files w) (w_files (snd (enforceRetentionPolicy out m w)))"
  using delete_surplus_fewer [where w = "w\<lparr>w_db := d\<rparr>" for d]
  by (auto simp: enforceRetentionPolicy_def on_db_def split: prod.split sum.split)

lemma DeleteBackup_rows:
  assumes "db_oracle d = []" "fk_ok d"
  shows "snd (DeleteBackup i d) = d\<lparr>db_backups := tbl_delete (\<lambda>b. bak_ID b = i) (db_backups d)\<rparr>"
proof -
  have "fk_ok (d\<lparr>db_backups := tbl_delete (\<lambda>b. bak_ID b = i) (db_backups d)\<rparr>)"
    using assms(2) by (simp add: fk_ok_def app_ids_def deploy_ids_def service_ids_def)
  then show ?thesis using assms by (simp add: DeleteBackup_def wrapped_def exec_def)
qed

lemma fk_ok_backups [simp]: "fk_ok (d\<lparr>db_backups := t\<rparr>) = fk_ok d"
  by (simp add: fk_ok_def app_ids_def deploy_ids_def service_ids_def)

lemma delete_surplus_rows:
  assumes "db_oracle (w_db w) = []" "fk_ok (w_db w)"
  shows "tbl_rows (db_backups (w_db (delete_surplus out m bs w))) =
           filter (\<lambda>r. bak_ID r \<notin> bak_ID ` set bs) (tbl_rows (db_backups (w_db w)))"
  using assms
proof (induction bs arbitrary: w)
  case (Cons b bs)
  let ?w1 = "snd (on_db (DeleteBackup (bak_ID b)) (snd (deleteBackupFiles out m (bak_Filename b) w)))"
  have db: "w_db ?w1 = (w_db w)\<lparr>db_backups := tbl_delete (\<lambda>r. bak_ID r = bak_ID b) (db_backups (w_db w))\<rparr>"
    using Cons.prems by (simp add: on_db_db frame DeleteBackup_rows)
  have "tbl_rows (db_backups (w_db (delete_surplus out m bs ?w1))) =
      filter (\<lambda>r. bak_ID r \<notin> bak_ID ` set bs) (tbl_rows (db_backups (w_db ?w1)))"
    using Cons.IH [of ?w1] Cons.prems db by simp
  then show ?case unfolding db delete_surplus.simps by (simp add: conj_commute)
qed simp

text \<open>Of rows with distinct ids, those whose id is not in the rest of a permutation are its front.\<close>

lemma filter_not_in_rest:
  assumes "mset ys = mset rows" and "distinct (map f rows)"
  shows "mset (filter (\<lambda>r. f r \<notin> f ` set (drop n ys)) rows) = mset (take n ys)"
proof -
  have "mset (map f ys) = mset (map f rows)" using assms(1) by simp
  then have "distinct (map f ys)" using assms(2) mset_eq_imp_distinct_iff by blast
  then have d: "distinct (map f (take n ys @ drop n ys))" by simp
  then have "filter (\<lambda>r. f r \<notin> f ` set (drop n ys)) (take n ys @ drop n ys) = take n ys"
    unfolding map_append distinct_append filter_append by (auto simp: filter_empty_conv filter_id_conv)
  then show ?thesis using assms(1) by (metis append_take_drop_id mset_filter)
qed

section \<open>The rows after a backup\<close>

lemma enforce_rows:
  assumes "db_oracle (w_db w) = []" "db_inv (w_db w)" "0 \<le> bm_retain m"
  shows "mset (tbl_rows (db_backups (w_db (snd (enforceRetentionPolicy out m w))))) =
           mset (take (nat (bm_retain m)) (order_desc bak_CreatedAt (tbl_rows (db_backups (w_db w)))))"
proof -
  let ?ys = "order_desc bak_CreatedAt (tbl_rows (db_backups (w_db w)))"
  have list: "on_db ListBackups w = (Inr ?ys, w)"
    using assms(1) by (simp add: on_db_pair ListBackups_def wrapped_def query_def)
  have fk: "fk_ok (w_db w)" and ids: "distinct (map bak_ID (tbl_rows (db_backups (w_db w))))"
    using assms(2) by (auto simp: db_inv_def backups.ids_ok_distinct)
  have perm: "mset ?ys = mset (tbl_rows (db_backups (w_db w)))" by (simp add: order_desc_def)
  show ?thesis
  proof (cases "int (length ?ys) \<le> bm_retain m")
    case True
    then show ?thesis using assms(3) perm by (simp add: enforceRetentionPolicy_def list nat_le_iff le_nat_iff)
  next
    case False
    then have "w_db (snd (enforceRetentionPolicy out m w)) = w_db (delete_surplus out m (drop (nat (bm_retain m)) ?ys) w)"
      by (simp add: enforceRetentionPolicy_def list)
    then show ?thesis
      using delete_surplus_rows [OF assms(1) fk] filter_not_in_rest [OF perm ids] by simp
  qed
qed

lemma CreateBackup_rows:
  assumes "db_oracle d = []" "fk_ok d"
  shows "CreateBackup b d =
           (Inr (b\<lparr>bak_ID := tbl_seq (db_backups d) + 1\<rparr>),
            d\<lparr>db_last_rowid := tbl_seq (db_backups d) + 1,
              db_backups := snd (tbl_insert set_bak_id (b\<lparr>bak_CreatedAt := current_timestamp d\<rparr>) (db_backups d))\<rparr>)"
proof -
  have "fk_ok (d\<lparr>db_last_rowid := i, db_backups := t\<rparr>)" for i t
    using assms(2) by (simp add: fk_ok_def app_ids_def deploy_ids_def service_ids_def)
  then show ?thesis
    using assms by (simp add: CreateBackup_def wrapped_def exec_def insert_into_def no_conflict_def tbl_insert_def Let_def)
qed

text \<open>Up to the last step a backup does not touch the database.\<close>

lemma write_file_calls_db [frame]:
  "w_db (snd (read_file out p w)) = w_db w" "w_db (snd (mkdir_all out p w)) = w_db w"
  "w_db (snd (mkdir_temp out p w)) = w_db w" "w_db (snd (vacuum_into out p w)) = w_db w"
  by (auto simp: read_file_def mkdir_all_def mkdir_temp_def vacuum_into_def perform_def Let_def split: option.split sum.split)

lemma add_entry_db [frame]: "w_db (snd (add_entry out dest p name is_dir es w)) = w_db w"
  by (auto simp: add_entry_def read_file_def perform_def Let_def split: option.splits sum.splits)

lemma add_walked_db [frame]: "w_db (snd (add_walked out dest dir arc found es w)) = w_db w"
proof (induction out dest dir arc found es w rule: add_walked.induct)
  case (2 out dest dir arc rel is_dir rest es w)
  then show ?case
    using add_entry_db [of out dest "path_join [dir, rel]" "path_join [arc, rel]" is_dir es w]
    by (auto split: prod.split sum.split)
qed simp

lemma write_archive_db [frame]: "w_db (snd (write_archive out m dest copy w)) = w_db w"
  using create_file_frame(1) [of out dest w] add_entry_db add_walked_db write_contents_frame(1)
  by (auto simp: write_archive_def addFileToTar_def addDirToTar_def close_archive_def Let_def perform_def
      split: prod.splits sum.splits if_splits dest!: arg_cong [where f = "\<lambda>x. w_db (snd x)"])

lemma CreateFullBackup_Inr:
  assumes "CreateFullBackup out m w = (Inr b, w1)"
  obtains tmp w3 w4 w5 where
    "w_files w3 = (w_files w)(path_join [tmp, ''talos.db''] \<mapsto> o_snapshot out (w_db w))"
    "write_archive out m (path_join [bm_backupDir m, backup_filename (time_now w)]) (path_join [tmp, ''talos.db'']) w3 = (Inr (), w4)"
    "record_backup out m (backup_filename (time_now w)) (path_join [bm_backupDir m, backup_filename (time_now w)]) w4 = (Inr b, w5)"
    "w1 = remove_all out tmp w5" "w_db w3 = w_db w" "w_db w4 = w_db w" "\<exists>h. o_mkdir_temp out h = Inr tmp"
proof -
  obtain u w1' where m1: "mkdir_all out (bm_backupDir m) w = (Inr u, w1')"
    using assms by (auto simp: CreateFullBackup_def split: prod.splits sum.splits)
  have f1: "w_db w1' = w_db w" "w_files w1' = w_files w"
    using m1 by (auto simp: mkdir_all_def perform_def Let_def)
  let ?f = "backup_filename (time_now w)"
  have t: "time_now w1' = time_now w" using f1 by (simp add: time_now_def)
  obtain tmp w2 where m2: "mkdir_temp out ''talos-backup-*'' w1' = (Inr tmp, w2)"
    using assms m1 by (auto simp: CreateFullBackup_def Let_def split: prod.splits sum.splits)
  have f2: "w_db w2 = w_db w" "w_files w2 = w_files w" "\<exists>h. o_mkdir_temp out h = Inr tmp"
    using m2 f1 by (auto simp: mkdir_temp_def perform_def Let_def)
  let ?copy = "path_join [tmp, ''talos.db'']" and ?dest = "path_join [bm_backupDir m, ?f]"
  obtain w3 where v: "vacuum_into out ?copy w2 = (Inr (), w3)"
    using assms m1 m2 by (auto simp: CreateFullBackup_def Let_def split: prod.splits sum.splits)
  have f3: "w_db w3 = w_db w" "w_files w3 = (w_files w)(?copy \<mapsto> o_snapshot out (w_db w))"
    using v f2 by (auto simp: vacuum_into_def perform_def Let_def split: sum.splits)
  obtain w4 where a: "write_archive out m ?dest ?copy w3 = (Inr (), w4)"
    using assms m1 m2 v t by (auto simp: CreateFullBackup_def Let_def split: prod.splits sum.splits)
  have f4: "w_db w4 = w_db w" using write_archive_db [of out m ?dest ?copy w3] a f3 by simp
  obtain w5 where "record_backup out m ?f ?dest w4 = (Inr b, w5)" "w1 = remove_all out tmp w5"
    using assms m1 m2 v a t by (auto simp: CreateFullBackup_def Let_def split: prod.splits)
  with a f2 f3 f4 that show thesis by blast
qed

definition recorded :: "world \<Rightarrow> backup \<Rightarrow> backup" where
  "recorded w b = b\<lparr>bak_CreatedAt := current_timestamp (w_db w)\<rparr>"

lemma record_backup_rows:
  assumes "record_backup out m f dest w = (Inr b, w1)" "db_oracle (w_db w) = []" "db_inv (w_db w)" "0 \<le> bm_retain m"
  shows "mset (tbl_rows (db_backups (w_db w1))) =
           mset (take (nat (bm_retain m)) (order_desc bak_CreatedAt (tbl_rows (db_backups (w_db w)) @ [recorded w b])))"
    and "bak_ID b = tbl_seq (db_backups (w_db w)) + 1" and "bak_Filename b = f"
proof -
  obtain contents where c: "w_files w dest = Some contents"
    using assms(1) by (auto simp: record_backup_def split: option.splits)
  let ?b = "\<lparr>bak_ID = 0, bak_Filename = f, bak_SizeBytes = int (length contents), bak_Type = ''full'',
              bak_Status = ''completed'', bak_CreatedAt = 0\<rparr>"
  have fk: "fk_ok (w_db w)" using assms(3) by (simp add: db_inv_def)
  note cb = CreateBackup_rows [OF assms(2) fk, of ?b]
  define w2 where "w2 = w\<lparr>w_db := snd (CreateBackup ?b (w_db w))\<rparr>"
  have b: "b = ?b\<lparr>bak_ID := tbl_seq (db_backups (w_db w)) + 1\<rparr>"
    and w1: "w1 = snd (enforceRetentionPolicy out m w2)"
    using assms(1) by (auto simp: record_backup_def c on_db_pair cb w2_def split: prod.splits)
  have rows: "tbl_rows (db_backups (w_db w2)) = tbl_rows (db_backups (w_db w)) @ [recorded w b]"
    by (simp add: w2_def cb recorded_def b set_bak_id_def tbl_insert_def)
  have o: "db_oracle (w_db w2) = []" using assms(2) by (simp add: w2_def cb)
  have inv: "db_inv (w_db w2)" using assms(3) by (simp add: w2_def CreateBackup_inv)
  show "mset (tbl_rows (db_backups (w_db w1))) =
      mset (take (nat (bm_retain m)) (order_desc bak_CreatedAt (tbl_rows (db_backups (w_db w)) @ [recorded w b])))"
    unfolding w1 enforce_rows [OF o inv assms(4)] rows by (rule refl)
  show "bak_ID b = tbl_seq (db_backups (w_db w)) + 1" "bak_Filename b = f" by (simp_all add: b)
qed

lemma NewManager_retain: "0 < bm_retain (NewManager dataDir dir n)"
  by (simp add: NewManager_def)

lemma sorted_take_drop:
  "sorted (map f ys) \<Longrightarrow> x \<in> set (take n ys) \<Longrightarrow> y \<in> set (drop n ys) \<Longrightarrow> f x \<le> f y"
proof -
  assume s: "sorted (map f ys)" and x: "x \<in> set (take n ys)" and y: "y \<in> set (drop n ys)"
  have "sorted (map f (take n ys) @ map f (drop n ys))"
    using s by (metis append_take_drop_id map_append)
  then show "f x \<le> f y" using x y by (auto simp: sorted_append)
qed

text \<open>C21. \<close>

theorem CreateFullBackup_spec:
  assumes "db_inv (w_db w)" and "db_oracle (w_db w) = []"
    and "CreateFullBackup out (NewManager dataDir dir n) w = (Inr b, w1)"
  shows "let m = NewManager dataDir dir n; all = tbl_rows (db_backups (w_db w)) @ [recorded w b];
             kept = tbl_rows (db_backups (w_db w1))
         in int (length kept) = min (bm_retain m) (int (length all)) \<and> set kept \<subseteq> set all \<and>
            (\<forall>k \<in> set kept. \<forall>r \<in> set all - set kept. bak_CreatedAt r \<le> bak_CreatedAt k)"
proof -
  let ?m = "NewManager dataDir dir n"
  obtain tmp w4 w5 where r: "record_backup out ?m (backup_filename (time_now w)) (path_join [bm_backupDir ?m, backup_filename (time_now w)]) w4 = (Inr b, w5)"
    and w1: "w1 = remove_all out tmp w5" and db: "w_db w4 = w_db w"
    by (rule CreateFullBackup_Inr [OF assms(3)]) blast
  let ?all = "tbl_rows (db_backups (w_db w)) @ [recorded w b]" and ?kept = "tbl_rows (db_backups (w_db w1))"
  let ?ys = "order_desc bak_CreatedAt ?all" and ?n = "nat (bm_retain ?m)"
  have kept: "mset ?kept = mset (take ?n ?ys)"
    using record_backup_rows(1) [OF r] assms db NewManager_retain [of dataDir dir n] w1
    by (simp add: frame recorded_def)
  have set_kept: "set ?kept = set (take ?n ?ys)" using kept by (metis set_mset_mset)
  have len: "length ?kept = length (take ?n ?ys)" using kept by (metis size_mset)
  have split: "set (take ?n ?ys) \<union> set (drop ?n ?ys) = set ?all" by (metis append_take_drop_id order_desc_set set_append)
  have "\<forall>k \<in> set ?kept. \<forall>r \<in> set ?all - set ?kept. bak_CreatedAt r \<le> bak_CreatedAt k"
  proof (intro ballI)
    fix k r assume "k \<in> set ?kept" "r \<in> set ?all - set ?kept"
    then have "k \<in> set (take ?n ?ys)" "r \<in> set (drop ?n ?ys)" using set_kept split by blast+
    from sorted_take_drop [OF order_desc_sorted this] show "bak_CreatedAt r \<le> bak_CreatedAt k" by simp
  qed
  moreover have "int (length ?kept) = min (bm_retain ?m) (int (length ?all))"
    using len NewManager_retain [of dataDir dir n] by simp
  moreover have "set ?kept \<subseteq> set ?all" using set_kept split by blast
  ultimately show ?thesis unfolding Let_def by blast
qed

text \<open>When all the recorded backups are as new as the new one, which happens within a second, the
  policy takes the new one for the oldest.\<close>

lemma insort_key_append: "f y \<le> f x \<Longrightarrow> insort_key f y (xs @ [x]) = insort_key f y xs @ [x]"
  by (induction xs) auto

lemma sort_key_snoc: "\<forall>y \<in> set xs. f y \<le> f x \<Longrightarrow> sort_key f (xs @ [x]) = sort_key f xs @ [x]"
  by (induction xs) (simp_all add: insort_key_append)

lemma backup_lost_on_tie:
  assumes "db_inv (w_db w)" and "db_oracle (w_db w) = []" and "0 \<le> bm_retain m"
    and "CreateFullBackup out m w = (Inr b, w1)"
    and "bm_retain m \<le> int (length (tbl_rows (db_backups (w_db w))))"
    and "\<forall>r \<in> set (tbl_rows (db_backups (w_db w))). current_timestamp (w_db w) \<le> bak_CreatedAt r"
  shows "by_id bak_ID (bak_ID b) (db_backups (w_db w1)) = None"
proof -
  obtain tmp w4 w5 where r: "record_backup out m (backup_filename (time_now w)) (path_join [bm_backupDir m, backup_filename (time_now w)]) w4 = (Inr b, w5)"
    and w1: "w1 = remove_all out tmp w5" and db: "w_db w4 = w_db w"
    by (rule CreateFullBackup_Inr [OF assms(4)]) blast
  let ?rows = "tbl_rows (db_backups (w_db w))"
  have "order_desc bak_CreatedAt (?rows @ [recorded w b]) = order_desc bak_CreatedAt ?rows @ [recorded w b]"
    unfolding order_desc_def using assms(6) by (intro sort_key_snoc) (simp add: recorded_def)
  then have "mset (tbl_rows (db_backups (w_db w1))) = mset (take (nat (bm_retain m)) (order_desc bak_CreatedAt ?rows))"
    using record_backup_rows(1) [OF r] assms db w1 by (simp add: frame recorded_def)
  then have "set (tbl_rows (db_backups (w_db w1))) \<subseteq> set ?rows"
    by (metis order_desc_set set_mset_mset set_take_subset)
  moreover have "bak_ID x \<le> tbl_seq (db_backups (w_db w))" if "x \<in> set ?rows" for x
    using assms(1) that by (simp add: db_inv_def ids_ok_def)
  moreover have "bak_ID b = tbl_seq (db_backups (w_db w)) + 1"
    using record_backup_rows(2) [OF r] assms db by simp
  ultimately show ?thesis by (force simp: by_id_def tbl_first_None)
qed

section \<open>Restoring what was saved\<close>

text \<open>The entry that a walked file or directory gets, and what an entry does to the files.\<close>

definition walked_entry :: "(string \<rightharpoonup> string) \<Rightarrow> string \<Rightarrow> string \<Rightarrow> string \<times> bool \<Rightarrow> string \<times> bool \<times> string" where
  "walked_entry fs dir arcname e =
     (path_join [arcname, fst e], snd e, if snd e then [] else the (fs (path_join [dir, fst e])))"

lemma add_entry_Inr:
  assumes "add_entry out dest path name is_dir es w = (Inr es1, w1)"
  shows "w_files w1 = w_files w" "es1 = es @ [(name, is_dir, if is_dir then [] else the (w_files w path))]"
    "is_dir \<or> w_files w path \<noteq> None"
  using assms by (auto simp: add_entry_def read_file_def perform_def Let_def split: sum.splits option.splits if_splits)

lemma add_walked_Inr:
  assumes "add_walked out dest dir arcname found es w = (Inr es1, w1)"
  shows "w_files w1 = w_files w \<and> es1 = es @ map (walked_entry (w_files w) dir arcname) found \<and>
         (\<forall>rel. (rel, False) \<in> set found \<longrightarrow> w_files w (path_join [dir, rel]) \<noteq> None)"
  using assms
proof (induction out dest dir arcname found es w rule: add_walked.induct)
  case (2 out dest dir arcname rel is_dir rest es w)
  obtain es2 w2 where step: "add_entry out dest (path_join [dir, rel]) (path_join [arcname, rel]) is_dir es w = (Inr es2, w2)"
    and rest: "add_walked out dest dir arcname rest es2 w2 = (Inr es1, w1)"
    using 2(2) by (auto split: prod.splits sum.splits)
  note s = add_entry_Inr [OF step]
  have "w_files w1 = w_files w2 \<and> es1 = es2 @ map (walked_entry (w_files w2) dir arcname) rest \<and>
      (\<forall>rel. (rel, False) \<in> set rest \<longrightarrow> w_files w2 (path_join [dir, rel]) \<noteq> None)"
    using 2(1) [OF step [symmetric] refl] rest by blast
  then show ?case using s by (auto simp: walked_entry_def)
qed simp

definition service_entries :: "outside \<Rightarrow> backup_manager \<Rightarrow> (string \<times> bool) list \<Rightarrow> (string \<rightharpoonup> string) \<Rightarrow> archive" where
  "service_entries out m found fs = map (walked_entry fs (path_join [bm_dataDir m, ''services'']) ''services'') found"

lemma write_archive_Inr:
  assumes "write_archive out m dest copy w = (Inr (), w1)"
    and "\<And>h. o_is_dir out h (path_join [bm_dataDir m, ''services''])"
    and "\<And>h. o_walk out h (path_join [bm_dataDir m, ''services'']) = Inr found"
    and "\<And>h c. o_file out h (FileWrite dest c) = Inr ()"
  shows "w_files w1 dest = Some (o_targz out ((''talos.db'', False, the (((w_files w)(dest \<mapsto> [])) copy)) #
           service_entries out m found ((w_files w)(dest \<mapsto> []))))"
    and "(rel, False) \<in> set found \<Longrightarrow> ((w_files w)(dest \<mapsto> [])) (path_join [path_join [bm_dataDir m, ''services''], rel]) \<noteq> None"
proof -
  let ?dir = "path_join [bm_dataDir m, ''services'']"
  obtain u w2 where c: "create_file out dest w = (Inr u, w2)"
    using assms(1) by (auto simp: write_archive_def split: prod.splits sum.splits)
  have f2: "w_files w2 = (w_files w)(dest \<mapsto> [])" using create_file_files [OF c] by simp
  obtain es w3 where a: "addFileToTar out dest copy ''talos.db'' [] w2 = (Inr es, w3)"
    using assms(1) c by (auto simp: write_archive_def split: prod.splits sum.splits)
  then have e: "add_entry out dest copy ''talos.db'' False [] w2 = (Inr es, w3)"
    by (auto simp: addFileToTar_def split: if_splits)
  have dir: "stat_ok out ?dir w3" using assms(2) by (simp add: stat_ok_def)
  obtain es1 w4 where d: "addDirToTar out dest ?dir ''services'' es w3 = (Inr es1, w4)" and w1: "w1 = close_archive out dest es1 w4"
    using assms(1) c a dir by (auto simp: write_archive_def Let_def split: prod.splits sum.splits)
  obtain w5 where w5: "w_files w5 = w_files w3" "add_walked out dest ?dir ''services'' found es w5 = (Inr es1, w4)"
    using d assms(3) by (auto simp: addDirToTar_def perform_def Let_def intro: that [of "w3\<lparr>w_history := h\<rparr>" for h])
  note s = add_entry_Inr [OF e] and r = add_walked_Inr [OF w5(2)]
  have es1: "es1 = (''talos.db'', False, the (w_files w2 copy)) # service_entries out m found (w_files w2)"
    using s r w5(1) by (simp add: service_entries_def)
  have "w_files w1 dest = Some (o_targz out es1)"
    using assms(4) by (simp add: w1 close_archive_def write_contents_def perform_def Let_def)
  then show "w_files w1 dest = Some (o_targz out ((''talos.db'', False, the (((w_files w)(dest \<mapsto> [])) copy)) #
      service_entries out m found ((w_files w)(dest \<mapsto> []))))" by (simp add: es1 f2)
  show "(rel, False) \<in> set found \<Longrightarrow> ((w_files w)(dest \<mapsto> [])) (path_join [?dir, rel]) \<noteq> None"
    using r w5(1) s(1) f2 by metis
qed

definition apply_entry :: "backup_manager \<Rightarrow> string \<times> bool \<times> string \<Rightarrow> (string \<rightharpoonup> string) \<Rightarrow> (string \<rightharpoonup> string)" where
  "apply_entry m e fs =
     (case e of (name, is_dir, contents) \<Rightarrow>
        if name = ''talos.db'' then fs(dbPath m \<mapsto> contents)
        else if in_services name \<and> \<not> is_dir then fs(path_join [bm_dataDir m, name] \<mapsto> contents) else fs)"

lemma mkdir_all_files: "w_files (snd (mkdir_all out p w)) = w_files w"
  by (simp add: mkdir_all_def frame)

lemma extractFile_files: "extractFile out c dest w = (Inr u, w1) \<Longrightarrow> w_files w1 = (w_files w)(dest \<mapsto> c)"
  using mkdir_all_files [of out "path_dir dest" w]
  by (auto simp: extractFile_def split: prod.splits sum.splits dest!: write_file_files)

lemma wrapped_call_Inr: "wrapped_call what rw = (Inr x, w) \<longleftrightarrow> rw = (Inr x, w)"
  by (cases rw; cases "fst rw") (auto simp: wrapped_call_def wrap_err_def)

lemma restore_entry_files:
  assumes "restore_entry out m e w = (Inr u, w1)"
  shows "w_files w1 = apply_entry m e (w_files w)"
proof -
  obtain name is_dir c where e: "e = (name, is_dir, c)" by (cases e)
  show ?thesis using assms mkdir_all_files [of out "path_join [bm_dataDir m, name]" w]
    by (auto simp: restore_entry_def apply_entry_def e wrapped_call_Inr Let_def dest: extractFile_files split: if_splits)
qed

lemma restore_entries_files:
  "restore_entries out m es w = (Inr u, w1) \<Longrightarrow> w_files w1 = fold (apply_entry m) es (w_files w)"
proof (induction es arbitrary: w)
  case (Cons e es)
  then show ?case by (auto split: prod.splits sum.splits simp: restore_entry_files)
qed simp

text \<open>What \<open>filepath.Walk\<close> gives, relative to its root: the root itself, and below it names made
  of ordinary components.\<close>

definition rel_path :: "string \<Rightarrow> string list" where
  "rel_path rel = split_char (CHR ''/'') rel"

fun walked_ok :: "string \<times> bool \<Rightarrow> bool" where
  "walked_ok (rel, is_dir) = (rel = ''.'' \<and> is_dir \<or> plain_path (rel_path rel))"

definition service_file :: "string list \<Rightarrow> string \<Rightarrow> string" where
  "service_file ds rel = abs_path (ds @ ''services'' # rel_path rel)"

lemma rel_path_join [simp]: "join ''/'' (rel_path rel) = rel"
  by (simp add: rel_path_def)

lemma rel_path_inj: "rel_path a = rel_path b \<longleftrightarrow> a = b"
  by (metis rel_path_join)

lemma service_file_inj:
  assumes "plain_path ds" "plain_path (rel_path a)" "plain_path (rel_path b)"
  shows "service_file ds a = service_file ds b \<longleftrightarrow> a = b"
proof -
  have p: "plain_path [''services'']" by code_simp
  have "plain_path (ds @ ''services'' # rel_path x)" if "plain_path (rel_path x)" for x
    using plain_path_append [OF assms(1) plain_path_append [OF p that]] by simp
  then show ?thesis using assms by (simp add: service_file_def abs_path_inj rel_path_inj)
qed

lemma join_services: "plain_path cs \<Longrightarrow> join ''/'' (''services'' # cs) = ''services/'' @ join ''/'' cs"
  by (cases cs) (auto simp: plain_path_def)

lemma service_names:
  assumes "plain_path (rel_path rel)"
  shows "path_join [''services'', rel] = ''services/'' @ rel"
    and "bm_dataDir m = abs_path ds \<Longrightarrow> plain_path ds \<Longrightarrow> path_join [bm_dataDir m, ''services/'' @ rel] = service_file ds rel"
    and "plain_path ds \<Longrightarrow> path_join [abs_path (ds @ [''services'']), rel] = service_file ds rel"
    and "in_services (''services/'' @ rel)"
proof -
  have p: "plain_path [''services'']" by code_simp
  have j: "join ''/'' (''services'' # rel_path rel) = ''services/'' @ rel" using join_services [OF assms] by simp
  show "path_join [''services'', rel] = ''services/'' @ rel"
    using path_join_rel [OF p assms] j by simp
  show "bm_dataDir m = abs_path ds \<Longrightarrow> plain_path ds \<Longrightarrow> path_join [bm_dataDir m, ''services/'' @ rel] = service_file ds rel"
    using path_join_abs [OF _ plain_path_append [OF p assms], of ds] j by (simp add: service_file_def)
  show "plain_path ds \<Longrightarrow> path_join [abs_path (ds @ [''services'']), rel] = service_file ds rel"
    using path_join_abs [OF plain_path_append [OF _ p] assms, of ds] by (simp add: service_file_def)
  have "rel \<noteq> []" using join_nonempty [OF assms] by simp
  then show "in_services (''services/'' @ rel)" by (simp add: in_services_def has_prefix_def)
qed

lemma service_entry_apply:
  assumes "bm_dataDir m = abs_path ds" "plain_path ds" "walked_ok e"
  shows "apply_entry m (walked_entry fs (abs_path (ds @ [''services''])) ''services'' e) g =
           (if snd e then g else g(service_file ds (fst e) \<mapsto> the (fs (service_file ds (fst e)))))"
proof -
  obtain rel is_dir where e: "e = (rel, is_dir)" by (cases e)
  show ?thesis
  proof (cases "plain_path (rel_path rel)")
    case True
    have "''services/'' @ rel \<noteq> ''talos.db''" by simp
    then show ?thesis
      using service_names(1,4) [OF True] service_names(2) [OF True assms(1,2)] service_names(3) [OF True assms(2)]
      by (simp add: e apply_entry_def walked_entry_def)
  next
    case False
    then have "rel = ''.''" "is_dir" using assms(3) by (auto simp: e)
    moreover have "path_join [''services'', ''.''] = ''services''" by code_simp
    ultimately show ?thesis by (simp add: e apply_entry_def walked_entry_def)
  qed
qed

lemma services_applied:
  assumes "bm_dataDir m = abs_path ds" "plain_path ds"
  shows "list_all walked_ok found \<Longrightarrow> distinct (map fst found) \<Longrightarrow>
    fold (apply_entry m) (map (walked_entry fs (abs_path (ds @ [''services''])) ''services'') found) g =
      (\<lambda>p. if \<exists>rel. (rel, False) \<in> set found \<and> p = service_file ds rel then Some (the (fs p)) else g p)"
proof (induction found arbitrary: g)
  case (Cons e found)
  obtain rel is_dir where e: "e = (rel, is_dir)" by (cases e)
  let ?g = "if is_dir then g else g(service_file ds rel \<mapsto> the (fs (service_file ds rel)))"
  have prems: "walked_ok e" "list_all walked_ok found" "distinct (map fst found)" using Cons.prems by simp_all
  have "apply_entry m (walked_entry fs (abs_path (ds @ [''services''])) ''services'' e) g = ?g"
    using service_entry_apply [OF assms prems(1)] by (simp add: e)
  then have "fold (apply_entry m) (map (walked_entry fs (abs_path (ds @ [''services''])) ''services'') (e # found)) g =
      (\<lambda>p. if \<exists>rel. (rel, False) \<in> set found \<and> p = service_file ds rel then Some (the (fs p)) else ?g p)"
    using Cons.IH [OF prems(2,3), of ?g] by simp
  also have "\<dots> = (\<lambda>p. if \<exists>rel. (rel, False) \<in> set (e # found) \<and> p = service_file ds rel then Some (the (fs p)) else g p)"
    by (auto simp: e fun_eq_iff)
  finally show ?case .
qed simp

lemma record_backup_Filename: "record_backup out m f dest w = (Inr b, w1) \<Longrightarrow> bak_Filename b = f"
  by (auto simp: record_backup_def CreateBackup_def on_db_def split: option.splits prod.splits sum.splits)

lemma record_backup_fewer: "fewer_files (w_files w) (w_files (snd (record_backup out m f dest w)))"
proof -
  have "fewer_files (w_files w) (w_files (snd (enforceRetentionPolicy out m (w\<lparr>w_db := d\<rparr>))))" for d
    using enforce_fewer [of "w\<lparr>w_db := d\<rparr>"] by simp
  then show ?thesis
    by (auto simp: record_backup_def on_db_def split: option.split prod.split sum.split)
qed

lemma Restore_files:
  assumes "Restore out m i w = (Inr u, w1)" and "fst (GetBackup i (w_db w)) = Inr b"
    and "w_files w (path_join [bm_backupDir m, bak_Filename b]) = Some bytes"
    and "o_untargz out bytes = (es, broken)"
  shows "w_files w1 = fold (apply_entry m) es (w_files w)"
proof -
  obtain w2 where g: "on_db (GetBackup i) w = (Inr b, w2)" "w_files w2 = w_files w"
    using assms(2) by (simp add: on_db_pair)
  obtain w3 where r: "read_file out (path_join [bm_backupDir m, bak_Filename b]) w2 = (Inr bytes, w3)"
    using assms(1,3) g by (auto simp: Restore_def read_file_def split: prod.splits sum.splits)
  then have "w_files w3 = w_files w"
    using g by (auto simp: read_file_def perform_def Let_def split: option.splits sum.splits)
  moreover obtain u where "restore_entries out m es w3 = (Inr u, w1)"
    using assms(1,4) g r by (auto simp: Restore_def split: prod.splits sum.splits option.splits)
  ultimately show ?thesis using restore_entries_files by metis
qed

section \<open>A concrete backup\<close>

text \<open>An archive format whose reader inverts its writer: strings carry their length.\<close>

definition enc_str :: "string \<Rightarrow> string" where
  "enc_str s = replicate (length s) (CHR ''a'') @ CHR ''b'' # s"

definition dec_str :: "string \<Rightarrow> string \<times> string" where
  "dec_str s =
     (let n = length (takeWhile (\<lambda>c. c = CHR ''a'') s); r = drop (n + 1) s in (take n r, drop n r))"

definition enc_entry :: "string \<times> bool \<times> string \<Rightarrow> string" where
  "enc_entry e = enc_str (fst e) @ (if fst (snd e) then ''d'' else ''f'') @ enc_str (snd (snd e))"

fun dec_entries :: "nat \<Rightarrow> string \<Rightarrow> archive" where
  "dec_entries 0 s = []"
| "dec_entries (Suc n) s =
     (let (name, s1) = dec_str s; (contents, s2) = dec_str (tl s1)
      in (name, hd s1 = CHR ''d'', contents) # dec_entries n s2)"

definition sample_targz :: "archive \<Rightarrow> string" where
  "sample_targz es = replicate (length es) (CHR ''a'') @ CHR ''b'' # concat (map enc_entry es)"

definition sample_untargz :: "string \<Rightarrow> archive \<times> go_error option" where
  "sample_untargz s =
     (let n = length (takeWhile (\<lambda>c. c = CHR ''a'') s) in (dec_entries n (drop (n + 1) s), None))"

lemma takeWhile_replicate_a: "takeWhile (\<lambda>c. c = CHR ''a'') (replicate n (CHR ''a'') @ CHR ''b'' # t) = replicate n (CHR ''a'')"
  by (induction n) simp_all

lemma dec_enc_str: "dec_str (enc_str s @ t) = (s, t)"
  by (simp add: dec_str_def enc_str_def takeWhile_replicate_a Let_def)

lemma dec_enc_entries: "dec_entries (length es) (concat (map enc_entry es) @ t) = es"
proof (induction es)
  case (Cons e es)
  obtain name is_dir contents where "e = (name, is_dir, contents)" by (cases e)
  then show ?case using Cons.IH by (auto simp: enc_entry_def dec_enc_str Let_def)
qed simp

lemma sample_untargz_targz: "sample_untargz (sample_targz es) = (es, None)"
  using dec_enc_entries [of es "[]"]
  by (simp add: sample_untargz_def sample_targz_def takeWhile_replicate_a Let_def)

definition sample_backups :: outside where
  "sample_backups = calm_outside
     \<lparr>o_is_dir := \<lambda>h p. p = ''/data/services'', o_walk := \<lambda>h d. Inr [(''.'', True), (''db'', True), (''db/rows'', False)],
      o_targz := sample_targz, o_untargz := sample_untargz\<rparr>"

definition sample_manager :: backup_manager where
  "sample_manager = NewManager ''/data'' ''/backups'' 3"

definition backed_up_world :: world where
  "backed_up_world = sample_world\<lparr>w_files := [''/data/services/db/rows'' \<mapsto> ''1,2,3'']\<rparr>"

lemma sample_paths:
  "backup_filename 0 = ''talos-backup-19700101-000000.tar.gz''"
  "path_join [''/backups'', ''talos-backup-19700101-000000.tar.gz''] = ''/backups/talos-backup-19700101-000000.tar.gz''"
  "path_join [''/tmp/talos'', ''talos.db''] = ''/tmp/talos/talos.db''" "path_join [''/data'', ''talos.db''] = ''/data/talos.db''"
  "path_join [''/data'', ''services''] = ''/data/services''" "path_join [''services'', ''.''] = ''services''"
  "path_join [''services'', ''db''] = ''services/db''" "path_join [''services'', ''db/rows''] = ''services/db/rows''"
  "path_join [''/data/services'', ''db/rows''] = ''/data/services/db/rows''" "path_join [''/data'', ''services/db''] = ''/data/services/db''"
  "path_join [''/data'', ''services/db/rows''] = ''/data/services/db/rows''"
  by code_simp+

lemmas archive_steps = write_archive_def addFileToTar_def addDirToTar_def add_entry_def close_archive_def
  create_file_def write_contents_def read_file_def perform_def stat_ok_def Let_def

definition sample_archive :: string where
  "sample_archive = sample_targz [(''talos.db'', False, ''SQLite format 3''), (''services'', True, []), (''services/db'', True, []),
     (''services/db/rows'', False, ''1,2,3'')]"

definition sample_backup :: backup where
  "sample_backup = \<lparr>bak_ID = 1, bak_Filename = ''talos-backup-19700101-000000.tar.gz'', bak_SizeBytes = int (length sample_archive),
     bak_Type = ''full'', bak_Status = ''completed'', bak_CreatedAt = 0\<rparr>"

lemma sample_created:
  "\<exists>w1. CreateFullBackup sample_backups sample_manager backed_up_world = (Inr sample_backup, w1) \<and>
     w_files w1 ''/backups/talos-backup-19700101-000000.tar.gz'' = Some sample_archive \<and>
     GetBackup 1 (w_db w1) = (Inr sample_backup, w_db w1)"
  apply (simp add: CreateFullBackup_def mkdir_all_def mkdir_temp_def vacuum_into_def archive_steps sample_backups_def sample_manager_def
    NewManager_def backed_up_world_def sample_world_def empty_db_def calm_outside_def time_now_def sample_paths record_backup_def
    on_db_def CreateBackup_rows fk_ok_def app_ids_def deploy_ids_def service_ids_def tbl_insert_def set_bak_id_def
    enforceRetentionPolicy_def ListBackups_def query_def wrapped_def current_timestamp_def)
  by (simp add: sample_archive_def sample_backup_def remove_all_def perform_def Let_def below_def has_prefix_def GetBackup_def query_row_def query_def by_id_def tbl_first_def)
text \<open>The archive of a backup, and that what is read of the files of the services is what they held.\<close>

definition backup_entries :: "outside \<Rightarrow> string list \<Rightarrow> (string \<times> bool) list \<Rightarrow> (string \<rightharpoonup> string) \<Rightarrow> db \<Rightarrow> archive" where
  "backup_entries out ds found fs d =
     (''talos.db'', False, o_snapshot out d) # map (walked_entry fs (abs_path (ds @ [''services''])) ''services'') found"

lemma CreateFullBackup_archive:
  assumes data: "bm_dataDir m = abs_path ds" "plain_path ds"
    and walk: "\<And>h. o_is_dir out h (abs_path (ds @ [''services'']))"
      "\<And>h. o_walk out h (abs_path (ds @ [''services''])) = Inr found" "list_all walked_ok found"
    and disk: "\<And>h c. o_file out h (FileWrite archive_path c) = Inr ()"
    and temp: "\<And>h tmp. o_mkdir_temp out h = Inr tmp \<Longrightarrow>
      path_join [tmp, ''talos.db''] \<notin> insert archive_path (service_file ds ` fst ` set found)"
    and create: "CreateFullBackup out m w = (Inr b, w1)"
    and archive_path: "archive_path = path_join [bm_backupDir m, bak_Filename b]" "archive_path \<notin> service_file ds ` fst ` set found"
    and kept: "w_files w1 archive_path \<noteq> None"
  obtains fs where "w_files w1 archive_path = Some (o_targz out (backup_entries out ds found fs (w_db w)))"
    "\<forall>rel. (rel, False) \<in> set found \<longrightarrow> fs (service_file ds rel) = w_files w (service_file ds rel) \<and> w_files w (service_file ds rel) \<noteq> None"
proof -
  let ?f = "backup_filename (time_now w)" and ?dir = "abs_path (ds @ [''services''])"
  have dir: "path_join [bm_dataDir m, ''services''] = ?dir"
    using path_join_abs [OF data(2), of "[''services'']"] data(1) by (simp add: plain_path_def plain_component_def)
  obtain tmp w0 w4 w5 where
    w0: "w_files w0 = (w_files w)(path_join [tmp, ''talos.db''] \<mapsto> o_snapshot out (w_db w))"
    and wa: "write_archive out m (path_join [bm_backupDir m, ?f]) (path_join [tmp, ''talos.db'']) w0 = (Inr (), w4)"
    and rb: "record_backup out m ?f (path_join [bm_backupDir m, ?f]) w4 = (Inr b, w5)"
    and w1: "w1 = remove_all out tmp w5" and tmp: "\<exists>h. o_mkdir_temp out h = Inr tmp"
    by (rule CreateFullBackup_Inr [OF create]) blast
  have P: "path_join [bm_backupDir m, ?f] = archive_path" using record_backup_Filename [OF rb] archive_path(1) by simp
  let ?copy = "path_join [tmp, ''talos.db'']" and ?fs = "(w_files w0)(archive_path \<mapsto> [])"
  have copy: "?copy \<noteq> archive_path" "?copy \<notin> service_file ds ` fst ` set found" using temp tmp by blast+
  have same: "?fs (service_file ds rel) = w_files w (service_file ds rel)" if "(rel, d) \<in> set found" for rel d
  proof -
    have "service_file ds rel \<in> service_file ds ` fst ` set found" using that by force
    then have "service_file ds rel \<noteq> ?copy" "service_file ds rel \<noteq> archive_path" using copy(2) archive_path(2) by metis+
    then show ?thesis by (simp add: w0)
  qed
  note written = write_archive_Inr [OF wa, unfolded dir P, OF walk(1,2) disk]
  have "w_files w4 archive_path = Some (o_targz out (backup_entries out ds found ?fs (w_db w)))"
    using written(1) copy(1) w0 by (simp add: backup_entries_def service_entries_def dir)
  moreover have "w_files w1 archive_path = w_files w4 archive_path"
    using fewer_files_trans [OF record_backup_fewer remove_all_fewer] rb w1 kept P unfolding fewer_files_def by (metis snd_conv)
  ultimately have "w_files w1 archive_path = Some (o_targz out (backup_entries out ds found ?fs (w_db w)))" by simp
  moreover have "w_files w (service_file ds rel) \<noteq> None" if "(rel, False) \<in> set found" for rel
  proof -
    have "plain_path (rel_path rel)" using that walk(3) by (auto simp: list_all_iff)
    then show ?thesis using written(2) [OF that] same [OF that] service_names(3) [OF _ data(2)] by simp
  qed
  ultimately show thesis using that same by blast
qed


lemma sample_restored:
  assumes "w_files w ''/backups/talos-backup-19700101-000000.tar.gz'' = Some sample_archive"
    and "GetBackup 1 (w_db w) = (Inr sample_backup, w_db w)"
  shows "\<exists>w1. Restore sample_backups sample_manager 1 w = (Inr (), w1)"
  using assms
  by (simp add: Restore_def on_db_def read_file_def perform_def Let_def sample_backup_def sample_manager_def NewManager_def
      sample_paths restore_entry_def in_services_def has_prefix_def dbPath_def extractFile_def mkdir_all_def write_file_def
      create_file_def write_contents_def wrapped_call_def wrap_err_def sample_archive_def sample_untargz_targz sample_backups_def calm_outside_def)


theorem CreateFullBackup_spec_witness:
  "\<exists>w1. CreateFullBackup sample_backups (NewManager ''/data'' ''/backups'' 3) backed_up_world = (Inr sample_backup, w1) \<and>
     length (tbl_rows (db_backups (w_db w1))) = 1"
proof -
  obtain w1 where c: "CreateFullBackup sample_backups (NewManager ''/data'' ''/backups'' 3) backed_up_world = (Inr sample_backup, w1)"
    using sample_created by (auto simp: sample_manager_def)
  have db: "w_db backed_up_world = empty_db 0" by (simp add: backed_up_world_def sample_world_def)
  have "db_inv (w_db backed_up_world)" "db_oracle (w_db backed_up_world) = []"
    unfolding db using empty_db_inv [where now = 0 and os = "[]"] by (simp_all add: empty_db_def)
  from CreateFullBackup_spec [OF this c] show ?thesis
    using c by (simp add: db empty_db_def NewManager_def Let_def)
qed

end
