(* ===== verification/Env_Refinement.thy ===== *)
theory Env_Refinement
  imports Store_Claims
begin

text \<open>
  The environment variables as the rest of the program sees them are a map from apps to maps from
  names to values.  The table of rows with ids, flags and a history refines it: whatever methods of
  the store are called and whichever statements fail, a snapshot is what the successful calls make of
  the empty maps.
\<close>

section \<open>The abstract store\<close>

type_synonym env_maps = "int \<Rightarrow> string \<rightharpoonup> string"

fun abs_call :: "store_call \<Rightarrow> env_maps \<Rightarrow> env_maps" where
  "abs_call (CallSetAppEnvVar v) m = m(env_AppID v := (m (env_AppID v))(env_Key v \<mapsto> env_Value v))"
| "abs_call (CallDeleteAppEnvVar a k) m = m(a := (m a)(k := None))"
| "abs_call (CallDeleteApp i) m = m(i := Map.empty)"
| "abs_call c m = m"

text \<open>Whether a call of the methods that matter here succeeds.\<close>

fun call_ok :: "store_call \<Rightarrow> db \<Rightarrow> bool" where
  "call_ok (CallSetAppEnvVar v) d = is_ok (fst (SetAppEnvVar v d))"
| "call_ok (CallDeleteAppEnvVar a k) d = is_ok (fst (DeleteAppEnvVar a k d))"
| "call_ok (CallDeleteApp i) d = is_ok (fst (DeleteApp i d))"
| "call_ok c d = True"

fun abs_calls :: "store_call list \<Rightarrow> db \<Rightarrow> env_maps \<Rightarrow> env_maps" where
  "abs_calls [] d m = m"
| "abs_calls (c # cs) d m = abs_calls cs (run_call c d) (if call_ok c d then abs_call c m else m)"

definition env_maps_of :: "db \<Rightarrow> env_maps" where
  "env_maps_of d = (\<lambda>i. env_map i d)"

lemma env_maps_cong: "db_env_vars d = db_env_vars e \<Longrightarrow> env_maps_of d = env_maps_of e"
  by (simp add: env_maps_of_def env_map_def find_env_def)

lemma env_maps_same: "same_tables d e \<Longrightarrow> env_maps_of d = env_maps_of e"
  by (rule env_maps_cong) (simp add: same_tables_def)

section \<open>One call\<close>

text \<open>A statement that leaves the variables alone.\<close>

lemma exec_keeps_env:
  assumes "\<And>d x d'. stmt d = Inr (x, d') \<Longrightarrow> db_env_vars d' = db_env_vars d"
  shows "env_maps_of (snd (exec stmt d)) = env_maps_of d"
proof (rule exec_invariant [where I = "\<lambda>e. env_maps_of e = env_maps_of d"])
  show "same_tables d' e \<Longrightarrow> (env_maps_of d' = env_maps_of d) = (env_maps_of e = env_maps_of d)" for d' e
    using env_maps_same [of d' e] by simp
  show "env_maps_of d1 = env_maps_of d \<Longrightarrow> stmt d1 = Inr (x, d') \<Longrightarrow> env_maps_of d' = env_maps_of d" for d1 x d'
    using env_maps_cong [OF assms, of d1 x d'] by simp
qed simp

text \<open>A statement that changes them as \<open>f\<close> does when it succeeds.\<close>

lemma exec_changes_env:
  assumes "\<And>d x d'. db_inv d \<Longrightarrow> stmt d = Inr (x, d') \<Longrightarrow> env_maps_of d' = f (env_maps_of d)" and "db_inv d"
  shows "env_maps_of (snd (exec stmt d)) = (if is_ok (fst (exec stmt d)) then f (env_maps_of d) else env_maps_of d)"
proof (cases "exec stmt d")
  case (Pair r d')
  show ?thesis
  proof (cases r)
    case (Inl e)
    then show ?thesis using Pair exec_error_same env_maps_same by fastforce
  next
    case (Inr x)
    with Pair obtain d1 where "next_stmt d = (None, d1)" "stmt d1 = Inr (x, d')" by (auto dest: exec_ok)
    then show ?thesis
      using Pair Inr assms(1) [of d1 x d'] assms(2) next_stmt_same [of d None d1] env_maps_same [of d1 d] db_inv_same [of d1 d]
      by simp
  qed
qed

lemmas exec_total_env = exec_changes_env [where stmt = "\<lambda>d. Inr ((), g d)" for g, unfolded sum.inject prod.inject]

lemma fst_wrapped_ok [simp]: "is_ok (fst (wrapped p rd)) = is_ok (fst rd)"
  by (cases rd; cases "fst rd") auto

lemma snd_case_wrapped:
  "snd (case wrapped p rd of (Inl e, d) \<Rightarrow> (Inl (f e), d) | (Inr x, d) \<Rightarrow> (g x, d)) = snd rd"
  by (auto simp: wrapped_def split: prod.split sum.split)

lemma set_env_maps:
  "upsert_env v d = Inr (i, d') \<Longrightarrow> env_maps_of d' = abs_call (CallSetAppEnvVar v) (env_maps_of d)"
  using upsert_env_find [of v d i d']
  by (auto simp: env_maps_of_def env_map_def fun_eq_iff set_env_id_def split: option.split)

lemma delete_env_maps:
  "env_maps_of (d\<lparr>db_env_vars := tbl_delete (\<lambda>v. env_AppID v = a \<and> env_Key v = k) (db_env_vars d)\<rparr>) =
     abs_call (CallDeleteAppEnvVar a k) (env_maps_of d)"
proof -
  have "List.find (\<lambda>v. env_AppID v = i \<and> env_Key v = j) (filter (\<lambda>v. \<not> (env_AppID v = a \<and> env_Key v = k)) rows) =
      (if i = a \<and> j = k then None else List.find (\<lambda>v. env_AppID v = i \<and> env_Key v = j) rows)" for rows :: "app_env_var list" and i j
    by (induction rows) auto
  then show ?thesis by (auto simp: env_maps_of_def env_map_def find_env_def tbl_first_def fun_eq_iff)
qed

lemma delete_app_env_maps:
  assumes "db_inv d"
  shows "env_maps_of (delete_app_rows i d) = abs_call (CallDeleteApp i) (env_maps_of d)"
proof -
  have *: "List.find (\<lambda>v. env_AppID v = a \<and> env_Key v = j) (filter (\<lambda>v. env_AppID v \<noteq> i) rows) =
      (if a = i then None else List.find (\<lambda>v. env_AppID v = a \<and> env_Key v = j) rows)" for rows :: "app_env_var list" and a j
    by (induction rows) auto
  show ?thesis
  proof (cases "i \<in> set (app_ids d)")
    case True
    then show ?thesis
      using * by (auto simp: delete_app_rows_def env_maps_of_def env_map_def find_env_def tbl_first_def fun_eq_iff Let_def)
  next
    case False
    then have "find_env i k d = None" for k
      using assms by (auto simp: find_env_def tbl_first_None db_inv_def fk_ok_def list_all_iff)
    with False show ?thesis
      by (auto simp: delete_app_rows_def env_maps_of_def env_map_def fun_eq_iff Let_def)
  qed
qed

text \<open>The methods that do not touch the variables.\<close>

lemma store_env:
  "env_maps_of (snd (CreateApp a d)) = env_maps_of d" "env_maps_of (snd (UpdateApp a d)) = env_maps_of d"
  "env_maps_of (snd (CreateDeploy x d)) = env_maps_of d" "env_maps_of (snd (UpdateDeploy x d)) = env_maps_of d"
  "env_maps_of (snd (CreateDeployEvent e d)) = env_maps_of d" "env_maps_of (snd (CreateService s d)) = env_maps_of d"
  "env_maps_of (snd (UpdateService s d)) = env_maps_of d" "env_maps_of (snd (DeleteService i d)) = env_maps_of d"
  "env_maps_of (snd (LinkAppService i j al d)) = env_maps_of d" "env_maps_of (snd (UnlinkAppService i j d)) = env_maps_of d"
  "env_maps_of (snd (CreateUser u d)) = env_maps_of d" "env_maps_of (snd (CreateBackup b d)) = env_maps_of d"
  "env_maps_of (snd (DeleteBackup i d)) = env_maps_of d"
  unfolding CreateApp_def UpdateApp_def CreateDeploy_def UpdateDeploy_def CreateDeployEvent_def CreateService_def UpdateService_def
    DeleteService_def LinkAppService_def UnlinkAppService_def CreateUser_def CreateBackup_def DeleteBackup_def
  unfolding snd_case_wrapped snd_wrapped
  by (rule exec_keeps_env; auto simp: insert_into_Inr update_where_id_Inr split: option.splits)+

lemma run_call_env:
  assumes "db_inv d"
  shows "env_maps_of (run_call c d) = (if call_ok c d then abs_call c (env_maps_of d) else env_maps_of d)"
proof (cases c)
  case (CallSetAppEnvVar v)
  have h: "db_inv (record_history v d)" "env_maps_of (record_history v d) = env_maps_of d"
    using assms by (auto intro: record_history_inv env_maps_cong record_history_vars)
  have "env_maps_of (snd (exec (upsert_env v) (record_history v d))) =
      (if is_ok (fst (exec (upsert_env v) (record_history v d))) then abs_call c (env_maps_of d) else env_maps_of d)"
    using exec_changes_env [of "upsert_env v" "abs_call (CallSetAppEnvVar v)", OF set_env_maps h(1)] h(2) CallSetAppEnvVar
    by simp
  then show ?thesis unfolding CallSetAppEnvVar
    by (auto simp: SetAppEnvVar_def wrapped_def wrap_err_def split: prod.splits sum.splits)
next
  case (CallDeleteAppEnvVar a k)
  have "env_maps_of d' = abs_call c (env_maps_of d)"
    if "() = x \<and> d\<lparr>db_env_vars := tbl_delete (\<lambda>v. env_AppID v = a \<and> env_Key v = k) (db_env_vars d)\<rparr> = d'" for d x d'
    using that delete_env_maps [of a k d] CallDeleteAppEnvVar by simp
  from exec_total_env [where f = "abs_call c", OF this assms] show ?thesis
    by (simp add: CallDeleteAppEnvVar DeleteAppEnvVar_def)
next
  case (CallDeleteApp i)
  have "env_maps_of d' = abs_call c (env_maps_of d)" if "db_inv d" "() = x \<and> delete_app_rows i d = d'" for d x d'
    using that delete_app_env_maps [of d i] CallDeleteApp by simp
  from exec_total_env [where f = "abs_call c", OF this assms] show ?thesis
    by (simp add: CallDeleteApp DeleteApp_def)
qed (simp_all add: store_env)

lemma run_calls_env:
  "db_inv d \<Longrightarrow> env_maps_of (run_calls cs d) = abs_calls cs d (env_maps_of d)"
proof (induction cs arbitrary: d)
  case (Cons c cs)
  then show ?case by (simp add: run_calls_def run_call_inv run_call_env)
qed (simp add: run_calls_def)

section \<open>The refinement\<close>

lemma GetAppEnvVarsSnapshot_result:
  assumes "db_inv d"
  shows "case fst (GetAppEnvVarsSnapshot i d) of Inl e \<Rightarrow> True | Inr snap \<Rightarrow> map_of snap = env_maps_of d i"
proof (cases "next_stmt d")
  case (Pair f d1)
  let ?d = "d1\<lparr>db_oracle := []\<rparr>"
  have same: "same_tables ?d d" using next_stmt_same [OF Pair] by (simp add: same_tables_def)
  then have "db_inv ?d" using assms db_inv_same by blast
  from GetAppEnvVarsSnapshot_env_map [OF this, of i] show ?thesis
    using Pair env_maps_same [OF same]
    by (cases f) (auto simp: GetAppEnvVarsSnapshot_def query_def wrapped_def wrap_err_def env_maps_of_def dest: fun_cong)
qed

text \<open>C20.  Whatever methods of the store are called on a new database, in whatever order and whichever
  statements fail, a snapshot of the variables of an app that is read afterwards is the map that the
  successful calls of \<open>SetAppEnvVar\<close>, \<open>DeleteAppEnvVar\<close> and \<open>DeleteApp\<close> make of the empty one.\<close>

theorem store_refines_env_maps:
  "case fst (GetAppEnvVarsSnapshot i (run_calls cs ((empty_db now)\<lparr>db_oracle := os\<rparr>))) of
     Inl e \<Rightarrow> True
   | Inr snap \<Rightarrow> map_of snap = abs_calls cs ((empty_db now)\<lparr>db_oracle := os\<rparr>) (\<lambda>_. Map.empty) i"
proof -
  have "env_maps_of ((empty_db now)\<lparr>db_oracle := os\<rparr>) = (\<lambda>_. Map.empty)"
    by (simp add: env_maps_of_def env_map_def find_env_def tbl_first_def empty_db_def)
  then show ?thesis
    using GetAppEnvVarsSnapshot_result [OF run_calls_inv [OF empty_db_inv]] run_calls_env [OF empty_db_inv] by metis
qed

end
