(* ===== verification/Web_Templates.thy ===== *)
theory Web_Templates
  imports Http
begin

text \<open>
  \<open>web/templates.go\<close>: the functions that the templates call, and the renderer.  The templates
  themselves are HTML files; executing one is a parameter that gives the output written and, when the
  execution fails, its error.
\<close>

section \<open>Colours\<close>

text \<open>The argument is the text of the status, the application type or the colour.\<close>

definition statusBg :: "string \<Rightarrow> string" where
  "statusBg s =
     (if s = ''active'' then ''bg-lime-accent/10''
      else if s = ''inactive'' then ''bg-yellow-400/10''
      else if s = ''error'' then ''bg-pink-accent/10''
      else ''bg-gray-400/10'')"

definition statusText :: "string \<Rightarrow> string" where
  "statusText s =
     (if s = ''active'' then ''text-lime-accent''
      else if s = ''inactive'' then ''text-yellow-400''
      else if s = ''error'' then ''text-pink-accent''
      else ''text-muted'')"

definition statusBorder :: "string \<Rightarrow> string" where
  "statusBorder s =
     (if s = ''active'' then ''border-lime-accent/20''
      else if s = ''inactive'' then ''border-yellow-400/20''
      else if s = ''error'' then ''border-pink-accent/20''
      else ''border-hairline'')"

definition statusDot :: "string \<Rightarrow> string" where
  "statusDot s =
     (if s = ''active'' then ''bg-lime-accent''
      else if s = ''inactive'' then ''bg-yellow-400''
      else if s = ''error'' then ''bg-pink-accent''
      else ''bg-muted'')"

definition deployBg :: "string \<Rightarrow> string" where
  "deployBg s =
     (if s = ''success'' then ''bg-lime-accent/10''
      else if s = ''failed'' then ''bg-pink-accent/10''
      else if s = ''running'' then ''bg-violet/10''
      else if s = ''pending'' then ''bg-yellow-400/10''
      else if s = ''rollback'' then ''bg-violet-mid/10''
      else ''bg-gray-400/10'')"

definition deployText :: "string \<Rightarrow> string" where
  "deployText s =
     (if s = ''success'' then ''text-lime-accent''
      else if s = ''failed'' then ''text-pink-accent''
      else if s = ''running'' then ''text-violet''
      else if s = ''pending'' then ''text-yellow-400''
      else if s = ''rollback'' then ''text-violet-mid''
      else ''text-muted'')"

definition deployBorder :: "string \<Rightarrow> string" where
  "deployBorder s =
     (if s = ''success'' then ''border-lime-accent/20''
      else if s = ''failed'' then ''border-pink-accent/20''
      else if s = ''running'' then ''border-violet/20''
      else if s = ''pending'' then ''border-yellow-400/20''
      else if s = ''rollback'' then ''border-violet-mid/20''
      else ''border-hairline'')"

definition deployDot :: "string \<Rightarrow> string" where
  "deployDot s =
     (if s = ''success'' then ''bg-lime-accent''
      else if s = ''failed'' then ''bg-pink-accent''
      else if s = ''running'' then ''bg-violet''
      else if s = ''pending'' then ''bg-yellow-400''
      else if s = ''rollback'' then ''bg-violet-mid''
      else ''bg-muted'')"

definition ownershipBg :: "string \<Rightarrow> string" where
  "ownershipBg s =
     (if s = ''managed'' then ''bg-lime-accent/10''
      else if s = ''adopted_container'' then ''bg-yellow-400/10''
      else if s = ''external_service'' then ''bg-blue-400/10''
      else ''bg-gray-400/10'')"

definition ownershipText :: "string \<Rightarrow> string" where
  "ownershipText s =
     (if s = ''managed'' then ''text-lime-accent''
      else if s = ''adopted_container'' then ''text-yellow-400''
      else if s = ''external_service'' then ''text-blue-400''
      else ''text-muted'')"

definition ownershipBorder :: "string \<Rightarrow> string" where
  "ownershipBorder s =
     (if s = ''managed'' then ''border-lime-accent/20''
      else if s = ''adopted_container'' then ''border-yellow-400/20''
      else if s = ''external_service'' then ''border-blue-400/20''
      else ''border-hairline'')"

definition ownershipDot :: "string \<Rightarrow> string" where
  "ownershipDot s =
     (if s = ''managed'' then ''bg-lime-accent''
      else if s = ''adopted_container'' then ''bg-yellow-400''
      else if s = ''external_service'' then ''bg-blue-400''
      else ''bg-muted'')"

definition flashBg :: "string \<Rightarrow> string" where
  "flashBg s =
     (if s = ''red'' then ''bg-pink-accent/10''
      else if s = ''yellow'' then ''bg-yellow-400/10''
      else if s = ''green'' then ''bg-lime-accent/10''
      else if s = ''blue'' then ''bg-violet/10''
      else ''bg-gray-400/10'')"

definition flashText :: "string \<Rightarrow> string" where
  "flashText s =
     (if s = ''red'' then ''text-pink-accent''
      else if s = ''yellow'' then ''text-yellow-400''
      else if s = ''green'' then ''text-lime-accent''
      else if s = ''blue'' then ''text-violet''
      else ''text-muted'')"

definition flashBorder :: "string \<Rightarrow> string" where
  "flashBorder s =
     (if s = ''red'' then ''border-pink-accent/20''
      else if s = ''yellow'' then ''border-yellow-400/20''
      else if s = ''green'' then ''border-lime-accent/20''
      else if s = ''blue'' then ''border-violet/20''
      else ''border-hairline'')"

section \<open>Times, hashes and sizes\<close>

definition dash :: string where
  "dash = [CHR 0xE2, CHR 0x80, CHR 0x94]"

text \<open>The age is \<open>time.Since\<close>; the units are whole minutes, hours and days.\<close>

definition timeAgo :: "time \<Rightarrow> time option \<Rightarrow> string" where
  "timeAgo now t =
     (case t of
        None \<Rightarrow> dash
      | Some t \<Rightarrow>
          (let s = (now - t) div 1000000000 in
           if now - t < 60 * 1000000000 then ''just now''
           else if s < 3600 then itoa (s div 60) @ ''m ago''
           else if s < 24 * 3600 then itoa (s div 3600) @ ''h ago''
           else itoa (s div 3600 div 24) @ ''d ago''))"

definition truncateSHA :: "string \<Rightarrow> string" where
  "truncateSHA sha = (if length sha > 7 then take 7 sha else if sha = [] then dash else sha)"

text \<open>The loop of \<open>formatSize\<close>: the unit the size is shown in, as its divisor and exponent.\<close>

function size_unit :: "int \<Rightarrow> int \<Rightarrow> nat \<Rightarrow> int \<times> nat" where
  "size_unit n divisor e = (if n \<ge> 1024 then size_unit (n div 1024) (divisor * 1024) (Suc e) else (divisor, e))"
  by auto

termination
  by (relation "measure (\<lambda>(n, divisor, e). nat n)") auto

declare size_unit.simps [simp del]

text \<open>\<open>%.1f\<close> of a quotient: tenths, rounded to the nearest and halves to the even one.  (A size of
  less than 2 to the 53 is exact as a floating-point number.)\<close>

definition tenths :: "int \<Rightarrow> int \<Rightarrow> int" where
  "tenths n d =
     (let q = 10 * n div d; r = 10 * n mod d in
      if 2 * r < d then q else if 2 * r > d then q + 1 else if even q then q else q + 1)"

definition formatSize :: "int \<Rightarrow> string outcome" where
  "formatSize bytes =
     (if bytes < 1024 then Returns (itoa bytes @ '' B'')
      else
        (let (divisor, e) = size_unit (bytes div 1024) 1024 0; t = tenths bytes divisor in
         if e < length ''KMGTPE'' then Returns (itoa (t div 10) @ ''.'' @ itoa (t mod 10) @ '' '' @ [''KMGTPE'' ! e] @ ''B'')
         else Panics ''index out of range''))"

text \<open>The arguments of \<open>dict\<close>, where a key is a string or any other value.\<close>

fun dict_pairs :: "(string + 'v) list \<Rightarrow> (string \<rightharpoonup> string + 'v) \<Rightarrow> go_error + (string \<rightharpoonup> string + 'v)" where
  "dict_pairs (Inl key # v # rest) m = dict_pairs rest (m(key \<mapsto> v))"
| "dict_pairs (Inr _ # v # rest) m = Inl (ErrText ''dict keys must be strings'')"
| "dict_pairs _ m = Inr m"

definition template_dict :: "(string + 'v) list \<Rightarrow> go_error + (string \<rightharpoonup> string + 'v)" where
  "template_dict values =
     (if length values mod 2 \<noteq> 0 then Inl (ErrText ''dict requires even number of arguments'')
      else dict_pairs values Map.empty)"

section \<open>The renderer\<close>

type_synonym 'd execution = "'d \<Rightarrow> string \<times> go_error option"

record layout_data =
  ld_Title :: string
  ld_User :: "string option"
  ld_Content :: string

record 'd renderer =
  rn_layout :: "layout_data execution"
  rn_pages :: "string \<rightharpoonup> 'd execution"
  rn_partials :: "string \<Rightarrow> 'd execution"

definition html :: "int \<Rightarrow> string \<Rightarrow> response" where
  "html code body = (status_only code)\<lparr>rs_type := ''text/html; charset=utf-8'', rs_body := body\<rparr>"

text \<open>A template that writes to the response itself: an error comes after what it has written, and
  the status is that of the first write, unless nothing was written.\<close>

definition execute_to :: "'d execution \<Rightarrow> string \<Rightarrow> 'd \<Rightarrow> response" where
  "execute_to t message d =
     (case t d of
        (out, None) \<Rightarrow> html 200 out
      | (out, Some e) \<Rightarrow>
          if out = [] then http_error (message @ error_text e) 500 else html 200 (out @ message @ error_text e @ newline))"

definition Render :: "'d renderer \<Rightarrow> string \<Rightarrow> string \<Rightarrow> string option \<Rightarrow> 'd \<Rightarrow> response" where
  "Render rn page title user d =
     (case rn_pages rn page of
        None \<Rightarrow> http_error (''page not found: '' @ page) 500
      | Some t \<Rightarrow>
          (case t d of
             (_, Some e) \<Rightarrow> http_error (''template error: '' @ error_text e) 500
           | (content, None) \<Rightarrow>
               (case rn_layout rn \<lparr>ld_Title = title, ld_User = user, ld_Content = content\<rparr> of
                  (out, None) \<Rightarrow> html 200 out
                | (out, Some e) \<Rightarrow>
                    if out = [] then http_error ''layout error'' 500 else html 200 (out @ ''layout error'' @ newline))))"

definition RenderPartial :: "'d renderer \<Rightarrow> string \<Rightarrow> 'd \<Rightarrow> response" where
  "RenderPartial rn name d =
     execute_to (case rn_pages rn name of Some t \<Rightarrow> t | None \<Rightarrow> rn_partials rn name) ''template error: '' d"

text \<open>The status is written first, so an error cannot change it any more.\<close>

definition RenderStatus :: "'d renderer \<Rightarrow> int \<Rightarrow> string \<Rightarrow> 'd \<Rightarrow> response" where
  "RenderStatus rn status name d =
     (let (t, message) =
        (case rn_pages rn name of
           Some t \<Rightarrow> (t, \<lambda>e. ''template error'')
         | None \<Rightarrow> (rn_partials rn name, \<lambda>e. ''template error: '' @ error_text e)) in
      (case t d of
         (out, None) \<Rightarrow> html status out
       | (out, Some e) \<Rightarrow> html status (out @ message e @ newline)))"

text \<open>What a page handler answers with: one of the plain answers of \<open>net/http\<close>, the header
  \<open>HX-Redirect\<close> with cookies, or a template with its data; \<open>Flash\<close> is the template
  \<open>flash.html\<close> with a colour and a message.\<close>

datatype 'd page =
    HttpError string int
  | RedirectTo string
  | HxRedirect "cookie list" string
  | Flash int string string
  | Rendered string string "string option" 'd
  | PartialPage string 'd
  | JsonPage int json
  | HtmlPage string
  | EmptyPage

section \<open>Facts\<close>

lemma size_unit_bound:
  "0 \<le> n \<Longrightarrow> n < 1024 ^ Suc k \<Longrightarrow> snd (size_unit n divisor e) \<le> e + k"
proof (induction n divisor e arbitrary: k rule: size_unit.induct)
  case (1 n divisor e)
  show ?case
  proof (cases "n \<ge> 1024")
    case True
    then obtain j where k: "k = Suc j" using 1(3) by (cases k) auto
    have "n div 1024 < 1024 ^ Suc j" using 1(3) unfolding k by (simp add: div_less_iff_less_mult mult.commute)
    then have "snd (size_unit (n div 1024) (divisor * 1024) (Suc e)) \<le> Suc e + j"
      using 1(1) True by (meson 1(2) pos_imp_zdiv_nonneg_iff zero_less_numeral)
    then show ?thesis using True k by (subst size_unit.simps) simp
  qed (subst size_unit.simps, simp)
qed

text \<open>A size of 64 bits always has a unit.\<close>

lemma formatSize_returns: "n < 2 ^ 63 \<Longrightarrow> \<exists>s. formatSize n = Returns s"
proof -
  assume n: "n < 2 ^ 63"
  show ?thesis
  proof (cases "n < 1024")
    case False
    have "n div 1024 < 1024 ^ Suc 5" using n by simp
    then have "snd (size_unit (n div 1024) 1024 0) \<le> 0 + 5" using False by (intro size_unit_bound) simp_all
    then show ?thesis using False by (auto simp: formatSize_def Let_def split: prod.split)
  qed (simp add: formatSize_def)
qed

end
