(* ===== verification/App_Views.thy ===== *)
theory App_Views
  imports App_Handlers Go_Time Web_Templates
begin

text \<open>
  \<open>internal/server/handlers/app_views.go\<close>: what the pages show of an application.
\<close>

section \<open>The data of the pages\<close>

record app_type_option =
  ot_Value :: app_type
  ot_Label :: string
  ot_OwnershipLabel :: string
  ot_Summary :: string
  ot_OperationalCopy :: string
  ot_SupportsDeploys :: bool
  ot_SupportsLogs :: bool
  ot_SupportsRestart :: bool
  ot_SupportsDomains :: bool

record app_capability_view =
  cap_Label :: string
  cap_State :: string
  cap_Enabled :: bool

record app_info_item =
  it_Label :: string
  it_Value :: string
  it_Hint :: string
  it_Link :: string

record dashboard_app_view =
  dv_ID :: int
  dv_Name :: string
  dv_Status :: app_status
  dv_TypeLabel :: string
  dv_OwnershipLabel :: string
  dv_SummaryLabel :: string
  dv_SummaryValue :: string
  dv_RouteValue :: string
  dv_RouteHint :: string
  dv_RouteLink :: string
  dv_UpdatedAt :: time

record app_detail_data =
  ad_User :: "string option"
  ad_App :: app
  ad_Deploys :: "deploy list"
  ad_GitHubConfigured :: bool
  ad_RuntimeInfo :: "container_info option"
  ad_ManualRouteSnippet :: string
  ad_TypeLabel :: string
  ad_OwnershipLabel :: string
  ad_OwnershipCopy :: string
  ad_IdentitySummary :: string
  ad_Capabilities :: "app_capability_view list"
  ad_HeaderItems :: "app_info_item list"
  ad_RuntimeItems :: "app_info_item list"
  ad_RoutingItems :: "app_info_item list"
  ad_TechnicalItems :: "app_info_item list"
  ad_ShowSettings :: bool
  ad_ShowRestart :: bool
  ad_ShowLogs :: bool
  ad_ShowGitHub :: bool
  ad_ShowDeployControls :: bool
  ad_ShowDeployHistory :: bool
  ad_ShowRuntime :: bool
  ad_ShowTargetMetadata :: bool
  ad_ShowOwnershipNotice :: bool
  ad_TargetTitle :: string
  ad_TargetItems :: "app_info_item list"

record app_settings_data =
  sd_User :: "string option"
  sd_App :: app
  sd_EnvVars :: "app_env_var list"
  sd_Links :: "app_service list"
  sd_AllServices :: "service list"
  sd_TypeLabel :: string
  sd_OwnershipLabel :: string
  sd_Intro :: string
  sd_RoutingItems :: "app_info_item list"
  sd_OwnershipItems :: "app_info_item list"
  sd_ShowLinkedServices :: bool
  sd_ShowEnvVars :: bool
  sd_ShowManualRoute :: bool
  sd_ManualRouteSnippet :: string

section \<open>Types of applications\<close>

fun appTypeMeta :: "app_type \<Rightarrow> app_type_option" where
  "appTypeMeta AppTypeAdoptedContainer =
     \<lparr>ot_Value = AppTypeAdoptedContainer, ot_Label = ''Adopted Container'', ot_OwnershipLabel = ''Observed by Talos'',
      ot_Summary = ''Talos watches an existing Docker container and can route, restart, and read logs from it.'',
      ot_OperationalCopy = ''Talos does not build or deploy this container.'',
      ot_SupportsDeploys = False, ot_SupportsLogs = True, ot_SupportsRestart = True, ot_SupportsDomains = True\<rparr>"
| "appTypeMeta AppTypeExternalService =
     \<lparr>ot_Value = AppTypeExternalService, ot_Label = ''External Service'', ot_OwnershipLabel = ''Externally owned'',
      ot_Summary = ''Talos registers a URL or host:port target and can present routing details for it.'',
      ot_OperationalCopy = ''Talos does not run, restart, or stream logs from this service.'',
      ot_SupportsDeploys = False, ot_SupportsLogs = False, ot_SupportsRestart = False, ot_SupportsDomains = True\<rparr>"
| "appTypeMeta _ =
     \<lparr>ot_Value = AppTypeManaged, ot_Label = ''Managed App'', ot_OwnershipLabel = ''Talos-managed'',
      ot_Summary = ''Talos deploys this app from a repository or image reference and manages releases end to end.'',
      ot_OperationalCopy = ''Deploys, logs, rollback, domains, and GitHub automation are available.'',
      ot_SupportsDeploys = True, ot_SupportsLogs = True, ot_SupportsRestart = False, ot_SupportsDomains = True\<rparr>"

definition appTypeOptions :: "app_type_option list" where
  "appTypeOptions = map appTypeMeta [AppTypeManaged, AppTypeAdoptedContainer, AppTypeExternalService]"

section \<open>Values\<close>

definition valueOrDash :: "string \<Rightarrow> string" where
  "valueOrDash v = (if trim_space v = [] then dash else v)"

definition intValueOrDash :: "int \<Rightarrow> string" where
  "intValueOrDash v = (if v \<le> 0 then dash else itoa v)"

definition firstNonEmpty :: "string list \<Rightarrow> string" where
  "firstNonEmpty vs = (case List.find (\<lambda>v. trim_space v \<noteq> []) vs of None \<Rightarrow> [] | Some v \<Rightarrow> v)"

definition safeLink :: "string \<Rightarrow> string" where
  "safeLink v = (if has_prefix v ''http://'' \<or> has_prefix v ''https://'' then v else [])"

definition runtimeContainerName :: "container_info option \<Rightarrow> string" where
  "runtimeContainerName info = (case info of None \<Rightarrow> [] | Some i \<Rightarrow> ci_Name i)"

definition runtimeImage :: "container_info option \<Rightarrow> string" where
  "runtimeImage info = (case info of None \<Rightarrow> [] | Some i \<Rightarrow> ci_Image i)"

definition runtimeNetworks :: "container_info option \<Rightarrow> string" where
  "runtimeNetworks info = (case info of None \<Rightarrow> [] | Some i \<Rightarrow> join '', '' (ci_Networks i))"

definition info_item :: "string \<Rightarrow> string \<Rightarrow> app_info_item" where
  "info_item label v = \<lparr>it_Label = label, it_Value = v, it_Hint = [], it_Link = []\<rparr>"

definition linked_item :: "string \<Rightarrow> string \<Rightarrow> string \<Rightarrow> app_info_item" where
  "linked_item label v link = \<lparr>it_Label = label, it_Value = v, it_Hint = [], it_Link = link\<rparr>"

section \<open>Routes\<close>

definition detailRouteValue :: "app \<Rightarrow> string" where
  "detailRouteValue a =
     (if app_Domain a \<noteq> [] then app_Domain a
      else if app_FallbackPort a > 0 then '':'' @ itoa (app_FallbackPort a)
      else if app_AccessURL a \<noteq> [] then app_AccessURL a
      else ''Not published'')"

definition detailRouteHint :: "app \<Rightarrow> proxy_mode \<Rightarrow> string" where
  "detailRouteHint a mode =
     (if app_Domain a \<noteq> [] \<and> mode = ProxyModeExternal \<and> app_AppType a \<noteq> AppTypeManaged then ''Manual external Traefik config required''
      else if app_Domain a \<noteq> [] then ''Published domain''
      else if app_FallbackPort a > 0 then ''Fallback port access''
      else if app_AppType a = AppTypeExternalService then ''Direct target only''
      else ''No published route'')"

definition detailRouteLink :: "app \<Rightarrow> string" where
  "detailRouteLink a = (if app_Domain a \<noteq> [] then ''https://'' @ app_Domain a else safeLink (app_AccessURL a))"

definition route_item :: "app \<Rightarrow> proxy_mode \<Rightarrow> app_info_item" where
  "route_item a mode =
     \<lparr>it_Label = ''Route'', it_Value = detailRouteValue a, it_Hint = detailRouteHint a mode, it_Link = detailRouteLink a\<rparr>"

definition port_item :: "app \<Rightarrow> app_info_item list" where
  "port_item a = (if app_FallbackPort a > 0 then [info_item ''Fallback port'' (itoa (app_FallbackPort a))] else [])"

fun appIdentitySummary :: "app_type \<Rightarrow> app \<Rightarrow> string" where
  "appIdentitySummary AppTypeAdoptedContainer a =
     ''Talos observes the '' @ valueOrDash (EffectiveContainerName a) @
     '' container and exposes only the controls that apply to an externally owned runtime.''"
| "appIdentitySummary AppTypeExternalService a =
     ''Talos routes traffic toward '' @ valueOrDash (app_ExternalTarget a) @ '' but does not own the runtime behind it.''"
| "appIdentitySummary _ a =
     ''Talos manages releases for '' @ app_Name a @ '' from '' @ valueOrDash (app_RepoURL a) @ ''.''"

section \<open>The dashboard\<close>

fun dashboard_summary :: "app_type \<Rightarrow> app \<Rightarrow> string \<times> string" where
  "dashboard_summary AppTypeAdoptedContainer a = (''Container'', valueOrDash (EffectiveContainerName a))"
| "dashboard_summary AppTypeExternalService a = (''Target'', valueOrDash (app_ExternalTarget a))"
| "dashboard_summary _ a = (''Branch'', valueOrDash (app_Branch a))"

text \<open>The value, the hint and the link of the route.\<close>

definition dashboard_route :: "app \<Rightarrow> proxy_mode \<Rightarrow> string \<times> string \<times> string" where
  "dashboard_route a mode =
     (if app_Domain a \<noteq> [] then
        (app_Domain a,
         if mode = ProxyModeExternal \<and> app_AppType a \<noteq> AppTypeManaged then ''Manual external route pending'' else ''Published domain'',
         ''https://'' @ app_Domain a)
      else if app_AccessMode a = AccessModePort \<and> app_FallbackPort a > 0 then
        (''Port '' @ itoa (app_FallbackPort a), ''Fallback port mode'', app_AccessURL a)
      else if app_AppType a = AppTypeExternalService \<and> app_ExternalTarget a \<noteq> [] then
        (app_ExternalTarget a, ''Direct external target'', app_ExternalTarget a)
      else if app_AccessURL a \<noteq> [] then (app_AccessURL a, access_mode_str (app_AccessMode a), app_AccessURL a)
      else (''Not published'', ''Fallback port unavailable'', []))"

definition buildDashboardAppView :: "app \<Rightarrow> proxy_mode \<Rightarrow> dashboard_app_view" where
  "buildDashboardAppView a mode =
     (let (summaryLabel, summaryValue) = dashboard_summary (app_AppType a) a;
          (routeValue, routeHint, routeLink) = dashboard_route a mode;
          meta = appTypeMeta (app_AppType a)
      in \<lparr>dv_ID = app_ID a, dv_Name = app_Name a, dv_Status = app_Status a, dv_TypeLabel = ot_Label meta,
          dv_OwnershipLabel = ot_OwnershipLabel meta, dv_SummaryLabel = summaryLabel, dv_SummaryValue = summaryValue,
          dv_RouteValue = routeValue, dv_RouteHint = routeHint, dv_RouteLink = routeLink, dv_UpdatedAt = app_UpdatedAt a\<rparr>)"

section \<open>The page of an application\<close>

definition capability :: "string \<Rightarrow> bool \<Rightarrow> app_capability_view" where
  "capability label enabled =
     \<lparr>cap_Label = label, cap_State = (if enabled then ''Available'' else ''Hidden''), cap_Enabled = enabled\<rparr>"

definition header_items :: "app \<Rightarrow> proxy_mode \<Rightarrow> app_info_item list" where
  "header_items a mode =
     [route_item a mode, info_item ''Ownership'' (ot_OwnershipLabel (appTypeMeta (app_AppType a))),
      info_item ''Edge'' (edge_provider_str (app_EdgeProvider a)), info_item ''Status'' (app_status_str (app_Status a))] @
     (if app_AppType a = AppTypeManaged
      then [info_item ''Build Mode'' (if app_BuildMode a = BuildModeTalosBuild then ''Talos Build'' else ''External CI'')] else [])"

definition detail_routing_items :: "app \<Rightarrow> app_info_item list" where
  "detail_routing_items a =
     [info_item ''Access mode'' (access_mode_str (app_AccessMode a)), info_item ''Published domain'' (valueOrDash (app_Domain a)),
      linked_item ''Public URL'' (valueOrDash (app_AccessURL a)) (safeLink (app_AccessURL a))] @ port_item a"

definition runtime_items :: "app \<Rightarrow> container_info option \<Rightarrow> app_info_item list" where
  "runtime_items a info =
     [info_item ''Container'' (firstNonEmpty [runtimeContainerName info, EffectiveContainerName a, dash]),
      info_item ''Internal port'' (intValueOrDash (app_InternalPort a)),
      info_item ''Image'' (firstNonEmpty [runtimeImage info, app_ImageRef a, dash]),
      info_item ''Networks'' (firstNonEmpty [runtimeNetworks info, app_DockerNetwork a, dash])]"

definition technical_items :: "app \<Rightarrow> app_info_item list" where
  "technical_items a =
     [info_item ''Source'' (valueOrDash (app_Source a)), info_item ''Runtime owner'' (runtime_owner_str (app_RuntimeOwner a)),
      info_item ''Live container'' (valueOrDash (app_LiveContainerName a)), info_item ''Updated'' (rfc3339 (app_UpdatedAt a))]"

text \<open>The title and the items of the box about the target.\<close>

fun target_items :: "app_type \<Rightarrow> app \<Rightarrow> string \<times> app_info_item list" where
  "target_items AppTypeManaged a =
     (''Release Source'',
      [linked_item ''Repository'' (valueOrDash (app_RepoURL a)) (safeLink (app_RepoURL a)), info_item ''Branch'' (valueOrDash (app_Branch a)),
       info_item ''Build mode''
         (if app_BuildMode a = BuildModeTalosBuild then ''Talos Build (Clone & Build)'' else ''External CI (GitHub Actions)''),
       info_item ''Image ref'' (valueOrDash (app_ImageRef a))])"
| "target_items AppTypeAdoptedContainer a =
     (''Adopted Runtime'',
      [info_item ''Container name'' (valueOrDash (EffectiveContainerName a)), info_item ''Docker network'' (valueOrDash (app_DockerNetwork a)),
       info_item ''Talos role'' ''Observed runtime with optional routing''])"
| "target_items AppTypeExternalService a =
     (''Target'',
      [linked_item ''External target'' (valueOrDash (app_ExternalTarget a)) (safeLink (app_ExternalTarget a)),
       info_item ''Talos role'' ''Routes and tracks access only''])"
| "target_items (AppTypeOther s) a = (''Target'', [])"

definition buildAppDetailPageData ::
  "string option \<Rightarrow> app \<Rightarrow> deploy list \<Rightarrow> bool \<Rightarrow> container_info option \<Rightarrow> proxy_mode \<Rightarrow> string \<Rightarrow> app_detail_data" where
  "buildAppDetailPageData user a deploys githubConfigured runtimeInfo mode manualRouteSnippet =
     (let meta = appTypeMeta (app_AppType a); (title, items) = target_items (app_AppType a) a in
      \<lparr>ad_User = user, ad_App = a, ad_Deploys = deploys, ad_GitHubConfigured = githubConfigured, ad_RuntimeInfo = runtimeInfo,
       ad_ManualRouteSnippet = manualRouteSnippet, ad_TypeLabel = ot_Label meta, ad_OwnershipLabel = ot_OwnershipLabel meta,
       ad_OwnershipCopy = ot_OperationalCopy meta, ad_IdentitySummary = appIdentitySummary (app_AppType a) a,
       ad_Capabilities = [capability ''Deploys'' (ot_SupportsDeploys meta), capability ''Logs'' (ot_SupportsLogs meta),
         capability ''Restart'' (ot_SupportsRestart meta), capability ''Domains'' (ot_SupportsDomains meta)],
       ad_HeaderItems = header_items a mode, ad_RuntimeItems = runtime_items a runtimeInfo,
       ad_RoutingItems = detail_routing_items a, ad_TechnicalItems = technical_items a, ad_ShowSettings = True,
       ad_ShowRestart = ot_SupportsRestart meta, ad_ShowLogs = ot_SupportsLogs meta, ad_ShowGitHub = (app_AppType a = AppTypeManaged),
       ad_ShowDeployControls = (app_AppType a = AppTypeManaged), ad_ShowDeployHistory = (app_AppType a = AppTypeManaged),
       ad_ShowRuntime = (app_AppType a \<noteq> AppTypeExternalService), ad_ShowTargetMetadata = True,
       ad_ShowOwnershipNotice = (app_AppType a \<noteq> AppTypeManaged), ad_TargetTitle = title, ad_TargetItems = items\<rparr>)"

section \<open>The settings of an application\<close>

fun ownership_target :: "app_type \<Rightarrow> app \<Rightarrow> app_info_item list" where
  "ownership_target AppTypeManaged a =
     [linked_item ''Repository'' (valueOrDash (app_RepoURL a)) (safeLink (app_RepoURL a)), info_item ''Branch'' (valueOrDash (app_Branch a))]"
| "ownership_target AppTypeAdoptedContainer a =
     [info_item ''Container'' (valueOrDash (EffectiveContainerName a)), info_item ''Docker network'' (valueOrDash (app_DockerNetwork a))]"
| "ownership_target AppTypeExternalService a =
     [linked_item ''External target'' (valueOrDash (app_ExternalTarget a)) (safeLink (app_ExternalTarget a)),
      info_item ''Runtime owner'' ''External'']"
| "ownership_target (AppTypeOther s) a = []"

definition buildAppSettingsPageData ::
  "string option \<Rightarrow> app \<Rightarrow> app_env_var list \<Rightarrow> app_service list \<Rightarrow> service list \<Rightarrow> proxy_mode \<Rightarrow> string \<Rightarrow> app_settings_data" where
  "buildAppSettingsPageData user a envVars links allServices mode manualRouteSnippet =
     (let meta = appTypeMeta (app_AppType a) in
      \<lparr>sd_User = user, sd_App = a, sd_EnvVars = envVars, sd_Links = links, sd_AllServices = allServices,
       sd_TypeLabel = ot_Label meta, sd_OwnershipLabel = ot_OwnershipLabel meta,
       sd_Intro = (if app_AppType a = AppTypeManaged then ''Environment variables and linked services for Talos-managed deploys.''
                   else ''Routing, runtime, and linked configuration for this app.''),
       sd_RoutingItems =
         [route_item a mode, info_item ''Access mode'' (access_mode_str (app_AccessMode a)),
          linked_item ''Public URL'' (valueOrDash (app_AccessURL a)) (safeLink (app_AccessURL a))] @ port_item a,
       sd_OwnershipItems =
         [info_item ''App type'' (ot_Label meta), info_item ''Ownership'' (ot_OwnershipLabel meta)] @ ownership_target (app_AppType a) a,
       sd_ShowLinkedServices = (app_AppType a \<noteq> AppTypeExternalService), sd_ShowEnvVars = (app_AppType a = AppTypeManaged),
       sd_ShowManualRoute = (manualRouteSnippet \<noteq> []), sd_ManualRouteSnippet = manualRouteSnippet\<rparr>)"

section \<open>Links\<close>

text \<open>A link that a browser follows to a web page, or none.\<close>

definition web_link :: "string \<Rightarrow> bool" where
  "web_link v \<longleftrightarrow> v = [] \<or> has_prefix v ''http://'' \<or> has_prefix v ''https://''"

lemma web_link_safeLink [simp]: "web_link (safeLink v)"
  by (simp add: web_link_def safeLink_def)

lemma web_link_Nil [simp]: "web_link []"
  by (simp add: web_link_def)

lemma web_link_detail [simp]: "web_link (detailRouteLink a)"
  by (simp add: detailRouteLink_def) (simp add: web_link_def has_prefix_def)

lemma item_links [simp]:
  "it_Link (info_item l v) = []" "it_Link (linked_item l v k) = k" "it_Link (route_item a mode) = detailRouteLink a"
  by (simp_all add: info_item_def linked_item_def route_item_def)

text \<open>Whatever texts an application holds, every link of its page and of its settings is a web link.\<close>

lemma detail_links:
  "list_all (\<lambda>i. web_link (it_Link i))
     (let d = buildAppDetailPageData user a ds gh info mode snippet
      in ad_HeaderItems d @ ad_RuntimeItems d @ ad_RoutingItems d @ ad_TechnicalItems d @ ad_TargetItems d)"
  by (cases "app_AppType a")
     (simp_all add: buildAppDetailPageData_def header_items_def runtime_items_def detail_routing_items_def technical_items_def
       port_item_def Let_def)

lemma settings_links:
  "list_all (\<lambda>i. web_link (it_Link i))
     (let d = buildAppSettingsPageData user a vs ls ss mode snippet in sd_RoutingItems d @ sd_OwnershipItems d)"
  by (cases "app_AppType a") (simp_all add: buildAppSettingsPageData_def port_item_def Let_def)

end
