(* ===== verification/Github_Workflow.thy ===== *)
theory Github_Workflow
  imports Github_Client Dockerfile_Gen
begin

text \<open>
  \<open>internal/github/manifest.go\<close> and \<open>workflow.go\<close>: the manifest from which GitHub
  creates the app of a server, and the files that are written into repositories.  The templates are the
  lines of the raw strings of the code.
\<close>

abbreviation dq :: string where
  "dq \<equiv> [CHR 0x22]"

abbreviation sq :: string where
  "sq \<equiv> [CHR 0x27]"

abbreviation bs :: string where
  "bs \<equiv> [CHR 0x5C]"

section \<open>Project types and their Dockerfiles\<close>

datatype gh_project = ProjectNode | ProjectGo | ProjectPython | ProjectRust | ProjectRuby | ProjectUnknown

definition DetectProjectType :: "string list \<Rightarrow> gh_project" where
  "DetectProjectType fs =
     (if ''Dockerfile'' \<in> set fs \<or> ''dockerfile'' \<in> set fs then ProjectUnknown
      else if ''package.json'' \<in> set fs then ProjectNode
      else if ''go.mod'' \<in> set fs then ProjectGo
      else if ''requirements.txt'' \<in> set fs \<or> ''pyproject.toml'' \<in> set fs \<or> ''setup.py'' \<in> set fs then ProjectPython
      else if ''Cargo.toml'' \<in> set fs then ProjectRust
      else if ''Gemfile'' \<in> set fs then ProjectRuby
      else ProjectUnknown)"

definition HasDockerfile :: "string list \<Rightarrow> bool" where
  "HasDockerfile fs \<longleftrightarrow> list_ex (\<lambda>f. equal_fold f ''Dockerfile'') fs"

fun project_dockerfile :: "gh_project \<Rightarrow> int \<Rightarrow> string" where
  "project_dockerfile ProjectNode port = lines
      [''FROM node:20-alpine AS builder'',
       ''WORKDIR /app'',
       ''COPY package*.json ./'',
       ''RUN npm ci'',
       ''COPY . .'',
       [],
       ''FROM node:20-alpine'',
       ''WORKDIR /app'',
       ''COPY --from=builder /app .'',
       ''EXPOSE '' @ itoa port,
       ''CMD ['' @ dq @ ''node'' @ dq @ '', '' @ dq @ ''server.js'' @ dq @ '']'']"
| "project_dockerfile ProjectGo port = lines
      [''FROM golang:1.22-alpine AS builder'',
       ''WORKDIR /app'',
       ''COPY go.mod go.sum ./'',
       ''RUN go mod download'',
       ''COPY . .'',
       ''RUN CGO_ENABLED=0 go build -o server .'',
       [],
       ''FROM alpine:3.19'',
       ''RUN apk --no-cache add ca-certificates'',
       ''WORKDIR /app'',
       ''COPY --from=builder /app/server .'',
       ''EXPOSE '' @ itoa port,
       ''CMD ['' @ dq @ ''./server'' @ dq @ '']'']"
| "project_dockerfile ProjectPython port = lines
      [''FROM python:3.12-slim'',
       ''WORKDIR /app'',
       ''COPY requirements.txt .'',
       ''RUN pip install --no-cache-dir -r requirements.txt'',
       ''COPY . .'',
       ''EXPOSE '' @ itoa port,
       ''CMD ['' @ dq @ ''gunicorn'' @ dq @ '', '' @ dq @ ''--bind'' @ dq @ '', '' @ dq @ ''0.0.0.0:'' @ itoa port @ dq @ '', '' @ dq @ ''app:app'' @ dq @ '']'']"
| "project_dockerfile ProjectRust port = lines
      [''FROM rust:1.77 AS builder'',
       ''WORKDIR /app'',
       ''COPY Cargo.toml Cargo.lock ./'',
       ''COPY src ./src'',
       ''RUN cargo build --release'',
       [],
       ''FROM debian:bookworm-slim'',
       ''RUN apt-get update && apt-get install -y ca-certificates && rm -rf /var/lib/apt/lists/*'',
       ''WORKDIR /app'',
       ''COPY --from=builder /app/target/release/app .'',
       ''EXPOSE '' @ itoa port,
       ''CMD ['' @ dq @ ''./app'' @ dq @ '']'']"
| "project_dockerfile ProjectRuby port = lines
      [''FROM ruby:3.3-slim'',
       ''WORKDIR /app'',
       ''COPY Gemfile Gemfile.lock ./'',
       ''RUN bundle install'',
       ''COPY . .'',
       ''EXPOSE '' @ itoa port,
       ''CMD ['' @ dq @ ''bundle'' @ dq @ '', '' @ dq @ ''exec'' @ dq @ '', '' @ dq @ ''puma'' @ dq @ '', '' @ dq @ ''-C'' @ dq @ '', '' @ dq @ ''config/puma.rb'' @ dq @ '']'']"
| "project_dockerfile ProjectUnknown port = lines
      [''FROM alpine:3.19'',
       ''WORKDIR /app'',
       ''COPY . .'',
       ''EXPOSE '' @ itoa port,
       ''CMD ['' @ dq @ ''./start.sh'' @ dq @ '']'']"

section \<open>Workflows\<close>

record workflow_config =
  wc_AppName :: string
  wc_ImageRef :: string
  wc_Branch :: string
  wc_WebhookURL :: string

definition GenerateWorkflow :: "workflow_config \<Rightarrow> string" where
  "GenerateWorkflow cfg = lines
      [''name: Deploy to Talos'',
       [],
       ''on:'',
       ''  push:'',
       ''    branches: ['' @ wc_Branch cfg @ '']'',
       [],
       ''env:'',
       ''  IMAGE_REF: '' @ wc_ImageRef cfg,
       [],
       ''jobs:'',
       ''  build-and-deploy:'',
       ''    runs-on: ubuntu-latest'',
       ''    permissions:'',
       ''      contents: read'',
       ''      packages: write'',
       [],
       ''    steps:'',
       ''      - name: Checkout'',
       ''        uses: actions/checkout@v4'',
       [],
       ''      - name: Log in to GitHub Container Registry'',
       ''        uses: docker/login-action@v3'',
       ''        with:'',
       ''          registry: ghcr.io'',
       ''          username: ${{ github.actor }}'',
       ''          password: ${{ secrets.GITHUB_TOKEN }}'',
       [],
       ''      - name: Build and push Docker image'',
       ''        uses: docker/build-push-action@v5'',
       ''        with:'',
       ''          context: .'',
       ''          push: true'',
       ''          tags: |'',
       ''            ${{ env.IMAGE_REF }}'',
       ''            ghcr.io/${{ github.repository }}:latest'',
       [],
       ''      - name: Notify Talos'',
       ''        run: |'',
       ''          curl -X POST '' @ dq @ wc_WebhookURL cfg @ ''/api/webhooks/github'' @ dq @ '' '' @ bs,
       ''            -H '' @ dq @ ''Content-Type: application/json'' @ dq @ '' '' @ bs,
       ''            -H '' @ dq @ ''X-GitHub-Event: workflow_run'' @ dq @ '' '' @ bs,
       ''            -d '' @ sq @ ''{'',
       ''              '' @ dq @ ''action'' @ dq @ '': '' @ dq @ ''completed'' @ dq @ '','',
       ''              '' @ dq @ ''repository'' @ dq @ '': {'',
       ''                '' @ dq @ ''id'' @ dq @ '': ${{ github.repository_id }},'',
       ''                '' @ dq @ ''full_name'' @ dq @ '': '' @ dq @ ''${{ github.repository }}'' @ dq @ '','',
       ''                '' @ dq @ ''clone_url'' @ dq @ '': '' @ dq @ ''${{ github.server_url }}/${{ github.repository }}.git'' @ dq,
       ''              },'',
       ''              '' @ dq @ ''workflow_run'' @ dq @ '': {'',
       ''                '' @ dq @ ''head_branch'' @ dq @ '': '' @ dq @ ''${{ github.ref_name }}'' @ dq @ '','',
       ''                '' @ dq @ ''head_sha'' @ dq @ '': '' @ dq @ ''${{ github.sha }}'' @ dq @ '','',
       ''                '' @ dq @ ''status'' @ dq @ '': '' @ dq @ ''completed'' @ dq @ '','',
       ''                '' @ dq @ ''conclusion'' @ dq @ '': '' @ dq @ ''success'' @ dq,
       ''              }'',
       ''            }'' @ sq]"

definition GenerateTalosBuildWorkflow :: "workflow_config \<Rightarrow> string" where
  "GenerateTalosBuildWorkflow cfg = lines
      [''name: Notify Talos (talos_build)'',
       [],
       ''on:'',
       ''  push:'',
       ''    branches: ['' @ wc_Branch cfg @ '']'',
       [],
       ''jobs:'',
       ''  notify:'',
       ''    runs-on: ubuntu-latest'',
       ''    permissions:'',
       ''      contents: read'',
       [],
       ''    steps:'',
       ''      - name: Notify Talos'',
       ''        run: |'',
       ''          curl -X POST '' @ dq @ wc_WebhookURL cfg @ ''/api/webhooks/github'' @ dq @ '' '' @ bs,
       ''            -H '' @ dq @ ''Content-Type: application/json'' @ dq @ '' '' @ bs,
       ''            -H '' @ dq @ ''X-GitHub-Event: push'' @ dq @ '' '' @ bs,
       ''            -d '' @ sq @ ''{'',
       ''              '' @ dq @ ''ref'' @ dq @ '': '' @ dq @ ''${{ github.ref }}'' @ dq @ '','',
       ''              '' @ dq @ ''after'' @ dq @ '': '' @ dq @ ''${{ github.sha }}'' @ dq @ '','',
       ''              '' @ dq @ ''repository'' @ dq @ '': {'',
       ''                '' @ dq @ ''id'' @ dq @ '': ${{ github.repository_id }},'',
       ''                '' @ dq @ ''full_name'' @ dq @ '': '' @ dq @ ''${{ github.repository }}'' @ dq @ '','',
       ''                '' @ dq @ ''clone_url'' @ dq @ '': '' @ dq @ ''${{ github.server_url }}/${{ github.repository }}.git'' @ dq,
       ''              },'',
       ''              '' @ dq @ ''installation'' @ dq @ '': {'',
       ''                '' @ dq @ ''id'' @ dq @ '': ${{ github.repository_owner.id }}'',
       ''              }'',
       ''            }'' @ sq]"

section \<open>The manifest\<close>

record manifest_permissions =
  mp_Contents :: string
  mp_Actions :: string
  mp_Metadata :: string
  mp_Packages :: string

record hook_attributes =
  hk_URL :: string
  hk_Active :: bool

record manifest =
  mf_Name :: string
  mf_URL :: string
  mf_HookAttributes :: hook_attributes
  mf_RedirectURL :: string
  mf_SetupURL :: string
  mf_Description :: string
  mf_Public :: bool
  mf_DefaultPermissions :: manifest_permissions
  mf_DefaultEvents :: "string list"

record manifest_config =
  mc_AppName :: string
  mc_TalosURL :: string
  mc_Description :: string

definition GenerateManifest :: "manifest_config \<Rightarrow> go_error + manifest" where
  "GenerateManifest cfg =
     (if mc_TalosURL cfg = [] then Inl (ErrText ''talos URL is required'')
      else
        Inr \<lparr>mf_Name = (if mc_AppName cfg = [] then ''talos-deploy'' else mc_AppName cfg), mf_URL = mc_TalosURL cfg,
             mf_HookAttributes = \<lparr>hk_URL = mc_TalosURL cfg @ ''/api/webhooks/github'', hk_Active = True\<rparr>,
             mf_RedirectURL = mc_TalosURL cfg @ ''/api/github/setup-callback'', mf_SetupURL = [],
             mf_Description = (if mc_Description cfg = [] then ''Auto-deploy your apps with Talos'' else mc_Description cfg),
             mf_Public = False,
             mf_DefaultPermissions = \<lparr>mp_Contents = ''write'', mp_Actions = ''write'', mp_Metadata = ''read'', mp_Packages = ''read''\<rparr>,
             mf_DefaultEvents = [''workflow_run'', ''installation'']\<rparr>)"

text \<open>A string member with \<open>omitempty\<close>.\<close>

definition unless_empty :: "string \<Rightarrow> string \<Rightarrow> (string \<times> json) list" where
  "unless_empty name v = (if v = [] then [] else [(name, JStr v)])"

definition permissions_json :: "manifest_permissions \<Rightarrow> json" where
  "permissions_json p =
     JObj [(''contents'', JStr (mp_Contents p)), (''actions'', JStr (mp_Actions p)), (''metadata'', JStr (mp_Metadata p)),
           (''packages'', JStr (mp_Packages p))]"

definition manifest_json :: "manifest \<Rightarrow> json" where
  "manifest_json m =
     JObj ([(''name'', JStr (mf_Name m)), (''url'', JStr (mf_URL m)),
            (''hook_attributes'', JObj [(''url'', JStr (hk_URL (mf_HookAttributes m))), (''active'', JBool (hk_Active (mf_HookAttributes m)))]),
            (''redirect_url'', JStr (mf_RedirectURL m))] @
           unless_empty ''setup_url'' (mf_SetupURL m) @ unless_empty ''description'' (mf_Description m) @
           [(''public'', JBool (mf_Public m)), (''default_permissions'', permissions_json (mf_DefaultPermissions m)),
            (''default_events'', JArr (map JStr (mf_DefaultEvents m)))])"

text \<open>\<open>json.Marshal\<close> does not fail on such values.\<close>

definition EncodeManifest :: "manifest \<Rightarrow> go_error + string" where
  "EncodeManifest m = Inr (json_print (manifest_json m))"

text \<open>The credentials that GitHub answers with; a slice may be nil.\<close>

record manifest_response =
  mr_ID :: int
  mr_Slug :: string
  mr_Name :: string
  mr_ClientID :: string
  mr_ClientSecret :: string
  mr_WebhookSecret :: string
  mr_PEM :: string
  mr_HTMLURL :: string
  mr_Permissions :: manifest_permissions
  mr_Events :: "string list option"

definition decode_permissions :: "(string \<times> json) list \<Rightarrow> manifest_permissions option" where
  "decode_permissions ms =
     Option.bind (string_field ''contents'' ms) (\<lambda>c.
     Option.bind (string_field ''actions'' ms) (\<lambda>a.
     Option.bind (string_field ''metadata'' ms) (\<lambda>m.
     Option.bind (string_field ''packages'' ms) (\<lambda>p.
     Some \<lparr>mp_Contents = c, mp_Actions = a, mp_Metadata = m, mp_Packages = p\<rparr>))))"

fun string_array :: "json list \<Rightarrow> string list option" where
  "string_array [] = Some []"
| "string_array (JStr s # vs) = map_option (\<lambda>r. s # r) (string_array vs)"
| "string_array (JNull # vs) = map_option (\<lambda>r. [] # r) (string_array vs)"
| "string_array (_ # vs) = None"

fun into_strings :: "string list option \<Rightarrow> json \<Rightarrow> string list option option" where
  "into_strings x (JArr vs) = map_option Some (string_array vs)"
| "into_strings x JNull = Some None"
| "into_strings x _ = None"

definition decode_manifest_response :: "(string \<times> json) list \<Rightarrow> manifest_response option" where
  "decode_manifest_response ms =
     Option.bind (int_field ''id'' ms) (\<lambda>i.
     Option.bind (string_field ''slug'' ms) (\<lambda>slug.
     Option.bind (string_field ''name'' ms) (\<lambda>name.
     Option.bind (string_field ''client_id'' ms) (\<lambda>client.
     Option.bind (string_field ''client_secret'' ms) (\<lambda>secret.
     Option.bind (string_field ''webhook_secret'' ms) (\<lambda>hook.
     Option.bind (string_field ''pem'' ms) (\<lambda>pem.
     Option.bind (string_field ''html_url'' ms) (\<lambda>html.
     Option.bind (Option.bind (object_field ''permissions'' ms) decode_permissions) (\<lambda>perms.
     Option.bind (decode_into into_strings None (field_values ''events'' ms)) (\<lambda>events.
     Some \<lparr>mr_ID = i, mr_Slug = slug, mr_Name = name, mr_ClientID = client, mr_ClientSecret = secret,
           mr_WebhookSecret = hook, mr_PEM = pem, mr_HTMLURL = html, mr_Permissions = perms, mr_Events = events\<rparr>))))))))))"

definition manifest_response_json :: "manifest_response \<Rightarrow> json" where
  "manifest_response_json r =
     JObj [(''id'', JNum (itoa (mr_ID r))), (''slug'', JStr (mr_Slug r)), (''name'', JStr (mr_Name r)),
           (''client_id'', JStr (mr_ClientID r)), (''client_secret'', JStr (mr_ClientSecret r)),
           (''webhook_secret'', JStr (mr_WebhookSecret r)), (''pem'', JStr (mr_PEM r)), (''html_url'', JStr (mr_HTMLURL r)),
           (''permissions'', permissions_json (mr_Permissions r)),
           (''events'', case mr_Events r of None \<Rightarrow> JNull | Some es \<Rightarrow> JArr (map JStr es))]"

end
