(* ===== verification/Github_Repos.thy ===== *)
theory Github_Repos
  imports Github_Workflow Config Http
begin

text \<open>
  \<open>internal/github/client.go\<close> and \<open>auth.go\<close>, as far as the pages use them: making a client,
  the installations and their repositories, and writing a file; and \<open>listAllRepos\<close> of
  \<open>internal/server/handlers/github.go\<close>.  The loops over the pages of a list need not end when
  the answers go round in circles, so they are partial functions.
\<close>

section \<open>Making a client\<close>

definition key_is_path :: "string \<Rightarrow> bool" where
  "key_is_path k \<longleftrightarrow> has_prefix k ''/'' \<or> has_prefix k ''./'' \<or> has_prefix k ''../''"

definition ParsePrivateKey :: "outside \<Rightarrow> string \<Rightarrow> world \<Rightarrow> (go_error + unit) \<times> world" where
  "ParsePrivateKey out keyOrPath w =
     (let (pem, w1) = (if key_is_path keyOrPath then read_file out keyOrPath w else (Inr keyOrPath, w)) in
      (case pem of
         Inl e \<Rightarrow> (Inl (Wrap ''read private key file'' e), w1)
       | Inr data \<Rightarrow> (wrap_err ''parse RSA private key'' (o_parse_key out data), w1)))"

text \<open>The new client is a number that no part of the process holds; its cache is empty.\<close>

definition held :: "gh_client option \<Rightarrow> nat" where
  "held c = (case c of None \<Rightarrow> 0 | Some c \<Rightarrow> Suc (gh_instance c))"

definition fresh_instance :: "world \<Rightarrow> nat" where
  "fresh_instance w = Max {held (w_gh w), held (w_builder w), held (w_handler_gh w), held (w_page_gh w)}"

definition NewAppClient :: "outside \<Rightarrow> github_config \<Rightarrow> world \<Rightarrow> (go_error + gh_client) \<times> world" where
  "NewAppClient out cfg w =
     (if hc_AppID cfg = 0 then (Inl (ErrText ''github app ID not configured''), w)
      else if hc_PrivateKey cfg = [] then (Inl (ErrText ''github app private key not configured''), w)
      else
        (case ParsePrivateKey out (hc_PrivateKey cfg) w of
           (Inl e, w1) \<Rightarrow> (Inl (Wrap ''parse private key'' e), w1)
         | (Inr _, w1) \<Rightarrow>
             (let i = fresh_instance w1 in
              (Inr \<lparr>gh_instance = i, gh_appID = hc_AppID cfg, gh_appSlug = hc_AppSlug cfg\<rparr>,
               w1\<lparr>w_tokens := (\<lambda>k. if fst k = i then None else w_tokens w1 k)\<rparr>))))"

section \<open>Installations and repositories\<close>

definition AppGitHubClient :: "outside \<Rightarrow> gh_client \<Rightarrow> world \<Rightarrow> go_error + string" where
  "AppGitHubClient out c w = wrap_err ''generate JWT'' (GenerateJWT out c w)"

definition InstallationClient :: "outside \<Rightarrow> gh_client \<Rightarrow> int \<Rightarrow> world \<Rightarrow> (go_error + string) \<times> world" where
  "InstallationClient = getInstallationToken"

definition GetInstallation :: "outside \<Rightarrow> gh_client \<Rightarrow> int \<Rightarrow> world \<Rightarrow> (go_error + gh_installation) \<times> world" where
  "GetInstallation out c i w =
     (case AppGitHubClient out c w of
        Inl e \<Rightarrow> (Inl e, w)
      | Inr _ \<Rightarrow>
          (case perform (GitHubCall (GetInstallationCall i)) (\<lambda>h. o_installation out h i) w of
             (Inl e, w1) \<Rightarrow> (Inl (Wrap ''get installation'' e), w1)
           | (Inr inst, w1) \<Rightarrow> (Inr inst, w1)))"

text \<open>The loop of both lists: page after page until there is no next one.\<close>

partial_function (option) all_pages ::
  "(nat \<Rightarrow> github_call) \<Rightarrow> (history \<Rightarrow> nat \<Rightarrow> go_error + 'a list \<times> nat) \<Rightarrow> string \<Rightarrow> nat \<Rightarrow> 'a list \<Rightarrow> world \<Rightarrow>
   ((go_error + 'a list) \<times> world) option" where
  "all_pages call answer what page xs w =
     (case perform (GitHubCall (call page)) (\<lambda>h. answer h page) w of
        (Inl e, w1) \<Rightarrow> Some (Inl (Wrap what e), w1)
      | (Inr (found, next), w1) \<Rightarrow>
          if next = 0 then Some (Inr (xs @ found), w1) else all_pages call answer what next (xs @ found) w1)"

definition ListInstallations ::
  "outside \<Rightarrow> gh_client \<Rightarrow> world \<Rightarrow> ((go_error + gh_installation list) \<times> world) option" where
  "ListInstallations out c w =
     (case AppGitHubClient out c w of
        Inl e \<Rightarrow> Some (Inl e, w)
      | Inr _ \<Rightarrow> all_pages InstallationsPage (o_installations out) ''list installations'' 0 [] w)"

definition ListInstallationRepos ::
  "outside \<Rightarrow> gh_client \<Rightarrow> int \<Rightarrow> world \<Rightarrow> ((go_error + gh_repo list) \<times> world) option" where
  "ListInstallationRepos out c i w =
     (case InstallationClient out c i w of
        (Inl e, w1) \<Rightarrow> Some (Inl e, w1)
      | (Inr _, w1) \<Rightarrow> all_pages (ReposPage i) (\<lambda>h. o_repos out h i) ''list repos'' 0 [] w1)"

section \<open>Writing a file\<close>

text \<open>The hash of the old file is read through a nil pointer when the path is a directory.\<close>

definition CreateOrUpdateFile ::
  "outside \<Rightarrow> gh_client \<Rightarrow> int \<Rightarrow> string \<Rightarrow> string \<Rightarrow> string \<Rightarrow> string \<Rightarrow> string \<Rightarrow> world \<Rightarrow> (go_error + unit) outcome \<times> world" where
  "CreateOrUpdateFile out c i owner repo path contents message w =
     (case InstallationClient out c i w of
        (Inl e, w1) \<Rightarrow> (Returns (Inl e), w1)
      | (Inr _, w1) \<Rightarrow>
          (case perform (GitHubCall (ContentsCall owner repo path)) (\<lambda>h. o_contents out h (ContentsCall owner repo path)) w1 of
             (Inl _, w2) \<Rightarrow>
               (case perform (GitHubCall (PutFile owner repo path contents message None))
                       (\<lambda>h. o_put_file out h (PutFile owner repo path contents message None)) w2 of
                  (r, w3) \<Rightarrow> (Returns (wrap_err ''create file'' r), w3))
           | (Inr None, w2) \<Rightarrow> (Panics ''nil pointer dereference'', w2)
           | (Inr (Some sha), w2) \<Rightarrow>
               (case perform (GitHubCall (PutFile owner repo path contents message (Some sha)))
                       (\<lambda>h. o_put_file out h (PutFile owner repo path contents message (Some sha))) w2 of
                  (r, w3) \<Rightarrow> (Returns (wrap_err ''update file'' r), w3))))"

section \<open>All repositories\<close>

record repo_info =
  ri_ID :: int
  ri_FullName :: string
  ri_DefaultBranch :: string
  ri_HTMLURL :: string
  ri_InstallationID :: int

definition maxRepos :: nat where
  "maxRepos = 500"

definition repo_info_of :: "int \<Rightarrow> gh_repo \<Rightarrow> repo_info" where
  "repo_info_of inst r =
     \<lparr>ri_ID = rp_ID r, ri_FullName = rp_FullName r, ri_DefaultBranch = rp_DefaultBranch r, ri_HTMLURL = rp_HTMLURL r,
      ri_InstallationID = inst\<rparr>"

text \<open>The loop over the repositories of one installation; the flag says that the cap was reached.\<close>

fun add_repos :: "int \<Rightarrow> gh_repo list \<Rightarrow> repo_info list \<Rightarrow> int list \<Rightarrow> repo_info list \<times> int list \<times> bool" where
  "add_repos inst [] repos seen = (repos, seen, False)"
| "add_repos inst (r # rs) repos seen =
     (if rp_ID r \<in> set seen then add_repos inst rs repos seen
      else
        (let repos1 = repos @ [repo_info_of inst r]; seen1 = rp_ID r # seen in
         if length repos1 \<ge> maxRepos then (repos1, seen1, True) else add_repos inst rs repos1 seen1))"

text \<open>An installation whose repositories cannot be listed is left out.\<close>

fun add_installations ::
  "outside \<Rightarrow> gh_client \<Rightarrow> gh_installation list \<Rightarrow> repo_info list \<Rightarrow> int list \<Rightarrow> world \<Rightarrow> (repo_info list \<times> world) option" where
  "add_installations out c [] repos seen w = Some (repos, w)"
| "add_installations out c (inst # insts) repos seen w =
     (case ListInstallationRepos out c (in_ID inst) w of
        None \<Rightarrow> None
      | Some (Inl e, w1) \<Rightarrow> add_installations out c insts repos seen w1
      | Some (Inr rs, w1) \<Rightarrow>
          (case add_repos (in_ID inst) rs repos seen of
             (repos1, seen1, full) \<Rightarrow>
               if full then Some (repos1, w1) else add_installations out c insts repos1 seen1 w1))"

definition listAllRepos ::
  "outside \<Rightarrow> gh_client option \<Rightarrow> world \<Rightarrow> ((go_error + repo_info list) \<times> world) option" where
  "listAllRepos out client w =
     (case client of
        None \<Rightarrow> Some (Inl (ErrText ''github app client not configured''), w)
      | Some c \<Rightarrow>
          (case ListInstallations out c w of
             None \<Rightarrow> None
           | Some (Inl e, w1) \<Rightarrow> Some (Inl (Wrap ''list installations'' e), w1)
           | Some (Inr insts, w1) \<Rightarrow>
               map_option (\<lambda>(repos, w2). (Inr repos, w2)) (add_installations out c insts [] [] w1)))"

end
