(* ===== verification/Github_Handlers.thy ===== *)
theory Github_Handlers
  imports Github_Repos Webhook Web_Templates
begin

text \<open>
  \<open>internal/server/handlers/github.go\<close>: connecting applications to GitHub, creating the GitHub
  App of the server, and the lists of repositories.  The client that is made on the first request that needs
  it and the time of the last attempt are \<open>w_handler_gh\<close> and \<open>w_handler_attempt\<close>; the callback
  of \<open>server.New\<close> hands the client to the engine and to the pages.  A handler that lists pages of
  GitHub may not return, which is \<open>None\<close>.
\<close>

record github_handler =
  gh_cfg :: github_config
  gh_host :: string
  gh_domain :: string

datatype github_page_data =
    SetupData string bool
  | StatusData bool string
  | RepoSelector "repo_info list" string

type_synonym github_page = "github_page_data page"

section \<open>The lazy client\<close>

definition retry_interval :: int where
  "retry_interval = 30 * 1000000000"

text \<open>The callback that \<open>server.New\<close> registers.\<close>

definition client_ready :: "gh_client \<Rightarrow> world \<Rightarrow> world" where
  "client_ready c w = (SetGHClient (Some c) w)\<lparr>w_page_gh := Some c\<rparr>"

definition getClient :: "outside \<Rightarrow> github_handler \<Rightarrow> world \<Rightarrow> gh_client option \<times> world" where
  "getClient out h w =
     (case w_handler_gh w of
        Some c \<Rightarrow> (Some c, w)
      | None \<Rightarrow>
          if hc_AppID (gh_cfg h) = 0 then (None, w)
          else if (case w_handler_attempt w of None \<Rightarrow> False | Some t \<Rightarrow> time_now w - t < retry_interval) then (None, w)
          else
            (case NewAppClient out (gh_cfg h) (w\<lparr>w_handler_attempt := Some (time_now w)\<rparr>) of
               (Inl e, w1) \<Rightarrow> (None, w1)
             | (Inr c, w1) \<Rightarrow> (Some c, client_ready c (w1\<lparr>w_handler_gh := Some c\<rparr>))))"

definition not_configured :: github_page where
  "not_configured = HttpError ''GitHub App not configured'' 503"

section \<open>Connecting an application\<close>

definition StartInstall :: "outside \<Rightarrow> github_handler \<Rightarrow> string \<Rightarrow> world \<Rightarrow> github_page \<times> world" where
  "StartInstall out h appID w =
     (case getClient out h w of
        (None, w1) \<Rightarrow> (not_configured, w1)
      | (Some c, w1) \<Rightarrow>
          if appID = [] then (HttpError ''app_id required'' 400, w1)
          else
            (case parse_int64 appID of
               None \<Rightarrow> (HttpError ''invalid app_id'' 400, w1)
             | Some i \<Rightarrow>
                 (case on_db (GetApp i) w1 of
                    (Inl e, w2) \<Rightarrow> (HttpError ''app not found'' 404, w2)
                  | (Inr a, w2) \<Rightarrow>
                      (RedirectTo (''https://github.com/apps/'' @ gh_appSlug c @ ''/installations/new?state='' @ appID), w2))))"

text \<open>The first repository whose name stands in the URL of the application, else the first one.\<close>

definition match_repo :: "app \<Rightarrow> gh_repo list \<Rightarrow> repository_summary" where
  "match_repo a repos =
     (let r = (case List.find (\<lambda>r. contains (app_RepoURL a) (rp_FullName r)) repos of Some r \<Rightarrow> r | None \<Rightarrow> hd repos)
      in \<lparr>rsum_ID = rp_ID r, rsum_FullName = rp_FullName r, rsum_NodeID = []\<rparr>)"

definition workflow_for :: "github_handler \<Rightarrow> app \<Rightarrow> repository_summary \<Rightarrow> workflow_config" where
  "workflow_for h a repo =
     \<lparr>wc_AppName = app_Name a, wc_ImageRef = ''ghcr.io/'' @ rsum_FullName repo @ '':{{ github.sha }}'', wc_Branch = app_Branch a,
      wc_WebhookURL = (if gh_domain h \<noteq> [] then ''https://'' @ gh_domain h else ''http://'' @ gh_host h)\<rparr>"

text \<open>The text of the workflow, its path and the message of the commit.\<close>

definition workflow_file :: "github_handler \<Rightarrow> app \<Rightarrow> repository_summary \<Rightarrow> string \<times> string \<times> string" where
  "workflow_file h a repo =
     (if app_BuildMode a = BuildModeTalosBuild then
        (GenerateTalosBuildWorkflow (workflow_for h a repo), ''.github/workflows/talos-notify.yml'',
         ''Add Talos notify workflow (talos_build mode)'')
      else
        (GenerateWorkflow (workflow_for h a repo), ''.github/workflows/talos-deploy.yml'', ''Add Talos deploy workflow''))"

definition setupWorkflow ::
  "outside \<Rightarrow> github_handler \<Rightarrow> gh_client \<Rightarrow> app \<Rightarrow> repository_summary \<Rightarrow> int \<Rightarrow> world \<Rightarrow> (go_error + unit) outcome \<times> world" where
  "setupWorkflow out h c a repo installationID w =
     (case split_char (CHR ''/'') (rsum_FullName repo) of
        [owner, repoName] \<Rightarrow>
          (case workflow_file h a repo of
             (yaml, path, message) \<Rightarrow>
               (case CreateOrUpdateFile out c installationID owner repoName path yaml message w of
                  (Returns r, w1) \<Rightarrow> (Returns (wrap_err ''create workflow'' r), w1)
                | (Panics m, w1) \<Rightarrow> (Panics m, w1)))
      | _ \<Rightarrow> (Returns (Inl (ErrText (''invalid repo full name: '' @ rsum_FullName repo))), w))"

definition connected :: "int \<Rightarrow> repository_summary \<Rightarrow> app \<Rightarrow> app" where
  "connected installationID repo a =
     a\<lparr>app_GitHubInstallationID := Some installationID, app_GitHubRepoID := Some (rsum_ID repo), app_RegistryURL := ''ghcr.io''\<rparr>"

text \<open>The application is connected even when the workflow could not be written.\<close>

definition connect_app ::
  "outside \<Rightarrow> github_handler \<Rightarrow> gh_client \<Rightarrow> int \<Rightarrow> int \<Rightarrow> app \<Rightarrow> gh_repo list \<Rightarrow> world \<Rightarrow> github_page outcome \<times> world" where
  "connect_app out h c installationID appID a repos w =
     (if repos = [] then (Returns (HttpError ''no repos found in installation'' 400), w)
      else
        (let repo = match_repo a repos; a1 = connected installationID repo a in
         (case on_db (UpdateApp a1) w of
            (Inl e, w1) \<Rightarrow> (Returns (HttpError ''failed to update app'' 500), w1)
          | (Inr _, w1) \<Rightarrow>
              (case setupWorkflow out h c a1 repo installationID w1 of
                 (Returns _, w2) \<Rightarrow> (Returns (RedirectTo (''/apps/'' @ itoa appID)), w2)
               | (Panics m, w2) \<Rightarrow> (Panics m, w2)))))"

definition HandleCallback ::
  "outside \<Rightarrow> github_handler \<Rightarrow> string \<Rightarrow> string \<Rightarrow> world \<Rightarrow> (github_page outcome \<times> world) option" where
  "HandleCallback out h installation state w =
     (case getClient out h w of
        (None, w1) \<Rightarrow> Some (Returns not_configured, w1)
      | (Some c, w1) \<Rightarrow>
          if installation = [] \<or> state = [] then Some (Returns (HttpError ''missing installation_id or state'' 400), w1)
          else
            (case (parse_int64 installation, parse_int64 state) of
               (None, _) \<Rightarrow> Some (Returns (HttpError ''invalid installation_id'' 400), w1)
             | (Some _, None) \<Rightarrow> Some (Returns (HttpError ''invalid state'' 400), w1)
             | (Some installationID, Some appID) \<Rightarrow>
                 (case on_db (GetApp appID) w1 of
                    (Inl e, w2) \<Rightarrow> Some (Returns (HttpError ''app not found'' 404), w2)
                  | (Inr a, w2) \<Rightarrow>
                      (case GetInstallation out c installationID w2 of
                         (Inl e, w3) \<Rightarrow> Some (Returns (HttpError ''failed to get installation'' 500), w3)
                       | (Inr _, w3) \<Rightarrow>
                           (case ListInstallationRepos out c installationID w3 of
                              None \<Rightarrow> None
                            | Some (Inl e, w4) \<Rightarrow> Some (Returns (HttpError ''failed to list repos'' 500), w4)
                            | Some (Inr repos, w4) \<Rightarrow> Some (connect_app out h c installationID appID a repos w4))))))"

definition disconnected :: "app \<Rightarrow> app" where
  "disconnected a = a\<lparr>app_GitHubInstallationID := None, app_GitHubRepoID := None, app_RegistryURL := []\<rparr>"

text \<open>The application is named in the query or else in the path.\<close>

definition Disconnect :: "string \<Rightarrow> string \<Rightarrow> world \<Rightarrow> github_page \<times> world" where
  "Disconnect from_query from_path w =
     (let appID = (if from_query = [] then from_path else from_query) in
      if appID = [] then (HttpError ''app_id required'' 400, w)
      else
        (case parse_int64 appID of
           None \<Rightarrow> (HttpError ''invalid app_id'' 400, w)
         | Some i \<Rightarrow>
             (case on_db (GetApp i) w of
                (Inl e, w1) \<Rightarrow> (HttpError ''app not found'' 404, w1)
              | (Inr a, w1) \<Rightarrow>
                  (case on_db (UpdateApp (disconnected a)) w1 of
                     (Inl e, w2) \<Rightarrow> (HttpError ''failed to disconnect'' 500, w2)
                   | (Inr _, w2) \<Rightarrow> (EmptyPage, w2)))))"

section \<open>Creating the GitHub App\<close>

text \<open>What a request tells of the address it was sent to.\<close>

record web_origin =
  wo_TLS :: bool
  wo_ForwardedProto :: string
  wo_Host :: string

definition talos_url :: "github_handler \<Rightarrow> web_origin \<Rightarrow> string" where
  "talos_url h og =
     (let scheme = (if wo_TLS og \<or> wo_ForwardedProto og = ''https'' then ''https'' else ''http'');
          host = (if wo_Host og = [] then gh_host h else wo_Host og);
          host1 = (if host = ''0.0.0.0'' \<or> host = ''0.0.0.0:0'' then ''localhost:4000'' else host)
      in scheme @ ''://'' @ host1)"

definition GithubSetupPage :: "outside \<Rightarrow> github_handler \<Rightarrow> web_origin \<Rightarrow> user option \<Rightarrow> world \<Rightarrow> github_page \<times> world" where
  "GithubSetupPage out h og u w =
     (case getClient out h w of
        (Some c, w1) \<Rightarrow> (RedirectTo ''/settings/github/status'', w1)
      | (None, w1) \<Rightarrow>
          (Rendered ''github_setup.html'' ''GitHub App Setup'' (map_option usr_Username u)
             (SetupData (talos_url h og) (gh_domain h \<noteq> [])), w1))"

text \<open>\<open>url.QueryEscape\<close> and its inverse.\<close>

definition query_char :: "char \<Rightarrow> string" where
  "query_char c =
     (if is_alnum c \<or> c \<in> set ''-_.~'' then [c]
      else if c = CHR '' '' then ''+''
      else (let n = of_char c in [CHR ''%'', upper_hex (n div 16), upper_hex (n mod 16)]))"

definition QueryEscape :: "string \<Rightarrow> string" where
  "QueryEscape s = concat (map query_char s)"

fun query_unescape :: "string \<Rightarrow> string option" where
  "query_unescape [] = Some []"
| "query_unescape (CHR ''%'' # a # b # s) =
     (case (hex_val a, hex_val b) of
        (Some x, Some y) \<Rightarrow> map_option (\<lambda>r. char_of (x * 16 + y) # r) (query_unescape s)
      | _ \<Rightarrow> None)"
| "query_unescape (CHR ''%'' # s) = None"
| "query_unescape (CHR ''+'' # s) = map_option (\<lambda>r. CHR '' '' # r) (query_unescape s)"
| "query_unescape (c # s) = map_option (\<lambda>r. c # r) (query_unescape s)"

definition CreateManifest :: "github_handler \<Rightarrow> web_origin \<Rightarrow> github_page" where
  "CreateManifest h og =
     (case GenerateManifest
         \<lparr>mc_AppName = ''talos-deploy'', mc_TalosURL = (if gh_domain h \<noteq> [] then ''https://'' @ gh_domain h else talos_url h og),
          mc_Description = []\<rparr> of
        Inl e \<Rightarrow> HttpError ''failed to generate manifest'' 500
      | Inr m \<Rightarrow>
          (case EncodeManifest m of
             Inl e \<Rightarrow> HttpError ''failed to encode manifest'' 500
           | Inr encoded \<Rightarrow> RedirectTo (''https://github.com/settings/apps/new?manifest='' @ QueryEscape encoded)))"

text \<open>\<open>json.MarshalIndent\<close> with two spaces; the first argument is the indentation so far.\<close>

fun json_indent :: "string \<Rightarrow> json \<Rightarrow> string" where
  "json_indent ind (JArr vs) =
     (if vs = [] then ''[]''
      else ''['' @ newline @ join ('','' @ newline) (map (\<lambda>v. ind @ ''  '' @ json_indent (ind @ ''  '') v) vs) @ newline @ ind @ '']'')"
| "json_indent ind (JObj ms) =
     (if ms = [] then ''{}''
      else ''{'' @ newline @
        join ('','' @ newline) (map (\<lambda>(k, v). ind @ ''  '' @ json_string k @ '': '' @ json_indent (ind @ ''  '') v) ms) @
        newline @ ind @ ''}'')"
| "json_indent ind v = json_print v"

definition creds_dir :: string where
  "creds_dir = ''data''"

definition saveCredentials :: "outside \<Rightarrow> manifest_response \<Rightarrow> world \<Rightarrow> (go_error + unit) \<times> world" where
  "saveCredentials out r w =
     (let credsPath = path_join [creds_dir, ''github-app.json''] in
      (case perform (MkdirAll creds_dir) (\<lambda>h. o_file out h (MkdirAll creds_dir)) w of
         (Inl e, w1) \<Rightarrow> (Inl (Wrap ''create directory'' e), w1)
       | (Inr _, w1) \<Rightarrow>
           (case write_file out credsPath (json_indent [] (manifest_response_json r)) w1 of
              (res, w2) \<Rightarrow> (wrap_err ''write credentials'' res, w2))))"

definition credentials_page :: "manifest_response \<Rightarrow> string" where
  "credentials_page r = join newline
      [''<!DOCTYPE html>'',
       ''<html>'',
       ''<head><title>GitHub App Created - Talos</title></head>'',
       ''<body style='' @ dq @ ''background:#030712;color:#e5e7eb;font-family:monospace;padding:2rem;'' @ dq @ ''>'',
       ''<h1 style='' @ dq @ ''color:#4ade80;'' @ dq @ ''>GitHub App Created Successfully!</h1>'',
       ''<br>'',
       ''<p><strong>App ID:</strong> '' @ itoa (mr_ID r) @ ''</p>'',
       ''<p><strong>App Name:</strong> '' @ mr_Name r @ ''</p>'',
       ''<p><strong>Slug:</strong> '' @ mr_Slug r @ ''</p>'',
       ''<br>'',
       ''<p>Add these environment variables to your Talos configuration:</p>'',
       ''<pre style='' @ dq @ ''background:#1f2937;padding:1rem;border-radius:0.375rem;overflow-x:auto;'' @ dq @ ''>'',
       ''TALOS_GITHUB_APP_ID='' @ itoa (mr_ID r),
       ''TALOS_GITHUB_APP_SLUG='' @ mr_Slug r,
       ''TALOS_GITHUB_APP_CLIENT_ID='' @ mr_ClientID r,
       ''TALOS_GITHUB_APP_CLIENT_SECRET='' @ mr_ClientSecret r,
       ''TALOS_GITHUB_APP_PRIVATE_KEY='' @ dq @ ''<contents of the PEM key below>'' @ dq,
       ''TALOS_GITHUB_APP_WEBHOOK_SECRET='' @ mr_WebhookSecret r,
       ''</pre>'',
       ''<br>'',
       ''<p><strong>Private Key:</strong></p>'',
       ''<pre style='' @ dq @ ''background:#1f2937;padding:1rem;border-radius:0.375rem;overflow-x:auto;font-size:0.75rem;'' @ dq @ ''>'' @ mr_PEM r @ ''</pre>'',
       ''<br>'',
       ''<p style='' @ dq @ ''color:#fbbf24;'' @ dq @ ''>Important: Save the private key above. You won'' @ sq @ ''t be able to see it again!</p>'',
       ''<br>'',
       ''<a href='' @ dq @ ''/dashboard'' @ dq @ '' style='' @ dq @ ''background:#4ade80;color:#030712;padding:0.75rem 1.5rem;text-decoration:none;border-radius:0.375rem;font-weight:bold;'' @ dq @ ''>'',
       ''    Go to Dashboard'',
       ''</a>'',
       ''</body>'',
       ''</html>'']"

text \<open>The code is put into the URL as it is; a code with which it is no URL makes no request.\<close>

definition exchange_url :: "string \<Rightarrow> string" where
  "exchange_url code = ''https://api.github.com/app-manifests/'' @ code @ ''/conversions''"

definition SetupCallback :: "outside \<Rightarrow> string \<Rightarrow> world \<Rightarrow> github_page \<times> world" where
  "SetupCallback out code w =
     (if code = [] then (HttpError ''missing code parameter'' 400, w)
      else if parse_url (exchange_url code) = None then (HttpError ''failed to exchange code'' 500, w)
      else
        (let e = HttpCall ''POST'' (exchange_url code) [] [] in
         (case perform e (\<lambda>h. o_http out h e) w of
            (Inl _, w1) \<Rightarrow> (HttpError ''failed to exchange code'' 500, w1)
          | (Inr (status, body), w1) \<Rightarrow>
              if status \<noteq> 200 \<and> status \<noteq> 201 then (HttpError ''failed to exchange code'' 500, w1)
              else
                (case body of
                   Inl _ \<Rightarrow> (HttpError ''failed to decode response'' 500, w1)
                 | Inr text \<Rightarrow>
                     (case Option.bind (Option.bind (Decode text) json_object) decode_manifest_response of
                        None \<Rightarrow> (HttpError ''failed to decode response'' 500, w1)
                      | Some r \<Rightarrow>
                          (case saveCredentials out r w1 of
                             (Inl _, w2) \<Rightarrow> (HttpError ''failed to save credentials'' 500, w2)
                           | (Inr _, w2) \<Rightarrow> (HtmlPage (credentials_page r), w2)))))))"

definition LoadCredentials :: "outside \<Rightarrow> string \<Rightarrow> world \<Rightarrow> (go_error + manifest_response option) \<times> world" where
  "LoadCredentials out dataDir w =
     (case read_file out (path_join [dataDir, ''github-app.json'']) w of
        (Inl e, w1) \<Rightarrow> (if is_not_exist e then Inr None else Inl (Wrap ''read credentials'' e), w1)
      | (Inr data, w1) \<Rightarrow>
          (case Option.bind (Option.bind (Unmarshal data) json_object) decode_manifest_response of
             None \<Rightarrow> (Inl (Wrap ''unmarshal credentials'' (ErrText ''invalid JSON'')), w1)
           | Some r \<Rightarrow> (Inr (Some r), w1)))"

definition StatusPage :: "outside \<Rightarrow> github_handler \<Rightarrow> user option \<Rightarrow> world \<Rightarrow> github_page \<times> world" where
  "StatusPage out h u w =
     (case getClient out h w of
        (c, w1) \<Rightarrow>
          (Rendered ''github_status.html'' ''GitHub Integration'' (map_option usr_Username u)
             (case c of None \<Rightarrow> StatusData False [] | Some c \<Rightarrow> StatusData True (gh_appSlug c)), w1))"

section \<open>Lists of repositories\<close>

definition repo_info_json :: "repo_info \<Rightarrow> json" where
  "repo_info_json r =
     JObj [(''ID'', JNum (itoa (ri_ID r))), (''FullName'', JStr (ri_FullName r)), (''DefaultBranch'', JStr (ri_DefaultBranch r)),
           (''HTMLURL'', JStr (ri_HTMLURL r)), (''InstallationID'', JNum (itoa (ri_InstallationID r)))]"

text \<open>An empty list is a nil slice.\<close>

definition repos_json :: "repo_info list \<Rightarrow> json" where
  "repos_json rs = (if rs = [] then JNull else JArr (map repo_info_json rs))"

definition ListRepos :: "outside \<Rightarrow> github_handler \<Rightarrow> world \<Rightarrow> (github_page \<times> world) option" where
  "ListRepos out h w =
     (case getClient out h w of
        (None, w1) \<Rightarrow> Some (not_configured, w1)
      | (Some c, w1) \<Rightarrow>
          (case listAllRepos out (Some c) w1 of
             None \<Rightarrow> None
           | Some (Inl e, w2) \<Rightarrow> Some (HttpError ''failed to list repos'' 500, w2)
           | Some (Inr rs, w2) \<Rightarrow> Some (JsonPage 200 (repos_json rs), w2)))"

definition repo_load_error :: string where
  "repo_load_error = ''Talos could not load repositories from GitHub right now. Enter the repository URL manually or refresh after checking the GitHub App installation.''"

definition RepoSelectorPartial :: "outside \<Rightarrow> github_handler \<Rightarrow> world \<Rightarrow> (github_page \<times> world) option" where
  "RepoSelectorPartial out h w =
     (case getClient out h w of
        (None, w1) \<Rightarrow>
          Some (PartialPage ''github_repo_selector.html''
            (RepoSelector [] ''GitHub App not configured. Set up the GitHub integration first.''), w1)
      | (Some c, w1) \<Rightarrow>
          (case listAllRepos out (Some c) w1 of
             None \<Rightarrow> None
           | Some (Inl e, w2) \<Rightarrow> Some (PartialPage ''github_repo_selector.html'' (RepoSelector [] repo_load_error), w2)
           | Some (Inr rs, w2) \<Rightarrow> Some (PartialPage ''github_repo_selector.html'' (RepoSelector rs []), w2)))"

section \<open>The debug report\<close>

definition int_unless_zero :: "string \<Rightarrow> int \<Rightarrow> (string \<times> json) list" where
  "int_unless_zero name n = (if n = 0 then [] else [(name, JNum (itoa n))])"

definition list_unless_empty :: "string \<Rightarrow> json list \<Rightarrow> (string \<times> json) list" where
  "list_unless_empty name vs = (if vs = [] then [] else [(name, JArr vs)])"

definition installation_report :: "gh_installation \<Rightarrow> go_error + gh_repo list \<Rightarrow> json" where
  "installation_report inst repos =
     JObj ([(''id'', JNum (itoa (in_ID inst)))] @
       (case in_Account inst of
          None \<Rightarrow> []
        | Some (login, kind) \<Rightarrow> unless_empty ''account_login'' login @ unless_empty ''account_type'' kind) @
       (case repos of
          Inl e \<Rightarrow> [(''repositories'', JNum (itoa 0))] @ unless_empty ''error'' (error_text e)
        | Inr rs \<Rightarrow> [(''repositories'', JNum (itoa (int (length rs))))] @
            list_unless_empty ''repository_sample'' (map (\<lambda>r. JStr (rp_FullName r)) (take 5 rs))))"

fun installation_reports ::
  "outside \<Rightarrow> gh_client \<Rightarrow> gh_installation list \<Rightarrow> world \<Rightarrow> (json list \<times> world) option" where
  "installation_reports out c [] w = Some ([], w)"
| "installation_reports out c (inst # insts) w =
     (case ListInstallationRepos out c (in_ID inst) w of
        None \<Rightarrow> None
      | Some (r, w1) \<Rightarrow> map_option (\<lambda>(js, w2). (installation_report inst r # js, w2)) (installation_reports out c insts w1))"

text \<open>The part of the report that comes from the configuration.\<close>

definition key_report :: "outside \<Rightarrow> github_config \<Rightarrow> world \<Rightarrow> (string \<times> json) list \<times> world" where
  "key_report out cfg w =
     (let path = (if key_is_path (hc_PrivateKey cfg) then hc_PrivateKey cfg else []);
          (r, w1) = (if hc_PrivateKey cfg = [] then (None, w)
                     else (case ParsePrivateKey out (hc_PrivateKey cfg) w of (r, w1) \<Rightarrow> (Some r, w1)));
          readable = (case r of Some (Inr _) \<Rightarrow> True | _ \<Rightarrow> False);
          message = (case r of Some (Inl e) \<Rightarrow> error_text e | _ \<Rightarrow> [])
      in (unless_empty ''private_key_path'' path @ [(''private_key_readable'', JBool readable)] @
          unless_empty ''private_key_check_error'' message, w1))"

definition debug_report ::
  "github_config \<Rightarrow> bool \<Rightarrow> (string \<times> json) list \<Rightarrow> json list \<Rightarrow> nat \<Rightarrow> string \<Rightarrow> github_page" where
  "debug_report cfg configured key installations n list_error =
     JsonPage 200 (JObj ([(''configured'', JBool configured)] @ int_unless_zero ''app_id'' (hc_AppID cfg) @
       unless_empty ''app_slug'' (hc_AppSlug cfg) @
       [(''has_webhook_secret'', JBool (hc_WebhookSecret cfg \<noteq> [])), (''has_client_id'', JBool (hc_ClientID cfg \<noteq> [])),
        (''has_client_secret'', JBool (hc_ClientSecret cfg \<noteq> []))] @ key @
       list_unless_empty ''installations'' installations @ [(''installation_count'', JNum (itoa (int n)))] @
       unless_empty ''list_installations_error'' list_error))"

definition Debug :: "outside \<Rightarrow> github_handler \<Rightarrow> world \<Rightarrow> (github_page \<times> world) option" where
  "Debug out h w =
     (case getClient out h w of
        (client, w1) \<Rightarrow>
          (case key_report out (gh_cfg h) w1 of
             (key, w2) \<Rightarrow>
               (case client of
                  None \<Rightarrow> Some (debug_report (gh_cfg h) False key [] 0 [], w2)
                | Some c \<Rightarrow>
                    (case ListInstallations out c w2 of
                       None \<Rightarrow> None
                     | Some (Inl e, w3) \<Rightarrow> Some (debug_report (gh_cfg h) True key [] 0 (error_text e), w3)
                     | Some (Inr insts, w3) \<Rightarrow>
                         map_option (\<lambda>(js, w4). (debug_report (gh_cfg h) True key js (length insts) [], w4))
                           (installation_reports out c insts w3)))))"

end
