(* ===== verification/Deploy_Handlers.thy ===== *)
theory Deploy_Handlers
  imports App_Handlers
begin

text \<open>
  \<open>internal/server/handlers/deploy.go\<close>: the JSON API of deploys, the list of events as HTML
  for HTMX, and the event stream.  The stream is split where the code lets other goroutines in: what it
  sends before it subscribes, and the loop over what the select statement picks, each with the
  database of that moment.
\<close>

record trigger_request =
  tr_ImageRef :: string
  tr_CommitSHA :: string
  tr_Branch :: string

definition decode_trigger :: "string \<Rightarrow> trigger_request option" where
  "decode_trigger body =
     Option.bind (body_members body) (\<lambda>ms.
     Option.bind (string_field ''image_ref'' ms) (\<lambda>image.
     Option.bind (string_field ''commit_sha'' ms) (\<lambda>sha.
     Option.bind (string_field ''branch'' ms) (\<lambda>branch.
     Some \<lparr>tr_ImageRef = image, tr_CommitSHA = sha, tr_Branch = branch\<rparr>))))"

definition DeployList :: "string \<Rightarrow> db \<Rightarrow> deploy list answer \<times> db" where
  "DeployList param d =
     (case parseID param of
        None \<Rightarrow> (Failed 400 ''invalid app id'', d)
      | Some i \<Rightarrow>
          (case ListDeploys i 20 d of
             (Inl e, d1) \<Rightarrow> (Failed 500 ''failed to list deploys'', d1)
           | (Inr ds, d1) \<Rightarrow> (Answer 200 ds, d1)))"

text \<open>The deploy that a path names, or the refusal.\<close>

definition named_deploy :: "string \<Rightarrow> db \<Rightarrow> ((int \<times> string) + deploy) \<times> db" where
  "named_deploy param d =
     (case parseID param of
        None \<Rightarrow> (Inl (400, ''invalid deploy id''), d)
      | Some i \<Rightarrow>
          (case GetDeploy i d of
             (Inl e, d1) \<Rightarrow>
               (Inl (if errors_is e ErrNotFound then (404, ''deploy not found'') else (500, ''failed to get deploy'')), d1)
           | (Inr x, d1) \<Rightarrow> (Inr x, d1)))"

definition DeployGet :: "string \<Rightarrow> db \<Rightarrow> deploy answer \<times> db" where
  "DeployGet param d =
     (case named_deploy param d of
        (Inl (c, m), d1) \<Rightarrow> (Failed c m, d1)
      | (Inr x, d1) \<Rightarrow> (Answer 200 x, d1))"

definition Trigger :: "string \<Rightarrow> string \<Rightarrow> db \<Rightarrow> deploy answer \<times> job option \<times> db" where
  "Trigger param body d =
     (case parseID param of
        None \<Rightarrow> (Failed 400 ''invalid app id'', None, d)
      | Some i \<Rightarrow>
          (case decode_trigger body of
             None \<Rightarrow> (Failed 400 ''invalid request body'', None, d)
           | Some r \<Rightarrow>
               if tr_ImageRef r = [] \<or> tr_Branch r = [] then (Failed 400 ''image_ref and branch are required'', None, d)
               else
                 (case Deploy i (tr_ImageRef r) (tr_CommitSHA r) (tr_Branch r) ''manual'' d of
                    (Inl e, d1) \<Rightarrow>
                      (if errors_is e ErrDeployInProgress then Failed 409 ''deploy already in progress''
                       else Failed 500 ''failed to trigger deploy'', None, d1)
                  | (Inr (x, j), d1) \<Rightarrow> (Answer 202 x, Some j, d1))))"

definition DeployRollback :: "string \<Rightarrow> db \<Rightarrow> deploy answer \<times> job option \<times> db" where
  "DeployRollback param d =
     (case parseID param of
        None \<Rightarrow> (Failed 400 ''invalid app id'', None, d)
      | Some i \<Rightarrow>
          (case Rollback i d of
             (Inl e, d1) \<Rightarrow> (Failed 500 ''failed to rollback'', None, d1)
           | (Inr (x, j), d1) \<Rightarrow> (Answer 202 x, Some j, d1)))"

section \<open>Events\<close>

text \<open>\<open>Timestamp.Format("15:04:05")\<close> of a time in UTC.\<close>

definition two_digits :: "int \<Rightarrow> string" where
  "two_digits n = (if n < 10 then ''0'' @ itoa n else itoa n)"

definition clock_str :: "time \<Rightarrow> string" where
  "clock_str t =
     (let s = t div 1000000000 mod 86400 in
      two_digits (s div 3600) @ '':'' @ two_digits (s mod 3600 div 60) @ '':'' @ two_digits (s mod 60))"

definition event_color :: "string \<Rightarrow> string" where
  "event_color level =
     (if level = ''error'' then ''text-red-400'' else if level = ''warn'' then ''text-yellow-400'' else ''text-muted'')"

definition attr :: "string \<Rightarrow> string \<Rightarrow> string" where
  "attr name v = name @ ''='' @ quoted v"

text \<open>The step and the message go into the page as they are, without escaping.\<close>

definition event_html :: "deploy_event \<Rightarrow> string" where
  "event_html e =
     ''<div '' @ attr ''class'' (''text-xs '' @ event_color (ev_Level e) @ '' flex gap-2'') @ ''><span '' @
     attr ''class'' ''font-mono text-[10px] opacity-60'' @ ''>'' @ clock_str (ev_Timestamp e) @ ''</span><span '' @
     attr ''class'' ''font-semibold'' @ ''>'' @ ev_Step e @ ''</span><span>'' @ ev_Message e @ ''</span></div>''"

definition renderDeployEventsHTML :: "deploy_event list \<Rightarrow> string" where
  "renderDeployEventsHTML es =
     ''<td '' @ attr ''colspan'' ''6'' @ '' '' @ attr ''class'' ''px-4 py-3 bg-surface/50'' @ ''><div '' @ attr ''class'' ''space-y-1'' @ ''>'' @
     (if es = [] then ''<div '' @ attr ''class'' ''text-xs text-muted'' @ ''>No events recorded yet.</div>'' else []) @
     concat (map event_html es) @ ''</div></td>''"

datatype events_page = EventsHTML string | EventsJSON "deploy_event list"

definition ListEvents :: "(string \<Rightarrow> string) \<Rightarrow> string \<Rightarrow> db \<Rightarrow> events_page answer \<times> db" where
  "ListEvents header param d =
     (case parseID param of
        None \<Rightarrow> (Failed 400 ''invalid deploy id'', d)
      | Some i \<Rightarrow>
          (case ListDeployEvents i d of
             (Inl e, d1) \<Rightarrow> (Failed 500 ''failed to list events'', d1)
           | (Inr es, d1) \<Rightarrow>
               (Answer 200 (if header ''HX-Request'' = ''true'' then EventsHTML (renderDeployEventsHTML es) else EventsJSON es), d1)))"

section \<open>The stream\<close>

datatype chunk =
    DeployEventChunk deploy_event
  | StatusChunk string deploy_status
  | KeepaliveChunk

text \<open>What happens before the subscription: a refusal, a finished stream, or the chunks sent before
  waiting for the events of a deploy.\<close>

datatype stream_start =
    Refuses int string
  | Finishes "chunk list"
  | Subscribes "chunk list" int

definition StreamEvents_start :: "string \<Rightarrow> db \<Rightarrow> stream_start \<times> db" where
  "StreamEvents_start param d =
     (case named_deploy param d of
        (Inl (c, m), d1) \<Rightarrow> (Refuses c m, d1)
      | (Inr current, d1) \<Rightarrow>
          (case ListDeployEvents (dep_ID current) d1 of
             (Inl e, d2) \<Rightarrow> (Refuses 500 ''failed to list events'', d2)
           | (Inr es, d2) \<Rightarrow>
               (let sent = map DeployEventChunk es @ [StatusChunk ''connected'' (dep_Status current)] in
                if IsTerminal (dep_Status current)
                then (Finishes (sent @ [StatusChunk ''terminal'' (dep_Status current)]), d2)
                else (Subscribes sent (dep_ID current), d2))))"

text \<open>What the select statement picks; a write that fails ends the stream like a client that is
  gone.\<close>

datatype stream_input = ClientGone | KeepaliveTick | Received deploy_event | ChannelClosed

fun stream_loop :: "int \<Rightarrow> (stream_input \<times> db) list \<Rightarrow> chunk list" where
  "stream_loop i [] = []"
| "stream_loop i ((ClientGone, d) # rest) = []"
| "stream_loop i ((ChannelClosed, d) # rest) = []"
| "stream_loop i ((KeepaliveTick, d) # rest) = KeepaliveChunk # stream_loop i rest"
| "stream_loop i ((Received e, d) # rest) =
     DeployEventChunk e #
     (case GetDeploy i d of
        (Inl err, d1) \<Rightarrow> []
      | (Inr x, d1) \<Rightarrow>
          if IsTerminal (dep_Status x) then [StatusChunk ''terminal'' (dep_Status x)] else stream_loop i rest)"

text \<open>The events of the inputs up to the one after which the row is terminal.\<close>

fun is_event_chunk :: "chunk \<Rightarrow> bool" where
  "is_event_chunk (DeployEventChunk e) = True"
| "is_event_chunk _ = False"

fun received :: "(stream_input \<times> db) list \<Rightarrow> deploy_event list" where
  "received [] = []"
| "received ((Received e, d) # rest) = e # received rest"
| "received (x # rest) = received rest"

text \<open>The stream forwards a prefix of the received events, in order; a terminal status is the last
  chunk it sends.\<close>

lemma stream_loop_prefix: "\<exists>rest. map DeployEventChunk (received xs) = filter is_event_chunk (stream_loop i xs) @ rest"
  by (induction i xs rule: stream_loop.induct) (auto split: prod.split sum.split)

lemma stream_loop_terminal_last:
  "stream_loop i xs = pre @ StatusChunk st s # post \<Longrightarrow> st = ''terminal'' \<and> IsTerminal s \<and> post = []"
proof (induction i xs arbitrary: pre rule: stream_loop.induct)
  case (4 i d rest)
  then show ?case by (cases pre) auto
next
  case (5 i e d rest)
  then show ?case by (cases pre) (auto simp: Cons_eq_append_conv split: prod.splits sum.splits if_splits)
qed auto

end
