(* ===== verification/Pages.thy ===== *)
theory Pages
  imports App_Views Github_Handlers Settings Sessions Deploy_Handlers
begin

text \<open>
  \<open>internal/server/handlers/pages.go\<close>: the HTML pages and the forms they send.  A form is the
  function \<open>FormValue\<close>; a page is the answer with the template and its data.  The pages' GitHub
  client is \<open>w_page_gh\<close>.
\<close>

record page_handler =
  ph_auth :: auth_service
  ph_docker :: bool
  ph_proxy :: "traefik_manager option"
  ph_settings :: "settings_service option"
  ph_host :: string
  ph_domain :: string
  ph_proxyMode :: proxy_mode
  ph_port :: int

record app_create_data =
  cd_GitHubConfigured :: bool
  cd_Repos :: "repo_info list"
  cd_RepoError :: string
  cd_ProxyMode :: proxy_mode
  cd_Containers :: "container_info list"
  cd_TypeOptions :: "app_type_option list"

record general_settings_data =
  gd_User :: "string option"
  gd_Current :: snapshot
  gd_RoutingModeLabel :: string
  gd_ProxyModeLabel :: string
  gd_EdgeProviderLabel :: string
  gd_Saved :: bool
  gd_ErrorMessage :: string

datatype page_data =
    NoData
  | UserOnly "string option"
  | DashboardData "string option" "dashboard_app_view list"
  | AppCreateData app_create_data
  | AppDetailData app_detail_data
  | DeployRow deploy int
  | DeployStatusData deploy
  | ServicesData "string option" "service list"
  | ServiceDetailData "string option" service "app_service list" "service option"
  | AppSettingsData app_settings_data
  | AppRow dashboard_app_view
  | BackupsData "string option" "backup list"
  | GeneralSettingsData general_settings_data

type_synonym web_page = "page_data page"
type_synonym form = "string \<Rightarrow> string"

definition userData :: "user option \<Rightarrow> string option" where
  "userData u = map_option usr_Username u"

definition red_flash :: "int \<Rightarrow> string \<Rightarrow> web_page" where
  "red_flash code m = Flash code ''red'' m"

definition yellow_flash :: "int \<Rightarrow> string \<Rightarrow> web_page" where
  "yellow_flash code m = Flash code ''yellow'' m"

text \<open>A list whose error the page ignores.\<close>

definition ok_or_empty :: "go_error + 'a list \<Rightarrow> 'a list" where
  "ok_or_empty r = (case r of Inl e \<Rightarrow> [] | Inr xs \<Rightarrow> xs)"

section \<open>Setup and login\<close>

definition SetupPage :: "user option \<Rightarrow> world \<Rightarrow> web_page \<times> world" where
  "SetupPage u w =
     (case on_db SetupRequired w of
        (Inl e, w1) \<Rightarrow> (HttpError ''server error'' 500, w1)
      | (Inr required, w1) \<Rightarrow>
          (if \<not> required then RedirectTo ''/login''
           else if u \<noteq> None then RedirectTo ''/dashboard''
           else Rendered ''setup.html'' ''Setup'' None NoData, w1))"

text \<open>Creating the session cannot fail.\<close>

definition start_session :: "outside \<Rightarrow> page_handler \<Rightarrow> user \<Rightarrow> world \<Rightarrow> web_page \<times> world" where
  "start_session out h u w =
     (HxRedirect [session_cookie (CreateSession out (ph_auth h) u (time_now w))] ''/dashboard'', w)"

definition SetupSubmit :: "outside \<Rightarrow> page_handler \<Rightarrow> form \<Rightarrow> world \<Rightarrow> web_page \<times> world" where
  "SetupSubmit out h f w =
     (case on_db SetupRequired w of
        (Inl e, w1) \<Rightarrow> (RedirectTo ''/login'', w1)
      | (Inr required, w1) \<Rightarrow>
          if \<not> required then (RedirectTo ''/login'', w1)
          else if f ''username'' = [] \<or> f ''password'' = [] then (red_flash 422 ''Username and password are required.'', w1)
          else if length (f ''password'') < 8 then (red_flash 422 ''Password must be at least 8 characters.'', w1)
          else
            (case AuthCreateUser out (f ''username'') (f ''password'') w1 of
               (Inl e, w2) \<Rightarrow> (red_flash 500 ''Failed to create account.'', w2)
             | (Inr u, w2) \<Rightarrow> start_session out h u w2))"

definition LoginPage :: "user option \<Rightarrow> world \<Rightarrow> web_page \<times> world" where
  "LoginPage u w =
     (case on_db SetupRequired w of
        (Inl e, w1) \<Rightarrow> (HttpError ''server error'' 500, w1)
      | (Inr required, w1) \<Rightarrow>
          (if required then RedirectTo ''/setup''
           else if u \<noteq> None then RedirectTo ''/dashboard''
           else Rendered ''login.html'' ''Login'' None NoData, w1))"

definition LoginSubmit :: "outside \<Rightarrow> page_handler \<Rightarrow> form \<Rightarrow> world \<Rightarrow> web_page \<times> world" where
  "LoginSubmit out h f w =
     (case on_db (Authenticate out (f ''username'') (f ''password'')) w of
        (Inl e, w1) \<Rightarrow>
          (if errors_is e ErrUnauthorized then red_flash 401 ''Invalid credentials.''
           else red_flash 500 ''Authentication failed.'', w1)
      | (Inr u, w1) \<Rightarrow> start_session out h u w1)"

definition PageLogout :: "world \<Rightarrow> web_page \<times> world" where
  "PageLogout w = (HxRedirect [clear_cookie] ''/login'', w)"

section \<open>The dashboard and new applications\<close>

definition DashboardPage :: "page_handler \<Rightarrow> user option \<Rightarrow> db \<Rightarrow> web_page \<times> db" where
  "DashboardPage h u d =
     (case ListApps d of
        (Inl e, d1) \<Rightarrow> (HttpError ''failed to load apps'' 500, d1)
      | (Inr apps, d1) \<Rightarrow>
          (Rendered ''dashboard.html'' ''Dashboard'' (userData u)
             (DashboardData (userData u) (map (\<lambda>a. buildDashboardAppView a (ph_proxyMode h)) apps)), d1))"

definition page_containers :: "outside \<Rightarrow> page_handler \<Rightarrow> world \<Rightarrow> container_info list \<times> world" where
  "page_containers out h w =
     (if ph_docker h then (case ListContainers out True w of (r, w1) \<Rightarrow> (ok_or_empty r, w1)) else ([], w))"

definition AppCreatePage :: "outside \<Rightarrow> page_handler \<Rightarrow> user option \<Rightarrow> world \<Rightarrow> (web_page \<times> world) option" where
  "AppCreatePage out h u w =
     (let configured = IsConfigured (w_page_gh w);
          page = (\<lambda>repos message w1. (case page_containers out h w1 of
            (containers, w2) \<Rightarrow>
              (Rendered ''app_create.html'' ''New App'' (userData u)
                 (AppCreateData \<lparr>cd_GitHubConfigured = configured, cd_Repos = repos, cd_RepoError = message,
                    cd_ProxyMode = ph_proxyMode h, cd_Containers = containers, cd_TypeOptions = appTypeOptions\<rparr>), w2)))
      in
      if \<not> configured then Some (page [] [] w)
      else
        (case listAllRepos out (w_page_gh w) w of
           None \<Rightarrow> None
         | Some (Inl e, w1) \<Rightarrow> Some (page [] repo_load_error w1)
         | Some (Inr rs, w1) \<Rightarrow> Some (page rs [] w1)))"

definition form_port :: "form \<Rightarrow> app_type \<Rightarrow> int" where
  "form_port f t =
     (let portStr = (if t = AppTypeAdoptedContainer \<and> f ''adopted_internal_port'' \<noteq> [] then f ''adopted_internal_port''
                     else f ''internal_port'')
      in case parse_int64 portStr of None \<Rightarrow> 0 | Some p \<Rightarrow> p)"

definition form_app :: "page_handler \<Rightarrow> form \<Rightarrow> app" where
  "form_app h f =
     (let t = normalizeAppType (app_type_of (f ''app_type'')) in
      zero_app\<lparr>app_Name := f ''name'', app_AppType := t, app_BuildMode := normalizeBuildMode (build_mode_of (f ''build_mode'')),
        app_ProjectType := f ''project_type'', app_RuntimeOwner := runtimeOwnerForType t,
        app_EdgeProvider := edgeProviderForMode (ph_proxyMode h), app_Source := sourceForType t,
        app_RepoURL := trim_space (f ''repo_url''), app_Branch := (if f ''branch'' = [] then ''main'' else f ''branch''),
        app_InternalPort := form_port f t, app_ImageRef := trim_space (f ''image_ref''),
        app_Domain := trim_space (f ''domain''), app_Status := AppStatusInactive,
        app_ContainerName := trim_space (f ''container_name''), app_ExternalTarget := trim_space (f ''external_target''),
        app_DockerNetwork := trim_space (f ''docker_network'')\<rparr>)"

text \<open>The request with the fields of the application that is checked.\<close>

definition request_of_app :: "app \<Rightarrow> create_app_request" where
  "request_of_app a =
     \<lparr>cr_Name = app_Name a, cr_AppType = app_AppType a, cr_BuildMode = build_mode_of [], cr_ProjectType = [],
      cr_RepoURL = app_RepoURL a, cr_Branch = app_Branch a, cr_InternalPort = app_InternalPort a, cr_Domain = app_Domain a,
      cr_ImageRef = app_ImageRef a, cr_ContainerName = app_ContainerName a, cr_ExternalTarget = app_ExternalTarget a,
      cr_DockerNetwork = app_DockerNetwork a\<rparr>"

text \<open>The repository chosen in the form; a number that does not parse, an empty one too, changes nothing.\<close>

definition form_github :: "form \<Rightarrow> app \<Rightarrow> app" where
  "form_github f a =
     (if app_AppType a = AppTypeManaged then
        (let a1 = (case parse_int64 (f ''github_installation_id'') of None \<Rightarrow> a | Some i \<Rightarrow> a\<lparr>app_GitHubInstallationID := Some i\<rparr>)
         in (case parse_int64 (f ''github_repo_id'') of
               None \<Rightarrow> a1 | Some i \<Rightarrow> a1\<lparr>app_GitHubRepoID := Some i, app_RegistryURL := ''ghcr.io''\<rparr>))
      else a)"

text \<open>An adopted container that runs makes its application active; an error changes nothing.\<close>

definition activate_adopted :: "outside \<Rightarrow> page_handler \<Rightarrow> app \<Rightarrow> world \<Rightarrow> world" where
  "activate_adopted out h a w =
     (if app_AppType a = AppTypeAdoptedContainer \<and> app_ContainerName a \<noteq> [] \<and> ph_docker h then
        (case Inspect out (app_ContainerName a) w of
           (Inl e, w1) \<Rightarrow> w1
         | (Inr st, w1) \<Rightarrow> if st_Running st then snd (on_db (UpdateApp (a\<lparr>app_Status := AppStatusActive\<rparr>)) w1) else w1)
      else w)"

definition AppCreateSubmit :: "outside \<Rightarrow> page_handler \<Rightarrow> form \<Rightarrow> world \<Rightarrow> web_page \<times> world" where
  "AppCreateSubmit out h f w =
     (if f ''name'' = [] then (red_flash 422 ''Name is required.'', w)
      else
        (case validateCreateRequest (request_of_app (form_app h f)) of
           Some m \<Rightarrow> (red_flash 422 m, w)
         | None \<Rightarrow>
             (case on_db (applyAccessFields (ph_host h) (ph_domain h) (form_app h f)) w of
                (Inl e, w1) \<Rightarrow> (red_flash 500 ''Failed to prepare app routing.'', w1)
              | (Inr a, w1) \<Rightarrow>
                  (case on_db (CreateApp (form_github f a)) w1 of
                     (Inl e, w2) \<Rightarrow> (red_flash 500 ''Failed to create app.'', w2)
                   | (Inr a1, w2) \<Rightarrow>
                       (case syncNonManagedRoute out (ph_proxy h) a1 w2 of
                          (Inl e, w3) \<Rightarrow> (red_flash 500 ''Failed to configure route.'', w3)
                        | (Inr _, w3) \<Rightarrow> (HxRedirect [] (''/apps/'' @ itoa (app_ID a1)), activate_adopted out h a1 w3))))))"

section \<open>The page of an application\<close>

text \<open>What Docker tells of the container.  A container without a configuration is a nil pointer.\<close>

definition runtime_info :: "outside \<Rightarrow> page_handler \<Rightarrow> string \<Rightarrow> world \<Rightarrow> container_info option outcome \<times> world" where
  "runtime_info out h containerName w =
     (if containerName \<noteq> [] \<and> ph_docker h then
        (case Inspect out containerName w of
           (Inl e, w1) \<Rightarrow> (Returns None, w1)
         | (Inr st, w1) \<Rightarrow>
             (case st_Image st of
                None \<Rightarrow> (Panics ''nil pointer dereference'', w1)
              | Some img \<Rightarrow>
                  (Returns (Some \<lparr>ci_ID = st_ID st, ci_Name = trim_prefix (st_Name st) ''/'', ci_Image = img,
                     ci_State = st_Status st, ci_Status = st_Status st, ci_Networks = map fst (st_Networks st), ci_Ports = []\<rparr>), w1)))
      else (Returns None, w))"

definition runs :: "container_info option \<Rightarrow> bool" where
  "runs info = (case info of None \<Rightarrow> False | Some i \<Rightarrow> ci_State i = ''running'')"

text \<open>The status of an adopted container follows Docker; an error of the update is ignored.\<close>

definition sync_adopted :: "page_handler \<Rightarrow> container_info option \<Rightarrow> app \<Rightarrow> world \<Rightarrow> app \<times> world" where
  "sync_adopted h info a w =
     (if app_AppType a = AppTypeAdoptedContainer \<and> EffectiveContainerName a \<noteq> [] \<and> ph_docker h then
        (if runs info \<and> app_Status a \<noteq> AppStatusActive then
           (let a1 = a\<lparr>app_Status := AppStatusActive\<rparr> in (a1, snd (on_db (UpdateApp a1) w)))
         else if \<not> runs info \<and> app_Status a = AppStatusActive then
           (let a1 = a\<lparr>app_Status := AppStatusInactive\<rparr> in (a1, snd (on_db (UpdateApp a1) w)))
         else (a, w))
      else (a, w))"

definition renderExternalTraefikSnippet :: "string \<Rightarrow> string \<Rightarrow> string \<Rightarrow> string" where
  "renderExternalTraefikSnippet name domainName target =
     (let serviceName = map (\<lambda>c. if c = CHR ''_'' then CHR ''-'' else c) name in
      concat (map (\<lambda>l. l @ newline)
        [''http:'',
         ''  routers:'',
         ''    '' @ serviceName @ '':'',
         ''      rule: '' @ quoted (''Host(`'' @ domainName @ ''`)''),
         ''      entryPoints:'',
         ''        - websecure'',
         ''      service: '' @ serviceName,
         ''      tls:'',
         ''          certResolver: letsencrypt'',
         ''  services:'',
         ''    '' @ serviceName @ '':'',
         ''      loadBalancer:'',
         ''        servers:'',
         ''          - url: '' @ quoted target]))"

definition manual_route_snippet :: "page_handler \<Rightarrow> app \<Rightarrow> string" where
  "manual_route_snippet h a =
     (if ph_proxyMode h = ProxyModeExternal \<and> app_AppType a \<noteq> AppTypeManaged \<and> app_Domain a \<noteq> [] then
        renderExternalTraefikSnippet (app_Name a) (app_Domain a)
          (if app_ExternalTarget a = [] then ''http://'' @ EffectiveContainerName a @ '':'' @ itoa (app_InternalPort a)
           else app_ExternalTarget a)
      else [])"

definition AppDetailPage :: "outside \<Rightarrow> page_handler \<Rightarrow> user option \<Rightarrow> string \<Rightarrow> world \<Rightarrow> web_page outcome \<times> world" where
  "AppDetailPage out h u param w =
     (case parseID param of
        None \<Rightarrow> (Returns (HttpError ''invalid app id'' 400), w)
      | Some i \<Rightarrow>
          (case on_db (GetApp i) w of
             (Inl e, w1) \<Rightarrow>
               (Returns (if errors_is e ErrNotFound then HttpError ''app not found'' 404 else HttpError ''failed to get app'' 500), w1)
           | (Inr a, w1) \<Rightarrow>
               (case on_db (ListDeploys i 20) w1 of
                  (Inl e, w2) \<Rightarrow> (Returns (HttpError ''failed to get deploys'' 500), w2)
                | (Inr ds, w2) \<Rightarrow>
                    (case runtime_info out h (EffectiveContainerName a) w2 of
                       (Panics m, w3) \<Rightarrow> (Panics m, w3)
                     | (Returns info, w3) \<Rightarrow>
                         (case sync_adopted h info a w3 of
                            (a1, w4) \<Rightarrow>
                              (Returns (Rendered ''app.html'' (app_Name a1) (userData u)
                                 (AppDetailData (buildAppDetailPageData (userData u) a1 ds (IsConfigured (w_page_gh w4)) info
                                    (ph_proxyMode h) (manual_route_snippet h a1)))), w4))))))"

text \<open>Unlike the API, the page leaves the route of the application where it is.\<close>

definition PageDeleteApp :: "string \<Rightarrow> db \<Rightarrow> web_page \<times> db" where
  "PageDeleteApp param d =
     (case parseID param of
        None \<Rightarrow> (HttpError ''invalid app id'' 400, d)
      | Some i \<Rightarrow>
          (case DeleteApp i d of
             (Inl e, d1) \<Rightarrow> (HttpError ''failed to delete app'' 500, d1)
           | (Inr _, d1) \<Rightarrow> (HxRedirect [] ''/dashboard'', d1)))"

section \<open>Deploys\<close>

definition TriggerDeploy :: "form \<Rightarrow> string \<Rightarrow> db \<Rightarrow> web_page \<times> job option \<times> db" where
  "TriggerDeploy f param d =
     (case parseID param of
        None \<Rightarrow> (HttpError ''invalid app id'' 400, None, d)
      | Some i \<Rightarrow>
          (case GetApp i d of
             (Inl e, d1) \<Rightarrow> (HttpError ''app not found'' 404, None, d1)
           | (Inr a, d1) \<Rightarrow>
               if app_AppType a \<noteq> AppTypeManaged then
                 (yellow_flash 400 ''Only Talos-managed apps support deploys. External apps are deployed by their CI pipeline.'', None, d1)
               else if app_BuildMode a \<noteq> BuildModeTalosBuild \<and> f ''image_ref'' = [] then
                 (red_flash 422 ''Image ref is required for external CI apps (e.g. ghcr.io/org/app:latest).'', None, d1)
               else
                 (case Deploy i (f ''image_ref'') [] (if f ''branch'' = [] then app_Branch a else f ''branch'') ''manual'' d1 of
                    (Inl e, d2) \<Rightarrow>
                      (if errors_is e ErrDeployInProgress
                       then yellow_flash 409 ''A deploy is already running. Wait for it to finish or roll back.''
                       else red_flash 500 (''Deploy failed: '' @ error_text e), None, d2)
                  | (Inr (x, j), d2) \<Rightarrow> (PartialPage ''deploy_row.html'' (DeployRow x i), Some j, d2))))"

definition TriggerRollback :: "string \<Rightarrow> db \<Rightarrow> web_page \<times> job option \<times> db" where
  "TriggerRollback param d =
     (case parseID param of
        None \<Rightarrow> (HttpError ''invalid app id'' 400, None, d)
      | Some i \<Rightarrow>
          (case GetApp i d of
             (Inl e, d1) \<Rightarrow> (HttpError ''app not found'' 404, None, d1)
           | (Inr a, d1) \<Rightarrow>
               if app_AppType a \<noteq> AppTypeManaged then (yellow_flash 400 ''Only Talos-managed apps support rollback.'', None, d1)
               else
                 (case Rollback i d1 of
                    (Inl e, d2) \<Rightarrow> (red_flash 500 ''Failed to rollback.'', None, d2)
                  | (Inr (x, j), d2) \<Rightarrow> (PartialPage ''deploy_row.html'' (DeployRow x i), Some j, d2))))"

definition page_deploy :: "(deploy \<Rightarrow> web_page) \<Rightarrow> string \<Rightarrow> db \<Rightarrow> web_page \<times> db" where
  "page_deploy view param d =
     (case parseID param of
        None \<Rightarrow> (HttpError ''invalid deploy id'' 400, d)
      | Some i \<Rightarrow>
          (case GetDeploy i d of
             (Inl e, d1) \<Rightarrow> (HttpError ''deploy not found'' 404, d1)
           | (Inr x, d1) \<Rightarrow> (view x, d1)))"

definition DeployStatusPartial :: "string \<Rightarrow> db \<Rightarrow> web_page \<times> db" where
  "DeployStatusPartial = page_deploy (\<lambda>x. PartialPage ''deploy_status.html'' (DeployStatusData x))"

definition DeployRowPartial :: "string \<Rightarrow> db \<Rightarrow> web_page \<times> db" where
  "DeployRowPartial = page_deploy (\<lambda>x. PartialPage ''deploy_row.html'' (DeployRow x (dep_AppID x)))"

section \<open>Services\<close>

definition ServicesPage :: "user option \<Rightarrow> db \<Rightarrow> web_page \<times> db" where
  "ServicesPage u d =
     (case ListServices d of
        (Inl e, d1) \<Rightarrow> (HttpError ''failed to list services'' 500, d1)
      | (Inr ss, d1) \<Rightarrow> (Rendered ''services.html'' ''Services'' (userData u) (ServicesData (userData u) ss), d1))"

definition ServiceCreatePage :: "user option \<Rightarrow> web_page" where
  "ServiceCreatePage u = Rendered ''service_create.html'' ''Create Service'' (userData u) (UserOnly (userData u))"

text \<open>The web interface that belongs to a Garage service.\<close>

definition sidecar_of :: "service \<Rightarrow> db \<Rightarrow> service option \<times> db" where
  "sidecar_of s d =
     (if svc_Type s = ServiceGarage then
        (case GetServiceByName (svc_Name s @ ''-webui'') d of
           (Inl e, d1) \<Rightarrow> (None, d1)
         | (Inr x, d1) \<Rightarrow> (Some x, d1))
      else (None, d))"

definition ServiceDetailPage :: "user option \<Rightarrow> string \<Rightarrow> db \<Rightarrow> web_page \<times> db" where
  "ServiceDetailPage u param d =
     (case parseID param of
        None \<Rightarrow> (HttpError ''invalid service id'' 400, d)
      | Some i \<Rightarrow>
          (case GetService i d of
             (Inl e, d1) \<Rightarrow> (HttpError ''service not found'' 404, d1)
           | (Inr s0, d1) \<Rightarrow>
               (let s = s0\<lparr>svc_Credentials := []\<rparr>; (links, d2) = GetLinkedApps i d1; (sidecar, d3) = sidecar_of s d2 in
                (Rendered ''service_detail.html'' (svc_Name s) (userData u)
                   (ServiceDetailData (userData u) s (ok_or_empty links) sidecar), d3))))"

section \<open>The settings of an application, its row, and backups\<close>

definition mask :: "app_env_var \<Rightarrow> app_env_var" where
  "mask v = (if env_IsSecret v then v\<lparr>env_Value := ''****''\<rparr> else v)"

definition AppSettingsPage :: "page_handler \<Rightarrow> user option \<Rightarrow> string \<Rightarrow> db \<Rightarrow> web_page \<times> db" where
  "AppSettingsPage h u param d =
     (case parseID param of
        None \<Rightarrow> (HttpError ''invalid app id'' 400, d)
      | Some i \<Rightarrow>
          (case GetApp i d of
             (Inl e, d1) \<Rightarrow> (HttpError ''app not found'' 404, d1)
           | (Inr a, d1) \<Rightarrow>
               (let (vs, d2) = GetAppEnvVars i d1; (ls, d3) = ListAppServices i d2; (ss, d4) = ListServices d3 in
                (Rendered ''app_settings.html'' (app_Name a @ '' Settings'') (userData u)
                   (AppSettingsData (buildAppSettingsPageData (userData u) a (map mask (ok_or_empty vs)) (ok_or_empty ls)
                      (ok_or_empty ss) (ph_proxyMode h) (manual_route_snippet h a))), d4))))"

definition AppRowPartial :: "page_handler \<Rightarrow> string \<Rightarrow> db \<Rightarrow> web_page \<times> db" where
  "AppRowPartial h param d =
     (case parseID param of
        None \<Rightarrow> (HttpError ''invalid app id'' 400, d)
      | Some i \<Rightarrow>
          (case GetApp i d of
             (Inl e, d1) \<Rightarrow> (HttpError ''app not found'' 404, d1)
           | (Inr a, d1) \<Rightarrow> (PartialPage ''app_row.html'' (AppRow (buildDashboardAppView a (ph_proxyMode h))), d1)))"

definition BackupPage :: "user option \<Rightarrow> db \<Rightarrow> web_page \<times> db" where
  "BackupPage u d =
     (let (bs, d1) = ListBackups d in
      (Rendered ''backups.html'' ''Backups'' (userData u) (BackupsData (userData u) (ok_or_empty bs)), d1))"

section \<open>The settings of the server\<close>

definition SettingsPage :: "user option \<Rightarrow> web_page" where
  "SettingsPage u = Rendered ''settings.html'' ''Settings'' (userData u) (UserOnly (userData u))"

definition requestHost :: "page_handler \<Rightarrow> string \<Rightarrow> string" where
  "requestHost h host =
     (let host1 = (if host = [] then ph_host h else host) in
      if host1 = ''0.0.0.0'' \<or> host1 = ''0.0.0.0:0'' then ''localhost'' else host1)"

definition renderGeneralSettings :: "user option \<Rightarrow> snapshot \<Rightarrow> bool \<Rightarrow> string \<Rightarrow> web_page" where
  "renderGeneralSettings u snap saved message =
     Rendered ''settings_general.html'' ''Proxy & Domain'' (userData u)
       (GeneralSettingsData \<lparr>gd_User = userData u, gd_Current = snap,
          gd_RoutingModeLabel = (if snap_Domain snap \<noteq> [] then ''Domain mode'' else ''IP / port mode''),
          gd_ProxyModeLabel = (if snap_ProxyMode snap = ProxyModeExternal then ''External Traefik'' else ''Internal Traefik''),
          gd_EdgeProviderLabel = to_upper ''traefik'', gd_Saved = saved, gd_ErrorMessage = message\<rparr>)"

definition renderGeneralSettingsPage ::
  "outside \<Rightarrow> page_handler \<Rightarrow> user option \<Rightarrow> string \<Rightarrow> bool \<Rightarrow> string \<Rightarrow> world \<Rightarrow> web_page \<times> world" where
  "renderGeneralSettingsPage out h u host saved message w =
     (case ph_settings h of
        None \<Rightarrow> (HttpError ''settings unavailable'' 503, w)
      | Some s \<Rightarrow>
          (case SettingsLoad out s (requestHost h host) (ph_port h) w of
             (Inl e, w1) \<Rightarrow> (HttpError ''failed to load settings'' 500, w1)
           | (Inr snap, w1) \<Rightarrow> (renderGeneralSettings u snap saved message, w1)))"

definition GeneralSettingsPage :: "outside \<Rightarrow> page_handler \<Rightarrow> user option \<Rightarrow> string \<Rightarrow> world \<Rightarrow> web_page \<times> world" where
  "GeneralSettingsPage out h u host = renderGeneralSettingsPage out h u host False []"

definition settings_form :: "form \<Rightarrow> update_input" where
  "settings_form f =
     \<lparr>upd_Domain = f ''domain'', upd_ACMEEmail = f ''acme_email'', upd_ProxyMode = f ''proxy_mode'',
      upd_EdgeProvider = f ''edge_provider'', upd_EdgeNetwork = f ''edge_network'',
      upd_EdgeCertResolver = f ''edge_cert_resolver'', upd_EdgeEntrypoint = f ''edge_entrypoint''\<rparr>"

definition GeneralSettingsSubmit ::
  "outside \<Rightarrow> page_handler \<Rightarrow> user option \<Rightarrow> string \<Rightarrow> form \<Rightarrow> world \<Rightarrow> web_page \<times> world" where
  "GeneralSettingsSubmit out h u host f w =
     (case ph_settings h of
        None \<Rightarrow> (HttpError ''settings unavailable'' 503, w)
      | Some s \<Rightarrow>
          (case SettingsSave out s (settings_form f) (requestHost h host) (ph_port h) w of
             (Inl e, w1) \<Rightarrow> (HttpError ''failed to save settings'' 500, w1)
           | (Inr snap, w1) \<Rightarrow> (renderGeneralSettings u snap True [], w1)))"

end
