(* ===== verification/Server.thy ===== *)
theory Server
  imports Pages Service_Handlers Log_Stream Backups
begin

text \<open>
  \<open>internal/server/server.go\<close>: the routes of the server with their handlers, and what a request goes
  through: the routing, the recovery from panics, the check of the session, the handler.  Which pattern a
  path matches, and the values of its parameters, is the answer of the router \<open>chi\<close>, a parameter.
\<close>

section \<open>The parts of the server\<close>

record server =
  sv_auth :: auth_service
  sv_proxy :: "traefik_manager option"
  sv_docker :: docker_client
  sv_provisioner :: provisioner
  sv_backups :: "backup_manager option"
  sv_webhook_secret :: string
  sv_github :: github_config
  sv_host :: string
  sv_domain :: string
  sv_proxyMode :: proxy_mode
  sv_port :: int

definition app_handler_of :: "server \<Rightarrow> app_handler" where
  "app_handler_of s =
     \<lparr>ah_proxy = sv_proxy s, ah_serverHost = sv_host s, ah_serverDomain = sv_domain s, ah_proxyMode = sv_proxyMode s\<rparr>"

definition github_handler_of :: "server \<Rightarrow> github_handler" where
  "github_handler_of s = \<lparr>gh_cfg = sv_github s, gh_host = sv_host s, gh_domain = sv_domain s\<rparr>"

definition page_handler_of :: "server \<Rightarrow> page_handler" where
  "page_handler_of s =
     \<lparr>ph_auth = sv_auth s, ph_docker = True, ph_proxy = sv_proxy s, ph_settings = Some NewService, ph_host = sv_host s,
      ph_domain = sv_domain s, ph_proxyMode = sv_proxyMode s, ph_port = sv_port s\<rparr>"

text \<open>A request with its address, its query and its form.\<close>

record web_request = request +
  wq_Method :: string
  wq_Path :: string
  wq_Query :: "string \<Rightarrow> string"
  wq_Form :: form
  wq_TLS :: bool
  wq_Host :: string

definition origin_of :: "web_request \<Rightarrow> web_origin" where
  "origin_of q = \<lparr>wo_TLS = wq_TLS q, wo_ForwardedProto = rq_header q ''X-Forwarded-Proto'', wo_Host = wq_Host q\<rparr>"

text \<open>The answers of all handlers, and the goroutines a request may start.\<close>

datatype reply =
    Plain response
  | Apps "app list answer" | OneApp "app answer" | Acknowledged "unit answer" | Said "string answer"
  | Deploys "deploy list answer" | OneDeploy "deploy answer" | EventList "events_page answer" | EventStream stream_start
  | Logs log_answer
  | Services "service list answer" | OneService "service answer" | Secrets "credentials answer"
  | Buckets "garage_bucket list answer" | OneBucket "garage_bucket answer"
  | Links "app_service list answer" | EnvVars "app_env_var list answer" | OneEnvVar "app_env_var answer"
  | EnvHistory "app_env_var_history list answer" | Revealed "(string \<times> string) answer"
  | BackupRows "backup list answer" | OneBackup "backup answer"
  | GithubPage github_page | WebPage web_page

datatype started = StartDeploy job | StartService service_job

text \<open>The outcome; \<open>None\<close> when the handler does not return.\<close>

type_synonym served = "(reply outcome \<times> started list \<times> world) option"
type_synonym endpoint = "user option \<Rightarrow> web_request \<Rightarrow> (string \<Rightarrow> string) \<Rightarrow> world \<Rightarrow> served"

definition answers :: "('a \<Rightarrow> reply) \<Rightarrow> (world \<Rightarrow> 'a \<times> world) \<Rightarrow> world \<Rightarrow> served" where
  "answers k f w = (case f w of (x, w1) \<Rightarrow> Some (Returns (k x), [], w1))"

definition answers_db :: "('a \<Rightarrow> reply) \<Rightarrow> (db \<Rightarrow> 'a \<times> db) \<Rightarrow> world \<Rightarrow> served" where
  "answers_db k f = answers k (on_db f)"

definition answers_outcome :: "('a \<Rightarrow> reply) \<Rightarrow> (world \<Rightarrow> 'a outcome \<times> world) \<Rightarrow> world \<Rightarrow> served" where
  "answers_outcome k f w =
     (case f w of
        (Returns x, w1) \<Rightarrow> Some (Returns (k x), [], w1)
      | (Panics m, w1) \<Rightarrow> Some (Panics m, [], w1))"

definition may_answer :: "('a \<Rightarrow> reply) \<Rightarrow> (world \<Rightarrow> ('a \<times> world) option) \<Rightarrow> world \<Rightarrow> served" where
  "may_answer k f w = (case f w of None \<Rightarrow> None | Some (x, w1) \<Rightarrow> Some (Returns (k x), [], w1))"

definition deploys_of_job :: "job option \<Rightarrow> started list" where
  "deploys_of_job j = (case j of None \<Rightarrow> [] | Some j \<Rightarrow> [StartDeploy j])"

definition starts_deploy :: "('a \<Rightarrow> reply) \<Rightarrow> (db \<Rightarrow> 'a \<times> job option \<times> db) \<Rightarrow> world \<Rightarrow> served" where
  "starts_deploy k f w =
     (case f (w_db w) of (x, j, d) \<Rightarrow> Some (Returns (k x), deploys_of_job j, w\<lparr>w_db := d\<rparr>))"

definition serve_create_service :: "outside \<Rightarrow> string \<Rightarrow> world \<Rightarrow> served" where
  "serve_create_service out body w =
     (case ServiceCreate out body w of
        (x, j, w1) \<Rightarrow> Some (Returns (OneService x), (case j of None \<Rightarrow> [] | Some j \<Rightarrow> [StartService j]), w1))"

definition serve_callback :: "outside \<Rightarrow> github_handler \<Rightarrow> web_request \<Rightarrow> world \<Rightarrow> served" where
  "serve_callback out h q w =
     (case HandleCallback out h (wq_Query q ''installation_id'') (wq_Query q ''state'') w of
        None \<Rightarrow> None
      | Some (Returns x, w1) \<Rightarrow> Some (Returns (GithubPage x), [], w1)
      | Some (Panics m, w1) \<Rightarrow> Some (Panics m, [], w1))"

definition serve_webhook :: "outside \<Rightarrow> string \<Rightarrow> web_request \<Rightarrow> world \<Rightarrow> served" where
  "serve_webhook out secret q w =
     (case webhook_route out secret (request.truncate q) (w_db w) of
        (Returns r, j, d) \<Rightarrow> Some (Returns (Plain r), deploys_of_job j, w\<lparr>w_db := d\<rparr>)
      | (Panics m, j, d) \<Rightarrow> Some (Panics m, deploys_of_job j, w\<lparr>w_db := d\<rparr>))"

text \<open>A handler that only answers.\<close>

definition just :: "reply \<Rightarrow> world \<Rightarrow> served" where
  "just x w = Some (Returns x, [], w)"

section \<open>The routes\<close>

datatype access = Public | ApiSession | WebSession

record route =
  rt_Method :: string
  rt_Pattern :: string
  rt_Access :: access
  rt_Run :: endpoint

definition Get :: "access \<Rightarrow> string \<Rightarrow> endpoint \<Rightarrow> route" where
  "Get a p f = \<lparr>rt_Method = ''GET'', rt_Pattern = p, rt_Access = a, rt_Run = f\<rparr>"

definition Post :: "access \<Rightarrow> string \<Rightarrow> endpoint \<Rightarrow> route" where
  "Post a p f = \<lparr>rt_Method = ''POST'', rt_Pattern = p, rt_Access = a, rt_Run = f\<rparr>"

definition Put :: "access \<Rightarrow> string \<Rightarrow> endpoint \<Rightarrow> route" where
  "Put a p f = \<lparr>rt_Method = ''PUT'', rt_Pattern = p, rt_Access = a, rt_Run = f\<rparr>"

definition Delete :: "access \<Rightarrow> string \<Rightarrow> endpoint \<Rightarrow> route" where
  "Delete a p f = \<lparr>rt_Method = ''DELETE'', rt_Pattern = p, rt_Access = a, rt_Run = f\<rparr>"

definition auth_routes :: "outside \<Rightarrow> server \<Rightarrow> route list" where
  "auth_routes out s =
     [Get Public ''/health'' (\<lambda>u q p. just (Plain (writeJSON 200 (JObj [(''status'', JStr ''ok'')])))),
      Post Public ''/api/auth/setup'' (\<lambda>u q p. answers Plain (Setup out (sv_auth s) (rq_body q))),
      Post Public ''/api/auth/login'' (\<lambda>u q p. answers Plain (Login out (sv_auth s) (rq_body q))),
      Get Public ''/api/auth/status'' (\<lambda>u q p. answers Plain SetupStatus),
      Get ApiSession ''/api/auth/me'' (\<lambda>u q p. answers Plain (Me u)),
      Post ApiSession ''/api/auth/logout'' (\<lambda>u q p. answers Plain Logout),
      Get ApiSession ''/api/github/debug'' (\<lambda>u q p. may_answer GithubPage (Debug out (github_handler_of s)))]"

definition app_routes :: "outside \<Rightarrow> server \<Rightarrow> route list" where
  "app_routes out s =
     (let h = app_handler_of s in
     [Get ApiSession ''/api/apps/'' (\<lambda>u q p. answers Apps AppList),
      Post ApiSession ''/api/apps/'' (\<lambda>u q p. answers OneApp (AppCreate out h (rq_body q))),
      Get ApiSession ''/api/apps/{appID}'' (\<lambda>u q p. answers OneApp (AppGet (p ''appID''))),
      Put ApiSession ''/api/apps/{appID}'' (\<lambda>u q p. answers OneApp (AppUpdate out h (p ''appID'') (rq_body q))),
      Delete ApiSession ''/api/apps/{appID}'' (\<lambda>u q p. answers Acknowledged (AppDelete out h (p ''appID''))),
      Post ApiSession ''/api/apps/{appID}/restart'' (\<lambda>u q p. answers Said (AppRestart out (p ''appID''))),
      Post ApiSession ''/api/apps/{appID}/services'' (\<lambda>u q p. answers Acknowledged (LinkService (p ''appID'') (rq_body q))),
      Delete ApiSession ''/api/apps/{appID}/services/{serviceID}''
        (\<lambda>u q p. answers Acknowledged (UnlinkService (p ''appID'') (p ''serviceID''))),
      Get ApiSession ''/api/apps/{appID}/services'' (\<lambda>u q p. answers Links (ListLinks (p ''appID''))),
      Get ApiSession ''/api/apps/{appID}/env'' (\<lambda>u q p. answers EnvVars (ListEnvVars (p ''appID''))),
      Post ApiSession ''/api/apps/{appID}/env'' (\<lambda>u q p. answers OneEnvVar (SetEnvVar (p ''appID'') (rq_body q))),
      Delete ApiSession ''/api/apps/{appID}/env/{key}'' (\<lambda>u q p. answers Acknowledged (DeleteEnvVar (p ''appID'') (p ''key''))),
      Get ApiSession ''/api/apps/{appID}/env/{key}/history'' (\<lambda>u q p. answers EnvHistory (ListEnvVarHistory (p ''appID'') (p ''key''))),
      Get ApiSession ''/api/apps/{appID}/env/{key}/reveal'' (\<lambda>u q p. answers Revealed (RevealEnvVar (p ''appID'') (p ''key'')))])"

definition deploy_routes :: "outside \<Rightarrow> server \<Rightarrow> route list" where
  "deploy_routes out s =
     [Get ApiSession ''/api/apps/{appID}/deploys/'' (\<lambda>u q p. answers_db Deploys (DeployList (p ''appID''))),
      Post ApiSession ''/api/apps/{appID}/deploys/'' (\<lambda>u q p. starts_deploy OneDeploy (Trigger (p ''appID'') (rq_body q))),
      Post ApiSession ''/api/apps/{appID}/deploys/rollback'' (\<lambda>u q p. starts_deploy OneDeploy (DeployRollback (p ''appID''))),
      Get ApiSession ''/api/deploys/{deployID}'' (\<lambda>u q p. answers_db OneDeploy (DeployGet (p ''deployID''))),
      Get ApiSession ''/api/deploys/{deployID}/events'' (\<lambda>u q p. answers_db EventList (ListEvents (rq_header q) (p ''deployID''))),
      Get ApiSession ''/api/deploys/{deployID}/events/stream'' (\<lambda>u q p. answers_db EventStream (StreamEvents_start (p ''deployID''))),
      Get ApiSession ''/api/apps/{appID}/logs/stream'' (\<lambda>u q p. answers Logs (StreamLogs out (p ''appID'')))]"

definition service_routes :: "outside \<Rightarrow> server \<Rightarrow> route list" where
  "service_routes out s =
     (let dc = sv_docker s; pr = sv_provisioner s in
     [Get ApiSession ''/api/services/'' (\<lambda>u q p. answers Services ServiceList),
      Post ApiSession ''/api/services/'' (\<lambda>u q p. serve_create_service out (rq_body q)),
      Get ApiSession ''/api/services/{serviceID}'' (\<lambda>u q p. answers OneService (ServiceGet (p ''serviceID''))),
      Delete ApiSession ''/api/services/{serviceID}'' (\<lambda>u q p. answers Acknowledged (ServiceDelete out (p ''serviceID''))),
      Post ApiSession ''/api/services/{serviceID}/stop'' (\<lambda>u q p. answers OneService (ServiceStop out (p ''serviceID''))),
      Post ApiSession ''/api/services/{serviceID}/start'' (\<lambda>u q p. answers OneService (ServiceStart out dc pr (p ''serviceID''))),
      Get ApiSession ''/api/services/{serviceID}/credentials'' (\<lambda>u q p. answers Secrets (GetCredentials out pr (p ''serviceID''))),
      Get ApiSession ''/api/services/{serviceID}/buckets'' (\<lambda>u q p. answers Buckets (BucketList out pr (p ''serviceID''))),
      Post ApiSession ''/api/services/{serviceID}/buckets'' (\<lambda>u q p. answers OneBucket (BucketCreate out pr (p ''serviceID'') (rq_body q))),
      Delete ApiSession ''/api/services/{serviceID}/buckets/{bucketID}''
        (\<lambda>u q p. answers Acknowledged (BucketDelete out pr (p ''serviceID'') (p ''bucketID'')))])"

definition backup_routes :: "outside \<Rightarrow> server \<Rightarrow> route list" where
  "backup_routes out s =
     (case sv_backups s of
        None \<Rightarrow> []
      | Some m \<Rightarrow>
          [Get ApiSession ''/api/backups/'' (\<lambda>u q p. answers BackupRows BackupList),
           Post ApiSession ''/api/backups/'' (\<lambda>u q p. answers OneBackup (BackupCreate out m)),
           Get ApiSession ''/api/backups/{backupID}/download'' (\<lambda>u q p. answers Said (BackupDownload out m (p ''backupID''))),
           Delete ApiSession ''/api/backups/{backupID}'' (\<lambda>u q p. answers Acknowledged (BackupDelete out m (p ''backupID''))),
           Post ApiSession ''/api/backups/{backupID}/restore'' (\<lambda>u q p. answers Said (BackupRestore out m (p ''backupID'')))])"

text \<open>The set-up of the GitHub App and the webhook stand outside the group that needs a session.\<close>

definition github_routes :: "outside \<Rightarrow> server \<Rightarrow> route list" where
  "github_routes out s =
     (let h = github_handler_of s in
     [Get ApiSession ''/api/github/install'' (\<lambda>u q p. answers GithubPage (StartInstall out h (wq_Query q ''app_id''))),
      Get ApiSession ''/api/github/callback'' (\<lambda>u q p. serve_callback out h q),
      Get ApiSession ''/api/github/repos'' (\<lambda>u q p. may_answer GithubPage (ListRepos out h)),
      Get ApiSession ''/partials/github-repos'' (\<lambda>u q p. may_answer GithubPage (RepoSelectorPartial out h)),
      Post ApiSession ''/api/github/disconnect'' (\<lambda>u q p. answers GithubPage (Disconnect (wq_Query q ''app_id'') (p ''appID''))),
      Get Public ''/settings/github/setup'' (\<lambda>u q p. answers GithubPage (GithubSetupPage out h (origin_of q) u)),
      Get Public ''/settings/github/status'' (\<lambda>u q p. answers GithubPage (StatusPage out h u)),
      Get Public ''/api/github/create-manifest'' (\<lambda>u q p. just (GithubPage (CreateManifest h (origin_of q)))),
      Get Public ''/api/github/setup-callback'' (\<lambda>u q p. answers GithubPage (SetupCallback out (wq_Query q ''code''))),
      Post Public ''/api/webhooks/github'' (\<lambda>u q p. serve_webhook out (sv_webhook_secret s) q)])"

definition page_routes :: "outside \<Rightarrow> server \<Rightarrow> route list" where
  "page_routes out s =
     (let h = page_handler_of s in
     [Get Public ''/'' (\<lambda>u q p. just (WebPage (RedirectTo ''/dashboard''))),
      Get Public ''/setup'' (\<lambda>u q p. answers WebPage (SetupPage u)),
      Post Public ''/setup'' (\<lambda>u q p. answers WebPage (SetupSubmit out h (wq_Form q))),
      Get Public ''/login'' (\<lambda>u q p. answers WebPage (LoginPage u)),
      Post Public ''/login'' (\<lambda>u q p. answers WebPage (LoginSubmit out h (wq_Form q))),
      Get WebSession ''/dashboard'' (\<lambda>u q p. answers_db WebPage (DashboardPage h u)),
      Get WebSession ''/settings'' (\<lambda>u q p. just (WebPage (SettingsPage u))),
      Get WebSession ''/settings/general'' (\<lambda>u q p. answers WebPage (GeneralSettingsPage out h u (wq_Host q))),
      Post WebSession ''/settings/general'' (\<lambda>u q p. answers WebPage (GeneralSettingsSubmit out h u (wq_Host q) (wq_Form q))),
      Get WebSession ''/apps/new'' (\<lambda>u q p. may_answer WebPage (AppCreatePage out h u)),
      Post WebSession ''/apps/new'' (\<lambda>u q p. answers WebPage (AppCreateSubmit out h (wq_Form q))),
      Get WebSession ''/apps/{appID}'' (\<lambda>u q p. answers_outcome WebPage (AppDetailPage out h u (p ''appID''))),
      Post WebSession ''/apps/{appID}/deploy'' (\<lambda>u q p. starts_deploy WebPage (TriggerDeploy (wq_Form q) (p ''appID''))),
      Post WebSession ''/apps/{appID}/rollback'' (\<lambda>u q p. starts_deploy WebPage (TriggerRollback (p ''appID''))),
      Delete WebSession ''/apps/{appID}'' (\<lambda>u q p. answers_db WebPage (PageDeleteApp (p ''appID''))),
      Get WebSession ''/partials/deploy-status/{deployID}'' (\<lambda>u q p. answers_db WebPage (DeployStatusPartial (p ''deployID''))),
      Get WebSession ''/partials/deploy-row/{deployID}'' (\<lambda>u q p. answers_db WebPage (DeployRowPartial (p ''deployID''))),
      Get WebSession ''/partials/app-row/{appID}'' (\<lambda>u q p. answers_db WebPage (AppRowPartial h (p ''appID''))),
      Get WebSession ''/services'' (\<lambda>u q p. answers_db WebPage (ServicesPage u)),
      Get WebSession ''/services/new'' (\<lambda>u q p. just (WebPage (ServiceCreatePage u))),
      Get WebSession ''/services/{serviceID}'' (\<lambda>u q p. answers_db WebPage (ServiceDetailPage u (p ''serviceID''))),
      Get WebSession ''/apps/{appID}/settings'' (\<lambda>u q p. answers_db WebPage (AppSettingsPage h u (p ''appID''))),
      Get WebSession ''/backups'' (\<lambda>u q p. answers_db WebPage (BackupPage u)),
      Post WebSession ''/logout'' (\<lambda>u q p. answers WebPage PageLogout)])"

definition routes :: "outside \<Rightarrow> server \<Rightarrow> route list" where
  "routes out s =
     auth_routes out s @ app_routes out s @ deploy_routes out s @ service_routes out s @ backup_routes out s @
     github_routes out s @ page_routes out s"

section \<open>Serving a request\<close>

text \<open>The answer of the router to a method and a path: a pattern with its parameters, or its own refusal.\<close>

type_synonym router = "(string \<times> string) list \<Rightarrow> string \<Rightarrow> string \<Rightarrow> response + string \<times> (string \<Rightarrow> string)"

definition route_names :: "route list \<Rightarrow> (string \<times> string) list" where
  "route_names rs = map (\<lambda>r. (rt_Method r, rt_Pattern r)) rs"

definition find_route :: "string \<Rightarrow> string \<Rightarrow> route list \<Rightarrow> route option" where
  "find_route method pattern rs = List.find (\<lambda>r. rt_Method r = method \<and> rt_Pattern r = pattern) rs"

text \<open>The two middlewares, with their refusal, around a handler of any kind.\<close>

definition require_session ::
  "response \<Rightarrow> outside \<Rightarrow> auth_service \<Rightarrow> (user option \<Rightarrow> world \<Rightarrow> served) \<Rightarrow> string option \<Rightarrow> world \<Rightarrow> served" where
  "require_session refusal out a next c w =
     (case c of
        None \<Rightarrow> Some (Returns (Plain refusal), [], w)
      | Some token \<Rightarrow>
          (case on_db (ValidateSession out a token) w of
             (Inl e, w1) \<Rightarrow> Some (Returns (Plain (set_cookie clear_cookie refusal)), [], w1)
           | (Inr u, w1) \<Rightarrow> next (Some u) w1))"

fun guard :: "access \<Rightarrow> outside \<Rightarrow> auth_service \<Rightarrow> (user option \<Rightarrow> world \<Rightarrow> served) \<Rightarrow> string option \<Rightarrow> world \<Rightarrow> served" where
  "guard Public out a next c w = next None w"
| "guard ApiSession out a next c w = require_session (http_error ''unauthorized'' 401) out a next c w"
| "guard WebSession out a next c w = require_session (redirect ''/login'' 302) out a next c w"

definition recovered :: "served \<Rightarrow> (reply \<times> started list \<times> world) option" where
  "recovered r =
     (case r of
        None \<Rightarrow> None
      | Some (Returns x, js, w) \<Rightarrow> Some (x, js, w)
      | Some (Panics m, js, w) \<Rightarrow> Some (Plain (http_error ''internal server error'' 500), js, w))"

definition serve :: "router \<Rightarrow> outside \<Rightarrow> server \<Rightarrow> web_request \<Rightarrow> world \<Rightarrow> (reply \<times> started list \<times> world) option" where
  "serve chi out s q w =
     (case chi (route_names (routes out s)) (wq_Method q) (wq_Path q) of
        Inl refusal \<Rightarrow> Some (Plain refusal, [], w)
      | Inr (pattern, params) \<Rightarrow>
          (case find_route (wq_Method q) pattern (routes out s) of
             None \<Rightarrow> Some (Plain (status_only 404), [], w)
           | Some r \<Rightarrow>
               recovered (guard (rt_Access r) out (sv_auth s) (\<lambda>u. rt_Run r u q params) (rq_cookie q) w)))"

end
