(* ===== verification/Db_Frame.thy ===== *)
theory Db_Frame
  imports Server Service_Claims
begin

text \<open>
  The operations that call programs outside, read or write files, or talk to GitHub leave the database as
  it is.
\<close>

lemma RemoveRoute_db: "w_db (snd (RemoveRoute out m n w)) = w_db w"
  by (simp add: RemoveRoute_def remove_file_def perform_def Let_def split: prod.split sum.split)

lemma UpdateRoute_keeps_db: "w_db (snd (UpdateRoute out m a c w)) = w_db w"
  using UpdateRoute_frame [of out m a c w "fst (UpdateRoute out m a c w)" "snd (UpdateRoute out m a c w)"] by simp

lemma snd_syncNonManagedRoute_db: "w_db (snd (syncNonManagedRoute out p a w)) = w_db w"
  by (simp add: syncNonManagedRoute_def RemoveRoute_db UpdateRoute_keeps_db split: option.split)

lemma syncNonManagedRoute_db: "syncNonManagedRoute out p a w = (r, w1) \<Longrightarrow> w_db w1 = w_db w"
  using snd_syncNonManagedRoute_db [of out p a w] by simp

lemma perform_db: "perform e f w = (r, w1) \<Longrightarrow> w_db w1 = w_db w"
  by (auto simp: perform_def Let_def)

lemma Restart_db: "Restart out n w = (r, w1) \<Longrightarrow> w_db w1 = w_db w"
  by (auto simp: Restart_def dest: perform_db split: prod.splits sum.splits)

lemma runtime_info_db: "runtime_info out h n w = (r, w1) \<Longrightarrow> w_db w1 = w_db w"
  by (auto simp: runtime_info_def Inspect_def dest: perform_db split: prod.splits sum.splits option.splits if_splits)

lemma token_db: "getInstallationToken out c i w = (r, w1) \<Longrightarrow> w_db w1 = w_db w"
  using getInstallationToken_calls calls_def by blast

lemma all_pages_db:
  assumes "all_pages call answer what page xs w = Some (r, w1)"
  shows "w_db w1 = w_db w"
proof -
  have "all_pages call answer what page xs w = Some y \<Longrightarrow> w_db (snd y) = w_db w" for y
    by (rule all_pages.raw_induct [of "\<lambda>call answer what page xs w y. w_db (snd y) = w_db w"])
       (auto dest!: perform_db split: prod.splits sum.splits if_splits)
  from this [OF assms] show ?thesis by simp
qed

lemma GetInstallation_db: "GetInstallation out c i w = (r, w1) \<Longrightarrow> w_db w1 = w_db w"
  by (auto simp: GetInstallation_def dest: perform_db split: prod.splits sum.splits)

lemma ListInstallationRepos_db: "ListInstallationRepos out c i w = Some (r, w1) \<Longrightarrow> w_db w1 = w_db w"
  by (auto simp: ListInstallationRepos_def InstallationClient_def dest!: token_db all_pages_db split: prod.splits sum.splits)

lemma CreateOrUpdateFile_db: "CreateOrUpdateFile out c i ow rp p t m w = (r, w1) \<Longrightarrow> w_db w1 = w_db w"
  by (auto simp: CreateOrUpdateFile_def InstallationClient_def dest!: token_db perform_db split: prod.splits sum.splits option.splits)

lemma setupWorkflow_db: "setupWorkflow out h c a rp i w = (r, w1) \<Longrightarrow> w_db w1 = w_db w"
  by (auto simp: setupWorkflow_def dest!: CreateOrUpdateFile_db split: list.splits prod.splits outcome.splits)

lemma read_file_db: "read_file out p w = (r, w1) \<Longrightarrow> w_db w1 = w_db w"
  using read_file_frame(1) [of out p w] by simp

lemma NewAppClient_db: "NewAppClient out cfg w = (r, w1) \<Longrightarrow> w_db w1 = w_db w"
  by (auto simp: NewAppClient_def ParsePrivateKey_def Let_def dest!: read_file_db split: if_splits prod.splits sum.splits)

lemma getClient_db: "getClient out h w = (r, w1) \<Longrightarrow> w_db w1 = w_db w"
  by (auto simp: getClient_def client_ready_def SetGHClient_def dest!: NewAppClient_db
      split: option.splits if_splits prod.splits sum.splits)

lemma write_file_db: "write_file out q t w = (r, w1) \<Longrightarrow> w_db w1 = w_db w"
  using write_file_frame(1) [of out q t w] by simp

lemma saveCredentials_db: "saveCredentials out m w = (r, w1) \<Longrightarrow> w_db w1 = w_db w"
  by (auto simp: saveCredentials_def Let_def dest!: perform_db write_file_db split: prod.splits sum.splits)

lemma SetupCallback_db: "SetupCallback out code w = (r, w1) \<Longrightarrow> w_db w1 = w_db w"
  by (auto simp: SetupCallback_def Let_def dest!: perform_db saveCredentials_db split: if_splits prod.splits sum.splits option.splits)

lemma ListInstallations_db: "ListInstallations out c w = Some (r, w1) \<Longrightarrow> w_db w1 = w_db w"
  by (auto simp: ListInstallations_def dest: all_pages_db split: sum.splits)

lemma add_installations_db: "add_installations out c insts repos seen w = Some (r, w1) \<Longrightarrow> w_db w1 = w_db w"
proof (induction insts arbitrary: repos seen w)
  case (Cons inst insts)
  show ?case
  proof (cases "ListInstallationRepos out c (in_ID inst) w")
    case (Some x)
    obtain y w2 where y: "x = (y, w2)" by fastforce
    with Some have "w_db w2 = w_db w" using ListInstallationRepos_db by blast
    then show ?thesis using Cons.prems Some y Cons.IH [where w = w2] by (auto split: sum.splits prod.splits if_splits)
  qed (use Cons.prems in simp)
qed simp

lemma listAllRepos_db: "listAllRepos out c w = Some (r, w1) \<Longrightarrow> w_db w1 = w_db w"
  by (auto simp: listAllRepos_def dest!: ListInstallations_db add_installations_db split: option.splits prod.splits sum.splits)

lemma installation_reports_db: "installation_reports out c insts w = Some (r, w1) \<Longrightarrow> w_db w1 = w_db w"
proof (induction insts arbitrary: r w)
  case (Cons inst insts)
  show ?case
  proof (cases "ListInstallationRepos out c (in_ID inst) w")
    case (Some x)
    obtain y w2 where y: "x = (y, w2)" by fastforce
    with Some have "w_db w2 = w_db w" using ListInstallationRepos_db by blast
    then show ?thesis using Cons.prems Some y Cons.IH [where w = w2] by auto
  qed (use Cons.prems in simp)
qed simp

lemma ParsePrivateKey_db: "ParsePrivateKey out k w = (r, w1) \<Longrightarrow> w_db w1 = w_db w"
  by (auto simp: ParsePrivateKey_def Let_def dest!: read_file_db split: if_splits prod.splits sum.splits)

lemma key_report_db: "key_report out cfg w = (r, w1) \<Longrightarrow> w_db w1 = w_db w"
  by (auto simp: key_report_def Let_def dest!: ParsePrivateKey_db split: if_splits prod.splits)

lemma Debug_db: "Debug out h w = Some (r, w1) \<Longrightarrow> w_db w1 = w_db w"
  by (auto simp: Debug_def dest!: getClient_db key_report_db ListInstallations_db installation_reports_db
      split: option.splits prod.splits sum.splits)

lemma ListRepos_db: "ListRepos out h w = Some (r, w1) \<Longrightarrow> w_db w1 = w_db w"
  by (auto simp: ListRepos_def dest!: getClient_db listAllRepos_db split: option.splits prod.splits sum.splits)

lemma RepoSelectorPartial_db: "RepoSelectorPartial out h w = Some (r, w1) \<Longrightarrow> w_db w1 = w_db w"
  by (auto simp: RepoSelectorPartial_def dest!: getClient_db listAllRepos_db split: option.splits prod.splits sum.splits)

lemma page_containers_db: "page_containers out h w = (r, w1) \<Longrightarrow> w_db w1 = w_db w"
  by (auto simp: page_containers_def ListContainers_def dest!: perform_db split: if_splits prod.splits sum.splits)

lemma AppCreatePage_db: "AppCreatePage out h u w = Some (r, w1) \<Longrightarrow> w_db w1 = w_db w"
  by (auto simp: AppCreatePage_def Let_def dest!: page_containers_db listAllRepos_db
      split: if_splits option.splits prod.splits sum.splits)

lemma open_log_stream_db: "open_log_stream out n t w = (r, w1) \<Longrightarrow> w_db w1 = w_db w"
  by (auto simp: open_log_stream_def dest!: perform_db split: prod.splits sum.splits)

lemma detectInstallMode_db: "detectInstallMode out s w = (r, w1) \<Longrightarrow> w_db w1 = w_db w"
  by (auto simp: detectInstallMode_def Inspect_def dest!: perform_db split: if_splits prod.splits sum.splits)

lemma SettingsLoad_db: "SettingsLoad out s f p w = (r, w1) \<Longrightarrow> w_db w1 = w_db w"
  by (auto simp: SettingsLoad_def readEnvValues_def Let_def dest!: detectInstallMode_db read_file_db
      split: if_splits prod.splits sum.splits)

lemma updateEnvFile_db: "updateEnvFile out path u w = (r, w1) \<Longrightarrow> w_db w1 = w_db w"
  by (auto simp: updateEnvFile_def Let_def dest!: make_dir_db read_file_db write_file_db split: if_splits prod.splits sum.splits)

lemma SettingsSave_db: "SettingsSave out s i f p w = (r, w1) \<Longrightarrow> w_db w1 = w_db w"
  by (auto simp: SettingsSave_def Let_def dest!: detectInstallMode_db updateEnvFile_db split: prod.splits sum.splits)

lemma WaitForHealth_db: "WaitForHealth out i k w = (r, w1) \<Longrightarrow> w_db w1 = w_db w"
  using WaitForHealth_calls calls_db by blast

end
