(* ===== verification/Store_Invariant.thy ===== *)
theory Store_Invariant
  imports Db_Frame Backups_Claims Engine_Runs
begin

text \<open>
  Every handler touches the database only through the methods of the store.  The locale
  \<open>store_invariant\<close> makes this a proof rule: a condition on the database that does not look at the clock
  and that every method keeps which does not write applications is kept by every request that does not
  write them.
\<close>

fun app_call :: "store_call \<Rightarrow> bool" where
  "app_call (CallCreateApp a) = True"
| "app_call (CallUpdateApp a) = True"
| "app_call (CallDeleteApp i) = True"
| "app_call c = False"

locale store_invariant =
  fixes I :: "db \<Rightarrow> bool"
  assumes same: "same_tables d e \<Longrightarrow> I d = I e"
    and call: "I d \<Longrightarrow> \<not> app_call c \<Longrightarrow> I (run_call c d)"
begin

section \<open>The store\<close>

lemma row_keeps: "query_row what f d = (r, d1) \<Longrightarrow> I d \<Longrightarrow> I d1"
  using query_row_same same by blast

lemma list_keeps: "wrapped what (query f d) = (r, d1) \<Longrightarrow> I d \<Longrightarrow> I d1"
proof -
  assume "wrapped what (query f d) = (r, d1)"
  then have "d1 = snd (query f d)" using snd_wrapped [of what "query f d"] by simp
  then have "I d1 = I d" using same [OF query_keeps(1)] by simp
  then show "I d \<Longrightarrow> I d1" by simp
qed

lemma reads:
  "GetApp i d = (ra, d1) \<Longrightarrow> I d \<Longrightarrow> I d1" "ListApps d = (rb, d1) \<Longrightarrow> I d \<Longrightarrow> I d1"
  "GetDeploy i d = (rc, d1) \<Longrightarrow> I d \<Longrightarrow> I d1" "GetLatestDeploy i d = (rc, d1) \<Longrightarrow> I d \<Longrightarrow> I d1"
  "GetLatestSuccessfulDeploy i d = (rc, d1) \<Longrightarrow> I d \<Longrightarrow> I d1" "ListDeploys i n d = (rd, d1) \<Longrightarrow> I d \<Longrightarrow> I d1"
  "ListDeployEvents i d = (re, d1) \<Longrightarrow> I d \<Longrightarrow> I d1" "GetService i d = (rf, d1) \<Longrightarrow> I d \<Longrightarrow> I d1"
  "GetServiceByName s d = (rf, d1) \<Longrightarrow> I d \<Longrightarrow> I d1" "ListServices d = (rg, d1) \<Longrightarrow> I d \<Longrightarrow> I d1"
  "ListAppServices i d = (rh, d1) \<Longrightarrow> I d \<Longrightarrow> I d1" "GetLinkedApps i d = (rh, d1) \<Longrightarrow> I d \<Longrightarrow> I d1"
  "GetAppEnvVars i d = (ri, d1) \<Longrightarrow> I d \<Longrightarrow> I d1" "GetAppEnvVarHistory i s d = (rj, d1) \<Longrightarrow> I d \<Longrightarrow> I d1"
  "GetUserByID i d = (rk, d1) \<Longrightarrow> I d \<Longrightarrow> I d1" "GetUserByUsername s d = (rk, d1) \<Longrightarrow> I d \<Longrightarrow> I d1"
  "HasUsers d = (rl, d1) \<Longrightarrow> I d \<Longrightarrow> I d1" "GetBackup i d = (rm, d1) \<Longrightarrow> I d \<Longrightarrow> I d1" "ListBackups d = (rn, d1) \<Longrightarrow> I d \<Longrightarrow> I d1"
  "GetAppByInstallationAndRepo i n' d = (ra, d1) \<Longrightarrow> I d \<Longrightarrow> I d1" "GetAppByGitHubRepoID i d = (ra, d1) \<Longrightarrow> I d \<Longrightarrow> I d1"
  "GetAppByName s d = (ra, d1) \<Longrightarrow> I d \<Longrightarrow> I d1"
  unfolding GetApp_def ListApps_def GetDeploy_def GetLatestDeploy_def GetLatestSuccessfulDeploy_def ListDeploys_def
    ListDeployEvents_def GetService_def GetServiceByName_def ListServices_def ListAppServices_def GetLinkedApps_def GetAppEnvVars_def
    GetAppEnvVarHistory_def GetUserByID_def GetUserByUsername_def HasUsers_def GetBackup_def ListBackups_def
    GetAppByInstallationAndRepo_def GetAppByGitHubRepoID_def GetAppByName_def
  by (erule (1) row_keeps list_keeps)+

lemma writes:
  "CreateDeploy x d = (ra, d1) \<Longrightarrow> I d \<Longrightarrow> I d1" "UpdateDeploy x d = (ru, d1) \<Longrightarrow> I d \<Longrightarrow> I d1"
  "CreateDeployEvent e d = (re, d1) \<Longrightarrow> I d \<Longrightarrow> I d1" "CreateService s d = (rs, d1) \<Longrightarrow> I d \<Longrightarrow> I d1"
  "UpdateService s d = (ru, d1) \<Longrightarrow> I d \<Longrightarrow> I d1" "DeleteService i d = (ru, d1) \<Longrightarrow> I d \<Longrightarrow> I d1"
  "LinkAppService i k t d = (ru, d1) \<Longrightarrow> I d \<Longrightarrow> I d1" "UnlinkAppService i k d = (ru, d1) \<Longrightarrow> I d \<Longrightarrow> I d1"
  "SetAppEnvVar v d = (rv, d1) \<Longrightarrow> I d \<Longrightarrow> I d1" "DeleteAppEnvVar i t d = (ru, d1) \<Longrightarrow> I d \<Longrightarrow> I d1"
  "CreateUser y d = (ry, d1) \<Longrightarrow> I d \<Longrightarrow> I d1" "CreateBackup b d = (rb, d1) \<Longrightarrow> I d \<Longrightarrow> I d1"
  "DeleteBackup i d = (ru, d1) \<Longrightarrow> I d \<Longrightarrow> I d1"
  using call [of d "CallCreateDeploy x"] call [of d "CallUpdateDeploy x"] call [of d "CallCreateDeployEvent e"]
    call [of d "CallCreateService s"] call [of d "CallUpdateService s"] call [of d "CallDeleteService i"]
    call [of d "CallLinkAppService i k t"] call [of d "CallUnlinkAppService i k"] call [of d "CallSetAppEnvVar v"]
    call [of d "CallDeleteAppEnvVar i t"] call [of d "CallCreateUser y"] call [of d "CallCreateBackup b"] call [of d "CallDeleteBackup i"]
  by simp_all

definition inv :: "world \<Rightarrow> bool" where
  "inv w \<longleftrightarrow> I (w_db w)"

lemma inv_same: "w_db w1 = w_db w \<Longrightarrow> inv w \<Longrightarrow> inv w1"
  by (simp add: inv_def)

lemma on_dbD: "on_db f w = (r, w1) \<Longrightarrow> inv w \<Longrightarrow> \<exists>d1. f (w_db w) = (r, d1) \<and> w1 = w\<lparr>w_db := d1\<rparr> \<and> I (w_db w)"
  by (auto simp: on_db_def inv_def split: prod.splits)

lemma inv_update [simp]: "inv (w\<lparr>w_db := d\<rparr>) = I d" "inv (w\<lparr>w_files := fs\<rparr>) = inv w"
  by (simp_all add: inv_def)

definition keeps :: "(world \<Rightarrow> 'x \<times> world) \<Rightarrow> bool" where
  "keeps f \<longleftrightarrow> (\<forall>w. inv w \<longrightarrow> inv (snd (f w)))"

lemma keepsI: "(\<And>w x w1. f w = (x, w1) \<Longrightarrow> inv w \<Longrightarrow> inv w1) \<Longrightarrow> keeps f"
  unfolding keeps_def by (metis prod.collapse)

lemma keepsD: "f w = (x, w1) \<Longrightarrow> keeps f \<Longrightarrow> inv w \<Longrightarrow> inv w1"
  unfolding keeps_def by (metis snd_conv)

lemma delete_backup_keeps [simp]: "inv w \<Longrightarrow> inv (snd (on_db (DeleteBackup i) w))"
  using writes(13) [of i "w_db w"] by (auto simp: on_db_def inv_def split: prod.split)

lemma keeps_on_db: "(\<And>d r d1. f d = (r, d1) \<Longrightarrow> I d \<Longrightarrow> I d1) \<Longrightarrow> keeps (on_db f)"
  by (rule keepsI) (auto dest!: on_dbD)

section \<open>Accounts and sessions\<close>

lemma auth_keeps:
  "keeps (Setup out a body)" "keeps (Login out a body)" "keeps SetupStatus" "keeps (Me u)" "keeps Logout"
  by (rule keepsI;
      force simp: Setup_def Login_def SetupStatus_def Me_def Logout_def SetupRequired_def AuthCreateUser_def HashPassword_def
        Authenticate_def log_in_def dest!: on_dbD reads writes inv_same [OF perform_db]
        split: prod.splits sum.splits option.splits if_splits)+

section \<open>Deploys\<close>

lemma requests_keep:
  "check_deploy i d = (rp, d1) \<Longrightarrow> I d \<Longrightarrow> I d1" "Deploy i im sha b t d = (rq, d1) \<Longrightarrow> I d \<Longrightarrow> I d1"
  "Rollback i d = (rr, d1) \<Longrightarrow> I d \<Longrightarrow> I d1" "named_deploy p d = (rs, d1) \<Longrightarrow> I d \<Longrightarrow> I d1"
proof -
  have c: "check_deploy i d = (rp, d1) \<Longrightarrow> I d \<Longrightarrow> I d1" for i d rp d1
    by (auto simp: check_deploy_def dest!: reads split: prod.splits sum.splits if_splits)
  then show "check_deploy i d = (rp, d1) \<Longrightarrow> I d \<Longrightarrow> I d1" .
  show "Deploy i im sha b t d = (rq, d1) \<Longrightarrow> I d \<Longrightarrow> I d1"
    by (auto simp: Deploy_def dest!: c writes split: prod.splits sum.splits)
  show "Rollback i d = (rr, d1) \<Longrightarrow> I d \<Longrightarrow> I d1"
    by (auto simp: Rollback_def dest!: reads writes split: prod.splits sum.splits if_splits)
  show "named_deploy p d = (rs, d1) \<Longrightarrow> I d \<Longrightarrow> I d1"
    by (auto simp: named_deploy_def dest!: reads split: option.splits prod.splits sum.splits)
qed

lemma deploy_lists_keep:
  "keeps (on_db (DeployList p))" "keeps (on_db (DeployGet p))" "keeps (on_db (ListEvents hdr p))" "keeps (on_db (StreamEvents_start p))"
  by (rule keeps_on_db;
      auto simp: DeployList_def DeployGet_def ListEvents_def StreamEvents_start_def Let_def dest!: reads requests_keep
        split: option.splits prod.splits sum.splits if_splits)+

lemma Trigger_keeps: "Trigger p body d = (x, j, d1) \<Longrightarrow> I d \<Longrightarrow> I d1"
  by (auto simp: Trigger_def dest!: requests_keep split: option.splits prod.splits sum.splits if_splits)

lemma DeployRollback_keeps: "DeployRollback p d = (x, j, d1) \<Longrightarrow> I d \<Longrightarrow> I d1"
  by (auto simp: DeployRollback_def dest!: requests_keep split: option.splits prod.splits sum.splits)

lemma StreamLogs_keeps: "keeps (StreamLogs out p)"
  by (rule keepsI)
     (auto simp: StreamLogs_def dest!: on_dbD reads inv_same [OF open_log_stream_db] split: option.splits prod.splits sum.splits if_splits)

section \<open>Applications, their links and variables\<close>

lemma app_reads_keep: "keeps AppList" "keeps (AppGet p)" "keeps (AppRestart out p)"
  by (rule keepsI;
      auto simp: AppList_def AppGet_def AppRestart_def with_app_def dest!: on_dbD reads inv_same [OF Restart_db]
        split: option.splits prod.splits sum.splits if_splits)+

lemma settings_keep:
  "keeps (LinkService p body)" "keeps (UnlinkService p q)" "keeps (ListLinks p)" "keeps (ListEnvVars p)" "keeps (SetEnvVar p body)"
  "keeps (DeleteEnvVar p k)" "keeps (ListEnvVarHistory p k)" "keeps (RevealEnvVar p k)"
  by (rule keepsI;
      auto simp: LinkService_def UnlinkService_def ListLinks_def ListEnvVars_def SetEnvVar_def DeleteEnvVar_def ListEnvVarHistory_def
        RevealEnvVar_def with_app_id_def with_app_key_def store_answer_def dest!: on_dbD reads writes
        split: option.splits prod.splits sum.splits if_splits)+

section \<open>Services\<close>

lemma save_service_keeps [simp]: "inv w \<Longrightarrow> inv (save_service s w)"
  using writes(5) [of s "w_db w"] by (auto simp: save_service_def on_db_def inv_def split: prod.splits)

lemma StopAndRemove_keeps [simp]: "inv (snd (StopAndRemove out n w)) = inv w"
  by (simp add: inv_def StopAndRemove_db)

lemma start_service_container_keeps: "start_service_container out dc f s cfg w = (r, s1, w1) \<Longrightarrow> inv w \<Longrightarrow> inv w1"
  by (auto simp: start_service_container_def mark_error_def Let_def
      dest!: inv_same [OF StartContainerWithConfig_db] on_dbD writes split: prod.splits sum.splits)

lemma with_service_keeps: "(\<And>s. keeps (f s)) \<Longrightarrow> keeps (with_service p f)"
  by (rule keepsI)
     (auto simp: with_service_def dest!: on_dbD reads keepsD split: option.splits prod.splits sum.splits)

lemma with_garage_api_keeps: "(\<And>s gc c q. keeps (f s gc c q)) \<Longrightarrow> keeps (with_garage_api out pr p prep f)"
  unfolding with_garage_api_def with_garage_service_def
  by (rule with_service_keeps, rule keepsI)
     (auto dest!: inv_same [OF GarageAdminURL_db] keepsD split: sum.splits prod.splits if_splits)

lemma remember_bucket_keeps: "inv w \<Longrightarrow> inv (remember_bucket out p s gc b w)"
  by (auto simp: remember_bucket_def dest!: inv_same [OF EncryptCredentials_db]
      split: prod.split credentials.split list.split sum.split)

lemma buckets_keep: "keeps (BucketList out pr p)" "keeps (BucketCreate out pr p body)" "keeps (BucketDelete out pr p b)"
  unfolding BucketList_def BucketCreate_def BucketDelete_def
  by (rule with_garage_api_keeps, rule keepsI;
      auto dest!: inv_same [OF calls_db [OF ListBuckets_calls]] inv_same [OF calls_db [OF CreateBucket_calls]]
        inv_same [OF calls_db [OF DeleteBucket_calls]] intro: remember_bucket_keeps split: prod.splits sum.splits)+

lemma services_keep:
  "keeps ServiceList" "keeps (ServiceGet p)" "keeps (ServiceDelete out p)" "keeps (GetCredentials out pr p)"
  by (rule keepsI;
      auto simp: ServiceList_def ServiceGet_def ServiceDelete_def GetCredentials_def with_service_def RemoveService_def
        dest!: on_dbD reads writes split: option.splits prod.splits sum.splits if_splits)+

lemma stop_start_keep: "keeps (ServiceStop out p)" "keeps (ServiceStart out dc pr p)"
proof -
  have "inv (rewrite_garage_config out v s c w) = inv w" for v s c w by (simp add: inv_def rewrite_garage_config_db)
  then show "keeps (ServiceStart out dc pr p)"
    unfolding ServiceStart_def
    by (intro with_service_keeps keepsI)
       (auto simp: service_answer_def StartService_def Let_def dest!: start_service_container_keeps split: if_splits prod.splits sum.splits)
  show "keeps (ServiceStop out p)"
    unfolding ServiceStop_def
    by (intro with_service_keeps keepsI)
       (auto simp: service_answer_def StopService_def Let_def dest!: on_dbD writes split: if_splits prod.splits sum.splits)
qed

lemma ServiceCreate_keeps: "ServiceCreate out body w = (x, j, w1) \<Longrightarrow> inv w \<Longrightarrow> inv w1"
proof -
  have made: "inv w1"
    if "DefaultCredentials out ty n w = (c, w1) \<or> buildCredsFromMap out ty m n w = (c, w1)" and "ServiceDefinitions ty = Some d" and "inv w"
    for ty n m w c w1 d
    using that made_credentials by (auto simp: inv_def)
  show "ServiceCreate out body w = (x, j, w1) \<Longrightarrow> inv w \<Longrightarrow> inv w1"
    by (auto simp: ServiceCreate_def Let_def dest!: on_dbD writes inv_same [OF generators_db(4)] elim!: made [OF disjI1] made [OF disjI2]
        split: option.splits prod.splits sum.splits if_splits)
qed

section \<open>Backups\<close>

lemma deleteBackupFiles_keeps: "deleteBackupFiles out m f w = (r, w1) \<Longrightarrow> inv w \<Longrightarrow> inv w1"
  by (auto simp: deleteBackupFiles_def remove_file_def dest!: inv_same [OF perform_db] split: if_splits prod.splits sum.splits)

lemma delete_surplus_keeps: "inv w \<Longrightarrow> inv (delete_surplus out m surplus w)"
proof (induction surplus arbitrary: w)
  case (Cons b surplus)
  obtain r w1 where d: "deleteBackupFiles out m (bak_Filename b) w = (r, w1)" by fastforce
  obtain u w2 where e: "on_db (DeleteBackup (bak_ID b)) w1 = (u, w2)" by fastforce
  have "inv w2" using deleteBackupFiles_keeps [OF d Cons.prems] e by (auto dest!: on_dbD writes)
  then show ?case using Cons.IH d e by simp
qed simp

lemma enforceRetentionPolicy_keeps: "enforceRetentionPolicy out m w = (r, w1) \<Longrightarrow> inv w \<Longrightarrow> inv w1"
  by (auto simp: enforceRetentionPolicy_def dest!: on_dbD reads intro!: delete_surplus_keeps split: prod.splits sum.splits if_splits)

lemma record_backup_keeps: "record_backup out m f dest w = (r, w1) \<Longrightarrow> inv w \<Longrightarrow> inv w1"
proof -
  have "inv (snd (enforceRetentionPolicy out m w))" if "inv w" for w
    by (rule enforceRetentionPolicy_keeps [of out m w "fst (enforceRetentionPolicy out m w)"]) (simp_all add: that)
  then show "record_backup out m f dest w = (r, w1) \<Longrightarrow> inv w \<Longrightarrow> inv w1"
    by (auto simp: record_backup_def dest!: on_dbD writes split: option.splits prod.splits sum.splits)
qed

lemma frame_keeps: "f w = (r, w1) \<Longrightarrow> w_db (snd (f w)) = w_db w \<Longrightarrow> inv w \<Longrightarrow> inv w1"
  by (simp add: inv_def)

lemma inv_files [simp]: "inv (snd (write_file out q t w)) = inv w" "inv (snd (mkdir_all out q w)) = inv w"
  by (simp_all only: inv_def frame)

lemma files_keep:
  "mkdir_all out q w = (r, w1) \<Longrightarrow> inv w \<Longrightarrow> inv w1" "mkdir_temp out q w = (rt, w1) \<Longrightarrow> inv w \<Longrightarrow> inv w1"
  "vacuum_into out q w = (r, w1) \<Longrightarrow> inv w \<Longrightarrow> inv w1" "write_archive out m q q1 w = (r, w1) \<Longrightarrow> inv w \<Longrightarrow> inv w1"
  by (erule frame_keeps, simp only: frame, assumption)+

lemma CreateFullBackup_keeps: "CreateFullBackup out m w = (r, w1) \<Longrightarrow> inv w \<Longrightarrow> inv w1"
proof -
  have "inv (remove_all out d w) = inv w" for d w by (simp add: inv_def remove_all_def perform_def Let_def split: sum.split)
  then show "CreateFullBackup out m w = (r, w1) \<Longrightarrow> inv w \<Longrightarrow> inv w1"
    by (auto simp: CreateFullBackup_def Let_def dest!: files_keep record_backup_keeps split: prod.splits sum.splits)
qed

lemma restore_entries_keep: "restore_entries out m es w = (r, w1) \<Longrightarrow> inv w \<Longrightarrow> inv w1"
proof (induction es arbitrary: w)
  case (Cons e es)
  have "restore_entry out m e w = (x, w2) \<Longrightarrow> inv w2" for x w2
    using Cons.prems(2)
    by (auto simp: restore_entry_def extractFile_def wrapped_call_def Let_def dest!: files_keep inv_same [OF write_file_db]
        split: prod.splits sum.splits if_splits)
  then show ?case using Cons by (auto split: prod.splits sum.splits)
qed simp

lemma backups_keep:
  "keeps BackupList" "keeps (BackupCreate out m)" "keeps (BackupDownload out m p)" "keeps (BackupDelete out m p)" "keeps (BackupRestore out m p)"
  by (rule keepsI;
      auto simp: BackupList_def BackupCreate_def BackupDownload_def BackupDelete_def BackupRestore_def with_backup_id_def
        DeleteBackupFile_def Restore_def wrapped_call_def Let_def
        dest!: on_dbD reads writes CreateFullBackup_keeps deleteBackupFiles_keeps restore_entries_keep inv_same [OF read_file_db]
        split: option.splits prod.splits sum.splits if_splits)+

section \<open>GitHub\<close>

lemma github_keeps:
  "keeps (StartInstall out h q)" "keeps (GithubSetupPage out h og u)" "keeps (StatusPage out h u)" "keeps (SetupCallback out code)"
  by (rule keepsI;
      auto simp: StartInstall_def GithubSetupPage_def StatusPage_def dest!: on_dbD reads inv_same [OF getClient_db] inv_same [OF SetupCallback_db]
        split: option.splits prod.splits sum.splits if_splits)+

lemma find_payload_app_keeps: "find_payload_app i rp d = (r, d1) \<Longrightarrow> I d \<Longrightarrow> I d1"
  by (auto simp: find_payload_app_def Let_def dest!: reads split: prod.splits sum.splits if_splits)

lemma handle_workflow_run_keeps: "handle_workflow_run p d = (r, j, d1) \<Longrightarrow> I d \<Longrightarrow> I d1"
  by (auto simp: handle_workflow_run_def Let_def dest!: find_payload_app_keeps requests_keep split: prod.splits sum.splits if_splits)

lemma handle_push_keeps: "handle_push p d = (r, j, d1) \<Longrightarrow> I d \<Longrightarrow> I d1"
  by (auto simp: handle_push_def Let_def dest!: find_payload_app_keeps requests_keep
      split: prod.splits sum.splits if_splits option.splits)

lemma webhook_route_keeps:
  assumes "webhook_route out secret q d = (r, j, d1)" and "I d"
  shows "I d1"
proof (cases "VerifyAndParse out secret q")
  case (Inr x)
  then obtain ev payload where x: "x = (ev, payload)" by fastforce
  with Inr assms show ?thesis
    by (cases ev)
       (auto simp: webhook_route_def Let_def dest!: handle_workflow_run_keeps handle_push_keeps split: sum.splits prod.splits)
qed (use assms in \<open>simp add: webhook_route_def Let_def\<close>)

section \<open>The pages\<close>

lemma account_pages_keep:
  "keeps (SetupPage u)" "keeps (SetupSubmit out ph f)" "keeps (LoginPage u)" "keeps (LoginSubmit out ph f)" "keeps PageLogout"
  by (rule keepsI;
      force simp: SetupPage_def SetupSubmit_def LoginPage_def LoginSubmit_def PageLogout_def SetupRequired_def AuthCreateUser_def
        HashPassword_def Authenticate_def start_session_def dest!: on_dbD reads writes inv_same [OF perform_db]
        split: prod.splits sum.splits option.splits if_splits)+

lemma settings_pages_keep: "keeps (GeneralSettingsPage out ph u host)" "keeps (GeneralSettingsSubmit out ph u host f)"
  by (rule keepsI;
      auto simp: GeneralSettingsPage_def renderGeneralSettingsPage_def GeneralSettingsSubmit_def
        dest!: inv_same [OF SettingsLoad_db] inv_same [OF SettingsSave_db] split: option.splits prod.splits sum.splits)+

lemma read_pages_keep:
  "keeps (on_db (DashboardPage ph u))" "keeps (on_db (DeployStatusPartial p))" "keeps (on_db (DeployRowPartial p))"
  "keeps (on_db (AppRowPartial ph p))" "keeps (on_db (ServicesPage u))" "keeps (on_db (ServiceDetailPage u p))"
  "keeps (on_db (AppSettingsPage ph u p))" "keeps (on_db (BackupPage u))"
  by (rule keeps_on_db;
      auto simp: DashboardPage_def DeployStatusPartial_def DeployRowPartial_def page_deploy_def AppRowPartial_def ServicesPage_def
        ServiceDetailPage_def sidecar_of_def AppSettingsPage_def BackupPage_def Let_def dest!: reads
        split: option.splits prod.splits sum.splits if_splits)+

lemma TriggerDeploy_keeps: "TriggerDeploy f p d = (x, j, d1) \<Longrightarrow> I d \<Longrightarrow> I d1"
  by (auto simp: TriggerDeploy_def dest!: reads requests_keep split: option.splits prod.splits sum.splits if_splits)

lemma TriggerRollback_keeps: "TriggerRollback p d = (x, j, d1) \<Longrightarrow> I d \<Longrightarrow> I d1"
  by (auto simp: TriggerRollback_def dest!: reads requests_keep split: option.splits prod.splits sum.splits if_splits)

end

end
