(* ===== verification/App_Contract.thy ===== *)
theory App_Contract
  imports Store_Invariant
begin

text \<open>
  What every request and every job does to the database when applications are written too.  The locale
  \<open>app_contract\<close> extends \<open>store_invariant\<close> by a condition \<open>P\<close> on the applications that are read and
  written, and by what the handlers need of it: that the access fields establish it for a row with
  \<open>Q\<close>, and that the fields set later do not disturb it.
\<close>

locale app_contract = store_invariant I for I :: "db \<Rightarrow> bool" +
  fixes P Q :: "app \<Rightarrow> bool" and host dmn :: string
  assumes stored: "I d \<Longrightarrow> a \<in> set (tbl_rows (db_apps d)) \<Longrightarrow> P a"
    and create: "I d \<Longrightarrow> P a \<Longrightarrow> I (snd (CreateApp a d))"
    and change: "I d \<Longrightarrow> P a \<Longrightarrow> I (snd (UpdateApp a d))"
    and remove: "I d \<Longrightarrow> I (snd (DeleteApp i d))"
    and row: "P (a\<lparr>app_ID := i\<rparr>) = P a"
    and live: "P (a\<lparr>app_Status := st, app_ImageRef := im, app_CurrentDeployID := c, app_LiveContainerName := n\<rparr>) =
        P (a\<lparr>app_Status := st\<rparr>)"
    and github: "P (a\<lparr>app_GitHubInstallationID := c\<rparr>) = P a" "P (a\<lparr>app_GitHubRepoID := c\<rparr>) = P a"
      "P (a\<lparr>app_RegistryURL := im\<rparr>) = P a"
    and status: "P a \<Longrightarrow> P (a\<lparr>app_Status := AppStatusActive\<rparr>)" "P a \<Longrightarrow> P (a\<lparr>app_Status := AppStatusInactive\<rparr>)"
    and access: "applyAccessFields host dmn a d = (Inr a1, d1) \<Longrightarrow> Q a \<Longrightarrow> P a1"
    and requested: "Q (requested_app h (default_create r))"
    and form: "Q (form_app ph f)"
    and update: "P a \<Longrightarrow> Q (apply_update u a)"
begin

section \<open>The store\<close>

lemma GetApp_ok: "GetApp i d = (r, d1) \<Longrightarrow> I d \<Longrightarrow> I d1 \<and> (\<forall>a. r = Inr a \<longrightarrow> P a)"
proof -
  assume g: "GetApp i d = (r, d1)" and d: "I d"
  have d1: "I d1" using reads(1) [OF g d] .
  have "P a" if "r = Inr a" for a
  proof -
    have "by_id app_ID i (db_apps d1) = Some a"
      using g that query_row_cases [of "''get app''" "\<lambda>d. by_id app_ID i (db_apps d)" d r d1] by (auto simp: GetApp_def)
    then show ?thesis using stored [OF d1] apps.by_id_Some [of i "db_apps d1" a] by blast
  qed
  with d1 show ?thesis by blast
qed

lemma CreateApp_ok: "CreateApp a d = (r, d1) \<Longrightarrow> I d \<Longrightarrow> P a \<Longrightarrow> I d1 \<and> (\<forall>a1. r = Inr a1 \<longrightarrow> P a1)"
  using create [of d a] by (auto simp: CreateApp_def row split: prod.splits sum.splits)

lemma access_ok:
  assumes "applyAccessFields host dmn a d = (r, d1)" and "I d" and "Q a"
  shows "I d1 \<and> (\<forall>a1. r = Inr a1 \<longrightarrow> P a1)"
proof -
  have "same_tables (snd (NextFallbackPort d)) d" by (simp add: NextFallbackPort_def query_keeps(1))
  moreover have "snd (applyAccessFields host dmn a d) \<in> {d, snd (NextFallbackPort d)}"
    by (cases "app_AppType a") (simp_all add: applyAccessFields_def Let_def split: prod.split sum.split)
  ultimately have "I (snd (applyAccessFields host dmn a d))" using assms(2) same by auto
  then show ?thesis using assms(1,3) access by auto
qed

text \<open>The steps of a handler on the world.\<close>

lemma steps:
  "on_db (GetApp i) w = (r, w1) \<Longrightarrow> inv w \<Longrightarrow> inv w1 \<and> (\<forall>a. r = Inr a \<longrightarrow> P a)"
  "on_db (CreateApp a) w = (r, w1) \<Longrightarrow> inv w \<Longrightarrow> P a \<Longrightarrow> inv w1 \<and> (\<forall>a1. r = Inr a1 \<longrightarrow> P a1)"
  "on_db (UpdateApp a) w = (u, w1) \<Longrightarrow> inv w \<Longrightarrow> P a \<Longrightarrow> inv w1"
  "on_db (DeleteApp i) w = (u, w1) \<Longrightarrow> inv w \<Longrightarrow> inv w1"
  "on_db (applyAccessFields host dmn a) w = (r, w1) \<Longrightarrow> inv w \<Longrightarrow> Q a \<Longrightarrow> inv w1 \<and> (\<forall>a1. r = Inr a1 \<longrightarrow> P a1)"
  using GetApp_ok [of i "w_db w"] CreateApp_ok [of a "w_db w"] change [of "w_db w" a] remove [of "w_db w" i] access_ok [of a "w_db w"]
  by (auto simp: inv_def on_db_def split: prod.splits)

lemma update_step: "inv w \<Longrightarrow> P a \<Longrightarrow> inv (snd (on_db (UpdateApp a) w))"
  by (rule steps(3) [of a w "fst (on_db (UpdateApp a) w)"]) simp_all

section \<open>The API\<close>

lemma AppCreate_keeps:
  assumes h: "ah_serverHost h = host" "ah_serverDomain h = dmn"
  shows "keeps (AppCreate out h body)"
proof (rule keepsI)
  fix w x w1
  assume "AppCreate out h body w = (x, w1)" and "inv w"
  then show "inv w1"
    using requested
    by (auto simp: AppCreate_def Let_def dest!: steps(2) steps(5) [folded h] inv_same [OF syncNonManagedRoute_db]
        split: option.splits if_splits prod.splits sum.splits)
qed

lemma with_app_keeps:
  assumes "\<And>a w x w1. f a w = (x, w1) \<Longrightarrow> inv w \<Longrightarrow> P a \<Longrightarrow> inv w1"
  shows "keeps (with_app param f)"
  by (rule keepsI) (auto simp: with_app_def dest!: steps(1) assms split: option.splits prod.splits sum.splits)

lemma AppUpdate_keeps:
  assumes h: "ah_serverHost h = host" "ah_serverDomain h = dmn"
  shows "keeps (AppUpdate out h param body)"
  unfolding AppUpdate_def
proof (rule with_app_keeps)
  fix a w x w1
  assume "(case decode_update body of None \<Rightarrow> (Failed 400 ''invalid request body'', w)
    | Some r \<Rightarrow> (case on_db (applyAccessFields (ah_serverHost h) (ah_serverDomain h) (apply_update r a)) w of
        (Inl e, w1) \<Rightarrow> (Failed 500 ''failed to assign port'', w1)
      | (Inr a, w1) \<Rightarrow> (case on_db (UpdateApp a) w1 of
          (Inl e, w2) \<Rightarrow> (Failed 500 ''failed to update app'', w2)
        | (Inr _, w2) \<Rightarrow> (case syncNonManagedRoute out (ah_proxy h) a w2 of
            (Inl e, w3) \<Rightarrow> (Failed 500 ''failed to update route'', w3)
          | (Inr _, w3) \<Rightarrow> (Answer 200 a, w3))))) = (x, w1)" and "inv w" and "P a"
  then show "inv w1"
    using update [of a]
    by (auto dest!: steps(3) steps(5) [folded h] inv_same [OF syncNonManagedRoute_db]
        split: option.splits prod.splits sum.splits)
qed

lemma AppDelete_keeps: "keeps (AppDelete out h param)"
  unfolding AppDelete_def
  by (rule with_app_keeps)
     (auto simp: RemoveRoute_db inv_def dest!: steps(4) split: option.splits prod.splits sum.splits)

lemma AppRestart_keeps: "keeps (AppRestart out param)"
  unfolding AppRestart_def
  by (rule with_app_keeps) (auto dest!: inv_same [OF Restart_db] split: prod.splits sum.splits if_splits)

section \<open>The pages\<close>

lemma form_github_P: "P (form_github f a) = P a"
  by (simp add: form_github_def github Let_def split: option.split)

lemma activate_adopted_ok: "inv w \<Longrightarrow> P a \<Longrightarrow> inv (activate_adopted out h a w)"
  by (auto simp: activate_adopted_def Inspect_def status update_step dest!: inv_same [OF perform_db] split: prod.split sum.split)

lemma AppCreateSubmit_keeps:
  assumes h: "ph_host h = host" "ph_domain h = dmn"
  shows "keeps (AppCreateSubmit out h f)"
proof (rule keepsI)
  fix w x w1
  assume "AppCreateSubmit out h f w = (x, w1)" and "inv w"
  then show "inv w1"
    using form
    by (auto simp: AppCreateSubmit_def form_github_P Let_def
        dest!: steps(2) steps(5) [folded h] inv_same [OF syncNonManagedRoute_db] intro!: activate_adopted_ok
        split: option.splits if_splits prod.splits sum.splits)
qed

lemma sync_adopted_ok: "sync_adopted h info a w = (a1, w1) \<Longrightarrow> inv w \<Longrightarrow> P a \<Longrightarrow> inv w1"
  by (auto simp: sync_adopted_def status update_step Let_def split: if_splits)

lemma on_db_ListDeploys: "on_db (ListDeploys i n) w = (r, w1) \<Longrightarrow> inv w \<Longrightarrow> inv w1"
  by (auto dest!: on_dbD reads)

lemma AppDetailPage_keeps: "keeps (AppDetailPage out h u param)"
  by (rule keepsI)
     (auto simp: AppDetailPage_def dest!: steps(1) on_db_ListDeploys inv_same [OF runtime_info_db] sync_adopted_ok
      split: option.splits prod.splits sum.splits outcome.splits)

lemma remove_ok: "DeleteApp i d = (r, d1) \<Longrightarrow> I d \<Longrightarrow> I d1"
  using remove [of d i] by simp

lemma PageDeleteApp_keeps: "keeps (on_db (PageDeleteApp param))"
  by (rule keepsI)
     (auto simp: PageDeleteApp_def on_db_def inv_def dest!: remove_ok split: option.splits prod.splits sum.splits)

section \<open>The GitHub integration\<close>

lemma connected_P: "P (connected i rp a) = P a" "P (disconnected a) = P a"
  by (simp_all add: connected_def disconnected_def github)

lemma connect_app_ok:
  "connect_app out h c i appID a repos w = (x, w1) \<Longrightarrow> inv w \<Longrightarrow> P a \<Longrightarrow> inv w1"
  by (auto simp: connect_app_def connected_P Let_def dest!: steps(3) inv_same [OF setupWorkflow_db]
      split: if_splits prod.splits sum.splits outcome.splits)

lemma HandleCallback_ok: "HandleCallback out h inst st w = Some (x, w1) \<Longrightarrow> inv w \<Longrightarrow> inv w1"
  by (auto simp: HandleCallback_def
      dest!: inv_same [OF getClient_db] steps(1) inv_same [OF GetInstallation_db] inv_same [OF ListInstallationRepos_db] connect_app_ok
      split: option.splits prod.splits sum.splits if_splits)

lemma Disconnect_keeps: "keeps (Disconnect q p)"
  by (rule keepsI)
     (auto simp: Disconnect_def connected_P Let_def dest!: steps(1) steps(3) split: option.splits prod.splits sum.splits if_splits)

section \<open>Deploys\<close>

text \<open>The application a goroutine works with.\<close>

fun job_app :: "job \<Rightarrow> app" where
  "job_app (RunQueued a d) = a"
| "job_app (RunRollback a d) = a"

lemma check_deploy_ok: "check_deploy i d = (r, d1) \<Longrightarrow> I d \<Longrightarrow> I d1 \<and> (\<forall>a. r = Inr a \<longrightarrow> P a)"
  by (auto simp: check_deploy_def dest!: GetApp_ok reads(4) split: prod.splits sum.splits if_splits)

lemma deploy_jobs:
  "Deploy i im sha b t d = (rq, d1) \<Longrightarrow> I d \<Longrightarrow> \<forall>x j. rq = Inr (x, j) \<longrightarrow> P (job_app j)"
  "Rollback i d = (rr, d1) \<Longrightarrow> I d \<Longrightarrow> \<forall>x j. rr = Inr (x, j) \<longrightarrow> P (job_app j)"
  by (auto simp: Deploy_def Rollback_def dest!: check_deploy_ok GetApp_ok split: prod.splits sum.splits if_splits)

lemma started_jobs:
  "Trigger p body d = (x, Some j, d1) \<Longrightarrow> I d \<Longrightarrow> P (job_app j)"
  "DeployRollback p d = (x, Some j, d1) \<Longrightarrow> I d \<Longrightarrow> P (job_app j)"
  "TriggerDeploy f p d = (y, Some j, d1) \<Longrightarrow> I d \<Longrightarrow> P (job_app j)"
  "TriggerRollback p d = (y, Some j, d1) \<Longrightarrow> I d \<Longrightarrow> P (job_app j)"
  by (auto simp: Trigger_def DeployRollback_def TriggerDeploy_def TriggerRollback_def dest!: reads(1) deploy_jobs
      split: option.splits prod.splits sum.splits if_splits)

lemma webhook_jobs:
  assumes "webhook_route out secret q d = (r, Some j, d1)" and "I d"
  shows "P (job_app j)"
proof -
  have "P (job_app j)" if "handle_workflow_run p d = (r', Some j, d1)" for p r'
    using that assms(2)
    by (auto simp: handle_workflow_run_def Let_def dest!: find_payload_app_keeps deploy_jobs(1) split: prod.splits sum.splits if_splits)
  moreover have "P (job_app j)" if "handle_push p d = (r, Some j, d1)" for p
    using that assms(2)
    by (auto simp: handle_push_def Let_def dest!: find_payload_app_keeps deploy_jobs(1) split: prod.splits sum.splits if_splits option.splits)
  moreover obtain ev payload where x: "VerifyAndParse out secret q = Inl ev \<or> VerifyAndParse out secret q = Inr payload"
    by (cases "VerifyAndParse out secret q") auto
  ultimately show ?thesis
    using assms(1)
    by (cases "VerifyAndParse out secret q"; cases "fst (projr (VerifyAndParse out secret q))")
       (auto simp: webhook_route_def Let_def split: sum.splits prod.splits)
qed

section \<open>The engine\<close>

lemma event_step [simp]: "inv w \<Longrightarrow> inv (emitEvent i l s m w)"
  by (auto simp: emitEvent_def inv_def on_db_def dest!: writes(3) split: prod.split sum.split outcome.split)

lemma save_deploy_step [simp]: "inv w \<Longrightarrow> inv (save_deploy d w)"
  by (auto simp: save_deploy_def inv_def on_db_def dest!: writes(2) split: prod.split)

lemma failDeploy_step [simp]: "inv w \<Longrightarrow> inv (failDeploy d m w)"
  by (simp add: failDeploy_def)

lemma finalize_step: "inv w \<Longrightarrow> P a \<Longrightarrow> inv (finalize a d w)"
  by (simp add: finalize_def save_app_def update_step live status Let_def)

lemma env_steps:
  "validateEnvVars a w = (rv, w1) \<Longrightarrow> inv w \<Longrightarrow> inv w1" "link_env out e lk w = (vs, w1) \<Longrightarrow> inv w \<Longrightarrow> inv w1"
  "snapshot_env a d w = (d2, w1) \<Longrightarrow> inv w \<Longrightarrow> inv w1"
proof -
  have upd: "inv (w\<lparr>w_panic := m\<rparr>) = inv w" for w m by (simp add: inv_def)
  show "validateEnvVars a w = (rv, w1) \<Longrightarrow> inv w \<Longrightarrow> inv w1"
    by (auto simp: validateEnvVars_def Let_def dest!: on_dbD reads split: prod.splits sum.splits)
  show "link_env out e lk w = (vs, w1) \<Longrightarrow> inv w \<Longrightarrow> inv w1"
    by (auto simp: link_env_def upd dest!: on_dbD reads split: prod.splits sum.splits if_splits outcome.splits)
  show "snapshot_env a d w = (d2, w1) \<Longrightarrow> inv w \<Longrightarrow> inv w1"
    by (auto simp: snapshot_env_def Let_def GetAppEnvVarsSnapshot_def dest!: on_dbD list_keeps split: prod.splits)
qed

lemma links_env_step: "links_env out e ls w = (vs, w1) \<Longrightarrow> inv w \<Longrightarrow> inv w1"
  by (induction ls arbitrary: w vs) (auto simp: Let_def dest!: env_steps(2) split: prod.splits)

lemma collectEnvVars_step: "collectEnvVars out e a w = (vs, w1) \<Longrightarrow> inv w \<Longrightarrow> inv w1"
  by (auto simp: collectEnvVars_def Let_def dest!: on_dbD reads links_env_step split: prod.splits sum.splits)

lemma stop_steps [simp]:
  "inv w \<Longrightarrow> inv (stop_old_first out e a d w)" "inv w \<Longrightarrow> inv (stop_old_last out e a d w)" "inv w \<Longrightarrow> inv (auto_rollback out a d err w)"
proof -
  have stop: "StopAndRemove out n w = (r, w1) \<Longrightarrow> inv w \<Longrightarrow> inv w1" for n w r w1
    using StopAndRemove_db [of out n w] by (simp add: inv_def)
  show "inv w \<Longrightarrow> inv (stop_old_first out e a d w)" "inv w \<Longrightarrow> inv (stop_old_last out e a d w)"
    by (auto simp: stop_old_first_def stop_old_last_def Let_def dest!: stop split: prod.split sum.split)
  show "inv w \<Longrightarrow> inv (auto_rollback out a d err w)" by (simp add: auto_rollback_def Let_def)
qed

lemma call_steps:
  "PullImage out im w = (rp, w1) \<Longrightarrow> inv w \<Longrightarrow> inv w1" "UpdateRoute out m a n w = (rp, w1) \<Longrightarrow> inv w \<Longrightarrow> inv w1"
  "StartContainerWithConfig out dc cfg w = (rs, w1) \<Longrightarrow> inv w \<Longrightarrow> inv w1" "WaitForHealth out i k w = (rp, w1) \<Longrightarrow> inv w \<Longrightarrow> inv w1"
  using PullImage_db UpdateRoute_keeps_db [of out m a n w] StartContainerWithConfig_db WaitForHealth_db
  by (auto simp: inv_def)

lemma stage_steps:
  "pull_stage out d sk w = (r, w1) \<Longrightarrow> inv w \<Longrightarrow> inv w1" "route_stage out e a d w = (r, w1) \<Longrightarrow> inv w \<Longrightarrow> inv w1"
  by (auto simp: pull_stage_def route_stage_def Let_def dest!: call_steps(1) call_steps(2) split: if_splits prod.splits sum.splits)

lemma route_and_finish_step: "inv w \<Longrightarrow> P a \<Longrightarrow> inv (route_and_finish out e a d w)"
  by (auto simp: route_and_finish_def Let_def dest!: stage_steps(2) intro!: finalize_step split: prod.split sum.split)

lemma check_health_step: "inv w \<Longrightarrow> P a \<Longrightarrow> inv (check_health out e a d i w)"
  by (auto simp: check_health_def Let_def dest!: call_steps(4) intro!: route_and_finish_step split: prod.split sum.split)

lemma run_staging_step: "inv w \<Longrightarrow> P a \<Longrightarrow> inv (run_staging out e a d w)"
  by (auto simp: run_staging_def Let_def dest!: collectEnvVars_step call_steps(3) intro!: check_health_step split: prod.split sum.split)

lemma execute_step: "inv w \<Longrightarrow> P a \<Longrightarrow> inv (execute out e a d sk w)"
  by (auto simp: execute_def begin_deploy_def Let_def dest!: env_steps(1,3) stage_steps(1) intro!: run_staging_step
      split: prod.split sum.split)

section \<open>Building\<close>

definition quiet :: "progress \<Rightarrow> bool" where
  "quiet p \<longleftrightarrow> (\<forall>l s m w. inv w \<longrightarrow> inv (p l s m w))"

lemma quietD [simp]: "quiet p \<Longrightarrow> inv w \<Longrightarrow> inv (p l s m w)"
  by (simp add: quiet_def)

lemma run_command_step: "run_command out what c w = (r, w1) \<Longrightarrow> inv w \<Longrightarrow> inv w1"
  by (auto simp: run_command_def dest!: inv_same [OF perform_db] split: prod.splits sum.splits)

lemma build_steps:
  assumes "quiet p"
  shows "cloneRepo out url br sha dir p w = (rc, w1) \<Longrightarrow> inv w \<Longrightarrow> inv w1"
    and "prepare_dockerfile out dir ref ty port p w = (rb, w1) \<Longrightarrow> inv w \<Longrightarrow> inv w1"
    and "buildImage out dir ref ty port p w = (rb, w1) \<Longrightarrow> inv w \<Longrightarrow> inv w1"
    and "build_in out a sha tok dir p w = (rb, w1) \<Longrightarrow> inv w \<Longrightarrow> inv w1"
proof -
  show clone: "cloneRepo out url br sha dir p w = (rc, w1) \<Longrightarrow> inv w \<Longrightarrow> inv w1" for url br sha dir w rc w1
    using assms by (auto simp: cloneRepo_def Let_def dest!: run_command_step split: if_splits prod.splits sum.splits)
  show prep: "prepare_dockerfile out dir ref ty port p w = (rb, w1) \<Longrightarrow> inv w \<Longrightarrow> inv w1" for dir ref ty port w rb w1
    using assms by (auto simp: prepare_dockerfile_def Let_def dest!: inv_same [OF write_file_db] split: if_splits prod.splits sum.splits)
  show image: "buildImage out dir ref ty port p w = (rb, w1) \<Longrightarrow> inv w \<Longrightarrow> inv w1" for dir ref ty port w rb w1
    using assms by (auto simp: buildImage_def Let_def dest!: prep run_command_step split: prod.splits sum.splits)
  show "build_in out a sha tok dir p w = (rb, w1) \<Longrightarrow> inv w \<Longrightarrow> inv w1"
    by (auto simp: build_in_def dest!: clone image split: prod.splits sum.splits)
qed

lemma CloneAndBuild_step:
  assumes "quiet p" and "CloneAndBuildWithProgress out b a sha p w = (r, w1)" and "inv w"
  shows "inv w1"
proof -
  have "inv (remove_all out d w) = inv w" for d w by (simp add: inv_def frame)
  then show ?thesis
    using assms
    by (auto simp: CloneAndBuildWithProgress_def GetInstallationToken_def Let_def
        dest!: inv_same [OF token_db] inv_same [OF perform_db] build_steps(4) [OF assms(1)]
        split: option.splits if_splits prod.splits sum.splits)
qed

lemma quiet_emit [simp]: "quiet (emitEvent i)"
  by (simp add: quiet_def)

lemma prepareTalosBuild_step: "prepareTalosBuild out e a d w = (r, w1) \<Longrightarrow> inv w \<Longrightarrow> inv w1"
proof -
  have b: "getBuilder e w = (x, w1) \<Longrightarrow> inv w \<Longrightarrow> inv w1" for w x w1
    by (auto simp: getBuilder_def inv_def split: option.splits)
  have r: "resolve_commit out a d w = (x, w1) \<Longrightarrow> inv w \<Longrightarrow> inv w1" for w x w1
    by (auto simp: resolve_commit_def resolveBuildCommitSHA_def ResolveBranchHeadSHA_def Let_def
        dest!: inv_same [OF token_db] inv_same [OF perform_db] split: if_splits option.splits prod.splits sum.splits)
  show "prepareTalosBuild out e a d w = (r, w1) \<Longrightarrow> inv w \<Longrightarrow> inv w1"
    by (auto simp: prepareTalosBuild_def Let_def dest!: b r CloneAndBuild_step [OF quiet_emit] split: option.splits if_splits prod.splits sum.splits)
qed

lemma run_job_step: "inv w \<Longrightarrow> P (job_app j) \<Longrightarrow> inv (run_job out e j w)"
  by (cases j)
     (auto simp: executeQueued_def Let_def dest!: prepareTalosBuild_step intro!: execute_step split: prod.split sum.split)

section \<open>Provisioning\<close>

lemma mark_error_step: "mark_error s e w = (r, s1, w1) \<Longrightarrow> inv w \<Longrightarrow> inv w1"
  by (auto simp: mark_error_def Let_def)

lemma default_bucket_step: "default_bucket out p ctx s c w = (s1, w1) \<Longrightarrow> inv w \<Longrightarrow> inv w1"
proof -
  have "inv (ensure_layout out c ctx w) = inv w" for c w by (simp add: inv_def ensure_layout_db)
  then show "default_bucket out p ctx s c w = (s1, w1) \<Longrightarrow> inv w \<Longrightarrow> inv w1"
    by (auto simp: default_bucket_def Let_def
        dest!: inv_same [OF GarageAdminURL_db] inv_same [OF create_bucket_attempts_db] inv_same [OF EncryptCredentials_db]
          inv_same [OF calls_db [OF WaitForReady_calls]]
        split: option.splits credentials.splits if_splits prod.splits sum.splits)
qed

lemma provision_steps:
  "provision_begin out p s c w = (r, s1, w1) \<Longrightarrow> inv w \<Longrightarrow> inv w1"
  "provision_container out dc p ctx s c w = (r, s1, w1) \<Longrightarrow> inv w \<Longrightarrow> inv w1"
  by (auto simp: provision_begin_def provision_container_def Let_def
      dest!: on_dbD writes inv_same [OF Encrypt_db] inv_same [OF make_dir_db] inv_same [OF garage_files_db] inv_same [OF PullImage_db]
        mark_error_step start_service_container_keeps default_bucket_step
      split: prod.splits sum.splits)

lemma provision_shared_step: "inv w \<Longrightarrow> inv (snd (snd (provision_shared out dc p bl s c w)))"
proof -
  have "inv w \<Longrightarrow> inv (snd (snd (provision_container out dc p BackgroundContext s c w)))" for s w
    using provision_steps(2) by (metis prod.collapse)
  then show "inv w \<Longrightarrow> inv (snd (snd (provision_shared out dc p bl s c w)))"
    by (auto simp: provision_shared_def dest!: provision_steps(1) split: prod.split sum.split)
qed

lemma webui_sidecar_step: "inv w \<Longrightarrow> inv (webui_sidecar out dc p n t w)"
  by (auto simp: webui_sidecar_def Let_def ProvisionService_shared dest!: inv_same [OF generators_db(1)] on_dbD writes
      intro!: provision_shared_step split: prod.split sum.split option.split)

lemma run_service_job_step: "inv w \<Longrightarrow> inv (run_service_job out dc p bl j w)"
proof -
  have "inv (w\<lparr>w_panic := m\<rparr>) = inv w" for w m by (simp add: inv_def)
  then show "inv w \<Longrightarrow> inv (run_service_job out dc p bl j w)"
    by (auto simp: run_service_job_def Let_def intro: webui_sidecar_step provision_shared_step
        split: option.split credentials.split)
qed

end

end
