(* ===== verification/System.thy ===== *)
theory System
  imports App_Contract
begin

text \<open>
  The whole server: its requests, the goroutines they leave behind, the scheduled backups and the passing
  of time, as a step relation on the world and the goroutines that have not run yet.
\<close>

record system =
  sys_world :: world
  sys_pending :: "started list"

text \<open>\<open>blanked\<close> is the race of the service handler with its goroutine.\<close>

fun run_started :: "outside \<Rightarrow> server \<Rightarrow> engine \<Rightarrow> bool \<Rightarrow> started \<Rightarrow> world \<Rightarrow> world" where
  "run_started out s e blanked (StartDeploy j) w = run_job out e j w"
| "run_started out s e blanked (StartService j) w = run_service_job out (sv_docker s) (sv_provisioner s) blanked j w"

inductive system_step :: "router \<Rightarrow> outside \<Rightarrow> server \<Rightarrow> engine \<Rightarrow> system \<Rightarrow> system \<Rightarrow> bool"
  for chi :: router and out :: outside and s :: server and e :: engine where
  request: "serve chi out s q (sys_world y) = Some (r, js, w1) \<Longrightarrow>
    system_step chi out s e y \<lparr>sys_world = w1, sys_pending = sys_pending y @ js\<rparr>"
| goroutine: "sys_pending y = xs @ j # ys \<Longrightarrow>
    system_step chi out s e y \<lparr>sys_world = run_started out s e blanked j (sys_world y), sys_pending = xs @ ys\<rparr>"
| scheduled: "sv_backups s = Some m \<Longrightarrow>
    system_step chi out s e y (y\<lparr>sys_world := snd (CreateFullBackup out m (sys_world y))\<rparr>)"
| time_passes: "system_step chi out s e y
    (y\<lparr>sys_world := (sys_world y)\<lparr>w_db := (w_db (sys_world y))\<lparr>db_now := db_now (w_db (sys_world y)) + int t\<rparr>\<rparr>\<rparr>)"

definition reaches :: "router \<Rightarrow> outside \<Rightarrow> server \<Rightarrow> engine \<Rightarrow> system \<Rightarrow> system \<Rightarrow> bool" where
  "reaches chi out s e = (system_step chi out s e)\<^sup>*\<^sup>*"

text \<open>A server that has just been started, on whatever database: no goroutine of an earlier run is left.\<close>

definition just_started :: "system \<Rightarrow> bool" where
  "just_started y \<longleftrightarrow> sys_pending y = []"

context app_contract
begin

text \<open>A goroutine of a deploy works with an application that fulfils the condition.\<close>

fun started_ok :: "started \<Rightarrow> bool" where
  "started_ok (StartDeploy j) = P (job_app j)"
| "started_ok (StartService j) = True"

definition ok_serve :: "(world \<Rightarrow> served) \<Rightarrow> bool" where
  "ok_serve f \<longleftrightarrow> (\<forall>w x js w1. f w = Some (x, js, w1) \<longrightarrow> inv w \<longrightarrow> inv w1 \<and> list_all started_ok js)"

lemma ok_serveI: "(\<And>w x js w1. f w = Some (x, js, w1) \<Longrightarrow> inv w \<Longrightarrow> inv w1 \<and> list_all started_ok js) \<Longrightarrow> ok_serve f"
  by (simp add: ok_serve_def)

lemma ok_answers [simp]: "keeps f \<Longrightarrow> ok_serve (answers k f)" "keeps (on_db g) \<Longrightarrow> ok_serve (answers_db k g)"
  "keeps h \<Longrightarrow> ok_serve (answers_outcome k' h)" "ok_serve (just r)"
  by (auto simp: ok_serve_def answers_def answers_db_def answers_outcome_def just_def dest: keepsD split: prod.splits outcome.splits)

lemma ok_may_answer: "(\<And>w x w1. f w = Some (x, w1) \<Longrightarrow> w_db w1 = w_db w) \<Longrightarrow> ok_serve (may_answer k f)"
  by (auto simp: ok_serve_def may_answer_def inv_def split: option.splits)

lemma ok_starts_deploy:
  "(\<And>d x j d1. f d = (x, j, d1) \<Longrightarrow> I d \<Longrightarrow> I d1) \<Longrightarrow> (\<And>d x j d1. f d = (x, Some j, d1) \<Longrightarrow> I d \<Longrightarrow> P (job_app j)) \<Longrightarrow>
     ok_serve (starts_deploy k f)"
  by (force simp: ok_serve_def starts_deploy_def deploys_of_job_def inv_def split: prod.splits option.splits)

lemma ok_endpoints [simp]:
  "ok_serve (may_answer k (Debug out h))" "ok_serve (may_answer k (ListRepos out h))" "ok_serve (may_answer k (RepoSelectorPartial out h))"
  "ok_serve (may_answer k' (AppCreatePage out ph u))"
  "ok_serve (starts_deploy kd (Trigger p body))" "ok_serve (starts_deploy kd (DeployRollback p))"
  "ok_serve (starts_deploy kp (TriggerDeploy f p))" "ok_serve (starts_deploy kp (TriggerRollback p))"
  "ok_serve (serve_create_service out body)" "ok_serve (serve_callback out h q)" "ok_serve (serve_webhook out secret q)"
proof -
  show "ok_serve (may_answer k (Debug out h))" "ok_serve (may_answer k (ListRepos out h))" "ok_serve (may_answer k (RepoSelectorPartial out h))"
    "ok_serve (may_answer k' (AppCreatePage out ph u))"
    by (rule ok_may_answer, erule Debug_db ListRepos_db RepoSelectorPartial_db AppCreatePage_db)+
  show "ok_serve (starts_deploy kd (Trigger p body))" by (rule ok_starts_deploy) (fact Trigger_keeps started_jobs)+
  show "ok_serve (starts_deploy kd (DeployRollback p))" by (rule ok_starts_deploy) (fact DeployRollback_keeps started_jobs)+
  show "ok_serve (starts_deploy kp (TriggerDeploy f p))" by (rule ok_starts_deploy) (fact TriggerDeploy_keeps started_jobs)+
  show "ok_serve (starts_deploy kp (TriggerRollback p))" by (rule ok_starts_deploy) (fact TriggerRollback_keeps started_jobs)+
  show "ok_serve (serve_create_service out body)"
    by (rule ok_serveI) (auto simp: serve_create_service_def dest: ServiceCreate_keeps split: prod.splits option.splits)
  show "ok_serve (serve_callback out h q)"
    by (rule ok_serveI) (auto simp: serve_callback_def dest: HandleCallback_ok split: option.splits prod.splits outcome.splits)
  show "ok_serve (serve_webhook out secret q)"
  proof (rule ok_serveI)
    fix w x js w1
    assume s: "serve_webhook out secret q w = Some (x, js, w1)" and w: "inv w"
    obtain r j d where r: "webhook_route out secret (request.truncate q) (w_db w) = (r, j, d)" by (metis prod_cases3)
    have "I d" using webhook_route_keeps [OF r] w by (simp add: inv_def)
    moreover have "P (job_app j')" if "j = Some j'" for j' using webhook_jobs [OF r [unfolded that]] w by (simp add: inv_def)
    ultimately show "inv w1 \<and> list_all started_ok js"
      using s r by (cases r) (auto simp: serve_webhook_def deploys_of_job_def inv_def split: option.splits)
  qed
qed

text \<open>The handlers of one server.\<close>

definition here :: "server \<Rightarrow> bool" where
  "here s \<longleftrightarrow> sv_host s = host \<and> sv_domain s = dmn"

lemmas handlers_keep =
  auth_keeps deploy_lists_keep StreamLogs_keeps app_reads_keep settings_keep services_keep stop_start_keep buckets_keep backups_keep
  github_keeps account_pages_keep settings_pages_keep read_pages_keep AppDelete_keeps AppDetailPage_keeps PageDeleteApp_keeps
  Disconnect_keeps

lemma own_handlers_keep:
  assumes "here s"
  shows "keeps (AppCreate out (app_handler_of s) body)" "keeps (AppUpdate out (app_handler_of s) p body)"
    "keeps (AppCreateSubmit out (page_handler_of s) f)"
  using assms by (auto simp: here_def app_handler_of_def page_handler_of_def intro!: AppCreate_keeps AppUpdate_keeps AppCreateSubmit_keeps)

definition route_ok :: "route \<Rightarrow> bool" where
  "route_ok r \<longleftrightarrow> (\<forall>u q p. ok_serve (rt_Run r u q p))"

lemma route_ok_simps [simp]:
  "route_ok (Get a p f) \<longleftrightarrow> (\<forall>u q pr. ok_serve (f u q pr))" "route_ok (Post a p f) \<longleftrightarrow> (\<forall>u q pr. ok_serve (f u q pr))"
  "route_ok (Put a p f) \<longleftrightarrow> (\<forall>u q pr. ok_serve (f u q pr))" "route_ok (Delete a p f) \<longleftrightarrow> (\<forall>u q pr. ok_serve (f u q pr))"
  by (simp_all add: route_ok_def Get_def Post_def Put_def Delete_def)

lemma routes_ok:
  assumes "here s"
  shows "list_all route_ok (routes out s)"
proof -
  note own = own_handlers_keep [OF assms]
  have "list_all route_ok (auth_routes out s)" by (simp add: auth_routes_def handlers_keep)
  moreover have "list_all route_ok (app_routes out s)" by (simp add: app_routes_def Let_def handlers_keep own)
  moreover have "list_all route_ok (deploy_routes out s)" by (simp add: deploy_routes_def handlers_keep)
  moreover have "list_all route_ok (service_routes out s)" by (simp add: service_routes_def Let_def handlers_keep)
  moreover have "list_all route_ok (backup_routes out s)" by (simp add: backup_routes_def handlers_keep split: option.split)
  moreover have "list_all route_ok (github_routes out s)" by (simp add: github_routes_def Let_def handlers_keep)
  moreover have "list_all route_ok (page_routes out s)" by (simp add: page_routes_def Let_def handlers_keep own)
  ultimately show ?thesis by (simp add: routes_def)
qed

lemma session_step: "on_db (ValidateSession out a token) w = (r, w1) \<Longrightarrow> inv w \<Longrightarrow> inv w1"
  by (auto simp: ValidateSession_def session_user_def dest!: on_dbD reads split: list.splits option.splits prod.splits sum.splits if_splits)

lemma guard_ok: "(\<And>u. ok_serve (f u)) \<Longrightarrow> ok_serve (guard acc out a f c)"
proof -
  assume f: "\<And>u. ok_serve (f u)"
  have "ok_serve (require_session refusal out a f c)" for refusal
    by (rule ok_serveI)
       (use f in \<open>auto simp: require_session_def ok_serve_def dest!: session_step split: option.splits prod.splits sum.splits\<close>)
  then show ?thesis using f by (cases acc) (simp_all add: ok_serve_def)
qed

lemma serve_ok:
  assumes "serve chi out s q w = Some (r, js, w1)" and "here s" and "inv w"
  shows "inv w1 \<and> list_all started_ok js"
proof (cases "chi (route_names (routes out s)) (wq_Method q) (wq_Path q)")
  case (Inl refusal)
  then show ?thesis using assms by (simp add: serve_def)
next
  case (Inr x)
  obtain pattern params where x: "x = (pattern, params)" by fastforce
  show ?thesis
  proof (cases "find_route (wq_Method q) pattern (routes out s)")
    case None
    then show ?thesis using assms Inr x by (simp add: serve_def)
  next
    case (Some rt)
    then have "rt \<in> set (routes out s)" by (auto simp: find_route_def find_Some_iff)
    then have "route_ok rt" using routes_ok [OF assms(2)] by (simp add: list_all_iff)
    then have "ok_serve (guard (rt_Access rt) out (sv_auth s) (\<lambda>u. rt_Run rt u q params) (rq_cookie q))"
      by (intro guard_ok) (simp add: route_ok_def)
    moreover have "recovered (guard (rt_Access rt) out (sv_auth s) (\<lambda>u. rt_Run rt u q params) (rq_cookie q) w) = Some (r, js, w1)"
      using assms(1) Inr x Some by (simp add: serve_def)
    ultimately show ?thesis
      using assms(3) by (auto simp: recovered_def ok_serve_def split: option.splits outcome.splits)
  qed
qed

definition sys_ok :: "system \<Rightarrow> bool" where
  "sys_ok y \<longleftrightarrow> inv (sys_world y) \<and> list_all started_ok (sys_pending y)"

lemma step_ok:
  assumes "system_step chi out s e y z" and "here s" and "sys_ok y"
  shows "sys_ok z"
  using assms
proof (induction rule: system_step.cases)
  case (request q y r js w1)
  then show ?case using serve_ok [of chi out s q "sys_world y" r js w1] by (simp add: sys_ok_def)
next
  case (goroutine y xs j ys blanked)
  then show ?case by (cases j) (simp_all add: sys_ok_def run_job_step run_service_job_step)
next
  case (scheduled m y)
  have "inv (snd (CreateFullBackup out m (sys_world y)))"
    using scheduled CreateFullBackup_keeps by (metis prod.collapse sys_ok_def)
  then show ?case using scheduled by (simp add: sys_ok_def)
next
  case (time_passes y t)
  have "I ((w_db (sys_world y))\<lparr>db_now := k\<rparr>) = I (w_db (sys_world y))" for k by (rule same) (simp add: same_tables_def)
  then show ?case using time_passes by (simp add: sys_ok_def inv_def)
qed

lemma reaches_ok: "reaches chi out s e y z \<Longrightarrow> here s \<Longrightarrow> sys_ok y \<Longrightarrow> sys_ok z"
  unfolding reaches_def by (induction rule: rtranclp_induct) (auto intro: step_ok)

lemma restarted_ok:
  "reaches chi out s e y z \<Longrightarrow> here s \<Longrightarrow> just_started y \<Longrightarrow> I (w_db (sys_world y)) \<Longrightarrow> I (w_db (sys_world z))"
  using reaches_ok [of chi out s e y z] by (simp add: sys_ok_def just_started_def inv_def)

end

end
