(* ===== verification/Row_Contract.thy ===== *)
theory Row_Contract
  imports System
begin

text \<open>
  A condition on each row of the table of applications, as a contract of the whole server: the locale
  \<open>row_contract\<close> asks only for what the handlers do to one application, and gives the locale
  \<open>app_contract\<close> for the database all of whose applications fulfil the condition.
\<close>

definition db_ok :: "(app \<Rightarrow> bool) \<Rightarrow> db \<Rightarrow> bool" where
  "db_ok P d \<longleftrightarrow> list_all P (tbl_rows (db_apps d))"

lemma db_ok_same: "same_tables d e \<Longrightarrow> db_ok P d = db_ok P e"
  by (simp add: db_ok_def same_tables_def)

lemma db_ok_exec:
  assumes "db_ok P d" and "\<And>d x d'. db_ok P d \<Longrightarrow> stmt d = Inr (x, d') \<Longrightarrow> db_ok P d'"
  shows "db_ok P (snd (exec stmt d))"
  using assms(1) db_ok_same assms(2) by (rule exec_invariant) auto

text \<open>A statement that leaves the table of applications alone.\<close>

lemma db_ok_other:
  assumes "db_ok P d" and "\<And>d x d'. stmt d = Inr (x, d') \<Longrightarrow> db_apps d' = db_apps d"
  shows "db_ok P (snd (exec stmt d))"
  using assms(1) by (rule db_ok_exec) (use assms(2) in \<open>auto simp: db_ok_def\<close>)

lemma snd_case_result [simp]:
  "snd (case p of (Inl e, d1) \<Rightarrow> (Inl e, d1) | (Inr i, d1) \<Rightarrow> (f i, d1)) = snd p"
  by (simp split: prod.split sum.split)

lemma db_ok_insert:
  assumes "db_ok P d" and "\<And>d e. db_apps (upd (\<lambda>_. e) d) = db_apps d"
  shows "db_ok P (snd (exec (\<lambda>d. insert_into get upd set_id conflict (f d) d) d))"
  using assms by (auto intro!: db_ok_other simp: insert_into_Inr)

lemma db_ok_update:
  assumes "db_ok P d" and "\<And>d e. db_apps (upd (\<lambda>_. e) d) = db_apps d"
  shows "db_ok P (snd (exec (\<lambda>d. update_where_id get upd rid conflict i (f d) d) d))"
  using assms by (auto intro!: db_ok_other simp: update_where_id_Inr split: option.splits)

lemma db_ok_record_history:
  assumes "db_ok P d"
  shows "db_ok P (record_history v d)"
proof -
  obtain r d1 where r: "query (find_env (env_AppID v) (env_Key v)) d = (r, d1)" by fastforce
  then have "d1 = snd (query (find_env (env_AppID v) (env_Key v)) d)" by simp
  then have "db_ok P d1" using assms db_ok_same [OF query_keeps(1)] by blast
  then show ?thesis using r by (auto simp: record_history_def intro: db_ok_insert split: sum.split option.split)
qed

lemma db_ok_upsert: "db_ok P d \<Longrightarrow> db_ok P (snd (exec (upsert_env v) d))"
  by (rule db_ok_other) (auto simp: upsert_env_def insert_into_Inr split: if_splits)

lemma db_ok_other_call:
  assumes "db_ok P d" and "\<not> app_call c"
  shows "db_ok P (run_call c d)"
proof (cases c)
  case (CallUpdateDeploy x)
  then show ?thesis using assms db_ok_update [where f = "\<lambda>_. updated_deploy_row x"] by (simp add: UpdateDeploy_def)
qed (use assms in \<open>auto simp: CreateDeploy_def CreateDeployEvent_def CreateService_def UpdateService_def
    DeleteService_def LinkAppService_def UnlinkAppService_def SetAppEnvVar_def DeleteAppEnvVar_def CreateUser_def
    CreateBackup_def DeleteBackup_def intro!: db_ok_insert db_ok_update db_ok_upsert db_ok_record_history
    intro: db_ok_other\<close>)

locale row_contract =
  fixes P Q :: "app \<Rightarrow> bool" and host dmn :: string
  assumes id_free: "P (a\<lparr>app_ID := i\<rparr>) = P a"
    and times: "P (a\<lparr>app_CreatedAt := t\<rparr>) = P a" "P (a\<lparr>app_UpdatedAt := t\<rparr>) = P a"
    and running: "P (a\<lparr>app_CurrentDeployID := c\<rparr>) = P a" "P (a\<lparr>app_ImageRef := im\<rparr>) = P a"
      "P (a\<lparr>app_LiveContainerName := im\<rparr>) = P a"
    and github_free: "P (a\<lparr>app_GitHubInstallationID := c\<rparr>) = P a" "P (a\<lparr>app_GitHubRepoID := c\<rparr>) = P a"
      "P (a\<lparr>app_RegistryURL := im\<rparr>) = P a"
    and status_free: "P a \<Longrightarrow> P (a\<lparr>app_Status := AppStatusActive\<rparr>)" "P a \<Longrightarrow> P (a\<lparr>app_Status := AppStatusInactive\<rparr>)"
    and access_gives: "applyAccessFields host dmn a d = (Inr a1, d1) \<Longrightarrow> Q a \<Longrightarrow> P a1"
    and requested_gives: "Q (requested_app h (default_create r))"
    and form_gives: "Q (form_app ph f)"
    and update_gives: "P a \<Longrightarrow> Q (apply_update u a)"
begin

lemma row_create: "db_ok P d \<Longrightarrow> P a \<Longrightarrow> db_ok P (snd (CreateApp a d))"
  unfolding CreateApp_def snd_case_result snd_wrapped
  by (rule db_ok_exec) (auto simp: insert_into_Inr db_ok_def set_app_id_def new_app_row_def id_free times running)

lemma row_change: "db_ok P d \<Longrightarrow> P a \<Longrightarrow> db_ok P (snd (UpdateApp a d))"
  unfolding UpdateApp_def snd_wrapped
  by (rule db_ok_exec)
     (auto simp: update_where_id_Inr db_ok_def updated_app_row_def list_all_iff id_free times split: option.splits)

lemma row_remove: "db_ok P d \<Longrightarrow> db_ok P (snd (DeleteApp i d))"
  unfolding DeleteApp_def snd_wrapped
  by (rule db_ok_exec) (auto simp: db_ok_def delete_app_rows_def list_all_iff Let_def split: if_splits)

lemma row_live:
  "P (a\<lparr>app_Status := st, app_ImageRef := im, app_CurrentDeployID := c, app_LiveContainerName := n\<rparr>) = P (a\<lparr>app_Status := st\<rparr>)"
  by (simp add: running)

end

sublocale row_contract \<subseteq> app_contract "db_ok P" P Q host dmn
proof unfold_locales
  show "db_ok P d = db_ok P e" if "same_tables d e" for d e using that by (rule db_ok_same)
  show "db_ok P (run_call c d)" if "db_ok P d" "\<not> app_call c" for c d using that by (rule db_ok_other_call)
  show "P a" if "db_ok P d" "a \<in> set (tbl_rows (db_apps d))" for a d using that by (simp add: db_ok_def list_all_iff)
qed (fact row_create row_change row_remove id_free row_live github_free status_free access_gives requested_gives form_gives update_gives)+

text \<open>Every application of an empty table fulfils every condition.\<close>

lemma db_ok_empty [simp]: "db_ok P ((empty_db now)\<lparr>db_oracle := os\<rparr>)"
  by (simp add: db_ok_def empty_db_def)

end
