(* ===== verification/Server_Claims.thy ===== *)
theory Server_Claims
  imports Server
begin

text \<open>
  What the server promises of every request: without a valid session only the routes of an explicit list
  are run, and a panic of a handler is an answer.
\<close>

section \<open>A sample server\<close>

definition sample_server :: server where
  "sample_server =
     \<lparr>sv_auth = \<lparr>as_secret = ''secret'', as_maxAge = 3600\<rparr>, sv_proxy = None, sv_docker = \<lparr>dc_network = ''talos''\<rparr>,
      sv_provisioner = \<lparr>prov_dataDir = ''/data'', prov_hostDataRoot = ''/data'', prov_encKey = replicate 32 (CHR ''k'')\<rparr>,
      sv_backups = None, sv_webhook_secret = [],
      sv_github = \<lparr>hc_WebhookSecret = [], hc_AppID = 0, hc_AppSlug = [], hc_PrivateKey = [], hc_ClientID = [], hc_ClientSecret = []\<rparr>,
      sv_host = ''10.0.0.1'', sv_domain = [], sv_proxyMode = ProxyModeInternal, sv_port = 8080\<rparr>"

text \<open>A router that knows one pattern.\<close>

definition sample_router :: router where
  "sample_router names method path = Inr (path, \<lambda>k. ''1'')"

text \<open>A request without a cookie.\<close>

definition bare_request :: "string \<Rightarrow> string \<Rightarrow> web_request" where
  "bare_request method path =
     \<lparr>rq_cookie = None, rq_header = \<lambda>k. [], rq_body = [], rq_user = None, wq_Method = method, wq_Path = path,
      wq_Query = \<lambda>k. [], wq_Form = \<lambda>k. [], wq_TLS = False, wq_Host = ''10.0.0.1''\<rparr>"

section \<open>The check of the session\<close>

text \<open>The router chose a pattern for the request.\<close>

definition routed :: "router \<Rightarrow> outside \<Rightarrow> server \<Rightarrow> web_request \<Rightarrow> string option" where
  "routed chi out s q =
     (case chi (route_names (routes out s)) (wq_Method q) (wq_Path q) of Inl _ \<Rightarrow> None | Inr (pattern, _) \<Rightarrow> Some pattern)"

text \<open>The user of the session the cookie of the request stands for.\<close>

definition session_of :: "outside \<Rightarrow> server \<Rightarrow> web_request \<Rightarrow> world \<Rightarrow> user option" where
  "session_of out s q w =
     (case rq_cookie q of
        None \<Rightarrow> None
      | Some token \<Rightarrow> (case fst (ValidateSession out (sv_auth s) token (w_db w)) of Inl _ \<Rightarrow> None | Inr u \<Rightarrow> Some u))"

text \<open>The routes a request without a session may reach.\<close>

definition public_routes :: "(string \<times> string) list" where
  "public_routes =
     [(''GET'', ''/health''), (''POST'', ''/api/auth/setup''), (''POST'', ''/api/auth/login''), (''GET'', ''/api/auth/status''),
      (''GET'', ''/settings/github/setup''), (''GET'', ''/settings/github/status''), (''GET'', ''/api/github/create-manifest''),
      (''GET'', ''/api/github/setup-callback''), (''POST'', ''/api/webhooks/github''),
      (''GET'', ''/''), (''GET'', ''/setup''), (''POST'', ''/setup''), (''GET'', ''/login''), (''POST'', ''/login'')]"

lemma ValidateSession_same: "same_tables (snd (ValidateSession out a token d)) d"
proof -
  have u: "same_tables (snd (GetUserByID i d)) d" for i
    unfolding GetUserByID_def using query_row_same by (metis prod.collapse)
  have "same_tables (snd (session_user p d)) d" for p
    using u by (auto simp: session_user_def Let_def split: list.splits option.splits prod.splits sum.splits if_splits)
      (metis snd_conv)+
  then show ?thesis by (auto simp: ValidateSession_def split: list.splits option.splits if_splits)
qed

definition listed :: "route \<Rightarrow> bool" where
  "listed r \<longleftrightarrow> (rt_Access r = Public \<longrightarrow> (rt_Method r, rt_Pattern r) \<in> set public_routes)"

lemma routes_listed: "list_all listed (routes out s)"
  by (simp add: routes_def auth_routes_def app_routes_def deploy_routes_def service_routes_def backup_routes_def github_routes_def
      page_routes_def Let_def listed_def Get_def Post_def Put_def Delete_def public_routes_def split: option.split)

text \<open>A request that is refused.\<close>

lemma require_session_refuses:
  assumes "require_session refusal out (sv_auth s) f (rq_cookie q) w = Some (r, js, w1)" and "session_of out s q w = None"
  shows "js = [] \<and> same_tables (w_db w1) (w_db w) \<and> w1 = w\<lparr>w_db := w_db w1\<rparr> \<and>
    (\<exists>x. r = Returns (Plain x) \<and> rs_status x = rs_status refusal \<and> rs_location x = rs_location refusal)"
proof (cases "rq_cookie q")
  case None
  then show ?thesis using assms(1) by (auto simp: require_session_def)
next
  case (Some token)
  obtain v d1 where v: "ValidateSession out (sv_auth s) token (w_db w) = (v, d1)" by fastforce
  then obtain e where e: "v = Inl e" using assms(2) Some by (auto simp: session_of_def split: sum.splits)
  have "same_tables d1 (w_db w)" using ValidateSession_same [of out "sv_auth s" token "w_db w"] v by simp
  moreover have "r = Returns (Plain (set_cookie clear_cookie refusal)) \<and> js = [] \<and> w1 = w\<lparr>w_db := d1\<rparr>"
    using assms(1) Some v e by (simp add: require_session_def on_db_def)
  ultimately show ?thesis by (simp add: set_cookie_def)
qed

lemma guard_refuses:
  assumes "guard acc out (sv_auth s) f (rq_cookie q) w = Some (r, js, w1)" and "acc \<noteq> Public" and "session_of out s q w = None"
  shows "js = [] \<and> same_tables (w_db w1) (w_db w) \<and> w1 = w\<lparr>w_db := w_db w1\<rparr> \<and>
    (\<exists>x. r = Returns (Plain x) \<and> (rs_status x = 401 \<or> rs_status x = 302 \<and> rs_location x = ''/login''))"
  using assms require_session_refuses [of "http_error ''unauthorized'' 401" out s f q w r js w1]
    require_session_refuses [of "redirect ''/login'' 302" out s f q w r js w1]
  by (cases acc) (auto simp: redirect_def)

text \<open>C32.  A request without a valid session (no cookie, or one that the check refuses) to a pattern that
  is not in the list of public routes starts no goroutine, touches neither files nor containers nor a
  table, and is answered by a refusal: 401, the way to the login page, or 404.\<close>

theorem no_session_no_effect:
  assumes "serve chi out s q w = Some (r, js, w1)" and "session_of out s q w = None"
    and "routed chi out s q = Some pattern" and "(wq_Method q, pattern) \<notin> set public_routes"
  shows "js = [] \<and> same_tables (w_db w1) (w_db w) \<and> w1 = w\<lparr>w_db := w_db w1\<rparr> \<and>
    (\<exists>x. r = Plain x \<and> (rs_status x = 401 \<or> rs_status x = 302 \<and> rs_location x = ''/login'' \<or> rs_status x = 404))"
proof -
  obtain params where chi: "chi (route_names (routes out s)) (wq_Method q) (wq_Path q) = Inr (pattern, params)"
    using assms(3) by (auto simp: routed_def split: sum.splits)
  show ?thesis
  proof (cases "find_route (wq_Method q) pattern (routes out s)")
    case None
    then show ?thesis using assms(1) chi by (auto simp: serve_def)
  next
    case (Some rt)
    then have rt: "rt \<in> set (routes out s)" "rt_Method rt = wq_Method q" "rt_Pattern rt = pattern"
      by (auto simp: find_route_def find_Some_iff)
    then have "rt_Access rt \<noteq> Public" using routes_listed [of out s] assms(4) by (auto simp: list_all_iff listed_def)
    note refused = guard_refuses [OF _ this assms(2)]
    have s: "recovered (guard (rt_Access rt) out (sv_auth s) (\<lambda>u. rt_Run rt u q params) (rq_cookie q) w) = Some (r, js, w1)"
      using assms(1) chi Some by (simp add: serve_def)
    then obtain y where y: "guard (rt_Access rt) out (sv_auth s) (\<lambda>u. rt_Run rt u q params) (rq_cookie q) w = Some (y, js, w1)"
      by (auto simp: recovered_def split: option.splits outcome.splits)
    from refused [OF y] s y show ?thesis by (auto simp: recovered_def)
  qed
qed

text \<open>Creating an application without a cookie.\<close>

theorem no_session_no_effect_witness:
  "\<exists>r w1. serve sample_router calm_outside sample_server (bare_request ''POST'' ''/api/apps/'') sample_world = Some (r, [], w1) \<and>
     same_tables (w_db w1) (w_db sample_world)"
proof -
  let ?q = "bare_request ''POST'' ''/api/apps/''"
  obtain f where f: "find_route ''POST'' ''/api/apps/'' (routes calm_outside sample_server) = Some (Post ApiSession ''/api/apps/'' f)"
    by (simp add: find_route_def routes_def auth_routes_def app_routes_def Let_def Get_def Post_def)
  have "serve sample_router calm_outside sample_server ?q sample_world = Some (Plain (http_error ''unauthorized'' 401), [], sample_world)"
    using f by (simp add: serve_def sample_router_def bare_request_def Post_def require_session_def recovered_def)
  moreover have "session_of calm_outside sample_server ?q sample_world = None" by (simp add: session_of_def bare_request_def)
  moreover have "routed sample_router calm_outside sample_server ?q = Some ''/api/apps/''"
    by (simp add: routed_def sample_router_def bare_request_def)
  moreover have "(wq_Method ?q, ''/api/apps/'') \<notin> set public_routes" by (simp add: bare_request_def public_routes_def)
  ultimately show ?thesis using no_session_no_effect by blast
qed

end
