(* ===== verification/App_Claims.thy ===== *)
theory App_Claims
  imports Row_Contract Server_Claims
begin

text \<open>
  What the table of applications, and the database, always are: three conditions as instances of the
  contracts of the whole server, for every run of it, whatever is requested and whatever fails.
\<close>

section \<open>How an application is reached\<close>

definition public_host :: "string \<Rightarrow> string \<Rightarrow> string" where
  "public_host host dmn = (if dmn \<noteq> [] then dmn else host)"

definition known_type :: "app \<Rightarrow> bool" where
  "known_type a \<longleftrightarrow> app_AppType a \<in> {AppTypeManaged, AppTypeAdoptedContainer, AppTypeExternalService}"

text \<open>An app with a domain is served under it and has no port; without one a managed app has a
  port of its own, an adopted container no address and an external service its target.\<close>

definition access_ok :: "string \<Rightarrow> string \<Rightarrow> app \<Rightarrow> bool" where
  "access_ok host dmn a \<longleftrightarrow>
     known_type a \<and>
     (if app_Domain a \<noteq> [] then
        app_AccessMode a = AccessModeDomain \<and> app_FallbackPort a = 0 \<and> app_AccessURL a = ''https://'' @ app_Domain a
      else
        app_AccessMode a = AccessModePort \<and>
        (if app_AppType a = AppTypeManaged then
           0 < app_FallbackPort a \<and> app_AccessURL a = ''http://'' @ public_host host dmn @ '':'' @ itoa (app_FallbackPort a)
         else
           app_FallbackPort a = 0 \<and>
           app_AccessURL a = (if app_AppType a = AppTypeExternalService then app_ExternalTarget a else [])))"

text \<open>The fields that hold a value of an enumeration, and those that follow from the type of the app.\<close>

definition typed_fields :: "app \<Rightarrow> bool" where
  "typed_fields a \<longleftrightarrow>
     known_type a \<and> app_BuildMode a \<in> {BuildModeTalosBuild, BuildModeExternalCI} \<and>
     app_RuntimeOwner a = runtimeOwnerForType (app_AppType a) \<and> app_Source a = sourceForType (app_AppType a) \<and>
     app_EdgeProvider a \<in> {EdgeProviderInternalTraefik, EdgeProviderExternalTraefik} \<and>
     app_Status a \<in> {AppStatusActive, AppStatusInactive}"

definition typed_app :: "app \<Rightarrow> bool" where
  "typed_app a \<longleftrightarrow> typed_fields a \<and> app_AccessMode a \<in> {AccessModeDomain, AccessModePort}"

lemma NextFallbackPort_ok: "NextFallbackPort d = (Inr p, d1) \<Longrightarrow> 0 < p"
  using NextFallbackPort_Inr next_fallback_port_pos by metis

lemma access_ok_access:
  assumes "applyAccessFields host dmn a d = (Inr a1, d1)" and "known_type a"
  shows "access_ok host dmn a1"
proof (cases "app_Domain a = []")
  case False
  then have "a1 = a\<lparr>app_FallbackPort := 0, app_AccessURL := ''https://'' @ app_Domain a, app_AccessMode := AccessModeDomain\<rparr>"
    using assms(1) by (auto simp: applyAccessFields_def Let_def)
  with False assms(2) show ?thesis by (simp add: access_ok_def known_type_def)
next
  case True
  show ?thesis
  proof (cases "app_AppType a = AppTypeManaged")
    case managed: True
    obtain x d2 where x: "NextFallbackPort d = (x, d2)" by fastforce
    then obtain p where p: "x = Inr p"
      using assms(1) True managed by (cases x) (simp_all add: applyAccessFields_def Let_def)
    have a1: "a1 = a\<lparr>app_FallbackPort := p, app_AccessURL := ''http://'' @ public_host host dmn @ '':'' @ itoa p, app_AccessMode := AccessModePort\<rparr>"
      using assms(1) True managed x p by (auto simp: applyAccessFields_def Let_def public_host_def)
    show ?thesis
      using True managed NextFallbackPort_ok [OF x [unfolded p]] by (simp add: a1 access_ok_def known_type_def)
  next
    case False
    then show ?thesis
      using assms True by (auto simp: applyAccessFields_def access_ok_def known_type_def Let_def)
  qed
qed

lemma normalized_type: "normalizeAppType t \<in> {AppTypeManaged, AppTypeAdoptedContainer, AppTypeExternalService}"
  by (cases t) simp_all

lemma normalized_mode: "normalizeBuildMode m \<in> {BuildModeTalosBuild, BuildModeExternalCI}"
  by (cases m) simp_all

lemma default_create_type: "cr_AppType (default_create r) = normalizeAppType (cr_AppType r)"
  by (simp add: default_create_def Let_def)

lemma edge_provider: "edgeProviderForMode m \<in> {EdgeProviderInternalTraefik, EdgeProviderExternalTraefik}"
  by (simp add: edgeProviderForMode_def)

lemma requested_typed: "typed_fields (requested_app h (default_create r))"
  using normalized_type normalized_mode edge_provider
  by (simp add: typed_fields_def known_type_def requested_app_def default_create_type)

lemma form_typed: "typed_fields (form_app ph f)"
  using normalized_type normalized_mode edge_provider
  by (simp add: typed_fields_def known_type_def form_app_def Let_def)

lemma set_if_keeps: "P a \<Longrightarrow> (\<And>x a. P a \<Longrightarrow> P (f x a)) \<Longrightarrow> P (set_if v f a)"
  by (simp add: set_if_def split: option.split)

lemma update_keeps_fields:
  shows "known_type a \<Longrightarrow> known_type (apply_update u a)" and "typed_fields a \<Longrightarrow> typed_fields (apply_update u a)"
proof -
  show "known_type a \<Longrightarrow> known_type (apply_update u a)"
    unfolding apply_update_def
    by (intro set_if_keeps [where P = known_type]) (use normalized_type in \<open>simp_all add: known_type_def\<close>)
  show "typed_fields a \<Longrightarrow> typed_fields (apply_update u a)"
    unfolding apply_update_def
    by (intro set_if_keeps [where P = typed_fields]) (use normalized_type in \<open>simp_all add: typed_fields_def known_type_def\<close>)
qed

text \<open>What the access fields do not change.\<close>

lemma access_frame:
  assumes "applyAccessFields host dmn a d = (Inr a1, d1)" and "typed_fields a"
  shows "typed_app a1"
proof -
  have "access_ok host dmn a1" using access_ok_access assms by (simp add: typed_fields_def)
  then have "app_AccessMode a1 \<in> {AccessModeDomain, AccessModePort}" by (simp add: access_ok_def split: if_splits)
  moreover have "app_AppType a1 = app_AppType a \<and> app_BuildMode a1 = app_BuildMode a \<and> app_RuntimeOwner a1 = app_RuntimeOwner a \<and>
      app_Source a1 = app_Source a \<and> app_EdgeProvider a1 = app_EdgeProvider a \<and> app_Status a1 = app_Status a"
    using assms(1)
    by (cases "app_AppType a") (auto simp: applyAccessFields_def Let_def split: if_splits prod.splits sum.splits)
  ultimately show ?thesis using assms(2) by (simp add: typed_app_def typed_fields_def known_type_def)
qed

section \<open>The contracts on the model\<close>

lemma access_ok_known: "access_ok host dmn a \<Longrightarrow> known_type a"
  by (simp add: access_ok_def)

lemma access_ok_free [simp]:
  "access_ok host dmn (a\<lparr>app_ID := i\<rparr>) = access_ok host dmn a"
  "access_ok host dmn (a\<lparr>app_CreatedAt := t\<rparr>) = access_ok host dmn a" "access_ok host dmn (a\<lparr>app_UpdatedAt := t\<rparr>) = access_ok host dmn a"
  "access_ok host dmn (a\<lparr>app_CurrentDeployID := c\<rparr>) = access_ok host dmn a" "access_ok host dmn (a\<lparr>app_ImageRef := n\<rparr>) = access_ok host dmn a"
  "access_ok host dmn (a\<lparr>app_LiveContainerName := n\<rparr>) = access_ok host dmn a"
  "access_ok host dmn (a\<lparr>app_GitHubInstallationID := c\<rparr>) = access_ok host dmn a"
  "access_ok host dmn (a\<lparr>app_GitHubRepoID := c\<rparr>) = access_ok host dmn a"
  "access_ok host dmn (a\<lparr>app_RegistryURL := n\<rparr>) = access_ok host dmn a" "access_ok host dmn (a\<lparr>app_Status := st\<rparr>) = access_ok host dmn a"
  by (simp_all add: access_ok_def known_type_def split del: if_split cong: if_cong)

lemma typed_app_free [simp]:
  "typed_app (a\<lparr>app_ID := i\<rparr>) = typed_app a"
  "typed_app (a\<lparr>app_CreatedAt := t\<rparr>) = typed_app a" "typed_app (a\<lparr>app_UpdatedAt := t\<rparr>) = typed_app a"
  "typed_app (a\<lparr>app_CurrentDeployID := c\<rparr>) = typed_app a" "typed_app (a\<lparr>app_ImageRef := n\<rparr>) = typed_app a"
  "typed_app (a\<lparr>app_LiveContainerName := n\<rparr>) = typed_app a" "typed_app (a\<lparr>app_GitHubInstallationID := c\<rparr>) = typed_app a"
  "typed_app (a\<lparr>app_GitHubRepoID := c\<rparr>) = typed_app a" "typed_app (a\<lparr>app_RegistryURL := n\<rparr>) = typed_app a"
  by (simp_all add: typed_app_def typed_fields_def known_type_def)

lemma typed_app_status [simp]:
  "typed_app a \<Longrightarrow> typed_app (a\<lparr>app_Status := AppStatusActive\<rparr>)" "typed_app a \<Longrightarrow> typed_app (a\<lparr>app_Status := AppStatusInactive\<rparr>)"
  by (simp_all add: typed_app_def typed_fields_def known_type_def)

lemma typed_fields_known: "typed_fields a \<Longrightarrow> known_type a"
  by (simp add: typed_fields_def)

lemma typed_app_fields: "typed_app a \<Longrightarrow> typed_fields a"
  by (simp add: typed_app_def)

interpretation access: row_contract "access_ok host dmn" known_type host dmn for host dmn :: string
  by unfold_locales
     (simp_all add: access_ok_access typed_fields_known requested_typed form_typed update_keeps_fields access_ok_known)

interpretation typed: row_contract typed_app typed_fields host dmn for host dmn :: string
  by unfold_locales
     (simp_all add: access_frame requested_typed form_typed update_keeps_fields typed_app_fields)

interpretation whole: app_contract db_inv "\<lambda>_. True" "\<lambda>_. True" host dmn for host dmn :: string
  by unfold_locales (simp_all add: db_inv_same run_call_inv store_invs)

section \<open>Any run of the server\<close>

text \<open>The applications of the table.\<close>

definition stored_apps :: "system \<Rightarrow> app list" where
  "stored_apps y = tbl_rows (db_apps (w_db (sys_world y)))"

lemma db_ok_stored: "db_ok P (w_db (sys_world y)) = list_all P (stored_apps y)"
  by (simp add: db_ok_def stored_apps_def)




section \<open>A sample run\<close>

text \<open>An application as a request with only a name makes it.\<close>

definition sample_row :: app where
  "sample_row =
     zero_app\<lparr>app_ID := 1, app_Name := ''shop'', app_AppType := AppTypeManaged, app_BuildMode := BuildModeTalosBuild,
       app_RuntimeOwner := RuntimeOwnerTalos, app_EdgeProvider := EdgeProviderInternalTraefik, app_Source := ''github'',
       app_Status := AppStatusInactive, app_FallbackPort := 40001, app_AccessURL := ''http://10.0.0.1:40001'',
       app_AccessMode := AccessModePort\<rparr>"

definition sample_system :: system where
  "sample_system =
     \<lparr>sys_world = sample_world\<lparr>w_db := (empty_db 0)\<lparr>db_apps := \<lparr>tbl_seq = 1, tbl_rows = [sample_row]\<rparr>\<rparr>\<rparr>, sys_pending = []\<rparr>"

lemma sample_route:
  "find_route ''GET'' ''/api/auth/status'' (routes out s) = Some (Get Public ''/api/auth/status'' (\<lambda>u q p. answers Plain SetupStatus))"
  by (simp add: find_route_def routes_def auth_routes_def Get_def Post_def)

lemma sample_status: "\<exists>r. SetupStatus (sys_world sample_system) = (r, sys_world sample_system)"
  by (simp add: SetupStatus_def on_db_def sample_system_def sample_world_def empty_db_def SetupRequired_def HasUsers_def
      wrapped_def query_def next_stmt_def)

lemma sample_serve:
  "\<exists>r. serve sample_router calm_outside sample_server (bare_request ''GET'' ''/api/auth/status'') (sys_world sample_system) =
     Some (r, [], sys_world sample_system)"
proof -
  obtain r where "SetupStatus (sys_world sample_system) = (r, sys_world sample_system)" using sample_status ..
  then show ?thesis
    by (simp add: serve_def sample_router_def bare_request_def sample_route answers_def recovered_def Get_def)
qed

text \<open>A request for the status, and five seconds.\<close>

definition sample_later :: system where
  "sample_later =
     sample_system\<lparr>sys_world := (sys_world sample_system)\<lparr>w_db := (w_db (sys_world sample_system))\<lparr>db_now := 5\<rparr>\<rparr>\<rparr>"

lemma sample_run: "reaches sample_router calm_outside sample_server e sample_system sample_later"
proof -
  obtain r where "serve sample_router calm_outside sample_server (bare_request ''GET'' ''/api/auth/status'') (sys_world sample_system) =
      Some (r, [], sys_world sample_system)"
    using sample_serve ..
  moreover have "\<lparr>sys_world = sys_world y, sys_pending = sys_pending y @ []\<rparr> = y" for y :: system by simp
  ultimately have "system_step sample_router calm_outside sample_server e sample_system sample_system"
    using system_step.request by metis
  moreover have "system_step sample_router calm_outside sample_server e sample_system sample_later"
    using system_step.time_passes [of sample_router calm_outside sample_server e sample_system 5]
    by (simp add: sample_later_def sample_system_def sample_world_def empty_db_def)
  ultimately show ?thesis unfolding reaches_def by simp
qed

lemma sample_port: "itoa 40001 = ''40001''"
  by (simp add: itoa_def nat_digits.simps digit_char_def char_of_def bit_0)

lemma sample_system_facts:
  "just_started sample_system" "db_inv (w_db (sys_world sample_system))"
  "list_all (access_ok (sv_host sample_server) (sv_domain sample_server)) (stored_apps sample_system)"
  "list_all typed_app (stored_apps sample_system)"
  by (simp_all add: just_started_def sample_system_def stored_apps_def sample_row_def zero_app_def access_ok_def known_type_def
      sample_server_def public_host_def sample_port typed_app_def typed_fields_def runtimeOwnerForType_def db_inv_def empty_db_def
      users_ok_def apps_ok_def services_ok_def links_ok_def envs_ok_def fk_ok_def unique_on_def ids_ok_def app_ids_def
      deploy_ids_def service_ids_def)




end
