(* ===== verification/Page_Claims.thy ===== *)
theory Page_Claims
  imports App_Claims
begin

text \<open>The pages against the API.\<close>

section \<open>Creating an application\<close>

text \<open>The request to the API that asks for what a form asks for.\<close>

definition form_request :: "form \<Rightarrow> create_app_request" where
  "form_request f =
     \<lparr>cr_Name = f ''name'', cr_AppType = app_type_of (f ''app_type''), cr_BuildMode = build_mode_of (f ''build_mode''),
      cr_ProjectType = f ''project_type'', cr_RepoURL = f ''repo_url'', cr_Branch = f ''branch'',
      cr_InternalPort = form_port f (normalizeAppType (app_type_of (f ''app_type''))), cr_Domain = f ''domain'',
      cr_ImageRef = f ''image_ref'', cr_ContainerName = f ''container_name'', cr_ExternalTarget = f ''external_target'',
      cr_DockerNetwork = f ''docker_network''\<rparr>"

text \<open>A form that gives a port where one is needed, and no repository of GitHub.\<close>

definition plain_form :: "form \<Rightarrow> bool" where
  "plain_form f \<longleftrightarrow>
     f ''github_installation_id'' = [] \<and> f ''github_repo_id'' = [] \<and>
     (normalizeAppType (app_type_of (f ''app_type'')) = AppTypeExternalService \<or>
      form_port f (normalizeAppType (app_type_of (f ''app_type''))) \<noteq> 0)"

text \<open>The page that goes with an answer of the API: the page of the new application after a look at an
  adopted container, and a message under the status of a form.\<close>

definition same_answer :: "outside \<Rightarrow> page_handler \<Rightarrow> app answer \<times> world \<Rightarrow> web_page \<times> world \<Rightarrow> bool" where
  "same_answer out h api page =
     (case api of
        (Answer code a, w) \<Rightarrow> page = (HxRedirect [] (''/apps/'' @ itoa (app_ID a)), activate_adopted out h a w)
      | (Failed code m, w) \<Rightarrow>
          snd page = w \<and> (case fst page of Flash c colour m' \<Rightarrow> colour = ''red'' \<and> c = (if code = 400 then 422 else code) | _ \<Rightarrow> False))"

lemma default_create_fields:
  "cr_RepoURL (default_create r) = cr_RepoURL r" "cr_ContainerName (default_create r) = cr_ContainerName r"
  "cr_ExternalTarget (default_create r) = cr_ExternalTarget r"
  by (simp_all add: default_create_def Let_def)

lemma form_app_fields:
  "app_AppType (form_app h f) = normalizeAppType (app_type_of (f ''app_type''))" "app_RepoURL (form_app h f) = trim_space (f ''repo_url'')"
  "app_ContainerName (form_app h f) = trim_space (f ''container_name'')"
  "app_ExternalTarget (form_app h f) = trim_space (f ''external_target'')"
  by (simp_all add: form_app_def Let_def)

lemma validate_form: "validateCreateRequest (request_of_app (form_app h f)) = validateCreateRequest (default_create (form_request f))"
  by (simp only: validateCreateRequest_def default_create_fields default_create_type request_of_app_def form_app_fields form_request_def
      create_app_request.simps trim_space_idem)

lemma default_form:
  assumes "plain_form f"
  shows "default_create (form_request f) =
    (form_request f)\<lparr>cr_AppType := normalizeAppType (app_type_of (f ''app_type'')),
       cr_Branch := (if f ''branch'' = [] then ''main'' else f ''branch'')\<rparr>"
proof -
  have "normalizeAppType (cr_AppType (form_request f)) = AppTypeExternalService \<or> cr_InternalPort (form_request f) \<noteq> 0"
    using assms by (simp only: plain_form_def form_request_def create_app_request.simps)
  moreover have "cr_AppType (form_request f) = app_type_of (f ''app_type'')" "cr_Branch (form_request f) = f ''branch''"
    by (simp_all add: form_request_def)
  ultimately show ?thesis by (cases "form_request f") (auto simp: default_create_def)
qed

lemma form_app_requested:
  assumes "plain_form f" and "ah_proxyMode ah = ph_proxyMode ph"
  shows "requested_app ah (default_create (form_request f)) = form_app ph f"
  unfolding requested_app_def form_app_def Let_def default_form [OF assms(1)]
  unfolding form_request_def by (simp only: create_app_request.simps create_app_request.update_convs assms(2))

lemma form_github_plain: "plain_form f \<Longrightarrow> form_github f a = a"
  by (simp add: plain_form_def form_github_def parse_int64_def)

lemma same_answer_simps:
  "same_answer out h (Answer code a, w) p \<longleftrightarrow> p = (HxRedirect [] (''/apps/'' @ itoa (app_ID a)), activate_adopted out h a w)"
  "same_answer out h (Failed code m, w) (red_flash c m', w') \<longleftrightarrow> w' = w \<and> c = (if code = 400 then 422 else code)"
  by (auto simp: same_answer_def red_flash_def)


text \<open>An external service, by form and by request.\<close>

definition sample_form :: form where
  "sample_form k =
     (if k = ''name'' then ''wiki'' else if k = ''app_type'' then ''external_service''
      else if k = ''external_target'' then ''http://10.0.0.9'' else [])"

definition sample_body :: string where
  "sample_body = json_print (JObj [(''name'', JStr ''wiki''), (''app_type'', JStr ''external_service''),
     (''external_target'', JStr ''http://10.0.0.9'')])"

lemma sample_decoded: "decode_create sample_body = Some (form_request sample_form)"
proof -
  have "body_members sample_body = Some [(''name'', JStr ''wiki''), (''app_type'', JStr ''external_service''),
      (''external_target'', JStr ''http://10.0.0.9'')]"
    using Decode_print [of "JObj [(''name'', JStr ''wiki''), (''app_type'', JStr ''external_service''),
        (''external_target'', JStr ''http://10.0.0.9'')]" "[]"]
    by (simp add: sample_body_def body_members_def json_object_def ends_number_def del: json_print.simps)
  moreover have "form_port sample_form AppTypeExternalService = 0"
    by (simp add: form_port_def sample_form_def parse_int64_def)
  ultimately show ?thesis
    by (simp add: decode_create_def form_request_def sample_form_def string_field_def int_field_def field_values_def equal_fold_def
        to_upper_def to_upper_char_def app_type_of_def)
qed


end
