(* ===== verification/Repos_Claims.thy ===== *)
theory Repos_Claims
  imports Server
begin

text \<open>The list of all repositories ends and is what the page can show.\<close>

section \<open>Paging\<close>

text \<open>The documented paging of the API: the number of the next page grows, up to a last page.\<close>

definition pages_grow :: "nat \<Rightarrow> (history \<Rightarrow> nat \<Rightarrow> go_error + 'a list \<times> nat) \<Rightarrow> bool" where
  "pages_grow final answer \<longleftrightarrow> (\<forall>h p xs next. answer h p = Inr (xs, next) \<longrightarrow> next = 0 \<or> p < next \<and> next \<le> final)"

lemma all_pages_ends:
  assumes "pages_grow final answer" and "page \<le> final"
  shows "\<exists>r w1. all_pages call answer what page xs w = Some (r, w1)"
  using assms(2)
proof (induction "final - page" arbitrary: page xs w rule: less_induct)
  case less
  obtain r w1 where r: "perform (GitHubCall (call page)) (\<lambda>h. answer h page) w = (r, w1)" by fastforce
  show ?case
  proof (cases r)
    case (Inl e)
    then show ?thesis using r by (simp add: all_pages.simps)
  next
    case (Inr y)
    obtain found nxt where y: "y = (found, nxt)" by fastforce
    show ?thesis
    proof (cases "nxt = 0")
      case True
      then show ?thesis using r Inr y by (simp add: all_pages.simps)
    next
      case False
      have "answer (w_history w) page = Inr (found, nxt)" using r Inr y by (simp add: perform_def Let_def)
      then have n: "page < nxt" "nxt \<le> final" using assms(1) False by (auto simp: pages_grow_def)
      have "final - nxt < final - page" using n less.prems by linarith
      then show ?thesis using less.hyps [of nxt "xs @ found" w1] n r Inr y False by (simp add: all_pages.simps)
    qed
  qed
qed

definition paged :: "nat \<Rightarrow> outside \<Rightarrow> bool" where
  "paged final out \<longleftrightarrow> pages_grow final (o_installations out) \<and> (\<forall>i. pages_grow final (\<lambda>h. o_repos out h i))"

lemma lists_end:
  assumes "paged final out"
  shows "\<exists>r w1. ListInstallations out c w = Some (r, w1)" and "\<exists>r w1. ListInstallationRepos out c i w = Some (r, w1)"
  using assms all_pages_ends [of final "o_installations out" 0] all_pages_ends [of final "\<lambda>h. o_repos out h i" 0]
  by (auto simp: paged_def ListInstallations_def ListInstallationRepos_def split: sum.split prod.split)

section \<open>No repository twice, and not too many\<close>

definition listing_ok :: "repo_info list \<Rightarrow> int list \<Rightarrow> bool" where
  "listing_ok repos seen \<longleftrightarrow> distinct (map ri_ID repos) \<and> ri_ID ` set repos \<subseteq> set seen \<and> length repos \<le> maxRepos"

lemma add_repos_ok:
  "add_repos inst rs repos seen = (repos1, seen1, capped) \<Longrightarrow> listing_ok repos seen \<Longrightarrow> length repos < maxRepos \<Longrightarrow>
     listing_ok repos1 seen1 \<and> (\<not> capped \<longrightarrow> length repos1 < maxRepos)"
proof (induction rs arbitrary: repos seen)
  case (Cons r rs)
  show ?case
  proof (cases "rp_ID r \<in> set seen")
    case True
    then show ?thesis using Cons.IH [of repos seen] Cons.prems by simp
  next
    case False
    let ?repos = "repos @ [repo_info_of inst r]"
    have ok: "listing_ok ?repos (rp_ID r # seen)"
      using Cons.prems(2,3) False by (auto simp: listing_ok_def repo_info_of_def)
    show ?thesis
    proof (cases "length ?repos \<ge> maxRepos")
      case True
      then show ?thesis using Cons.prems(1) False ok by (simp add: Let_def)
    next
      case small: False
      then show ?thesis using Cons.IH [of ?repos "rp_ID r # seen"] Cons.prems(1) False ok by (simp add: Let_def)
    qed
  qed
qed simp

lemma add_installations_ok:
  assumes "paged final out" and "listing_ok repos seen" and "length repos < maxRepos"
  shows "\<exists>rs w1. add_installations out c insts repos seen w = Some (rs, w1) \<and> distinct (map ri_ID rs) \<and> length rs \<le> maxRepos"
  using assms(2,3)
proof (induction insts arbitrary: repos seen w)
  case Nil
  then show ?case by (simp add: listing_ok_def)
next
  case (Cons inst insts)
  obtain r w1 where r: "ListInstallationRepos out c (in_ID inst) w = Some (r, w1)" using lists_end(2) [OF assms(1)] by blast
  show ?case
  proof (cases r)
    case (Inl e)
    then show ?thesis using r Cons by simp
  next
    case (Inr rs)
    obtain repos1 seen1 capped where a: "add_repos (in_ID inst) rs repos seen = (repos1, seen1, capped)" by (metis prod_cases3)
    note ok = add_repos_ok [OF a Cons.prems]
    show ?thesis using r Inr a ok Cons.IH by (cases capped) (auto simp: listing_ok_def)
  qed
qed

text \<open>C34.  When the pages of GitHub's lists go forward up to a last one, \<open>listAllRepos\<close> ends, whatever
  fails on the way, and what it returns names no repository twice and at most 500.\<close>

theorem listAllRepos_ends:
  assumes "paged final out"
  shows "\<exists>r w1. listAllRepos out client w = Some (r, w1) \<and>
    (case r of Inl _ \<Rightarrow> True | Inr rs \<Rightarrow> distinct (map ri_ID rs) \<and> length rs \<le> 500)"
proof (cases client)
  case None
  then show ?thesis by (simp add: listAllRepos_def)
next
  case (Some c)
  obtain r w1 where r: "ListInstallations out c w = Some (r, w1)" using lists_end(1) [OF assms] by blast
  show ?thesis
  proof (cases r)
    case (Inl e)
    then show ?thesis using Some r by (simp add: listAllRepos_def)
  next
    case (Inr insts)
    obtain rs w2 where rs: "add_installations out c insts [] [] w1 = Some (rs, w2)" "distinct (map ri_ID rs)" "length rs \<le> maxRepos"
      using add_installations_ok [OF assms, of "[]" "[]" c insts w1] by (auto simp: listing_ok_def maxRepos_def)
    then show ?thesis using Some r Inr by (simp add: listAllRepos_def maxRepos_def)
  qed
qed

text \<open>An outside with one installation whose repositories come on two pages.\<close>

definition sample_repos :: outside where
  "sample_repos =
     calm_outside\<lparr>o_installations := \<lambda>h p. Inr ([\<lparr>in_ID = 5, in_Account = None\<rparr>], 0),
       o_repos := \<lambda>h i p. if p < 2 then Inr ([], 2) else Inr ([], 0)\<rparr>"

theorem listAllRepos_ends_witness:
  "\<exists>r w1. listAllRepos sample_repos (w_gh sample_world) sample_world = Some (r, w1)"
proof -
  have "paged 2 sample_repos" by (simp add: paged_def pages_grow_def sample_repos_def)
  from listAllRepos_ends [OF this] show ?thesis by blast
qed

end
