(* ===== verification/Migrations.thy ===== *)
theory Migrations
  imports Go_Prelude
begin

text \<open>
  \<open>internal/store/migrations.go\<close>: the schema of the database as it grows by the migrations, and
  the runner that applies those that are not recorded yet.  A statement that fails, for whatever reason
  (\<open>mg_oracle\<close> says when), changes nothing; the process may then be started again.
\<close>

section \<open>Statements\<close>

datatype fk_action = NoAction | Cascade | SetNull
datatype col_type = TInteger | TText | TDatetime

datatype col_option =
    PrimaryAuto | NotNull | UniqueColumn | DefaultText string | DefaultInt int | DefaultNow | References string fk_action

type_synonym column = "string \<times> col_type \<times> col_option list"

datatype table_constraint = PrimaryOver "string list" | UniqueOver "string list"
datatype index_filter = AllRows | NotEmpty string | Positive string

text \<open>Tables and indexes are created only when they do not exist; a column is added only once.\<close>

datatype ddl =
    CreateTable string "column list" "table_constraint list"
  | CreateIndex bool string string "string list" index_filter
  | AddColumn string column

record table_def =
  td_Name :: string
  td_Columns :: "column list"
  td_Constraints :: "table_constraint list"

record index_def =
  ix_Unique :: bool
  ix_Name :: string
  ix_Table :: string
  ix_Columns :: "string list"
  ix_Filter :: index_filter

record migration_db =
  mg_oracle :: "string option list"
  mg_tables :: "table_def list"
  mg_indexes :: "index_def list"
  mg_versions :: "int list option"

definition find_table :: "string \<Rightarrow> table_def list \<Rightarrow> table_def option" where
  "find_table n ts = List.find (\<lambda>t. td_Name t = n) ts"

definition has_column :: "string \<Rightarrow> table_def \<Rightarrow> bool" where
  "has_column c t \<longleftrightarrow> c \<in> set (map fst (td_Columns t))"

definition has_default :: "col_option list \<Rightarrow> bool" where
  "has_default ops \<longleftrightarrow> list_ex (\<lambda>p. case p of DefaultText _ \<Rightarrow> True | DefaultInt _ \<Rightarrow> True | _ \<Rightarrow> False) ops"

fun run_ddl :: "ddl \<Rightarrow> migration_db \<Rightarrow> go_error + migration_db" where
  "run_ddl (CreateTable n cols cons) d =
     (case find_table n (mg_tables d) of
        Some _ \<Rightarrow> Inr d
      | None \<Rightarrow> Inr (d\<lparr>mg_tables := mg_tables d @ [\<lparr>td_Name = n, td_Columns = cols, td_Constraints = cons\<rparr>]\<rparr>))"
| "run_ddl (CreateIndex uniq n table cols f) d =
     (if list_ex (\<lambda>i. ix_Name i = n) (mg_indexes d) then Inr d
      else
        (case find_table table (mg_tables d) of
           None \<Rightarrow> Inl (ErrText (''no such table: '' @ table))
         | Some t \<Rightarrow>
             (case List.find (\<lambda>c. \<not> has_column c t) cols of
                Some c \<Rightarrow> Inl (ErrText (''table '' @ table @ '' has no column named '' @ c))
              | None \<Rightarrow>
                  Inr (d\<lparr>mg_indexes := mg_indexes d @
                         [\<lparr>ix_Unique = uniq, ix_Name = n, ix_Table = table, ix_Columns = cols, ix_Filter = f\<rparr>]\<rparr>))))"
| "run_ddl (AddColumn table (c, ty, ops)) d =
     (case find_table table (mg_tables d) of
        None \<Rightarrow> Inl (ErrText (''no such table: '' @ table))
      | Some t \<Rightarrow>
          if has_column c t then Inl (ErrText (''duplicate column name: '' @ c))
          else if NotNull \<in> set ops \<and> \<not> has_default ops then
            Inl (ErrText ''Cannot add a NOT NULL column with default value NULL'')
          else
            Inr (d\<lparr>mg_tables := map (\<lambda>u. if td_Name u = table then u\<lparr>td_Columns := td_Columns u @ [(c, ty, ops)]\<rparr> else u) (mg_tables d)\<rparr>))"

section \<open>The migrations\<close>

definition allMigrations :: "ddl list" where
  "allMigrations =
     [CreateTable ''users''
       [(''id'', TInteger, [PrimaryAuto]),
        (''username'', TText, [NotNull, UniqueColumn]),
        (''password_hash'', TText, [NotNull]),
        (''created_at'', TDatetime, [NotNull, DefaultNow]),
        (''updated_at'', TDatetime, [NotNull, DefaultNow])]
       [],
      CreateTable ''apps''
       [(''id'', TInteger, [PrimaryAuto]),
        (''name'', TText, [NotNull, UniqueColumn]),
        (''source'', TText, [NotNull, DefaultText ''github'']),
        (''repo_url'', TText, [NotNull]),
        (''branch'', TText, [NotNull, DefaultText ''main'']),
        (''internal_port'', TInteger, [NotNull, DefaultInt 3000]),
        (''image_ref'', TText, [NotNull, DefaultText []]),
        (''domain'', TText, [DefaultText []]),
        (''fallback_port'', TInteger, [DefaultInt 0]),
        (''access_mode'', TText, [NotNull, DefaultText ''port'']),
        (''access_url'', TText, [NotNull, DefaultText []]),
        (''status'', TText, [NotNull, DefaultText ''inactive'']),
        (''current_deploy_id'', TInteger, [References ''deploys'' NoAction]),
        (''created_at'', TDatetime, [NotNull, DefaultNow]),
        (''updated_at'', TDatetime, [NotNull, DefaultNow])]
       [],
      CreateIndex True ''idx_apps_domain'' ''apps'' [''domain''] (NotEmpty ''domain''),
      CreateIndex True ''idx_apps_fallback_port'' ''apps'' [''fallback_port''] (Positive ''fallback_port''),
      CreateTable ''deploys''
       [(''id'', TInteger, [PrimaryAuto]),
        (''app_id'', TInteger, [NotNull, References ''apps'' Cascade]),
        (''image_ref'', TText, [NotNull]),
        (''commit_sha'', TText, [DefaultText []]),
        (''branch'', TText, [NotNull]),
        (''status'', TText, [NotNull, DefaultText ''pending'']),
        (''container_id'', TText, [DefaultText []]),
        (''health_status'', TText, [DefaultText []]),
        (''logs'', TText, [DefaultText []]),
        (''started_at'', TDatetime, []),
        (''completed_at'', TDatetime, []),
        (''triggered_by'', TText, [NotNull, DefaultText ''webhook'']),
        (''rollback_of_id'', TInteger, [References ''deploys'' NoAction]),
        (''created_at'', TDatetime, [NotNull, DefaultNow])]
       [],
      CreateIndex False ''idx_deploys_app_id'' ''deploys'' [''app_id''] AllRows,
      CreateTable ''services''
       [(''id'', TInteger, [PrimaryAuto]),
        (''name'', TText, [NotNull, UniqueColumn]),
        (''type'', TText, [NotNull]),
        (''image_ref'', TText, [NotNull]),
        (''status'', TText, [NotNull, DefaultText ''pending'']),
        (''container_id'', TText, [DefaultText []]),
        (''app_id'', TInteger, [References ''apps'' SetNull]),
        (''volume_path'', TText, [NotNull, DefaultText []]),
        (''credentials'', TText, [NotNull, DefaultText []]),
        (''config'', TText, [NotNull, DefaultText ''{}'']),
        (''internal_port'', TInteger, [NotNull, DefaultInt 0]),
        (''created_at'', TDatetime, [NotNull, DefaultNow]),
        (''updated_at'', TDatetime, [NotNull, DefaultNow])]
       [],
      CreateTable ''app_services''
       [(''app_id'', TInteger, [NotNull, References ''apps'' Cascade]),
        (''service_id'', TInteger, [NotNull, References ''services'' Cascade]),
        (''alias'', TText, [NotNull, DefaultText []])]
       [PrimaryOver [''app_id'', ''service_id'']],
      CreateTable ''app_env_vars''
       [(''id'', TInteger, [PrimaryAuto]),
        (''app_id'', TInteger, [NotNull, References ''apps'' Cascade]),
        (''key'', TText, [NotNull]),
        (''value'', TText, [NotNull, DefaultText []]),
        (''is_secret'', TInteger, [NotNull, DefaultInt 0])]
       [UniqueOver [''app_id'', ''key'']],
      AddColumn ''apps'' (''github_installation_id'', TInteger, []),
      AddColumn ''apps'' (''github_repo_id'', TInteger, []),
      AddColumn ''apps'' (''registry_url'', TText, [NotNull, DefaultText []]),
      CreateTable ''deploy_events''
       [(''id'', TInteger, [PrimaryAuto]),
        (''deploy_id'', TInteger, [NotNull, References ''deploys'' Cascade]),
        (''timestamp'', TDatetime, [NotNull, DefaultNow]),
        (''level'', TText, [NotNull, DefaultText ''info'']),
        (''step'', TText, [NotNull, DefaultText []]),
        (''message'', TText, [NotNull, DefaultText []])]
       [],
      CreateIndex False ''idx_deploy_events_deploy_id'' ''deploy_events'' [''deploy_id''] AllRows,
      AddColumn ''apps'' (''live_container_name'', TText, [NotNull, DefaultText []]),
      CreateTable ''app_env_var_history''
       [(''id'', TInteger, [PrimaryAuto]),
        (''app_id'', TInteger, [NotNull, References ''apps'' Cascade]),
        (''key'', TText, [NotNull]),
        (''value'', TText, [NotNull, DefaultText []]),
        (''is_secret'', TInteger, [NotNull, DefaultInt 0]),
        (''changed_at'', TDatetime, [NotNull, DefaultNow]),
        (''changed_by'', TText, [NotNull, DefaultText ''system''])]
       [],
      CreateIndex False ''idx_env_var_history_app_key'' ''app_env_var_history'' [''app_id'', ''key''] AllRows,
      AddColumn ''app_env_vars'' (''required'', TInteger, [NotNull, DefaultInt 0]),
      AddColumn ''deploys'' (''env_snapshot'', TText, [NotNull, DefaultText []]),
      CreateTable ''backups''
       [(''id'', TInteger, [PrimaryAuto]),
        (''filename'', TText, [NotNull]),
        (''size_bytes'', TInteger, [NotNull, DefaultInt 0]),
        (''type'', TText, [NotNull, DefaultText ''full'']),
        (''status'', TText, [NotNull, DefaultText ''completed'']),
        (''created_at'', TDatetime, [NotNull, DefaultNow])]
       [],
      AddColumn ''apps'' (''app_type'', TText, [NotNull, DefaultText ''managed'']),
      AddColumn ''apps'' (''runtime_owner'', TText, [NotNull, DefaultText ''talos'']),
      AddColumn ''apps'' (''edge_provider'', TText, [NotNull, DefaultText ''internal_traefik'']),
      AddColumn ''apps'' (''container_name'', TText, [NotNull, DefaultText []]),
      AddColumn ''apps'' (''external_target'', TText, [NotNull, DefaultText []]),
      AddColumn ''apps'' (''docker_network'', TText, [NotNull, DefaultText []]),
      AddColumn ''apps'' (''build_mode'', TText, [NotNull, DefaultText ''external_ci'']),
      AddColumn ''apps'' (''project_type'', TText, [NotNull, DefaultText []])]"

text \<open>The entry of the Go map under a version.\<close>

definition migration :: "int \<Rightarrow> ddl option" where
  "migration v = (if 1 \<le> v \<and> v \<le> int (length allMigrations) then Some (allMigrations ! nat (v - 1)) else None)"

section \<open>The runner\<close>

text \<open>One statement: the driver may fail first.\<close>

definition statement :: "(migration_db \<Rightarrow> go_error + migration_db) \<Rightarrow> migration_db \<Rightarrow> (go_error + unit) \<times> migration_db" where
  "statement f d0 =
     (let (failure, d) = (case mg_oracle d0 of [] \<Rightarrow> (None, d0) | x # xs \<Rightarrow> (x, d0\<lparr>mg_oracle := xs\<rparr>)) in
      (case failure of
         Some m \<Rightarrow> (Inl (ErrText m), d)
       | None \<Rightarrow> (case f d of Inl e \<Rightarrow> (Inl e, d) | Inr d1 \<Rightarrow> (Inr (), d1))))"

definition create_tracking :: "migration_db \<Rightarrow> go_error + migration_db" where
  "create_tracking d = Inr (case mg_versions d of None \<Rightarrow> d\<lparr>mg_versions := Some []\<rparr> | Some _ \<Rightarrow> d)"

definition versions :: "migration_db \<Rightarrow> int list" where
  "versions d = (case mg_versions d of None \<Rightarrow> [] | Some vs \<Rightarrow> vs)"

definition highest :: "int list \<Rightarrow> int" where
  "highest vs = fold max vs 0"

definition record_version :: "int \<Rightarrow> migration_db \<Rightarrow> go_error + migration_db" where
  "record_version v d =
     (if v \<in> set (versions d) then Inl (ErrSql (UniqueViolation ''schema_migrations.version''))
      else Inr (d\<lparr>mg_versions := Some (versions d @ [v])\<rparr>))"

text \<open>\<open>INSERT OR IGNORE\<close>.\<close>

definition seed_version :: "int \<Rightarrow> migration_db \<Rightarrow> go_error + migration_db" where
  "seed_version v d = Inr (if v \<in> set (versions d) then d else d\<lparr>mg_versions := Some (versions d @ [v])\<rparr>)"

text \<open>The loop over the map runs in an order of its own.\<close>

fun seed_all :: "int list \<Rightarrow> migration_db \<Rightarrow> (go_error + unit) \<times> migration_db" where
  "seed_all [] d = (Inr (), d)"
| "seed_all (v # vs) d =
     (case statement (seed_version v) d of
        (Inl e, d1) \<Rightarrow> (Inl (Wrap (''seed version '' @ itoa v) e), d1)
      | (Inr _, d1) \<Rightarrow> seed_all vs d1)"

fun apply_pending :: "int \<Rightarrow> int list \<Rightarrow> migration_db \<Rightarrow> (go_error + unit) \<times> migration_db" where
  "apply_pending maxApplied [] d = (Inr (), d)"
| "apply_pending maxApplied (v # vs) d =
     (if v \<le> maxApplied then apply_pending maxApplied vs d
      else
        (case migration v of
           None \<Rightarrow> (Inl (ErrText (''migration '' @ itoa v @ '': missing statement'')), d)
         | Some s \<Rightarrow>
             (case statement (run_ddl s) d of
                (Inl e, d1) \<Rightarrow> (Inl (Wrap (''migration '' @ itoa v) e), d1)
              | (Inr _, d1) \<Rightarrow>
                  (case statement (record_version v) d1 of
                     (Inl e, d2) \<Rightarrow> (Inl (Wrap (''record migration '' @ itoa v) e), d2)
                   | (Inr _, d2) \<Rightarrow> apply_pending maxApplied vs d2))))"

definition all_versions :: "int list" where
  "all_versions = [1..int (length allMigrations)]"

definition migrate :: "int list \<Rightarrow> migration_db \<Rightarrow> (go_error + unit) \<times> migration_db" where
  "migrate order d =
     (case statement create_tracking d of
        (Inl e, d1) \<Rightarrow> (Inl (Wrap ''create schema_migrations'' e), d1)
      | (Inr _, d1) \<Rightarrow>
          (case statement Inr d1 of
             (Inl e, d2) \<Rightarrow> (Inl (Wrap ''read schema_migrations'' e), d2)
           | (Inr _, d2) \<Rightarrow>
               (let maxApplied = highest (versions d2) in
                if maxApplied = 0 then
                  (case statement Inr d2 of
                     (Inl e, d3) \<Rightarrow> (Inl (Wrap ''check existing tables'' e), d3)
                   | (Inr _, d3) \<Rightarrow>
                       if find_table ''users'' (mg_tables d3) \<noteq> None then
                         (case seed_all order d3 of
                            (Inl e, d4) \<Rightarrow> (Inl e, d4)
                          | (Inr _, d4) \<Rightarrow> apply_pending (int (length allMigrations)) all_versions d4)
                       else apply_pending 0 all_versions d3)
                else apply_pending maxApplied all_versions d2)))"

end
