(* ===== verification/Migrations_Claims.thy ===== *)
theory Migrations_Claims
  imports Migrations
begin

text \<open>
  What a start of the server makes of the schema, when statements fail and the process is started again:
  the states between two runs are those after \<open>k\<close> migrations, all of them recorded, and those where
  the last one is not recorded.
\<close>

section \<open>The schema after some migrations\<close>

definition no_schema :: migration_db where
  "no_schema = \<lparr>mg_oracle = [], mg_tables = [], mg_indexes = [], mg_versions = None\<rparr>"

definition applied :: "ddl \<Rightarrow> migration_db \<Rightarrow> migration_db" where
  "applied s d = (case run_ddl s d of Inl e \<Rightarrow> d | Inr d1 \<Rightarrow> d1)"

definition schema_after :: "nat \<Rightarrow> migration_db" where
  "schema_after k = fold applied (take k allMigrations) no_schema"

abbreviation final :: nat where
  "final \<equiv> length allMigrations"

fun all_run :: "ddl list \<Rightarrow> migration_db \<Rightarrow> bool" where
  "all_run [] d = True"
| "all_run (s # ss) d = (case run_ddl s d of Inl e \<Rightarrow> False | Inr d1 \<Rightarrow> all_run ss d1)"

lemma all_migrations_run: "all_run allMigrations no_schema"
  by (simp add: allMigrations_def no_schema_def find_table_def has_column_def has_default_def)

lemma all_run_nth:
  "all_run ss d \<Longrightarrow> k < length ss \<Longrightarrow>
     run_ddl (ss ! k) (fold applied (take k ss) d) = Inr (fold applied (take (Suc k) ss) d)"
proof (induction ss arbitrary: d k)
  case (Cons s ss)
  then obtain d1 where d1: "run_ddl s d = Inr d1" "all_run ss d1" by (auto split: sum.splits)
  then have "applied s d = d1" by (simp add: applied_def)
  then show ?case using d1 Cons.IH [of d1 "k - 1"] Cons.prems(2) by (cases k) simp_all
qed simp

lemma next_schema: "k < final \<Longrightarrow> run_ddl (allMigrations ! k) (schema_after k) = Inr (schema_after (Suc k))"
  unfolding schema_after_def by (rule all_run_nth [OF all_migrations_run])

text \<open>A statement looks only at tables and indexes.\<close>

definition same_schema :: "migration_db \<Rightarrow> migration_db \<Rightarrow> bool" where
  "same_schema d e \<longleftrightarrow> mg_tables d = mg_tables e \<and> mg_indexes d = mg_indexes e"

lemma run_ddl_same:
  assumes "same_schema d e" and "run_ddl s e = Inr e1"
  shows "\<exists>d1. run_ddl s d = Inr d1 \<and> same_schema d1 e1 \<and> mg_oracle d1 = mg_oracle d \<and> mg_versions d1 = mg_versions d"
  using assms by (cases s) (auto simp: same_schema_def split: option.splits if_splits)

lemma run_ddl_same_error: "same_schema d e \<Longrightarrow> run_ddl s e = Inl x \<Longrightarrow> run_ddl s d = Inl x"
  by (cases s) (auto simp: same_schema_def split: option.splits if_splits)

section \<open>The states between two runs\<close>

definition stands :: "nat \<Rightarrow> nat \<Rightarrow> migration_db \<Rightarrow> bool" where
  "stands k j d \<longleftrightarrow> same_schema d (schema_after k) \<and> versions d = [1..int j]"

text \<open>A statement fails, with the state as it was but for the oracle, or runs.\<close>

definition like :: "migration_db \<Rightarrow> migration_db \<Rightarrow> bool" where
  "like d e \<longleftrightarrow> same_schema d e \<and> mg_versions d = mg_versions e"

lemma like_stands: "like d e \<Longrightarrow> stands k j d = stands k j e"
  by (simp add: like_def stands_def same_schema_def versions_def)

lemma statement_cases:
  assumes "statement f d = (r, d1)"
  shows "(\<exists>e. r = Inl e \<and> like d1 d \<and> (mg_oracle d = [] \<longrightarrow> f d = Inl e)) \<or>
    (\<exists>d0. like d0 d \<and> (mg_oracle d = [] \<longrightarrow> d0 = d) \<and> r = Inr () \<and> f d0 = Inr d1)"
proof -
  obtain x d0 where x: "(case mg_oracle d of [] \<Rightarrow> (None, d) | x # xs \<Rightarrow> (x, d\<lparr>mg_oracle := xs\<rparr>)) = (x, d0)" by fastforce
  then have d0: "like d0 d" "mg_oracle d = [] \<longrightarrow> d0 = d \<and> x = None" by (auto simp: like_def same_schema_def split: list.splits)
  then show ?thesis using assms x by (auto simp: statement_def split: option.splits sum.splits)
qed

lemma versions_Suc: "[1..int (Suc k)] = [1..int k] @ [int k + 1]"
  using upto_rec2 [of 1 "int (Suc k)"] by (simp add: add.commute)

section \<open>The loop over the pending migrations\<close>

text \<open>One round of the loop.\<close>

lemma apply_round:
  assumes "stands k k d" and "k < final"
    and "apply_pending (int m) (int (Suc k) # vs) d = (r, d1)" and "m \<le> k"
  shows "(\<exists>e. r = Inl e \<and> (stands k k d1 \<or> stands (Suc k) k d1) \<and> mg_oracle d \<noteq> []) \<or>
    (\<exists>d2. stands (Suc k) (Suc k) d2 \<and> (mg_oracle d = [] \<longrightarrow> mg_oracle d2 = []) \<and> apply_pending (int m) vs d2 = (r, d1))"
proof -
  have mig: "migration (int (Suc k)) = Some (allMigrations ! k)" using assms(2) by (simp add: migration_def)
  obtain x d2 where x: "statement (run_ddl (allMigrations ! k)) d = (x, d2)" by fastforce
  have same: "same_schema d (schema_after k)" using assms(1) by (simp add: stands_def)
  consider (failed) e where "x = Inl e" "like d2 d" "mg_oracle d = [] \<longrightarrow> run_ddl (allMigrations ! k) d = Inl e"
    | (ran) d0 where "like d0 d" "mg_oracle d = [] \<longrightarrow> d0 = d" "x = Inr ()" "run_ddl (allMigrations ! k) d0 = Inr d2"
    using statement_cases [OF x] by blast
  then show ?thesis
  proof cases
    case failed
    moreover have "mg_oracle d \<noteq> []" using failed(3) run_ddl_same [OF same next_schema [OF assms(2)]] by auto
    ultimately show ?thesis using assms x mig by (auto simp: like_stands)
  next
    case ran
    have "same_schema d0 (schema_after k)" using ran(1) assms(1) by (simp add: like_def stands_def same_schema_def)
    from run_ddl_same [OF this next_schema [OF assms(2)]] ran(4)
    have d2: "same_schema d2 (schema_after (Suc k))" "mg_oracle d2 = mg_oracle d0" "mg_versions d2 = mg_versions d0" by auto
    then have s2: "stands (Suc k) k d2" using ran(1) assms(1) by (simp add: stands_def like_def versions_def)
    obtain y d3 where y: "statement (record_version (int (Suc k))) d2 = (y, d3)" by fastforce
    consider (lost) e where "y = Inl e" "like d3 d2" "mg_oracle d2 = [] \<longrightarrow> record_version (int (Suc k)) d2 = Inl e"
      | (kept) d0' where "like d0' d2" "mg_oracle d2 = [] \<longrightarrow> d0' = d2" "y = Inr ()" "record_version (int (Suc k)) d0' = Inr d3"
      using statement_cases [OF y] by blast
    then show ?thesis
    proof cases
      case lost
      moreover have "mg_oracle d \<noteq> []"
      proof
        assume "mg_oracle d = []"
        then have "record_version (int (Suc k)) d2 = Inl e" using lost(3) d2(2) ran(2) by simp
        then show False using s2 by (simp add: record_version_def stands_def split: if_splits)
      qed
      ultimately show ?thesis using assms x ran y mig s2 by (auto simp: like_stands)
    next
      case kept
      have "stands (Suc k) k d0'" using kept(1) s2 like_stands by blast
      then have "stands (Suc k) (Suc k) d3" "mg_oracle d3 = mg_oracle d0'"
        using kept(4) versions_Suc [of k] by (auto simp: record_version_def stands_def versions_def same_schema_def split: if_splits)
      moreover have "apply_pending (int m) vs d3 = (r, d1)" using assms(3,4) x ran y kept mig by simp
      ultimately show ?thesis using d2(2) ran(2) kept(2) by auto
    qed
  qed
qed

lemma upto_from: "k < n \<Longrightarrow> [int (Suc k)..int n] = int (Suc k) # [int (Suc (Suc k))..int n]"
  using upto_rec1 [of "int (Suc k)" "int n"] by (simp add: add.commute)

text \<open>What a run can leave: after \<open>k\<close> migrations, all recorded, or with one more that is not.\<close>

definition clean :: "nat \<Rightarrow> migration_db \<Rightarrow> bool" where
  "clean k d \<longleftrightarrow> k \<le> final \<and> stands k k d"

definition torn :: "nat \<Rightarrow> migration_db \<Rightarrow> bool" where
  "torn k d \<longleftrightarrow> k < final \<and> stands (Suc k) k d"

definition run_result :: "nat \<Rightarrow> go_error + unit \<Rightarrow> migration_db \<Rightarrow> bool" where
  "run_result k r d = (case r of Inr _ \<Rightarrow> clean final d | Inl _ \<Rightarrow> \<exists>j\<ge>k. clean j d \<or> torn j d)"

lemma run_result_mono: "run_result (Suc k) r d \<Longrightarrow> run_result k r d"
  by (auto simp: run_result_def split: sum.splits intro: Suc_leD)

lemma apply_pending_cases:
  assumes "stands k k d" and "k \<le> final" and "m \<le> k"
    and "apply_pending (int m) [int (Suc k)..int final] d = (r, d1)"
  shows "run_result k r d1 \<and> (mg_oracle d = [] \<longrightarrow> r = Inr ())"
  using assms
proof (induction "final - k" arbitrary: k d)
  case 0
  then show ?case by (auto simp: run_result_def clean_def)
next
  case (Suc n)
  then have k: "k < final" by linarith
  from apply_round [OF Suc.prems(1) k Suc.prems(4) [unfolded upto_from [OF k]] Suc.prems(3)]
  consider (stops) e where "r = Inl e" "clean k d1 \<or> torn k d1" "mg_oracle d \<noteq> []"
    | (goes) d2 where "stands (Suc k) (Suc k) d2" "mg_oracle d = [] \<longrightarrow> mg_oracle d2 = []"
        "apply_pending (int m) [int (Suc (Suc k))..int final] d2 = (r, d1)"
    using k by (auto simp: clean_def torn_def)
  then show ?case
  proof cases
    case stops
    then show ?thesis by (auto simp: run_result_def)
  next
    case goes
    have "n = final - Suc k" "Suc k \<le> final" "m \<le> Suc k" using Suc.hyps(2) k Suc.prems(3) by linarith+
    from Suc.hyps(1) [OF this(1) goes(1) this(2,3) goes(3)] goes(2) show ?thesis by (auto intro: run_result_mono)
  qed
qed

lemma apply_pending_skip: "\<forall>v\<in>set vs. v \<le> m \<Longrightarrow> apply_pending m (vs @ ws) d = apply_pending m ws d"
  by (induction vs) simp_all

lemma apply_pending_all: "k \<le> final \<Longrightarrow> apply_pending (int k) all_versions d = apply_pending (int k) [int (Suc k)..int final] d"
  using upto_split2 [of 1 "int k" "int final"] apply_pending_skip [of "[1..int k]" "int k" "[int k + 1..int final]" d]
  by (cases k) (simp_all add: all_versions_def add.commute)

lemma highest_upto: "highest [1..int k] = int k"
proof (induction k)
  case 0
  then show ?case by (simp add: highest_def)
next
  case (Suc k)
  then show ?case unfolding versions_Suc by (simp add: highest_def)
qed

section \<open>A run\<close>

text \<open>The two statements every run begins with change nothing that counts.\<close>

lemma migrate_begins:
  assumes "migrate order d = (r, d1)"
  shows "(\<exists>e. r = Inl e \<and> versions d1 = versions d \<and> same_schema d1 d \<and> mg_oracle d \<noteq> []) \<or>
    (\<exists>d2. versions d2 = versions d \<and> same_schema d2 d \<and> (mg_oracle d = [] \<longrightarrow> mg_oracle d2 = []) \<and>
       (r, d1) =
         (let maxApplied = highest (versions d) in
          if maxApplied = 0 then
            (if find_table ''users'' (mg_tables d) \<noteq> None then
               (case seed_all order d2 of
                  (Inl e, d4) \<Rightarrow> (Inl e, d4)
                | (Inr _, d4) \<Rightarrow> apply_pending (int final) all_versions d4)
             else apply_pending 0 all_versions d2)
          else apply_pending maxApplied all_versions d2))"
proof -
  obtain x d2 where x: "statement create_tracking d = (x, d2)" by fastforce
  have c: "versions d2 = versions d \<and> same_schema d2 d \<and> (mg_oracle d = [] \<longrightarrow> x = Inr () \<and> mg_oracle d2 = [])"
    using x statement_cases [OF x]
    by (auto simp: create_tracking_def like_def same_schema_def versions_def split: option.splits)
  have n: "versions f = versions e \<and> same_schema f e \<and> (mg_oracle e = [] \<longrightarrow> y = Inr () \<and> mg_oracle f = [])"
    if "statement Inr e = (y, f)" for y f e
    using statement_cases [OF that] by (auto simp: like_def same_schema_def versions_def)
  obtain y d3 where y: "statement Inr d2 = (y, d3)" by fastforce
  obtain z d4 where z: "statement Inr d3 = (z, d4)" by fastforce
  note facts = c n [OF y] n [OF z]
  show ?thesis
  proof (cases x)
    case (Inl e)
    then show ?thesis using assms x facts by (auto simp: migrate_def)
  next
    case (Inr u)
    show ?thesis
    proof (cases y)
      case yl: (Inl e)
      then show ?thesis using assms x y Inr facts by (auto simp: migrate_def same_schema_def)
    next
      case yr: (Inr u')
      show ?thesis
      proof (cases "highest (versions d) = 0")
        case False
        then show ?thesis
          using assms x y Inr yr facts by (intro disjI2 exI [of _ d3]) (simp add: migrate_def Let_def same_schema_def)
      next
        case True
        show ?thesis
        proof (cases z)
          case zl: (Inl e)
          then show ?thesis using assms x y z Inr yr True facts by (auto simp: migrate_def same_schema_def)
        next
          case zr: (Inr u'')
          have "mg_tables d4 = mg_tables d" using facts by (simp add: same_schema_def)
          then show ?thesis
            using assms x y z Inr yr zr True facts
            by (intro disjI2 exI [of _ d4]) (simp add: migrate_def Let_def same_schema_def)
        qed
      qed
    qed
  qed
qed

lemma no_users: "find_table ''users'' (mg_tables (schema_after 0)) = None"
  by (simp add: schema_after_def no_schema_def find_table_def)

text \<open>C38.  A start on a schema that stands after some migrations, all recorded (none for a new
  database), brings it to the last one when nothing fails; when something fails it leaves the schema after
  some more migrations, of which at most the last one is not recorded.\<close>

theorem migrate_spec:
  assumes "clean k d" and "migrate order d = (r, d1)"
  shows "(case r of Inr _ \<Rightarrow> clean final d1 | Inl _ \<Rightarrow> \<exists>j\<ge>k. clean j d1 \<or> torn j d1) \<and> (mg_oracle d = [] \<longrightarrow> r = Inr ())"
proof -
  have d: "stands k k d" "k \<le> final" "versions d = [1..int k]" "mg_tables d = mg_tables (schema_after k)"
    using assms(1) by (auto simp: clean_def stands_def same_schema_def)
  have h: "highest (versions d) = int k" using d(3) highest_upto by simp
  have "run_result k r d1 \<and> (mg_oracle d = [] \<longrightarrow> r = Inr ())"
    using migrate_begins [OF assms(2)]
  proof (elim disjE exE conjE)
    fix e
    assume "r = Inl e" "versions d1 = versions d" "same_schema d1 d" "mg_oracle d \<noteq> []"
    then show ?thesis using d by (auto simp: run_result_def clean_def stands_def same_schema_def)
  next
    fix d2
    assume d2: "versions d2 = versions d" "same_schema d2 d" "mg_oracle d = [] \<longrightarrow> mg_oracle d2 = []"
      and r: "(r, d1) =
         (let maxApplied = highest (versions d) in
          if maxApplied = 0 then
            (if find_table ''users'' (mg_tables d) \<noteq> None then
               (case seed_all order d2 of
                  (Inl e, d4) \<Rightarrow> (Inl e, d4)
                | (Inr _, d4) \<Rightarrow> apply_pending (int final) all_versions d4)
             else apply_pending 0 all_versions d2)
          else apply_pending maxApplied all_versions d2)"
    have s2: "stands k k d2" using d(1) d2(1,2) by (simp add: stands_def same_schema_def)
    have "apply_pending (int k) all_versions d2 = (r, d1)"
      using r h d(4) no_users by (cases "k = 0") (simp_all add: Let_def)
    then have "apply_pending (int k) [int (Suc k)..int final] d2 = (r, d1)" using apply_pending_all [OF d(2)] by simp
    from apply_pending_cases [OF s2 d(2) order_refl this] d2(3) show ?thesis by blast
  qed
  then show ?thesis by (simp add: run_result_def)
qed

lemma no_schema_clean: "clean 0 no_schema"
  by (simp add: clean_def stands_def same_schema_def schema_after_def versions_def no_schema_def)

theorem migrate_spec_witness: "\<exists>d. migrate [] no_schema = (Inr (), d) \<and> clean final d"
proof -
  obtain r d where m: "migrate [] no_schema = (r, d)" by fastforce
  from migrate_spec [OF no_schema_clean m] have "r = Inr ()" "clean final d"
    by (auto simp: no_schema_def split: sum.splits)
  with m show ?thesis by blast
qed

section \<open>A migration that was not recorded\<close>

text \<open>A column cannot be added twice.\<close>

lemma add_column_again: "run_ddl (AddColumn t col) d = Inr d1 \<Longrightarrow> \<exists>e. run_ddl (AddColumn t col) d1 = Inl e"
proof -
  obtain c ty ops where col: "col = (c, ty, ops)" by (metis prod_cases3)
  let ?add = "\<lambda>u. if td_Name u = t then u\<lparr>td_Columns := td_Columns u @ [(c, ty, ops)]\<rparr> else u"
  have "find_table t (map ?add ts) = map_option ?add (find_table t ts)" for ts
    by (induction ts) (simp_all add: find_table_def)
  moreover have "find_table t ts = Some u \<Longrightarrow> td_Name u = t" for ts u
    by (induction ts) (auto simp: find_table_def split: if_splits)
  moreover assume "run_ddl (AddColumn t col) d = Inr d1"
  ultimately show ?thesis unfolding col by (auto simp: has_column_def split: option.splits if_splits)
qed

lemma seed_all_calm:
  "mg_oracle d = [] \<Longrightarrow> \<exists>d1. seed_all vs d = (Inr (), d1) \<and> same_schema d1 d \<and> set (versions d1) = set (versions d) \<union> set vs"
proof (induction vs arbitrary: d)
  case (Cons v vs)
  let ?d = "if v \<in> set (versions d) then d else d\<lparr>mg_versions := Some (versions d @ [v])\<rparr>"
  have "statement (seed_version v) d = (Inr (), ?d)" "mg_oracle ?d = []"
    using Cons.prems by (simp_all add: statement_def seed_version_def)
  moreover have "same_schema ?d d" "set (versions ?d) = insert v (set (versions d))"
    by (auto simp: same_schema_def versions_def)
  ultimately show ?case using Cons.IH [of ?d] by (auto simp: same_schema_def)
qed (simp add: same_schema_def)

text \<open>Later starts of the process, each with failures of its own.\<close>

definition restarts :: "(int list \<times> string option list) list \<Rightarrow> migration_db \<Rightarrow> migration_db" where
  "restarts runs d = fold (\<lambda>(order, failures) d. snd (migrate order (d\<lparr>mg_oracle := failures\<rparr>))) runs d"

lemma torn_column_stays:
  assumes "torn k d" and "0 < k" and "allMigrations ! k = AddColumn t col" and "migrate order d = (r, d1)"
  shows "r \<noteq> Inr () \<and> torn k d1"
proof -
  have d: "stands (Suc k) k d" "k < final" "versions d = [1..int k]" using assms(1) by (auto simp: torn_def stands_def)
  have h: "highest (versions d) = int k" using d(3) highest_upto by simp
  show ?thesis
    using migrate_begins [OF assms(4)]
  proof (elim disjE exE conjE)
    fix e
    assume "r = Inl e" "versions d1 = versions d" "same_schema d1 d" "mg_oracle d \<noteq> []"
    then show ?thesis using assms(1) by (auto simp: torn_def stands_def same_schema_def)
  next
    fix d2
    assume d2: "versions d2 = versions d" "same_schema d2 d"
      and r: "(r, d1) =
         (let maxApplied = highest (versions d) in
          if maxApplied = 0 then
            (if find_table ''users'' (mg_tables d) \<noteq> None then
               (case seed_all order d2 of
                  (Inl e, d4) \<Rightarrow> (Inl e, d4)
                | (Inr _, d4) \<Rightarrow> apply_pending (int final) all_versions d4)
             else apply_pending 0 all_versions d2)
          else apply_pending maxApplied all_versions d2)"
    have s2: "stands (Suc k) k d2" using d(1) d2 by (simp add: stands_def same_schema_def)
    have a: "apply_pending (int k) (int (Suc k) # [int (Suc (Suc k))..int final]) d2 = (r, d1)"
      using r h assms(2) apply_pending_all [of k d2] d(2) upto_from [OF d(2)] by (simp add: Let_def)
    have mig: "migration (int (Suc k)) = Some (AddColumn t col)" using d(2) assms(3) by (simp add: migration_def)
    obtain x d3 where x: "statement (run_ddl (AddColumn t col)) d2 = (x, d3)" by fastforce
    obtain e where e: "run_ddl (AddColumn t col) (schema_after (Suc k)) = Inl e"
      using add_column_again next_schema [OF d(2)] assms(3) by metis
    have "run_ddl (AddColumn t col) d0 = Inl e" if "like d0 d2" for d0
    proof -
      have "same_schema d0 (schema_after (Suc k))" using that s2 by (simp add: like_def stands_def same_schema_def)
      then show ?thesis using run_ddl_same_error e by blast
    qed
    then obtain e' where "x = Inl e'" "like d3 d2" using statement_cases [OF x] by auto
    then have "r \<noteq> Inr ()" "d1 = d3" using a x mig by auto
    with \<open>like d3 d2\<close> s2 d(2) show ?thesis by (simp add: torn_def like_stands)
  qed
qed

lemma torn_oracle [simp]: "torn k (d\<lparr>mg_oracle := xs\<rparr>) = torn k d"
  by (simp add: torn_def stands_def same_schema_def versions_def)

text \<open>C39.  When a migration that adds a column ran but could not be recorded, no later start succeeds, however
  often the process is started and whatever fails in the meantime: the column exists already.\<close>

theorem migrate_torn_column:
  assumes "torn k d" and "0 < k" and "allMigrations ! k = AddColumn t col"
  shows "fst (migrate order (restarts runs d)) \<noteq> Inr ()"
proof -
  have "torn k (restarts runs d)"
    using assms(1)
  proof (induction runs arbitrary: d)
    case (Cons run runs)
    obtain ord fs where run: "run = (ord, fs)" by fastforce
    have "torn k (snd (migrate ord (d\<lparr>mg_oracle := fs\<rparr>)))"
      using torn_column_stays [OF _ assms(2,3)] Cons.prems torn_oracle by (metis prod.collapse)
    then show ?case using Cons.IH run by (simp add: restarts_def)
  qed (simp add: restarts_def)
  then show ?thesis using torn_column_stays [OF _ assms(2,3)] by (metis prod.collapse)
qed

definition after_ten :: migration_db where
  "after_ten = (schema_after 10)\<lparr>mg_versions := Some [1..9]\<rparr>"

theorem migrate_torn_column_witness:
  "fst (migrate [] (restarts [([], [Some ''database is locked'']), ([], [])] after_ten)) \<noteq> Inr ()"
proof -
  have "allMigrations ! 9 = AddColumn ''apps'' (''github_installation_id'', TInteger, [])" by (simp add: allMigrations_def)
  moreover have "torn 9 after_ten"
    by (simp add: torn_def stands_def after_ten_def same_schema_def versions_def) (simp add: allMigrations_def)
  ultimately show ?thesis by (intro migrate_torn_column) simp_all
qed

lemma highest_eq: "highest vs = Max (insert 0 (set vs))"
  unfolding highest_def by (simp add: Max.set_eq_fold [symmetric])

lemma schema_after_first: "mg_tables (schema_after (Suc 0)) = [\<lparr>td_Name = ''users'', td_Columns =
    [(''id'', TInteger, [PrimaryAuto]), (''username'', TText, [NotNull, UniqueColumn]), (''password_hash'', TText, [NotNull]),
     (''created_at'', TDatetime, [NotNull, DefaultNow]), (''updated_at'', TDatetime, [NotNull, DefaultNow])], td_Constraints = []\<rparr>]"
  by (simp add: schema_after_def allMigrations_def applied_def no_schema_def find_table_def)

text \<open>C40.  When the very first migration ran but could not be recorded, the next start takes the database
  for one from before the migrations were recorded: it reports success and marks all of them as done, while
  the table of applications does not exist.\<close>

theorem migrate_torn_first:
  assumes "torn 0 d" and "mg_oracle d = []" and "set order = {1..int final}"
  shows "\<exists>d1. migrate order d = (Inr (), d1) \<and> highest (versions d1) = int final \<and> find_table ''apps'' (mg_tables d1) = None"
proof -
  have d: "versions d = []" "mg_tables d = mg_tables (schema_after (Suc 0))"
    using assms(1) by (simp_all add: torn_def stands_def same_schema_def)
  have users: "find_table ''users'' (mg_tables d) \<noteq> None" and apps: "find_table ''apps'' (mg_tables d) = None"
    unfolding d(2) schema_after_first by (simp_all add: find_table_def)
  obtain r d1 where m: "migrate order d = (r, d1)" by fastforce
  obtain d2 where d2: "versions d2 = []" "same_schema d2 d" "mg_oracle d2 = []"
    and r: "(r, d1) = (case seed_all order d2 of
                  (Inl e, d4) \<Rightarrow> (Inl e, d4)
                | (Inr _, d4) \<Rightarrow> apply_pending (int final) all_versions d4)"
    using migrate_begins [OF m] assms(2) d(1) users by (auto simp: highest_def Let_def)
  obtain d4 where d4: "seed_all order d2 = (Inr (), d4)" "same_schema d4 d2" "set (versions d4) = {1..int final}"
    using seed_all_calm [OF d2(3), of order] d2(1) assms(3) by auto
  have "apply_pending (int final) all_versions d4 = (Inr (), d4)" using apply_pending_all [of final d4] by simp
  then have "r = Inr ()" "d1 = d4" using r d4(1) by simp_all
  moreover have "highest (versions d4) = int final"
  proof -
    have "1 \<le> int final" by (simp add: allMigrations_def)
    then show ?thesis unfolding highest_eq d4(3) by (intro Max_eqI) auto
  qed
  moreover have "find_table ''apps'' (mg_tables d4) = None" using apps d4(2) d2(2) by (simp add: same_schema_def)
  ultimately show ?thesis using m by blast
qed

theorem migrate_torn_first_witness:
  "\<exists>d1. migrate all_versions ((schema_after 1)\<lparr>mg_versions := Some []\<rparr>) = (Inr (), d1) \<and> find_table ''apps'' (mg_tables d1) = None"
proof -
  have "mg_oracle (schema_after 1) = []" by (simp add: schema_after_def allMigrations_def applied_def no_schema_def find_table_def)
  moreover have "torn 0 ((schema_after 1)\<lparr>mg_versions := Some []\<rparr>)"
    by (simp add: torn_def stands_def same_schema_def versions_def) (simp add: allMigrations_def)
  ultimately show ?thesis using migrate_torn_first [of _ all_versions] by (fastforce simp: all_versions_def)
qed

end
