(* ===== verification/Spec2Isabelle.thy ===== *)
theory Spec2Isabelle
  imports Store_Claims Broadcaster_Claims Detection_Claims Proxy_Claims Json_Roundtrip Crypto Github_Client
    Credentials Builder_Claims Engine_Requests Auth_Claims Webhook_Claims Service_Races Settings_Claims
    Log_Stream Backups_Claims Env_Refinement App_Claims Page_Claims Repos_Claims Migrations_Claims
begin

text \<open>
  \<^bold>\<open>The program.\<close>  Talos is a deployment server for one machine.  It keeps apps, deploys,
  services, users and backups in SQLite (\<open>src/internal/store\<close>), builds images from GitHub
  repositories (\<open>builder\<close>, \<open>github\<close>), runs containers through the Docker daemon
  (\<open>runtime/docker\<close>), replaces the container of an app by a health-checked cut-over
  (\<open>deploy/engine.go\<close>), routes traffic by writing files for Traefik
  (\<open>proxy/traefik\<close>), runs databases and object stores for the apps
  (\<open>services/provisioner.go\<close>), and is driven by an HTTP API with session cookies and by GitHub
  webhooks (\<open>auth\<close>, \<open>server\<close>); its pages are HTML (\<open>server/handlers/pages.go\<close>,
  \<open>web\<close>).

  \<^bold>\<open>The state.\<close>  \<open>World.world\<close> is what the process can touch: the database, the
  files, the event broadcaster, the installation tokens and GitHub client it holds, and the history of
  the calls it made to programs outside the repository.  How those programs answer is the parameter
  \<open>World.outside\<close>: one function per kind of call, of the history so far and of the arguments.
  Theorems quantify over all of them, so every failure of the Docker daemon, of git, of the file
  system or of GitHub is covered.  Failing database statements and the passing of time are an oracle in
  \<open>Sqlite_Db.db\<close>, one entry per statement.  Errors are the sum type
  \<open>go_error + 'a\<close>, a panic is a constructor of \<open>outcome\<close> or the field
  \<open>w_panic\<close>.

  \<^bold>\<open>The theories\<close> (files under \<open>src/internal\<close>).
  \<^item> \<open>Go_Prelude\<close>: errors and \<open>errors.Is\<close>, outcomes, the string functions of
    the standard library, decimal numbers; the hints shared by all proofs.
  \<^item> \<open>Domain\<close>: the types of \<open>domain\<close>.
  \<^item> \<open>Row_Table\<close>, \<open>Sqlite_Db\<close>: tables with automatic ids (the locale
    \<open>row_table\<close>, interpreted for every table in \<open>Store_Facts\<close>), the database, its invariant, and
    statements with their failures.
  \<^item> \<open>Sqlite_Store\<close>, \<open>Store_Facts\<close>, \<open>Store_Properties\<close>,
    \<open>Store_Claims\<close>: every method of \<open>store/*_repo.go\<close>, that each keeps the
    invariant, and what each does on every branch; \<open>Env_Refinement\<close>: the table of environment
    variables as a refinement of maps.
  \<^item> \<open>Migrations\<close>, \<open>Migrations_Claims\<close>: \<open>store/migrations.go\<close>, the schema
    statement by statement, and what a start makes of it when statements fail.
  \<^item> \<open>Event_Broadcaster\<close>, \<open>Broadcaster_Claims\<close>:
    \<open>deploy/event_broadcaster.go\<close> as sequential operations and as a step relation in which
    publishers interleave with everybody else.
  \<^item> \<open>Json\<close>, \<open>Json_Roundtrip\<close>, \<open>Base64\<close>, \<open>Url_Lib\<close>:
    what the code uses of the encoding packages, executable, with their round trips.
  \<^item> \<open>Project_Detection\<close>, \<open>Dockerfile_Gen\<close>, \<open>Detection_Claims\<close>:
    \<open>builder/detect\<close> over a source tree.
  \<^item> \<open>Docker_Client\<close>, \<open>Traefik_Proxy\<close>, \<open>Proxy_Claims\<close>,
    \<open>Config\<close>, \<open>Crypto\<close>, \<open>Github_Client\<close>, \<open>Credentials\<close>:
    the components the engine calls.
  \<^item> \<open>Builder\<close>, \<open>Builder_Claims\<close>: \<open>builder/builder.go\<close>.
  \<^item> \<open>Deploy_Engine\<close>: \<open>deploy/engine.go\<close>;
    \<open>Engine_Facts\<close>, \<open>Engine_Runs\<close>, \<open>Engine_Outcome\<close>,
    \<open>Engine_Claims\<close> (a deploy that runs) and \<open>Engine_Requests\<close> (the requests that
    start one).
  \<^item> \<open>Http\<close>, \<open>Sessions\<close>, \<open>Auth_Claims\<close>: responses, accounts, session
    tokens, the middlewares.
  \<^item> \<open>Webhook\<close>, \<open>Webhook_Claims\<close>: \<open>github/webhook.go\<close> and its route in
    \<open>server/server.go\<close>.
  \<^item> \<open>Paths\<close>, \<open>Garage_Client\<close>, \<open>Provisioner\<close>, \<open>Service_Handlers\<close>,
    \<open>Service_Claims\<close>, \<open>Service_Races\<close>: \<open>services\<close> and
    \<open>server/handlers/service.go\<close>, with the goroutine that provisions (the locale
    \<open>row_condition\<close>) and what it shares with the handler.
  \<^item> \<open>Settings\<close>, \<open>Settings_Claims\<close>: \<open>settings/service.go\<close>, the env file line by
    line.  \<open>Log_Stream\<close>: \<open>server/handlers/logs.go\<close>.  \<open>Go_Time\<close>,
    \<open>Backups\<close>, \<open>Backups_Claims\<close>: \<open>backup/manager.go\<close> and its handlers.
  \<^item> \<open>App_Handlers\<close>, \<open>Deploy_Handlers\<close>: \<open>server/handlers/app.go\<close> and
    \<open>deploy.go\<close>, the JSON API.
  \<^item> \<open>Web_Templates\<close>, \<open>App_Views\<close>, \<open>Pages\<close>, \<open>Page_Claims\<close>:
    \<open>web/templates.go\<close> (a template is a parameter that gives its output),
    \<open>server/handlers/app_views.go\<close> and \<open>pages.go\<close>.
  \<^item> \<open>Github_Workflow\<close>, \<open>Github_Repos\<close>, \<open>Github_Handlers\<close>,
    \<open>Repos_Claims\<close>: \<open>github/manifest.go\<close>, \<open>workflow.go\<close>, the calls of
    \<open>client.go\<close> and \<open>server/handlers/github.go\<close>.
  \<^item> \<open>Server\<close>, \<open>Server_Claims\<close>: \<open>server/server.go\<close> and \<open>middleware.go\<close>,
    every route with its handler, and what a request goes through; the router \<open>chi\<close> is a parameter.
  \<^item> \<open>System\<close>: the server as a step relation: requests, the goroutines they leave, scheduled
    backups and the passing of time, in any order.  \<open>Db_Frame\<close>, \<open>Store_Invariant\<close>,
    \<open>App_Contract\<close>, \<open>Row_Contract\<close>: a chain of locales in which a condition on the database,
    then one on each application, is carried through every handler and goroutine once;
    \<open>App_Claims\<close> interprets it three times, for the invariant of the database and for two conditions
    on applications.

  \<^bold>\<open>What is shown.\<close>  Store: the invariant over every sequence of methods with every pattern of
  failures, and the functional behaviour of the methods that matter.  Broadcaster: the invariant in
  every interleaving, with the one panic that is possible.  Engine: a deploy always ends, never panics,
  keeps the invariants, spares the live container until the new one was healthy, and its requests are
  accepted exactly when they should be, except for the race that is shown.  Builder, detection, proxy,
  credentials: what is built, generated, written and handed to apps.  Sessions and webhooks: who is let
  in.  Services, settings, backups and logs: the invariant of the services over every sequence of requests and
  jobs, and the round trips.  The whole server: in every run, whatever fails, the database keeps its invariant
  and the applications are well typed and reached as their fields say; without a session only the public
  routes have an effect.  Pages: creating an application by form is creating it by the API.  Migrations: a start
  completes them, except after the two interruptions that are shown.

  \<^bold>\<open>Bounds and fuel.\<close>  Loops of the code are structural recursion or \<open>function\<close> with
  a measure.  The health check polls once per tick, at most as often as the timeout has seconds, which is
  the fuel of \<open>poll_health\<close> and is a theorem.  The JSON parser recurses on fuel of twice the
  length of the text and two, which the round-trip theorems show to be enough.  Integers of the database and of
  JSON are \<open>int\<close> with the bounds of \<open>int64\<close> written where the code parses them.  The loops
  over the pages of GitHub need not end and are partial functions; that they end when the pages go forward is a
  theorem.

  \<^bold>\<open>Not modelled.\<close>  The HTML of the templates, the log lines, the start-up of the process
  (\<open>cmd/talos/main.go\<close>, \<open>store/sqlite.go\<close>: assembling the parts from the configuration
  and opening files), \<open>backup/service.go\<close> (a second backup implementation that nothing calls), the
  three methods of the GitHub client that nothing calls, and the informational calls of the Docker client.
  AES-GCM, HMAC, bcrypt, tar and gzip, the HTTP transport and the router are parameters; the theorems that need
  their documented laws state them as hypotheses.  Goroutines are steps that interleave where they share state
  without a transaction (the broadcaster, the check of a deploy request, the service handler); otherwise the
  run of a request or of a goroutine is one step of the server.
\<close>

end
